(* ===== verification/Prelude.thy ===== *)
theory Prelude
  imports Main "HOL-Library.Word" "HOL-Library.Sublist" "HOL-Library.Char_ord"
    "HOL-Library.List_Lexorder"
begin

text \<open>
  Shared vocabulary of the development.

  Rust's \<^emph>\<open>Result\<close> is the sum type, \<open>Inl\<close> the error; \<open>try_then\<close> is the
  question-mark operator.  Rust strings and byte vectors are both HOL strings, one character per
  byte.  The theory also holds the string operations of the standard library that the program
  calls, each written out on byte lists, and the lemmas on them that the components share.
\<close>

named_theorems res_simps "rules that open and close results"
named_theorems str_simps "rules that evaluate the string operations of the standard library"

section \<open>Results\<close>

type_synonym ('e, 'a) res = "'e + 'a"

fun try_then :: "('e, 'a) res \<Rightarrow> ('a \<Rightarrow> ('e, 'b) res) \<Rightarrow> ('e, 'b) res" where
  "try_then (Inl e) f = Inl e"
| "try_then (Inr a) f = f a"

fun map_err :: "('e \<Rightarrow> 'f) \<Rightarrow> ('e, 'a) res \<Rightarrow> ('f, 'a) res" where
  "map_err f (Inl e) = Inl (f e)"
| "map_err f (Inr a) = Inr a"

fun ok_of :: "('e, 'a) res \<Rightarrow> 'a option" where
  "ok_of (Inl e) = None"
| "ok_of (Inr a) = Some a"

definition is_ok :: "('e, 'a) res \<Rightarrow> bool" where
  "is_ok r = (case r of Inl _ \<Rightarrow> False | Inr _ \<Rightarrow> True)"

definition ok_or :: "'e \<Rightarrow> 'a option \<Rightarrow> ('e, 'a) res" where
  "ok_or e m = (case m of None \<Rightarrow> Inl e | Some a \<Rightarrow> Inr a)"

definition ensure :: "bool \<Rightarrow> 'e \<Rightarrow> ('e, unit) res" where
  "ensure c e = (if c then Inr () else Inl e)"

lemma try_then_Inr [res_simps]:
  "try_then r f = Inr b \<longleftrightarrow> (\<exists>a. r = Inr a \<and> f a = Inr b)"
  by (cases r) auto

lemma try_then_Inl [res_simps]:
  "try_then r f = Inl e \<longleftrightarrow> r = Inl e \<or> (\<exists>a. r = Inr a \<and> f a = Inl e)"
  by (cases r) auto

lemma map_err_Inr [res_simps]: "map_err f r = Inr a \<longleftrightarrow> r = Inr a"
  by (cases r) auto

lemma map_err_Inl [res_simps]: "map_err f r = Inl e \<longleftrightarrow> (\<exists>x. r = Inl x \<and> e = f x)"
  by (cases r) auto

lemma ok_of_Some [res_simps]: "ok_of r = Some a \<longleftrightarrow> r = Inr a"
  by (cases r) auto

lemma ok_of_None [res_simps]: "ok_of r = None \<longleftrightarrow> (\<exists>e. r = Inl e)"
  by (cases r) auto

lemma is_ok_simps [simp]: "is_ok (Inr a)" "\<not> is_ok (Inl e)"
  by (simp_all add: is_ok_def)

lemma is_ok_iff [res_simps]: "is_ok r \<longleftrightarrow> (\<exists>a. r = Inr a)"
  by (cases r) auto

lemma ok_or_simps [simp]: "ok_or e None = Inl e" "ok_or e (Some a) = Inr a"
  by (simp_all add: ok_or_def)

lemma ok_or_Inr [res_simps]: "ok_or e m = Inr a \<longleftrightarrow> m = Some a"
  by (cases m) auto

lemma ok_or_Inl [res_simps]: "ok_or e m = Inl x \<longleftrightarrow> m = None \<and> x = e"
  by (cases m) auto

lemma ensure_simps [simp]: "ensure True e = Inr ()" "ensure False e = Inl e"
  by (simp_all add: ensure_def)

lemma ensure_Inr [res_simps]: "ensure c e = Inr u \<longleftrightarrow> c"
  by (simp add: ensure_def)

lemma ensure_Inl [res_simps]: "ensure c e = Inl x \<longleftrightarrow> \<not> c \<and> x = e"
  by (auto simp: ensure_def)

fun try_each :: "('a \<Rightarrow> ('e, 'b) res) \<Rightarrow> 'a list \<Rightarrow> ('e, 'b list) res" where
  "try_each f [] = Inr []"
| "try_each f (x # xs) = try_then (f x) (\<lambda>y. try_then (try_each f xs) (\<lambda>ys. Inr (y # ys)))"

lemma try_each_Inr:
  "try_each f xs = Inr ys \<longleftrightarrow> length ys = length xs \<and> (\<forall>i < length xs. f (xs ! i) = Inr (ys ! i))"
proof (induction xs arbitrary: ys)
  case (Cons x xs)
  show ?case
  proof (cases ys)
    case (Cons y ys')
    then show ?thesis
      using Cons.IH [of ys'] by (auto simp: res_simps nth_Cons' less_Suc_eq_0_disj)
  qed (auto simp: res_simps)
qed auto

lemma try_each_mem:
  assumes "try_each f xs = Inr ys" "x \<in> set xs"
  obtains y where "f x = Inr y" "y \<in> set ys"
  using assms by (auto simp: try_each_Inr in_set_conv_nth)

section \<open>Machine integers\<close>

text \<open>The arithmetic of \<open>u64\<close> (and of \<open>usize\<close> on a 64-bit target) that saturates.\<close>

definition u64_max :: nat where "u64_max = 2 ^ 64 - 1"

definition sat_add :: "nat \<Rightarrow> nat \<Rightarrow> nat" where
  "sat_add a b = min (a + b) u64_max"

definition sat_mul :: "nat \<Rightarrow> nat \<Rightarrow> nat" where
  "sat_mul a b = min (a * b) u64_max"

section \<open>Bytes and strings\<close>

text \<open>The character literals below are the ASCII codes the source tests.\<close>

definition is_ascii_lower :: "char \<Rightarrow> bool" where
  "is_ascii_lower c = (97 \<le> (of_char c :: nat) \<and> (of_char c :: nat) \<le> 122)"

definition is_ascii_upper :: "char \<Rightarrow> bool" where
  "is_ascii_upper c = (65 \<le> (of_char c :: nat) \<and> (of_char c :: nat) \<le> 90)"

definition is_ascii_digit :: "char \<Rightarrow> bool" where
  "is_ascii_digit c = (48 \<le> (of_char c :: nat) \<and> (of_char c :: nat) \<le> 57)"

definition is_ascii_alphabetic :: "char \<Rightarrow> bool" where
  "is_ascii_alphabetic c = (is_ascii_lower c \<or> is_ascii_upper c)"

definition is_ascii_alphanumeric :: "char \<Rightarrow> bool" where
  "is_ascii_alphanumeric c = (is_ascii_alphabetic c \<or> is_ascii_digit c)"

definition is_ascii_hexdigit :: "char \<Rightarrow> bool" where
  "is_ascii_hexdigit c = (is_ascii_digit c
     \<or> (97 \<le> (of_char c :: nat) \<and> (of_char c :: nat) \<le> 102)
     \<or> (65 \<le> (of_char c :: nat) \<and> (of_char c :: nat) \<le> 70))"

definition is_ascii_control :: "char \<Rightarrow> bool" where
  "is_ascii_control c = ((of_char c :: nat) < 32 \<or> (of_char c :: nat) = 127)"

definition to_lower_char :: "char \<Rightarrow> char" where
  "to_lower_char c = (if is_ascii_upper c then char_of ((of_char c :: nat) + 32) else c)"

definition to_upper_char :: "char \<Rightarrow> char" where
  "to_upper_char c = (if is_ascii_lower c then char_of ((of_char c :: nat) - 32) else c)"

definition to_ascii_lowercase :: "string \<Rightarrow> string" where
  "to_ascii_lowercase s = map to_lower_char s"

definition to_ascii_uppercase :: "string \<Rightarrow> string" where
  "to_ascii_uppercase s = map to_upper_char s"

definition eq_ignore_ascii_case :: "string \<Rightarrow> string \<Rightarrow> bool" where
  "eq_ignore_ascii_case a b = (to_ascii_lowercase a = to_ascii_lowercase b)"

lemmas char_class_defs [str_simps] =
  is_ascii_lower_def is_ascii_upper_def is_ascii_digit_def is_ascii_alphabetic_def
  is_ascii_alphanumeric_def is_ascii_hexdigit_def is_ascii_control_def
  to_lower_char_def to_upper_char_def to_ascii_lowercase_def to_ascii_uppercase_def
  eq_ignore_ascii_case_def

fun starts_with :: "string \<Rightarrow> string \<Rightarrow> bool" where
  "starts_with s [] = True"
| "starts_with [] (p # ps) = False"
| "starts_with (c # s) (p # ps) = (c = p \<and> starts_with s ps)"

definition ends_with :: "string \<Rightarrow> string \<Rightarrow> bool" where
  "ends_with s p = starts_with (rev s) (rev p)"

fun str_contains :: "string \<Rightarrow> string \<Rightarrow> bool" where
  "str_contains [] p = (p = [])"
| "str_contains (c # s) p = (starts_with (c # s) p \<or> str_contains s p)"

fun split_on :: "char \<Rightarrow> string \<Rightarrow> string list" where
  "split_on d [] = [[]]"
| "split_on d (c # s) =
    (if c = d then [] # split_on d s
     else case split_on d s of [] \<Rightarrow> [[c]] | w # ws \<Rightarrow> (c # w) # ws)"

fun join_with :: "char \<Rightarrow> string list \<Rightarrow> string" where
  "join_with d [] = []"
| "join_with d [w] = w"
| "join_with d (w # v # ws) = w @ d # join_with d (v # ws)"

text \<open>\<open>rsplit_once\<close>: the parts before and after the last occurrence of the delimiter.\<close>

fun split_once :: "char \<Rightarrow> string \<Rightarrow> (string \<times> string) option" where
  "split_once d [] = None"
| "split_once d (c # s) =
    (if c = d then Some ([], s) else map_option (\<lambda>(a, b). (c # a, b)) (split_once d s))"

definition rsplit_once :: "char \<Rightarrow> string \<Rightarrow> (string \<times> string) option" where
  "rsplit_once d s = map_option (\<lambda>(a, b). (rev b, rev a)) (split_once d (rev s))"

text \<open>Decimal rendering of an unsigned integer, as \<open>format!("{}")\<close> prints it.\<close>

definition digit_char :: "nat \<Rightarrow> char" where
  "digit_char n = char_of (48 + n)"

fun dec_of_nat :: "nat \<Rightarrow> string" where
  "dec_of_nat n = (if n < 10 then [digit_char n] else dec_of_nat (n div 10) @ [digit_char (n mod 10)])"

declare dec_of_nat.simps [simp del]

definition pad_zero :: "nat \<Rightarrow> string \<Rightarrow> string" where
  "pad_zero n s = replicate (n - length s) (CHR ''0'') @ s"

definition dec_of_bool :: "bool \<Rightarrow> string" where
  "dec_of_bool b = (if b then ''true'' else ''false'')"

text \<open>
  Unicode white space at the head of a UTF-8 string: the number of bytes of that character, zero
  when there is none.
\<close>

definition ws_len :: "string \<Rightarrow> nat" where
  "ws_len s =
    (let b = map (of_char :: char \<Rightarrow> nat) (take 3 s) in
     if b = [] then 0
     else if (9 \<le> hd b \<and> hd b \<le> 13) \<or> hd b = 32 then 1
     else if take 2 b \<in> {[194, 133], [194, 160]} then 2
     else if b \<in> {[225, 154, 128], [226, 128, 168], [226, 128, 169], [226, 128, 175],
                  [226, 129, 159], [227, 128, 128]} then 3
     else if length b = 3 \<and> take 2 b = [226, 128] \<and> 128 \<le> b ! 2 \<and> b ! 2 \<le> 138 then 3
     else 0)"

function split_whitespace_from :: "string \<Rightarrow> string \<Rightarrow> string list" where
  "split_whitespace_from acc [] = (if acc = [] then [] else [rev acc])"
| "split_whitespace_from acc (c # s) =
    (if ws_len (c # s) > 0
     then (if acc = [] then [] else [rev acc])
          @ split_whitespace_from [] (drop (ws_len (c # s)) (c # s))
     else split_whitespace_from (c # acc) s)"
  by pat_completeness auto
termination
  by (relation "measure (\<lambda>(_, s). length s)") auto

definition split_whitespace :: "string \<Rightarrow> string list" where
  "split_whitespace s = split_whitespace_from [] s"

function trim_start :: "string \<Rightarrow> string" where
  "trim_start s = (if ws_len s > 0 \<and> s \<noteq> [] then trim_start (drop (ws_len s) s) else s)"
  by pat_completeness auto
termination
  by (relation "measure length") auto

declare trim_start.simps [simp del]

fun trim_end :: "string \<Rightarrow> string" where
  "trim_end [] = []"
| "trim_end (c # s) = (if trim_start (c # s) = [] then [] else c # trim_end s)"

definition str_trim :: "string \<Rightarrow> string" where
  "str_trim s = trim_end (trim_start s)"

text \<open>Well-formed UTF-8, as \<open>std::str::from_utf8\<close> accepts it.\<close>

definition utf8_cont :: "nat \<Rightarrow> bool" where
  "utf8_cont b = (128 \<le> b \<and> b \<le> 191)"

fun utf8_bytes :: "nat list \<Rightarrow> bool" where
  "utf8_bytes [] = True"
| "utf8_bytes (a # r) =
    (if a < 128 then utf8_bytes r
     else (case r of
       [] \<Rightarrow> False
     | b # r2 \<Rightarrow>
         (if 194 \<le> a \<and> a \<le> 223 then utf8_cont b \<and> utf8_bytes r2
          else (case r2 of
            [] \<Rightarrow> False
          | c # r3 \<Rightarrow>
              (if 224 \<le> a \<and> a \<le> 239 then
                 utf8_cont b \<and> utf8_cont c \<and> (a = 224 \<longrightarrow> 160 \<le> b) \<and> (a = 237 \<longrightarrow> b \<le> 159)
                 \<and> utf8_bytes r3
               else (case r3 of
                 [] \<Rightarrow> False
               | d # r4 \<Rightarrow>
                   240 \<le> a \<and> a \<le> 244 \<and> utf8_cont b \<and> utf8_cont c \<and> utf8_cont d
                   \<and> (a = 240 \<longrightarrow> 144 \<le> b) \<and> (a = 244 \<longrightarrow> b \<le> 143) \<and> utf8_bytes r4))))))"

definition utf8_valid :: "string \<Rightarrow> bool" where
  "utf8_valid s = utf8_bytes (map of_char s)"

text \<open>
  \<open>String::from_utf8_lossy\<close>: \<open>utf8_step\<close> gives the number of bytes of the character at the head, or of the
  maximal invalid part there (at least one), and whether it is valid; an invalid part becomes the replacement character.
\<close>

definition utf8_step :: "nat list \<Rightarrow> bool \<times> nat" where
  "utf8_step b =
    (let a = hd b; b1 = (if 1 < length b then b ! 1 else 0); b2 = (if 2 < length b then b ! 2 else 0);
         b3 = (if 3 < length b then b ! 3 else 0);
         second = (if a = 224 then 160 \<le> b1 \<and> b1 \<le> 191 else if a = 237 then 128 \<le> b1 \<and> b1 \<le> 159
           else if a = 240 then 144 \<le> b1 \<and> b1 \<le> 191 else if a = 244 then 128 \<le> b1 \<and> b1 \<le> 143
           else utf8_cont b1)
     in if a < 128 then (True, 1)
        else if a < 194 \<or> 244 < a \<or> \<not> second then (False, 1)
        else if a \<le> 223 then (True, 2)
        else if \<not> utf8_cont b2 then (False, 2)
        else if a \<le> 239 then (True, 3)
        else if \<not> utf8_cont b3 then (False, 3)
        else (True, 4))"

lemma utf8_step_pos: "0 < snd (utf8_step b)"
  by (simp add: utf8_step_def Let_def)

function from_utf8_lossy :: "string \<Rightarrow> string" where
  "from_utf8_lossy [] = []"
| "from_utf8_lossy (c # s) =
    (let (ok, n) = utf8_step (map of_char (take 4 (c # s)))
     in (if ok then take n (c # s) else map char_of [239, 191, 189 :: nat]) @ from_utf8_lossy (drop n (c # s)))"
  by pat_completeness auto
termination
proof (relation "measure length")
  fix c s x ok n
  assume "x = utf8_step (map of_char (take 4 (c # s)))" "(ok, n) = x"
  then have "0 < n"
    using utf8_step_pos by (metis snd_conv)
  then show "(drop n (c # s), c # s) \<in> measure length"
    by simp
qed simp

declare from_utf8_lossy.simps [simp del]

text \<open>\<open>str::is_char_boundary\<close>: not in the middle of a UTF-8 sequence.\<close>

definition is_char_boundary :: "string \<Rightarrow> nat \<Rightarrow> bool" where
  "is_char_boundary s i =
    (i = 0 \<or> i = length s
     \<or> (i < length s \<and> \<not> (128 \<le> (of_char (s ! i) :: nat) \<and> (of_char (s ! i) :: nat) < 192)))"

fun floor_boundary :: "string \<Rightarrow> nat \<Rightarrow> nat" where
  "floor_boundary s 0 = 0"
| "floor_boundary s (Suc i) = (if is_char_boundary s (Suc i) then Suc i else floor_boundary s i)"

text \<open>The test \<open>windows(2).any(|pair| pair[0] >= pair[1])\<close>, negated.\<close>

fun windows_increasing :: "('a :: linorder) list \<Rightarrow> bool" where
  "windows_increasing (a # b # xs) = (a < b \<and> windows_increasing (b # xs))"
| "windows_increasing _ = True"

definition replace_char :: "char \<Rightarrow> char \<Rightarrow> string \<Rightarrow> string" where
  "replace_char a b s = map (\<lambda>c. if c = a then b else c) s"

subsection \<open>Lemmas on strings\<close>

lemma windows_increasing_iff: "windows_increasing xs \<longleftrightarrow> sorted_wrt (<) xs"
  by (induction xs rule: windows_increasing.induct) (auto intro: less_trans)

lemma floor_boundary_le: "floor_boundary s i \<le> i"
  by (induction i) auto

lemma floor_boundary_boundary: "is_char_boundary s (floor_boundary s i)"
  by (induction i) (auto simp: is_char_boundary_def)

lemma starts_with_iff_prefix: "starts_with s p \<longleftrightarrow> prefix p s"
  by (induction s p rule: starts_with.induct) auto

lemma starts_with_append [simp]: "starts_with (p @ s) p"
  by (simp add: starts_with_iff_prefix)

lemma ends_with_iff_suffix: "ends_with s p \<longleftrightarrow> suffix p s"
  by (simp add: ends_with_def starts_with_iff_prefix suffix_to_prefix)

lemma split_on_nonempty [simp]: "split_on d s \<noteq> []"
  by (induction s) (auto split: list.splits)

lemma split_on_no_delim: "w \<in> set (split_on d s) \<Longrightarrow> d \<notin> set w"
  by (induction s arbitrary: w) (auto split: list.splits if_splits)

lemma split_on_append: "split_on d (a @ d # b) = split_on d a @ split_on d b"
proof (induction a)
  case (Cons c a)
  then show ?case
    by (cases "split_on d a") (auto dest: split_on_nonempty [THEN notE])
qed auto

lemma split_on_fresh: "d \<notin> set s \<Longrightarrow> split_on d s = [s]"
  by (induction s) auto

lemma join_with_Cons: "ws \<noteq> [] \<Longrightarrow> join_with d (w # ws) = w @ d # join_with d ws"
  by (cases ws) auto

lemma split_on_join_with:
  "ws \<noteq> [] \<Longrightarrow> \<forall>w \<in> set ws. d \<notin> set w \<Longrightarrow> split_on d (join_with d ws) = ws"
  by (induction ws rule: induct_list012) (auto simp: split_on_append split_on_fresh)

lemma join_with_split_on: "join_with d (split_on d s) = s"
proof (induction s)
  case (Cons c s)
  then show ?case
    by (cases "split_on d s"; cases "tl (split_on d s)") auto
qed auto

lemma digit_char_inj: "digit_char a = digit_char b \<Longrightarrow> a < 10 \<Longrightarrow> b < 10 \<Longrightarrow> a = b"
proof -
  assume eq: "digit_char a = digit_char b" and "a < 10" "b < 10"
  have "(of_char (char_of (48 + a :: nat)) :: nat) = of_char (char_of (48 + b :: nat))"
    using eq by (simp add: digit_char_def)
  then show "a = b"
    using \<open>a < 10\<close> \<open>b < 10\<close> by simp
qed

lemma dec_of_nat_nonempty [simp]: "dec_of_nat n \<noteq> []" "[] \<noteq> dec_of_nat n"
  by (subst dec_of_nat.simps, simp)+

lemma dec_of_nat_inj [simp]: "dec_of_nat a = dec_of_nat b \<longleftrightarrow> a = b"
proof
  show "dec_of_nat a = dec_of_nat b \<Longrightarrow> a = b"
  proof (induction a arbitrary: b rule: dec_of_nat.induct)
    case (1 a)
    show ?case
    proof (cases "a < 10")
      case True
      then show ?thesis
        using "1.prems" by (subst (asm) (1 2) dec_of_nat.simps) (auto split: if_splits intro: digit_char_inj)
    next
      case False
      then have "\<not> b < 10"
        using "1.prems" by (subst (asm) (1 2) dec_of_nat.simps) (auto split: if_splits)
      then have "dec_of_nat (a div 10) = dec_of_nat (b div 10)" "digit_char (a mod 10) = digit_char (b mod 10)"
        using "1.prems" False by (subst (asm) (1 2) dec_of_nat.simps, simp)+
      then have "a div 10 = b div 10" "a mod 10 = b mod 10"
        using "1.IH" False digit_char_inj [of "a mod 10" "b mod 10"] by auto
      then show ?thesis
        by (metis div_mult_mod_eq)
    qed
  qed
qed simp

lemma dec_of_nat_digits: "c \<in> set (dec_of_nat n) \<Longrightarrow> is_ascii_digit c"
proof (induction n rule: dec_of_nat.induct)
  case (1 n)
  have digit: "is_ascii_digit (digit_char k)" if "k < 10" for k
    using that by (simp add: digit_char_def is_ascii_digit_def)
  show ?case
    using 1 digit [of n] digit [of "n mod 10"]
    by (subst (asm) (2) dec_of_nat.simps) (auto split: if_splits)
qed

end
