(* ===== verification/StdPath.thy ===== *)
theory StdPath
  imports Prelude "HOL-Library.Product_Lexorder"
begin

text \<open>
  The part of \<open>std::path\<close> the program uses, for Unix.  A path is its byte string; \<open>components\<close>
  parses it the way \<open>Path::components\<close> does (repeated separators and inner \<open>.\<close> disappear, a
  leading \<open>.\<close> of a relative path stays), and every other operation is written on the raw string
  with the same tokens.  Rust compares paths by their components: \<open>path_eq\<close>.
\<close>

type_synonym path = string

datatype component = RootDir | CurDir | ParentDir | Normal (normal_name: string)

text \<open>The order of \<open>std::path::Component\<close>: by variant, then by name.\<close>

definition component_rank :: "component \<Rightarrow> nat \<times> string" where
  "component_rank c = (case c of RootDir \<Rightarrow> (0, []) | CurDir \<Rightarrow> (1, []) | ParentDir \<Rightarrow> (2, [])
     | Normal n \<Rightarrow> (3, n))"

lemma component_rank_inj: "component_rank a = component_rank b \<Longrightarrow> a = b"
  by (simp add: component_rank_def split: component.splits)

instantiation component :: linorder
begin

definition less_eq_component :: "component \<Rightarrow> component \<Rightarrow> bool" where
  "a \<le> b \<longleftrightarrow> component_rank a \<le> component_rank b"

definition less_component :: "component \<Rightarrow> component \<Rightarrow> bool" where
  "a < b \<longleftrightarrow> component_rank a < component_rank b"

instance
  by standard (auto simp: less_eq_component_def less_component_def component_rank_inj)

end

definition sep :: char where "sep = CHR ''/''"

definition tokens :: "path \<Rightarrow> string list" where
  "tokens p = split_on sep p"

definition is_absolute :: "path \<Rightarrow> bool" where
  "is_absolute p = starts_with p ''/''"

text \<open>Tokens that the parser of a path body drops.\<close>

definition junk :: "string \<Rightarrow> bool" where
  "junk t = (t = '''' \<or> t = ''.'')"

definition component_of :: "string \<Rightarrow> component" where
  "component_of t = (if t = ''..'' then ParentDir else Normal t)"

definition body :: "string list \<Rightarrow> component list" where
  "body ts = map component_of (filter (\<lambda>t. \<not> junk t) ts)"

definition components :: "path \<Rightarrow> component list" where
  "components p =
    (if is_absolute p then [RootDir]
     else if hd (tokens p) = ''.'' then [CurDir] else []) @ body (tokens p)"

definition path_eq :: "path \<Rightarrow> path \<Rightarrow> bool" where
  "path_eq a b = (components a = components b)"

definition opt_path_eq :: "path option \<Rightarrow> path option \<Rightarrow> bool" where
  "opt_path_eq a b = (case (a, b) of (Some p, Some q) \<Rightarrow> path_eq p q | (None, None) \<Rightarrow> True | _ \<Rightarrow> False)"

definition component_str :: "component \<Rightarrow> string" where
  "component_str c = (case c of RootDir \<Rightarrow> ''/'' | CurDir \<Rightarrow> ''.'' | ParentDir \<Rightarrow> ''..'' | Normal s \<Rightarrow> s)"

definition is_normal :: "component \<Rightarrow> bool" where
  "is_normal c = (case c of Normal _ \<Rightarrow> True | _ \<Rightarrow> False)"

text \<open>\<open>PathBuf::push\<close>: an absolute argument replaces the path.\<close>

definition path_join :: "path \<Rightarrow> path \<Rightarrow> path" where
  "path_join a b =
    (if is_absolute b then b
     else if a \<noteq> [] \<and> last a \<noteq> sep then a @ sep # b
     else a @ b)"

definition path_starts_with :: "path \<Rightarrow> path \<Rightarrow> bool" where
  "path_starts_with p base =
    (take (length (components base)) (components p) = components base)"

text \<open>
  \<open>Path::strip_prefix\<close> returns the rest of the string after the matched components, with the
  empty and \<open>.\<close> tokens at both of its ends trimmed.  (Every base the program strips is absolute.)
\<close>

fun drop_tokens :: "nat \<Rightarrow> string list \<Rightarrow> string list" where
  "drop_tokens n [] = []"
| "drop_tokens n (t # ts) =
    (if junk t then drop_tokens n ts
     else case n of 0 \<Rightarrow> t # ts | Suc k \<Rightarrow> drop_tokens k ts)"

definition trim_right :: "string list \<Rightarrow> string list" where
  "trim_right ts = rev (dropWhile junk (rev ts))"

definition strip_prefix :: "path \<Rightarrow> path \<Rightarrow> path option" where
  "strip_prefix p base =
    (if path_starts_with p base then
       (let cb = components base;
            body_len = length (filter (\<lambda>c. c \<noteq> RootDir \<and> c \<noteq> CurDir) cb)
        in if cb = [] then Some p
           else Some (join_with sep (trim_right (drop_tokens body_len (tokens p)))))
     else None)"

definition file_name :: "path \<Rightarrow> string option" where
  "file_name p = (case rev (components p) of Normal n # _ \<Rightarrow> Some n | _ \<Rightarrow> None)"

text \<open>\<open>Path::extension\<close>: what follows the last dot of the file name, unless that dot leads.\<close>

definition extension :: "path \<Rightarrow> string option" where
  "extension p = Option.bind (file_name p)
    (\<lambda>n. case rsplit_once (CHR ''.'') n of
           None \<Rightarrow> None
         | Some (before, after) \<Rightarrow> if before = [] then None else Some after)"

definition file_stem :: "path \<Rightarrow> string option" where
  "file_stem p = map_option
    (\<lambda>n. case rsplit_once (CHR ''.'') n of
           None \<Rightarrow> n
         | Some (before, after) \<Rightarrow> if before = [] then n else before)
    (file_name p)"

text \<open>
  The path string that the components print as: what a \<open>PathBuf\<close> collected from components is.
\<close>

definition path_of :: "component list \<Rightarrow> path" where
  "path_of cs = foldl path_join [] (map component_str cs)"

text \<open>\<open>Path::parent\<close>, up to the spelling of separators.\<close>

definition path_parent :: "path \<Rightarrow> path option" where
  "path_parent p = (case rev (components p) of
      [] \<Rightarrow> None
    | RootDir # _ \<Rightarrow> None
    | _ # cs \<Rightarrow> Some (path_of (rev cs)))"

text \<open>An absolute path from the names below the root, as \<open>canonicalize\<close> returns it.\<close>

definition abs_path :: "string list \<Rightarrow> path" where
  "abs_path ns = sep # join_with sep ns"

text \<open>A name a directory entry can have.\<close>

definition valid_name :: "string \<Rightarrow> bool" where
  "valid_name n = (\<not> junk n \<and> n \<noteq> ''..'' \<and> sep \<notin> set n)"

section \<open>Lemmas\<close>

lemma tokens_nonempty [simp]: "tokens p \<noteq> []"
  by (simp add: tokens_def)

lemma tokens_no_sep: "t \<in> set (tokens p) \<Longrightarrow> sep \<notin> set t"
  by (auto simp: tokens_def split_on_no_delim)

lemma tokens_append: "tokens (a @ sep # b) = tokens a @ tokens b"
  by (simp add: tokens_def split_on_append)

lemma tokens_join: "ns \<noteq> [] \<Longrightarrow> \<forall>n \<in> set ns. sep \<notin> set n \<Longrightarrow> tokens (join_with sep ns) = ns"
  by (simp add: tokens_def split_on_join_with)

lemma body_append [simp]: "body (a @ b) = body a @ body b"
  by (simp add: body_def)

lemma body_Nil [simp]: "body [] = []"
  by (simp add: body_def)

lemma body_Cons: "body (t # ts) = (if junk t then body ts else component_of t # body ts)"
  by (simp add: body_def)

lemma body_valid: "\<forall>n \<in> set ns. valid_name n \<Longrightarrow> body ns = map Normal ns"
  by (induction ns) (auto simp: body_Cons valid_name_def component_of_def)

lemma valid_name_no_sep: "valid_name n \<Longrightarrow> sep \<notin> set n"
  by (simp add: valid_name_def)

lemma junk_Nil [simp]: "junk []"
  by (simp add: junk_def)

lemma tokens_Nil [simp]: "tokens [] = [[]]"
  by (simp add: tokens_def)

lemma is_absolute_iff: "is_absolute p \<longleftrightarrow> (\<exists>q. p = sep # q)"
  by (cases p) (auto simp: is_absolute_def sep_def)

lemma is_absolute_abs_path [simp]: "is_absolute (abs_path ns)"
  by (simp add: is_absolute_iff abs_path_def)

lemma abs_path_nonempty [simp]: "abs_path ns \<noteq> []"
  by (simp add: abs_path_def)

lemma tokens_abs_path:
  assumes "\<forall>n \<in> set ns. sep \<notin> set n"
  shows "tokens (abs_path ns) = (if ns = [] then [[], []] else [] # ns)"
proof -
  have "tokens (abs_path ns) = tokens [] @ tokens (join_with sep ns)"
    using tokens_append [of "[]" "join_with sep ns"] by (simp add: abs_path_def)
  then show ?thesis
    using assms by (simp add: tokens_join)
qed

lemma components_abs_path:
  assumes "\<forall>n \<in> set ns. valid_name n"
  shows "components (abs_path ns) = RootDir # map Normal ns"
  using assms by (auto simp: components_def tokens_abs_path valid_name_no_sep body_Cons body_valid)

lemma body_join:
  assumes "\<not> is_absolute b"
  shows "body (tokens (path_join a b)) = body (tokens a) @ body (tokens b)"
proof (cases "a \<noteq> [] \<and> last a \<noteq> sep")
  case True
  then show ?thesis
    using assms by (simp add: path_join_def tokens_append)
next
  case False
  show ?thesis
  proof (cases "a = []")
    case True
    then show ?thesis
      using assms by (simp add: path_join_def body_Cons)
  next
    case nonempty: False
    then obtain a' where a: "a = a' @ [sep]"
      using False by (metis append_butlast_last_id)
    have "tokens a = tokens a' @ [[]]"
      using tokens_append [of a' "[]"] a by simp
    then show ?thesis
      using assms a by (simp add: path_join_def tokens_append body_Cons)
  qed
qed

lemma is_absolute_join [simp]:
  assumes "\<not> is_absolute b" "a \<noteq> []"
  shows "is_absolute (path_join a b) = is_absolute a"
  using assms by (cases a) (auto simp: path_join_def is_absolute_iff)

text \<open>Joining a relative path onto an absolute one appends its components.\<close>

lemma components_join_abs:
  assumes "is_absolute a" "\<not> is_absolute b"
  shows "components (path_join a b) = components a @ body (tokens b)"
proof -
  have "a \<noteq> []"
    using assms(1) by (auto simp: is_absolute_iff)
  then show ?thesis
    using assms by (simp add: components_def body_join)
qed

lemma body_mem: "c \<in> set (body ts) \<Longrightarrow> \<exists>t \<in> set ts. \<not> junk t \<and> c = component_of t"
  by (auto simp: body_def)

lemma components_all_normal:
  assumes "\<forall>c \<in> set (components p). is_normal c"
  shows "\<not> is_absolute p" "components p = body (tokens p)"
    "\<forall>c \<in> set (components p). valid_name (normal_name c)"
proof -
  show na: "\<not> is_absolute p"
    using assms by (auto simp: components_def is_normal_def split: if_splits)
  show eq: "components p = body (tokens p)"
    using assms na by (auto simp: components_def is_normal_def split: if_splits)
  show "\<forall>c \<in> set (components p). valid_name (normal_name c)"
  proof
    fix c
    assume "c \<in> set (components p)"
    then obtain t where t: "t \<in> set (tokens p)" "\<not> junk t" "c = component_of t" "is_normal c"
      using eq body_mem assms by metis
    then show "valid_name (normal_name c)"
      using tokens_no_sep [of t p]
      by (auto simp: valid_name_def component_of_def is_normal_def split: if_splits)
  qed
qed

lemma path_starts_with_refl [simp]: "path_starts_with p p"
  by (simp add: path_starts_with_def)

lemma path_starts_with_iff_prefix:
  "path_starts_with p base \<longleftrightarrow> prefix (components base) (components p)"
  unfolding path_starts_with_def by (metis append_eq_conv_conj prefix_def take_is_prefix)

lemma path_starts_with_trans:
  "path_starts_with a b \<Longrightarrow> path_starts_with b c \<Longrightarrow> path_starts_with a c"
  by (auto simp: path_starts_with_iff_prefix)

lemma body_trim_right [simp]: "body (trim_right ts) = body ts"
proof -
  have "ts = trim_right ts @ rev (takeWhile junk (rev ts))"
    unfolding trim_right_def by (metis rev_append rev_rev_ident takeWhile_dropWhile_id)
  moreover have "body (rev (takeWhile junk (rev ts))) = []"
    by (auto simp: body_def filter_empty_conv dest: set_takeWhileD)
  ultimately show ?thesis
    by (metis append_Nil2 body_append)
qed

lemma body_drop_tokens: "body (drop_tokens n ts) = drop n (body ts)"
  by (induction n ts rule: drop_tokens.induct) (auto simp: body_Cons split: nat.splits)

lemma join_with_snoc: "ns \<noteq> [] \<Longrightarrow> join_with d (ns @ [n]) = join_with d ns @ d # n"
  by (induction ns rule: induct_list012) (auto simp: join_with_Cons)

lemma last_join_with:
  assumes "ns \<noteq> []" "last ns \<noteq> []"
  shows "join_with d ns \<noteq> [] \<and> last (join_with d ns) = last (last ns)"
proof (cases ns rule: rev_cases)
  case (snoc ms m)
  then show ?thesis
    using assms by (cases "ms = []") (auto simp: join_with_snoc)
qed (use assms in auto)

lemma valid_name_nonempty: "valid_name n \<Longrightarrow> n \<noteq> []"
  by (auto simp: valid_name_def junk_def)

lemma valid_name_relative: "valid_name n \<Longrightarrow> \<not> is_absolute n"
  by (auto simp: valid_name_def is_absolute_iff)

lemma last_abs_path:
  assumes "ns \<noteq> []" "\<forall>n \<in> set ns. valid_name n"
  shows "last (abs_path ns) \<noteq> sep"
proof -
  have m: "valid_name (last ns)"
    using assms by auto
  then have "last (abs_path ns) = last (last ns)"
    using last_join_with [OF assms(1) valid_name_nonempty [OF m], of sep] by (simp add: abs_path_def)
  then show ?thesis
    using valid_name_no_sep [OF m] valid_name_nonempty [OF m] last_in_set by metis
qed

lemma path_join_abs_path:
  assumes "\<forall>n \<in> set ns. valid_name n" "valid_name n"
  shows "path_join (abs_path ns) n = abs_path (ns @ [n])"
proof (cases "ns = []")
  case True
  then show ?thesis
    using assms by (simp add: path_join_def valid_name_relative abs_path_def)
next
  case False
  then show ?thesis
    using assms last_abs_path [OF False assms(1)]
    by (simp add: path_join_def valid_name_relative) (simp add: abs_path_def join_with_snoc)
qed

lemma tokens_path_join_abs_path:
  assumes "\<forall>n \<in> set ns. valid_name n" "\<not> is_absolute p"
  shows "tokens (path_join (abs_path ns) p) = [] # ns @ tokens p"
proof (cases "ns = []")
  case True
  then show ?thesis
    using assms tokens_append [of "[]" p] by (simp add: path_join_def abs_path_def)
next
  case False
  have "abs_path ns \<noteq> []"
    by (simp add: abs_path_def)
  then have "path_join (abs_path ns) p = abs_path ns @ sep # p"
    using assms(2) last_abs_path [OF False assms(1)] by (simp add: path_join_def)
  then show ?thesis
    using False assms by (simp add: tokens_append tokens_abs_path valid_name_no_sep)
qed

lemma abs_path_inj:
  assumes "\<forall>n \<in> set a. valid_name n" "\<forall>n \<in> set b. valid_name n" "abs_path a = abs_path b"
  shows "a = b"
  using assms components_abs_path [OF assms(1)] components_abs_path [OF assms(2)]
  by (metis component.inject list.inject map_injective injI)

end
