(* ===== verification/StdFs.thy ===== *)
theory StdFs
  imports StdPath "HOL-Library.AList"
begin

text \<open>
  The file system as the program uses it through \<open>std::fs\<close> on Unix: an association list from
  absolute locations (the list of names below the root) to nodes, read through \<open>fs_nodes\<close>.  \<open>walk\<close> is the kernel's path
  resolution on the raw tokens of a path, symbolic links included, with the limit of 40 link
  expansions of Linux; \<open>symlink_metadata\<close>, \<open>metadata\<close>, \<open>canonicalize\<close> and \<open>fs_read\<close> are stated over
  it.  \<open>fs_fault\<close> is the set of locations whose inspection fails for a reason other than the shape of
  the tree (permissions, input/output errors), \<open>fs_wfault\<close> the same for creating, renaming or
  removing an entry there, and \<open>fs_sfault\<close> for flushing a file to the disk.
\<close>

datatype io_error = NotFound | NotADirectory | IsADirectory | AlreadyExists | PermissionDenied
  | FilesystemLoop | OtherIo

text \<open>What the standard library prints for them.\<close>

fun io_text :: "io_error \<Rightarrow> string" where
  "io_text NotFound = ''No such file or directory (os error 2)''"
| "io_text NotADirectory = ''Not a directory (os error 20)''"
| "io_text IsADirectory = ''Is a directory (os error 21)''"
| "io_text AlreadyExists = ''File exists (os error 17)''"
| "io_text PermissionDenied = ''Permission denied (os error 13)''"
| "io_text FilesystemLoop = ''Too many levels of symbolic links (os error 40)''"
| "io_text OtherIo = ''Input/output error (os error 5)''"

record meta =
  m_len :: nat
  m_mtime :: int
  m_mode :: "32 word"

datatype node =
    FileNode meta string
  | DirNode meta
  | LinkNode meta string
  | SpecialNode meta

type_synonym location = "string list"

record fs =
  fs_tree :: "(location \<times> node) list"
  fs_cwd :: location
  fs_fault :: "location \<Rightarrow> io_error option"
  fs_wfault :: "location \<Rightarrow> io_error option"
  fs_sfault :: "location \<Rightarrow> io_error option"

definition fs_nodes :: "fs \<Rightarrow> location \<Rightarrow> node option" where
  "fs_nodes f = map_of (fs_tree f)"

definition is_file_node :: "node \<Rightarrow> bool" where
  "is_file_node n = (case n of FileNode _ _ \<Rightarrow> True | _ \<Rightarrow> False)"

definition is_dir_node :: "node \<Rightarrow> bool" where
  "is_dir_node n = (case n of DirNode _ \<Rightarrow> True | _ \<Rightarrow> False)"

definition is_link_node :: "node \<Rightarrow> bool" where
  "is_link_node n = (case n of LinkNode _ _ \<Rightarrow> True | _ \<Rightarrow> False)"

text \<open>\<open>Metadata::len\<close> of a regular file is the length of its contents.\<close>

definition node_len :: "node \<Rightarrow> nat" where
  "node_len n = (case n of FileNode _ c \<Rightarrow> length c | DirNode m \<Rightarrow> m_len m
     | LinkNode _ t \<Rightarrow> length t | SpecialNode m \<Rightarrow> m_len m)"

definition node_meta :: "node \<Rightarrow> meta" where
  "node_meta n = (case n of FileNode m _ \<Rightarrow> m | DirNode m \<Rightarrow> m | LinkNode m _ \<Rightarrow> m | SpecialNode m \<Rightarrow> m)"

definition lookup :: "fs \<Rightarrow> location \<Rightarrow> (io_error, node) res" where
  "lookup f l = (case fs_fault f l of
      Some e \<Rightarrow> Inl e
    | None \<Rightarrow> (case fs_nodes f l of None \<Rightarrow> Inl NotFound | Some n \<Rightarrow> Inr n))"

definition is_dir_at :: "fs \<Rightarrow> location \<Rightarrow> bool" where
  "is_dir_at f l = (case fs_nodes f l of Some (DirNode _) \<Rightarrow> True | _ \<Rightarrow> False)"

text \<open>
  \<open>walk fuel f cur ts follow\<close> resolves the tokens \<open>ts\<close> from the location \<open>cur\<close>.  The last
  component is followed through a link only when \<open>follow\<close> holds or more tokens (a trailing
  separator counts) come after it.
\<close>

function walk :: "nat \<Rightarrow> fs \<Rightarrow> location \<Rightarrow> string list \<Rightarrow> bool \<Rightarrow> (io_error, location) res" where
  "walk fuel f cur [] follow = Inr cur"
| "walk fuel f cur (t # ts) follow =
    (if \<not> is_dir_at f cur then Inl NotADirectory
     else if junk t then walk fuel f cur ts follow
     else if t = ''..'' then walk fuel f (butlast cur) ts follow
     else case lookup f (cur @ [t]) of
         Inl e \<Rightarrow> Inl e
       | Inr (LinkNode m target) \<Rightarrow>
           if ts \<noteq> [] \<or> follow then
             (case fuel of
                0 \<Rightarrow> Inl FilesystemLoop
              | Suc k \<Rightarrow> walk k f (if is_absolute target then [] else cur) (tokens target @ ts) follow)
           else Inr (cur @ [t])
       | Inr _ \<Rightarrow> walk fuel f (cur @ [t]) ts follow)"
  by pat_completeness auto
termination
  by (relation "measures [\<lambda>(fuel, _, _, _, _). fuel, \<lambda>(_, _, _, ts, _). length ts]") auto

declare walk.simps [simp del]

definition max_links :: nat where "max_links = 40"

definition resolve :: "fs \<Rightarrow> path \<Rightarrow> bool \<Rightarrow> (io_error, location) res" where
  "resolve f p follow =
    (if p = [] then Inl NotFound
     else walk max_links f (if is_absolute p then [] else fs_cwd f) (tokens p) follow)"

definition symlink_metadata :: "fs \<Rightarrow> path \<Rightarrow> (io_error, node) res" where
  "symlink_metadata f p = try_then (resolve f p False) (lookup f)"

definition metadata :: "fs \<Rightarrow> path \<Rightarrow> (io_error, node) res" where
  "metadata f p = try_then (resolve f p True) (lookup f)"

definition path_exists :: "fs \<Rightarrow> path \<Rightarrow> bool" where
  "path_exists f p = is_ok (metadata f p)"

definition canonicalize :: "fs \<Rightarrow> path \<Rightarrow> (io_error, path) res" where
  "canonicalize f p = try_then (resolve f p True) (\<lambda>l. try_then (lookup f l) (\<lambda>_. Inr (abs_path l)))"

definition fs_read :: "fs \<Rightarrow> path \<Rightarrow> (io_error, string) res" where
  "fs_read f p = try_then (metadata f p)
    (\<lambda>n. case n of FileNode _ c \<Rightarrow> Inr c | DirNode _ \<Rightarrow> Inl IsADirectory | _ \<Rightarrow> Inl OtherIo)"

definition read_to_string :: "fs \<Rightarrow> path \<Rightarrow> (io_error, string) res" where
  "read_to_string f p = try_then (fs_read f p) (\<lambda>c. if utf8_valid c then Inr c else Inl OtherIo)"

text \<open>\<open>Path::is_file\<close> and \<open>Path::is_dir\<close>: they follow links and are false on errors.\<close>

definition path_is_file :: "fs \<Rightarrow> path \<Rightarrow> bool" where
  "path_is_file f p = (case metadata f p of Inr n \<Rightarrow> is_file_node n | Inl _ \<Rightarrow> False)"

definition path_is_dir :: "fs \<Rightarrow> path \<Rightarrow> bool" where
  "path_is_dir f p = (case metadata f p of Inr n \<Rightarrow> is_dir_node n | Inl _ \<Rightarrow> False)"

section \<open>Well-formed trees\<close>

text \<open>
  The root is a directory, every entry has a name a directory entry can have and lies in a
  directory, and the current directory is one.
\<close>

definition wf_fs :: "fs \<Rightarrow> bool" where
  "wf_fs f = (is_dir_at f [] \<and> is_dir_at f (fs_cwd f)
    \<and> (\<forall>l n. fs_nodes f (l @ [n]) \<noteq> None \<longrightarrow> is_dir_at f l \<and> valid_name n))"

lemma is_dir_at_iff: "is_dir_at f l \<longleftrightarrow> (\<exists>m. fs_nodes f l = Some (DirNode m))"
  by (auto simp: is_dir_at_def split: option.splits node.splits)

lemma lookup_Inr: "lookup f l = Inr n \<longleftrightarrow> fs_fault f l = None \<and> fs_nodes f l = Some n"
  by (auto simp: lookup_def split: option.splits)

lemma wf_fs_by_entries:
  assumes "is_dir_at f []" "is_dir_at f (fs_cwd f)"
    and "\<forall>e \<in> set (fs_tree f). fst e = [] \<or> (is_dir_at f (butlast (fst e)) \<and> valid_name (last (fst e)))"
  shows "wf_fs f"
proof -
  have "is_dir_at f l \<and> valid_name n" if some: "fs_nodes f (l @ [n]) \<noteq> None" for l n
  proof -
    obtain x where "(l @ [n], x) \<in> set (fs_tree f)"
      using some by (auto simp: fs_nodes_def dest: map_of_SomeD)
    then show ?thesis
      using assms(3) by force
  qed
  then show ?thesis
    using assms(1,2) by (simp add: wf_fs_def)
qed

lemma node_kind_simps [simp]:
  "is_file_node (FileNode m c)" "\<not> is_file_node (DirNode m)" "\<not> is_file_node (LinkNode m t)"
  "\<not> is_file_node (SpecialNode m)"
  "is_dir_node (DirNode m)" "\<not> is_dir_node (FileNode m c)" "\<not> is_dir_node (LinkNode m t)"
  "\<not> is_dir_node (SpecialNode m)"
  "is_link_node (LinkNode m t)" "\<not> is_link_node (FileNode m c)" "\<not> is_link_node (DirNode m)"
  "\<not> is_link_node (SpecialNode m)"
  by (simp_all add: is_file_node_def is_dir_node_def is_link_node_def)

lemma wf_fs_parent: "wf_fs f \<Longrightarrow> fs_nodes f (l @ [n]) = Some x \<Longrightarrow> is_dir_at f l"
  by (auto simp: wf_fs_def)

lemma wf_fs_ancestor: "wf_fs f \<Longrightarrow> fs_nodes f (l @ r) = Some x \<Longrightarrow> r \<noteq> [] \<Longrightarrow> is_dir_at f l"
proof (induction r arbitrary: x rule: rev_induct)
  case (snoc n r)
  then have "is_dir_at f (l @ r)"
    using wf_fs_parent [of f "l @ r" n x] by simp
  then show ?case
    using snoc by (cases "r = []") (auto simp: is_dir_at_iff)
qed simp

lemma wf_fs_names:
  assumes "wf_fs f" "fs_nodes f l = Some x" "n \<in> set l"
  shows "valid_name n"
proof -
  obtain a b where l: "l = (a @ [n]) @ b"
    using assms(3) by (metis append.assoc append_Cons append_Nil split_list)
  then have "fs_nodes f (a @ [n]) \<noteq> None"
    using assms(1,2) wf_fs_ancestor [of f "a @ [n]" b x] by (cases "b = []") (auto simp: is_dir_at_iff)
  then show ?thesis
    using assms(1) by (auto simp: wf_fs_def)
qed

text \<open>
  Walking over names that are not links does not move away from the spelled location; the last
  name may be a link when links are not followed.
\<close>

lemma walk_spelled:
  assumes "\<forall>n \<in> set ns. valid_name n"
    and "\<forall>k < length ns. \<forall>m t. Suc k < length ns \<or> follow \<longrightarrow>
           fs_nodes f (cur @ take (Suc k) ns) \<noteq> Some (LinkNode m t)"
    and "walk fuel f cur ns follow = Inr l"
  shows "l = cur @ ns"
  using assms
proof (induction ns arbitrary: cur)
  case (Cons n ns)
  have dir: "is_dir_at f cur" and n: "\<not> junk n" "n \<noteq> ''..''"
    using Cons.prems by (auto simp: walk.simps valid_name_def split: if_splits)
  then obtain x where x: "lookup f (cur @ [n]) = Inr x"
    using Cons.prems(3) by (auto simp: walk.simps split: sum.splits)
  have nolink: "x \<noteq> LinkNode m t" if "ns \<noteq> [] \<or> follow" for m t
    using Cons.prems(2) x that by (fastforce simp: lookup_Inr)
  show ?case
  proof (cases "\<exists>m t. x = LinkNode m t")
    case True
    then have "ns = [] \<and> \<not> follow"
      using nolink by blast
    then show ?thesis
      using True Cons.prems(3) x dir n by (auto simp: walk.simps)
  next
    case False
    then have "walk fuel f (cur @ [n]) ns follow = Inr l"
      using Cons.prems(3) x dir n by (auto simp: walk.simps split: node.splits)
    moreover have "\<forall>k < length ns. \<forall>m t. Suc k < length ns \<or> follow \<longrightarrow>
        fs_nodes f ((cur @ [n]) @ take (Suc k) ns) \<noteq> Some (LinkNode m t)"
      using Cons.prems(2) by (auto dest: spec [of _ "Suc _"])
    ultimately show ?thesis
      using Cons.IH [of "cur @ [n]"] Cons.prems(1) by simp
  qed
qed (simp add: walk.simps)

lemma walk_spelled_junk:
  assumes "\<forall>t \<in> set ts. junk t \<or> valid_name t"
    and "\<forall>k < length (filter (\<lambda>t. \<not> junk t) ts). \<forall>m t.
           fs_nodes f (cur @ take (Suc k) (filter (\<lambda>t. \<not> junk t) ts)) \<noteq> Some (LinkNode m t)"
    and "walk fuel f cur ts follow = Inr l"
  shows "l = cur @ filter (\<lambda>t. \<not> junk t) ts"
  using assms
proof (induction ts arbitrary: cur)
  case (Cons n ns)
  show ?case
  proof (cases "junk n")
    case True
    then show ?thesis
      using Cons by (auto simp: walk.simps split: if_splits)
  next
    case False
    then have dir: "is_dir_at f cur" and n: "n \<noteq> ''..''"
      using Cons.prems by (auto simp: walk.simps valid_name_def split: if_splits)
    then obtain x where x: "lookup f (cur @ [n]) = Inr x"
      using Cons.prems(3) False by (auto simp: walk.simps split: sum.splits)
    have "\<not> is_link_node x"
      using Cons.prems(2) False x by (cases x) (fastforce simp: lookup_Inr)+
    then have "walk fuel f (cur @ [n]) ns follow = Inr l"
      using Cons.prems(3) x dir n False by (auto simp: walk.simps split: node.splits)
    moreover have "\<forall>k < length (filter (\<lambda>t. \<not> junk t) ns). \<forall>m t.
        fs_nodes f ((cur @ [n]) @ take (Suc k) (filter (\<lambda>t. \<not> junk t) ns)) \<noteq> Some (LinkNode m t)"
      using Cons.prems(2) False by (auto dest: spec [of _ "Suc _"])
    ultimately show ?thesis
      using Cons.IH [of "cur @ [n]"] Cons.prems(1) False by simp
  qed
qed (simp add: walk.simps)

text \<open>A resolved location names a node: walking never leaves the tree.\<close>

lemma is_dir_at_butlast:
  assumes "wf_fs f" "is_dir_at f cur"
  shows "is_dir_at f (butlast cur)"
proof (cases cur rule: rev_cases)
  case (snoc l n)
  then show ?thesis
    using assms by (auto simp: is_dir_at_iff dest: wf_fs_parent)
qed (use assms in auto)

lemma walk_invariant:
  assumes "walk fuel f cur ts follow = Inr l" "P cur" "P []"
    and up: "\<And>c. is_dir_at f c \<Longrightarrow> P c \<Longrightarrow> P (butlast c)"
    and down: "\<And>c t n. lookup f (c @ [t]) = Inr n \<Longrightarrow> is_link_node n \<longrightarrow> \<not> follow \<Longrightarrow> P (c @ [t])"
  shows "P l"
  using assms
proof (induction fuel f cur ts follow rule: walk.induct)
  case (2 fuel f cur t ts follow)
  note walk = "2.prems"(1) [unfolded walk.simps(2)]
  have dir: "is_dir_at f cur"
    using walk by (simp split: if_splits)
  consider "junk t" | "t = ''..''" "\<not> junk t" | "\<not> junk t" "t \<noteq> ''..''"
    by blast
  then show ?case
  proof cases
    case 1
    then show ?thesis
      using "2.IH"(1) walk dir "2.prems" by simp
  next
    case 2
    then show ?thesis
      using "2.IH"(2) walk dir "2.prems" by simp
  next
    case 3
    then obtain n where n: "lookup f (cur @ [t]) = Inr n"
      using walk dir by (auto split: sum.splits)
    show ?thesis
    proof (cases "is_link_node n")
      case True
      then obtain m tgt where n': "n = LinkNode m tgt"
        by (cases n) auto
      show ?thesis
      proof (cases "ts \<noteq> [] \<or> follow")
        case True
        then obtain k where k: "fuel = Suc k"
          using walk dir 3 n n' by (auto split: nat.splits)
        then show ?thesis
          using "2.IH"(5) [OF _ _ _ n n' True k] walk dir 3 n n' True "2.prems" by auto
      next
        case False
        then show ?thesis
          using walk dir 3 n n' "2.prems"(5) [OF n] by auto
      qed
    next
      case False
      then have "walk fuel f (cur @ [t]) ts follow = Inr l" "P (cur @ [t])"
        using walk dir 3 n "2.prems"(5) [OF n] by (auto split: node.splits)
      then show ?thesis
        using "2.IH"(3,4,6) dir 3 n False "2.prems" by (cases n) auto
    qed
  qed
qed (simp add: walk.simps)

lemma walk_exists:
  assumes "wf_fs f" "walk fuel f cur ts follow = Inr l" "\<exists>x. fs_nodes f cur = Some x"
  shows "\<exists>x. fs_nodes f l = Some x"
proof (rule walk_invariant [OF assms(2), where P = "\<lambda>c. \<exists>x. fs_nodes f c = Some x"])
  show "\<exists>x. fs_nodes f [] = Some x"
    using assms(1) by (auto simp: wf_fs_def is_dir_at_iff)
  show "\<exists>x. fs_nodes f (butlast c) = Some x" if "is_dir_at f c" for c
    using is_dir_at_butlast [OF assms(1) that] by (auto simp: is_dir_at_iff)
qed (use assms in \<open>auto simp: lookup_Inr\<close>)

text \<open>A location resolved with links followed is not a link.\<close>

lemma walk_follow_not_link:
  assumes "wf_fs f" "walk fuel f cur ts True = Inr l" "is_dir_at f cur"
  shows "fs_nodes f l \<noteq> Some (LinkNode m t)"
proof -
  have "\<forall>m t. fs_nodes f l \<noteq> Some (LinkNode m t)"
  proof (rule walk_invariant [OF assms(2), where P = "\<lambda>c. \<forall>m t. fs_nodes f c \<noteq> Some (LinkNode m t)"])
    show "\<forall>m t. fs_nodes f (butlast c) \<noteq> Some (LinkNode m t)" if "is_dir_at f c" for c
      using is_dir_at_butlast [OF assms(1) that] by (auto simp: is_dir_at_iff)
  qed (use assms in \<open>auto simp: lookup_Inr is_dir_at_iff wf_fs_def\<close>)
  then show ?thesis
    by blast
qed

definition start_of :: "fs \<Rightarrow> path \<Rightarrow> location" where
  "start_of f p = (if is_absolute p then [] else fs_cwd f)"

lemma start_of_dir: "wf_fs f \<Longrightarrow> is_dir_at f (start_of f p)"
  by (simp add: start_of_def wf_fs_def)

lemma canonicalize_Inr:
  assumes "canonicalize f p = Inr q" "wf_fs f"
  obtains l x where "q = abs_path l" "fs_nodes f l = Some x" "\<not> is_link_node x"
    "\<forall>n \<in> set l. valid_name n" "resolve f p True = Inr l" "lookup f l = Inr x"
proof -
  obtain l x where l: "resolve f p True = Inr l" "lookup f l = Inr x" "q = abs_path l"
    using assms(1) by (auto simp: canonicalize_def res_simps)
  have x: "fs_nodes f l = Some x"
    using l by (simp add: lookup_Inr)
  have "walk max_links f (start_of f p) (tokens p) True = Inr l"
    using l by (simp add: resolve_def start_of_def split: if_splits)
  then have "\<forall>m t. fs_nodes f l \<noteq> Some (LinkNode m t)"
    using walk_follow_not_link [OF assms(2)] start_of_dir [OF assms(2), of p] by blast
  then have "\<not> is_link_node x"
    using x by (cases x) auto
  then show thesis
    using that l x wf_fs_names [OF assms(2) x] by blast
qed

text \<open>Resolution of an absolute path with valid names.\<close>

lemma resolve_abs_path:
  assumes "\<forall>n \<in> set ns. valid_name n" "is_dir_at f []"
  shows "resolve f (abs_path ns) follow = walk max_links f [] ns follow"
  using assms
  by (auto simp: resolve_def tokens_abs_path valid_name_no_sep walk.simps)

text \<open>Resolution of an absolute path whose ancestors are directories ends where it is spelled.\<close>

lemma resolve_spelled:
  assumes "wf_fs f" "resolve f (abs_path (l @ [n])) follow = Inr q"
    and "\<forall>x \<in> set l. valid_name x" "valid_name n" "is_dir_at f l"
    and "follow \<longrightarrow> (\<forall>m t. fs_nodes f (l @ [n]) \<noteq> Some (LinkNode m t))"
  shows "q = l @ [n]"
proof -
  have "walk max_links f [] (l @ [n]) follow = Inr q"
    using assms by (subst resolve_abs_path [symmetric]) (auto simp: wf_fs_def)
  moreover have "fs_nodes f (take (Suc k) l) \<noteq> Some (LinkNode m t)" if "k < length l" for k m t
    using assms(1,5) that wf_fs_ancestor [of f "take (Suc k) l" "drop (Suc k) l"]
    by (cases "drop (Suc k) l = []") (auto simp: is_dir_at_iff)
  then have "\<forall>k < length (l @ [n]). \<forall>m t. Suc k < length (l @ [n]) \<or> follow \<longrightarrow>
      fs_nodes f ([] @ take (Suc k) (l @ [n])) \<noteq> Some (LinkNode m t)"
    using assms(5,6) by (auto simp: less_Suc_eq is_dir_at_iff)
  ultimately show ?thesis
    using assms(3,4) walk_spelled [of "l @ [n]" follow f "[]" max_links q] by simp
qed

lemma symlink_metadata_spelled:
  assumes "wf_fs f" "\<forall>x \<in> set l. valid_name x" "valid_name n" "is_dir_at f l"
    and "symlink_metadata f (abs_path (l @ [n])) = Inr x"
  shows "fs_nodes f (l @ [n]) = Some x"
  using assms resolve_spelled [OF assms(1) _ assms(2-4), of False]
  by (fastforce simp: symlink_metadata_def res_simps lookup_Inr)

text \<open>Following links changes nothing for a path that does not name a link.\<close>

lemma walk_follow_agree:
  assumes "walk fuel f cur ts False = Inr l" "fs_nodes f l = Some x" "\<not> is_link_node x"
  shows "walk fuel f cur ts True = Inr l"
  using assms
proof (induction fuel f cur ts "False" rule: walk.induct)
  case (2 fuel f cur t ts)
  note walk = "2.prems"(1) [unfolded walk.simps(2)]
  have dir: "is_dir_at f cur"
    using walk by (simp split: if_splits)
  consider "junk t" | "t = ''..''" "\<not> junk t" | "\<not> junk t" "t \<noteq> ''..''"
    by blast
  then show ?case
  proof cases
    case 1
    then show ?thesis
      using "2.hyps"(1) walk dir "2.prems" by (simp add: walk.simps(2))
  next
    case 2
    then show ?thesis
      using "2.hyps"(2) walk dir "2.prems" by (simp add: walk.simps(2))
  next
    case 3
    then obtain n where n: "lookup f (cur @ [t]) = Inr n"
      using walk dir by (auto split: sum.splits)
    show ?thesis
    proof (cases n)
      case (LinkNode m tgt)
      then have "ts \<noteq> []"
        using walk dir 3 n "2.prems"(2,3) by (auto simp: lookup_Inr)
      moreover then obtain k where k: "fuel = Suc k"
        using walk dir 3 n LinkNode by (auto split: nat.splits)
      ultimately show ?thesis
        using "2.hyps"(5) [OF _ _ _ n LinkNode _ k] walk dir 3 n LinkNode "2.prems"
        by (simp add: walk.simps(2))
    qed (use "2.hyps"(3,4,6) walk dir 3 n "2.prems" in \<open>simp_all add: walk.simps(2)\<close>)
  qed
qed (simp add: walk.simps)

lemma canonicalize_dir:
  assumes "wf_fs f" "canonicalize f p = Inr root" "symlink_metadata f p = Inr rm" "is_dir_node rm"
  obtains l where "root = abs_path l" "\<forall>n \<in> set l. valid_name n" "is_dir_at f l"
proof -
  obtain l where l: "resolve f p False = Inr l" "lookup f l = Inr rm"
    using assms(3) by (auto simp: symlink_metadata_def res_simps)
  then have "resolve f p True = Inr l"
    using assms(4) walk_follow_agree [of max_links f _ "tokens p" l rm]
    by (cases rm) (auto simp: resolve_def lookup_Inr split: if_splits)
  then have "root = abs_path l" "is_dir_at f l"
    using assms(2,4) l by (auto simp: canonicalize_def res_simps lookup_Inr is_dir_at_def is_dir_node_def
      split: node.splits)
  moreover have "\<forall>n \<in> set l. valid_name n"
    using assms(1) l wf_fs_names by (auto simp: lookup_Inr)
  ultimately show thesis
    using that by blast
qed

section \<open>Changing the tree\<close>

definition fs_put :: "location \<Rightarrow> node \<Rightarrow> fs \<Rightarrow> fs" where
  "fs_put l n f = f\<lparr>fs_tree := AList.update l n (fs_tree f)\<rparr>"

definition fs_del :: "location \<Rightarrow> fs \<Rightarrow> fs" where
  "fs_del l f = f\<lparr>fs_tree := AList.delete l (fs_tree f)\<rparr>"

lemma fs_nodes_put [simp]: "fs_nodes (fs_put l n f) = (fs_nodes f)(l \<mapsto> n)"
  by (simp add: fs_nodes_def fs_put_def update_conv')

lemma fs_nodes_del [simp]: "fs_nodes (fs_del l f) = (fs_nodes f)(l := None)"
  by (simp add: fs_nodes_def fs_del_def delete_conv')

lemma fs_put_sel [simp]:
  "fs_cwd (fs_put l n f) = fs_cwd f" "fs_fault (fs_put l n f) = fs_fault f"
  "fs_wfault (fs_put l n f) = fs_wfault f" "fs_sfault (fs_put l n f) = fs_sfault f"
  by (simp_all add: fs_put_def)

lemma fs_del_sel [simp]:
  "fs_cwd (fs_del l f) = fs_cwd f" "fs_fault (fs_del l f) = fs_fault f"
  "fs_wfault (fs_del l f) = fs_wfault f" "fs_sfault (fs_del l f) = fs_sfault f"
  by (simp_all add: fs_del_def)

text \<open>
  The directory entry a path names, for the operations that create, rename or remove one: all but
  the last name is resolved, and the last one must be a proper name.
\<close>

definition entry_at :: "fs \<Rightarrow> path \<Rightarrow> (io_error, location) res" where
  "entry_at f p =
    (if p = [] then Inl NotFound
     else if \<not> valid_name (last (tokens p)) then Inl OtherIo
     else try_then (walk max_links f (if is_absolute p then [] else fs_cwd f) (butlast (tokens p)) True)
       (\<lambda>l. if is_dir_at f l then Inr (l @ [last (tokens p)]) else Inl NotADirectory))"

definition write_guard :: "fs \<Rightarrow> location \<Rightarrow> (io_error, unit) res" where
  "write_guard f l = (case fs_wfault f l of Some e \<Rightarrow> Inl e | None \<Rightarrow> Inr ())"

text \<open>\<open>OpenOptions::create_new\<close> followed by writing the whole contents.\<close>

definition create_new :: "fs \<Rightarrow> path \<Rightarrow> meta \<Rightarrow> string \<Rightarrow> (io_error, fs) res" where
  "create_new f p m content =
    try_then (entry_at f p) (\<lambda>l.
    if fs_nodes f l \<noteq> None then Inl AlreadyExists
    else try_then (write_guard f l) (\<lambda>_. Inr (fs_put l (FileNode m content) f)))"

definition sync_all :: "fs \<Rightarrow> path \<Rightarrow> (io_error, unit) res" where
  "sync_all f p = try_then (entry_at f p) (\<lambda>l. case fs_sfault f l of Some e \<Rightarrow> Inl e | None \<Rightarrow> Inr ())"

definition create_dir :: "fs \<Rightarrow> path \<Rightarrow> meta \<Rightarrow> (io_error, fs) res" where
  "create_dir f p m =
    try_then (entry_at f p) (\<lambda>l.
    if fs_nodes f l \<noteq> None then Inl AlreadyExists
    else try_then (write_guard f l) (\<lambda>_. Inr (fs_put l (DirNode m) f)))"

definition remove_file :: "fs \<Rightarrow> path \<Rightarrow> (io_error, fs) res" where
  "remove_file f p =
    try_then (entry_at f p) (\<lambda>l.
    case fs_nodes f l of
      None \<Rightarrow> Inl NotFound
    | Some n \<Rightarrow> if is_dir_node n then Inl IsADirectory
                else try_then (write_guard f l) (\<lambda>_. Inr (fs_del l f)))"

text \<open>\<open>fs::rename\<close> of an entry that is not a directory, the only kind the program renames.\<close>

definition rename_file :: "fs \<Rightarrow> path \<Rightarrow> path \<Rightarrow> (io_error, fs) res" where
  "rename_file f p q =
    try_then (entry_at f p) (\<lambda>a.
    try_then (entry_at f q) (\<lambda>b.
    case fs_nodes f a of
      None \<Rightarrow> Inl NotFound
    | Some n \<Rightarrow>
        if is_dir_node n then Inl OtherIo
        else if is_dir_at f b then Inl IsADirectory
        else try_then (write_guard f a) (\<lambda>_. try_then (write_guard f b) (\<lambda>_.
          Inr (if a = b then f else fs_put b n (fs_del a f))))))"

text \<open>The names in a directory, in the order of the tree.\<close>

definition names_in :: "fs \<Rightarrow> location \<Rightarrow> string list" where
  "names_in f l = map last (filter (\<lambda>k. k \<noteq> [] \<and> butlast k = l) (map fst (fs_tree f)))"

definition read_dir :: "fs \<Rightarrow> path \<Rightarrow> (io_error, string list) res" where
  "read_dir f p = try_then (resolve f p True) (\<lambda>l.
    try_then (lookup f l) (\<lambda>n. if is_dir_node n then Inr (names_in f l) else Inl NotADirectory))"

lemma names_in_iff: "n \<in> set (names_in f l) \<longleftrightarrow> (\<exists>x. fs_nodes f (l @ [n]) = Some x)"
proof -
  have "n \<in> set (names_in f l) \<longleftrightarrow> l @ [n] \<in> fst ` set (fs_tree f)"
    by (force simp: names_in_def image_iff)
  then show ?thesis
    using map_of_eq_None_iff [of "fs_tree f" "l @ [n]"] by (auto simp: fs_nodes_def)
qed

text \<open>Putting a node that is not a directory under a directory keeps the tree well formed.\<close>

lemma wf_fs_put:
  assumes "wf_fs f" "is_dir_at f l" "valid_name n"
    and "\<not> is_dir_at f (l @ [n]) \<or> is_dir_node x"
  shows "wf_fs (fs_put (l @ [n]) x f)"
proof -
  have keep: "is_dir_at (fs_put (l @ [n]) x f) k" if "is_dir_at f k" for k
    using that assms(4) by (cases x) (auto simp: is_dir_at_iff)
  have "is_dir_at (fs_put (l @ [n]) x f) k \<and> valid_name m"
    if "fs_nodes (fs_put (l @ [n]) x f) (k @ [m]) \<noteq> None" for k m
    using that assms(1-3) keep by (auto simp: wf_fs_def split: if_splits)
  then show ?thesis
    using assms(1) keep by (auto simp: wf_fs_def)
qed

lemma wf_fs_del:
  assumes "wf_fs f" "\<not> is_dir_at f l"
  shows "wf_fs (fs_del l f)"
proof -
  have keep: "is_dir_at (fs_del l f) k" if "is_dir_at f k" for k
    using that assms(2) by (auto simp: is_dir_at_iff)
  have "is_dir_at (fs_del l f) k \<and> valid_name m" if "fs_nodes (fs_del l f) (k @ [m]) \<noteq> None" for k m
    using that assms(1) keep by (auto simp: wf_fs_def split: if_splits)
  then show ?thesis
    using assms(1) keep by (auto simp: wf_fs_def)
qed

section \<open>Paths below an accessible directory\<close>

text \<open>
  A location is open when it is a directory and neither it nor a directory above it has a fault.
  Below an open directory every operation on a spelled path is the operation on its location.
\<close>

definition open_dir :: "fs \<Rightarrow> location \<Rightarrow> bool" where
  "open_dir f d = (is_dir_at f d \<and> (\<forall>n \<in> set d. valid_name n)
     \<and> (\<forall>k \<le> length d. fs_fault f (take k d) = None))"

lemma open_dirD:
  assumes "open_dir f d"
  shows "is_dir_at f d" "\<forall>n \<in> set d. valid_name n" "fs_fault f d = None"
  using assms by (auto simp: open_dir_def)

lemma walk_dirs:
  assumes "\<forall>n \<in> set ns. valid_name n" "is_dir_at f cur"
    and "\<forall>k < length ns. is_dir_at f (cur @ take (Suc k) ns) \<and> fs_fault f (cur @ take (Suc k) ns) = None"
  shows "walk fuel f cur (ns @ ts) follow = walk fuel f (cur @ ns) ts follow"
  using assms
proof (induction ns arbitrary: cur)
  case (Cons n ns)
  have here: "is_dir_at f (cur @ [n])" "fs_fault f (cur @ [n]) = None"
    using Cons.prems(3) by auto
  then obtain m where "lookup f (cur @ [n]) = Inr (DirNode m)"
    by (auto simp: is_dir_at_iff lookup_Inr)
  moreover have "walk fuel f (cur @ [n]) (ns @ ts) follow = walk fuel f ((cur @ [n]) @ ns) ts follow"
  proof (rule Cons.IH)
    show "\<forall>k<length ns. is_dir_at f ((cur @ [n]) @ take (Suc k) ns)
        \<and> fs_fault f ((cur @ [n]) @ take (Suc k) ns) = None"
      using Cons.prems(3) by (auto dest: spec [of _ "Suc _"])
  qed (use Cons.prems here in auto)
  ultimately show ?case
    using Cons.prems(1,2) by (auto simp: walk.simps(2) valid_name_def)
qed simp

lemma walk_open_dir:
  assumes "wf_fs f" "open_dir f d"
  shows "walk fuel f [] (d @ ts) follow = walk fuel f d ts follow"
proof -
  have "is_dir_at f (take (Suc k) d)" if "k < length d" for k
    using assms that wf_fs_ancestor [of f "take (Suc k) d" "drop (Suc k) d"]
    by (cases "drop (Suc k) d = []") (auto simp: open_dir_def is_dir_at_iff)
  moreover have "is_dir_at f []"
    using assms(1) by (simp add: wf_fs_def)
  ultimately show ?thesis
    using walk_dirs [of d f "[]"] assms(2) by (simp add: open_dir_def)
qed

lemma resolve_open:
  assumes "wf_fs f" "open_dir f d" "valid_name n"
  shows "resolve f (abs_path (d @ [n])) follow = walk max_links f d [n] follow"
  using assms resolve_abs_path [of "d @ [n]" f follow] walk_open_dir [OF assms(1,2)]
  by (auto simp: open_dir_def wf_fs_def)

lemma resolve_open_dir:
  assumes "wf_fs f" "open_dir f d"
  shows "resolve f (abs_path d) follow = Inr d"
  using assms resolve_abs_path [of d f follow] walk_open_dir [OF assms, of _ "[]"]
  by (auto simp: open_dir_def wf_fs_def walk.simps)

lemma symlink_metadata_open:
  assumes "wf_fs f" "open_dir f d" "valid_name n"
  shows "symlink_metadata f (abs_path (d @ [n])) = lookup f (d @ [n])"
  using assms open_dirD [OF assms(2)]
  by (auto simp: symlink_metadata_def resolve_open walk.simps valid_name_def
      split: sum.splits node.splits)

lemma metadata_open:
  assumes "wf_fs f" "open_dir f d" "valid_name n" "\<forall>m t. fs_nodes f (d @ [n]) \<noteq> Some (LinkNode m t)"
  shows "metadata f (abs_path (d @ [n])) = lookup f (d @ [n])"
  using assms open_dirD [OF assms(2)]
  by (auto simp: metadata_def resolve_open walk.simps valid_name_def lookup_Inr
      split: sum.splits node.splits)

lemma canonicalize_open_dir:
  assumes "wf_fs f" "open_dir f d"
  shows "canonicalize f (abs_path d) = Inr (abs_path d)"
  using assms open_dirD [OF assms(2)]
  by (auto simp: canonicalize_def resolve_open_dir lookup_def is_dir_at_iff)

lemma fs_read_open:
  assumes "wf_fs f" "open_dir f d" "valid_name n"
    and "fs_nodes f (d @ [n]) = Some (FileNode m c)" "fs_fault f (d @ [n]) = None"
  shows "fs_read f (abs_path (d @ [n])) = Inr c"
  using assms by (simp add: fs_read_def metadata_open lookup_def)

lemma entry_at_open:
  assumes "wf_fs f" "open_dir f d" "valid_name n"
  shows "entry_at f (abs_path (d @ [n])) = Inr (d @ [n])"
proof -
  have "tokens (abs_path (d @ [n])) = [] # d @ [n]"
    using tokens_abs_path [of "d @ [n]"] assms by (auto simp: open_dir_def valid_name_no_sep)
  moreover have "walk max_links f [] ([] # d) True = Inr d"
    using walk_open_dir [OF assms(1,2), of max_links "[]" True] assms(1)
    by (simp add: walk.simps wf_fs_def)
  ultimately show ?thesis
    using assms by (simp add: entry_at_def open_dir_def)
qed

text \<open>Changing entries that are not directories keeps directories open.\<close>

lemma open_dir_put:
  assumes "open_dir f d" "\<not> is_dir_at f l"
  shows "open_dir (fs_put l x f) d"
  using assms by (auto simp: open_dir_def is_dir_at_iff)

lemma open_dir_del:
  assumes "open_dir f d" "\<not> is_dir_at f l"
  shows "open_dir (fs_del l f) d"
  using assms by (auto simp: open_dir_def is_dir_at_iff)

text \<open>What creating and renaming do below open directories.\<close>

lemma wf_open_put:
  assumes "wf_fs f" "open_dir f d" "valid_name n" "\<not> is_dir_at f (d @ [n])" "\<not> is_dir_node x"
  shows "wf_fs (fs_put (d @ [n]) x f)" "open_dir f e \<Longrightarrow> open_dir (fs_put (d @ [n]) x f) e"
  using assms wf_fs_put [of f d n x] open_dir_put [of f e "d @ [n]" x] open_dirD [OF assms(2)] by auto

lemma create_new_open:
  assumes "wf_fs f" "open_dir f d" "valid_name n" "create_new f (abs_path (d @ [n])) m c = Inr f'"
  shows "fs_nodes f (d @ [n]) = None" "f' = fs_put (d @ [n]) (FileNode m c) f"
    "wf_fs f'" "open_dir f e \<Longrightarrow> open_dir f' e"
proof -
  show none: "fs_nodes f (d @ [n]) = None" and f': "f' = fs_put (d @ [n]) (FileNode m c) f"
    using assms(4) by (auto simp: create_new_def entry_at_open [OF assms(1-3)] res_simps split: if_splits)
  have "\<not> is_dir_at f (d @ [n])"
    using none by (simp add: is_dir_at_def)
  then show "wf_fs f'" "open_dir f e \<Longrightarrow> open_dir f' e"
    using wf_open_put [OF assms(1-3), of "FileNode m c"] f' by auto
qed

lemma rename_file_open:
  assumes "wf_fs f" "open_dir f d" "open_dir f e" "valid_name n" "valid_name k"
    and "rename_file f (abs_path (d @ [n])) (abs_path (e @ [k])) = Inr f'"
  shows "\<exists>x. fs_nodes f (d @ [n]) = Some x \<and> \<not> is_dir_node x \<and> fs_nodes f' (e @ [k]) = Some x"
    "\<And>l. l \<noteq> d @ [n] \<Longrightarrow> l \<noteq> e @ [k] \<Longrightarrow> fs_nodes f' l = fs_nodes f l"
    "d @ [n] \<noteq> e @ [k] \<Longrightarrow> fs_nodes f' (d @ [n]) = None"
    "wf_fs f'" "open_dir f z \<Longrightarrow> open_dir f' z"
    "fs_fault f' = fs_fault f" "fs_wfault f' = fs_wfault f"
proof -
  obtain x where x: "fs_nodes f (d @ [n]) = Some x" "\<not> is_dir_node x" "\<not> is_dir_at f (e @ [k])"
      and f': "f' = (if d @ [n] = e @ [k] then f else fs_put (e @ [k]) x (fs_del (d @ [n]) f))"
    using assms(6) by (auto simp: rename_file_def entry_at_open [OF assms(1,2,4)]
        entry_at_open [OF assms(1,3,5)] res_simps split: option.splits if_splits)
  have nd: "\<not> is_dir_at f (d @ [n])"
    using x by (cases x) (auto simp: is_dir_at_iff)
  let ?g = "fs_del (d @ [n]) f"
  have g: "wf_fs ?g" "open_dir ?g e" "\<not> is_dir_at ?g (e @ [k])"
    using wf_fs_del [OF assms(1) nd] open_dir_del [OF assms(3) nd] x(3) by (auto simp: is_dir_at_iff)
  show "\<exists>x. fs_nodes f (d @ [n]) = Some x \<and> \<not> is_dir_node x \<and> fs_nodes f' (e @ [k]) = Some x"
    "\<And>l. l \<noteq> d @ [n] \<Longrightarrow> l \<noteq> e @ [k] \<Longrightarrow> fs_nodes f' l = fs_nodes f l"
    "d @ [n] \<noteq> e @ [k] \<Longrightarrow> fs_nodes f' (d @ [n]) = None"
    "fs_fault f' = fs_fault f" "fs_wfault f' = fs_wfault f"
    using x f' by auto
  show "wf_fs f'" "open_dir f z \<Longrightarrow> open_dir f' z"
    using f' assms(1) wf_open_put [OF g(1,2) assms(5) g(3) x(2)] open_dir_del [OF _ nd, of z] by auto
qed

end
