(* ===== verification/PolicyModel.thy ===== *)
theory PolicyModel
  imports StdFs
begin

text \<open>
  The data of the policy crate (\<open>opticcode-policy/src/model.rs\<close>): requests, the closed set of
  actions, decisions and reports, field by field.  Field names carry a prefix of their struct;
  the variants called \<open>Unknown\<close> of several enums get a distinguishing prefix.  Unsigned integers are
  naturals, with the bounds of the code written where it tests them.  The record \<open>host\<close> collects
  what the code takes from outside the repository: the BLAKE3 hash, the serialisers of
  \<open>serde_json\<close>, and the temporary directory of the process environment.
\<close>

definition MAX_POLICY_REQUEST_ID_BYTES :: nat where "MAX_POLICY_REQUEST_ID_BYTES = 128"
definition MAX_POLICY_IDENTIFIER_BYTES :: nat where "MAX_POLICY_IDENTIFIER_BYTES = 160"
definition MAX_POLICY_PATHS :: nat where "MAX_POLICY_PATHS = 512"
definition MAX_POLICY_ARGUMENTS :: nat where "MAX_POLICY_ARGUMENTS = 256"
definition MAX_POLICY_ARGUMENT_BYTES :: nat where "MAX_POLICY_ARGUMENT_BYTES = 8 * 1024"
definition MAX_POLICY_ENVIRONMENT_KEYS :: nat where "MAX_POLICY_ENVIRONMENT_KEYS = 32"
definition MAX_POLICY_TIMEOUT_MS :: nat where "MAX_POLICY_TIMEOUT_MS = 60 * 60 * 1000"
definition MAX_POLICY_OUTPUT_BYTES :: nat where "MAX_POLICY_OUTPUT_BYTES = 16 * 1024 * 1024"
definition POLICY_PROTOCOL_ID :: string where "POLICY_PROTOCOL_ID = ''opticcode.policy''"
definition POLICY_SCHEMA_VERSION :: nat where "POLICY_SCHEMA_VERSION = 1"
definition POLICY_VERSION :: string where "POLICY_VERSION = ''opticcode.default.v1''"

datatype policy_mode = ReadOnly | WorktreeEdit | ApprovedApply

datatype action_origin = User | Chat | Extension | Cli | Recovery | Model | OriginUnknown

record policy_client =
  client_name :: string
  client_version :: string

record git_boundary =
  gb_worktree_root :: path
  gb_git_dir :: path
  gb_common_dir :: path
  gb_index :: path
  gb_object_dir :: path
  gb_head :: string
  gb_main_worktree :: bool

record active_worktree =
  aw_run_id :: string
  aw_owner_workspace_id :: string
  aw_owner_request_id :: string
  aw_root :: path
  aw_source_root :: path
  aw_base_head :: string
  aw_git_dir :: path
  aw_common_dir :: path

record policy_workspace =
  ws_workspace_id :: string
  ws_root :: path
  ws_repository :: "git_boundary option"
  ws_active_worktree :: "active_worktree option"
  ws_working_tree_digest :: "string option"
  ws_repository_clean :: "bool option"

record text_position =
  tp_line :: nat
  tp_character :: nat

record text_range =
  tr_start :: text_position
  tr_end :: text_position

record path_target =
  pt_root :: path
  pt_path :: path
  pt_range :: "text_range option"
  pt_expected_hash :: "string option"

record search_action =
  sa_root :: path
  sa_query_hash :: string
  sa_paths :: "path list"

record context_action =
  ca_root :: path
  ca_task_hash :: string
  ca_candidate_paths :: "path list"

record rag_action =
  ra_index_root :: path
  ra_source_ids :: "string list"
  ra_query_hash :: string

record delete_action =
  da_target :: path_target
  da_recursive :: bool

record apply_patch_action =
  ap_root :: path
  ap_paths :: "path list"
  ap_created_paths :: "path list"
  ap_diff_hash :: string
  ap_files_hash :: string
  ap_transaction_id :: string
  ap_base_head :: string

datatype network_intent = NetDenied | NetDeclared | NetRequired | NetUndeclared

datatype process_launch = Direct | WindowsCommandScript | Shell

record run_process_action =
  rp_executable :: path
  rp_arguments :: "string list"
  rp_cwd :: path
  rp_timeout_ms :: nat
  rp_output_limit_bytes :: nat
  rp_network :: network_intent
  rp_launch :: process_launch
  rp_environment_allowlist :: "string list"

record create_worktree_action =
  cw_repository_root :: path
  cw_destination :: path
  cw_base_head :: string
  cw_run_id :: string
  cw_detached :: bool

record cleanup_worktree_action =
  cl_repository_root :: path
  cl_worktree_root :: path
  cl_run_id :: string

datatype git_read_operation = Status | Diff | Log | Show | RevParse | ListFiles | GitReadUnknown

datatype git_write_operation = Add | Restore | Checkout | Merge | WorktreeAdd | WorktreeRemove
  | Tag | Branch | GitWriteUnknown

record git_read_action =
  gr_repository_root :: path
  gr_operation :: git_read_operation
  gr_paths :: "path list"

record git_write_action =
  gw_repository_root :: path
  gw_operation :: git_write_operation
  gw_paths :: "path list"

record git_commit_action =
  gc_repository_root :: path
  gc_tree_hash :: string
  gc_message_hash :: string

record transaction_action =
  ta_workspace_root :: path
  ta_transaction_id :: string
  ta_expected_state_hash :: string

datatype policy_action =
    ReadFile path_target
  | ReadDirectory path_target
  | Search search_action
  | BuildContext context_action
  | UseRag rag_action
  | WriteFile path_target
  | CreateFile path_target
  | DeleteFile delete_action
  | ApplyPatch apply_patch_action
  | RunProcess run_process_action
  | CreateWorktree create_worktree_action
  | CleanupWorktree cleanup_worktree_action
  | GitRead git_read_action
  | GitWrite git_write_action
  | GitCommit git_commit_action
  | GitPush git_write_action
  | NetworkAccess string string
  | PackageInstall string string
  | Publish string string
  | RecoverTransaction transaction_action
  | RollbackTransaction transaction_action
  | ModifyPolicy
  | ElevatePrivileges
  | UnknownAction

fun action_kind :: "policy_action \<Rightarrow> string" where
  "action_kind (ReadFile _) = ''read_file''"
| "action_kind (ReadDirectory _) = ''read_directory''"
| "action_kind (Search _) = ''search''"
| "action_kind (BuildContext _) = ''build_context''"
| "action_kind (UseRag _) = ''use_rag''"
| "action_kind (WriteFile _) = ''write_file''"
| "action_kind (CreateFile _) = ''create_file''"
| "action_kind (DeleteFile _) = ''delete_file''"
| "action_kind (ApplyPatch _) = ''apply_patch''"
| "action_kind (RunProcess _) = ''run_process''"
| "action_kind (CreateWorktree _) = ''create_worktree''"
| "action_kind (CleanupWorktree _) = ''cleanup_worktree''"
| "action_kind (GitRead _) = ''git_read''"
| "action_kind (GitWrite _) = ''git_write''"
| "action_kind (GitCommit _) = ''git_commit''"
| "action_kind (GitPush _) = ''git_push''"
| "action_kind (NetworkAccess _ _) = ''network_access''"
| "action_kind (PackageInstall _ _) = ''package_install''"
| "action_kind (Publish _ _) = ''publish''"
| "action_kind (RecoverTransaction _) = ''recover_transaction''"
| "action_kind (RollbackTransaction _) = ''rollback_transaction''"
| "action_kind ModifyPolicy = ''modify_policy''"
| "action_kind ElevatePrivileges = ''elevate_privileges''"
| "action_kind UnknownAction = ''unknown''"

record policy_request =
  rq_schema_version :: nat
  rq_protocol :: string
  rq_request_id :: string
  rq_action_id :: string
  rq_origin :: action_origin
  rq_profile :: string
  rq_client :: policy_client
  rq_mode :: policy_mode
  rq_workspace :: policy_workspace
  rq_action :: policy_action
  rq_approval_id :: "string option"

text \<open>The client version is the crate version the build substitutes.\<close>

definition policy_request_new ::
  "string \<Rightarrow> string \<Rightarrow> string \<Rightarrow> policy_mode \<Rightarrow> policy_workspace \<Rightarrow> policy_action \<Rightarrow> policy_request" where
  "policy_request_new pkg_version request_id action_id mode ws action =
    \<lparr>rq_schema_version = POLICY_SCHEMA_VERSION, rq_protocol = POLICY_PROTOCOL_ID,
     rq_request_id = request_id, rq_action_id = action_id, rq_origin = Cli,
     rq_profile = ''default'',
     rq_client = \<lparr>client_name = ''opticcode-cli'', client_version = pkg_version\<rparr>,
     rq_mode = mode, rq_workspace = ws, rq_action = action, rq_approval_id = None\<rparr>"

datatype risk_level = Low | Medium | High | Critical

datatype policy_decision =
    Allow (allow_rule: string) (allow_risk: risk_level) (allow_scope: string)
      (allow_conditions: "string list")
  | RequireApproval (approval_rule: string) (approval_reason: string)
      (approval_risk: risk_level) (approval_summary: string)
  | Deny (deny_rule: string) (deny_reason: string) (deny_risk: risk_level)

fun decision_kind :: "policy_decision \<Rightarrow> string" where
  "decision_kind (Allow _ _ _ _) = ''allow''"
| "decision_kind (RequireApproval _ _ _ _) = ''require_approval''"
| "decision_kind (Deny _ _ _) = ''deny''"

fun rule_id :: "policy_decision \<Rightarrow> string" where
  "rule_id (Allow r _ _ _) = r"
| "rule_id (RequireApproval r _ _ _) = r"
| "rule_id (Deny r _ _) = r"

fun decision_risk :: "policy_decision \<Rightarrow> risk_level" where
  "decision_risk (Allow _ k _ _) = k"
| "decision_risk (RequireApproval _ _ k _) = k"
| "decision_risk (Deny _ _ k) = k"

record policy_report =
  pr_schema_version :: nat
  pr_protocol :: string
  pr_policy_version :: string
  pr_request_id :: string
  pr_action_id :: string
  pr_action_kind :: string
  pr_action_hash :: string
  pr_workspace_hash :: string
  pr_decision :: policy_decision
  pr_user_reason :: string
  pr_technical_reason :: string
  pr_recommended_action :: string
  pr_retriable :: bool
  pr_revalidation_required :: bool
  pr_audit_event_id :: "string option"

definition report_allowed :: "policy_report \<Rightarrow> bool" where
  "report_allowed r = is_Allow (pr_decision r)"

section \<open>Path reports and approval bindings\<close>

record path_fingerprint =
  pf_metadata_hash :: string
  pf_content_hash :: "string option"
  pf_bytes :: nat
  pf_modified_unix_nanos :: nat

record path_report =
  ps_root :: path
  ps_target :: path
  ps_relative_path :: path
  ps_exists :: bool
  ps_fingerprint :: path_fingerprint

datatype path_error = PathErr (pe_rule: string) (pe_message: string)

definition path_error_to_string :: "path_error \<Rightarrow> string" where
  "path_error_to_string e = pe_rule e @ '': '' @ pe_message e"

record file_binding =
  fb_path_hash :: string
  fb_expected_hash :: string

record worktree_lease =
  wl_schema_version :: nat
  wl_run_id :: string
  wl_owner_workspace_id :: string
  wl_owner_request_id :: string
  wl_process_id :: nat
  wl_created_unix_ms :: nat
  wl_source_git_root :: path
  wl_source_project :: path
  wl_source_commit :: string
  wl_worktree_path :: path

datatype policy_error = InvalidRequest string | Storage string

fun policy_error_to_string :: "policy_error \<Rightarrow> string" where
  "policy_error_to_string (InvalidRequest m) = ''invalid policy request: '' @ m"
| "policy_error_to_string (Storage m) = ''policy storage failure: '' @ m"

section \<open>What the code takes from outside\<close>

text \<open>
  \<open>h_blake3\<close> is the lower-case hexadecimal digest of a byte string.  The serialisers return the
  error text on failure, as \<open>serde_json::to_vec\<close> does.
\<close>

record host =
  h_blake3 :: "string \<Rightarrow> string"
  h_json_action :: "policy_action \<Rightarrow> (string, string) res"
  h_json_request :: "policy_request \<Rightarrow> (string, string) res"
  h_json_files :: "file_binding list \<Rightarrow> (string, string) res"
  h_parse_lease :: "string \<Rightarrow> worktree_lease option"
  h_temp_dir :: path

text \<open>Documented behaviour of the digest: 64 lower-case hexadecimal characters.\<close>

definition hex64 :: "string \<Rightarrow> bool" where
  "hex64 s = (length s = 64 \<and> list_all is_ascii_hexdigit s)"

definition digest_ok :: "host \<Rightarrow> bool" where
  "digest_ok h = (\<forall>s. hex64 (h_blake3 h s))"

end
