(* ===== verification/PolicyPaths.thy ===== *)
theory PolicyPaths
  imports PolicyModel
begin

text \<open>
  Path inspection of the policy crate (\<open>opticcode-policy/src/paths.rs\<close>): the checks that a
  requested path names a regular, non-sensitive entry below a real directory, without a symbolic
  link, a nested repository or a parent component on the way, and the fingerprint that later
  revalidation compares.  One observation of the file system is one value of type \<open>fs\<close>.
\<close>

definition MAX_POLICY_HASH_FILE_BYTES :: nat where "MAX_POLICY_HASH_FILE_BYTES = 16 * 1024 * 1024"

datatype path_expectation = ExpectFile | ExpectDirectory | ExistingEntry | NewFile

section \<open>Refusals\<close>

definition err_root_unavailable :: path_error where
  "err_root_unavailable = PathErr ''path.root_unavailable''
    ''action root cannot be inspected''"

definition err_root_reparse :: path_error where
  "err_root_reparse = PathErr ''path.root_reparse''
    ''action root must be a real directory''"

definition err_root_unresolved :: path_error where
  "err_root_unresolved = PathErr ''path.root_unavailable''
    ''action root cannot be resolved''"

definition err_resolve_failed :: path_error where
  "err_resolve_failed = PathErr ''path.resolve_failed''
    ''action target cannot be resolved''"

definition err_resolves_outside :: path_error where
  "err_resolves_outside = PathErr ''path.outside_root''
    ''action target resolves outside its declared root''"

definition err_not_file :: path_error where
  "err_not_file = PathErr ''path.not_file''
    ''action target is not a regular file''"

definition err_not_directory :: path_error where
  "err_not_directory = PathErr ''path.not_directory''
    ''action target is not a directory''"

definition err_already_exists :: path_error where
  "err_already_exists = PathErr ''path.already_exists''
    ''new-file target already exists''"

definition err_target_missing :: path_error where
  "err_target_missing = PathErr ''path.not_found''
    ''action target does not exist''"

definition err_workspace_unavailable :: path_error where
  "err_workspace_unavailable = PathErr ''path.root_unavailable''
    ''workspace root cannot be inspected''"

definition err_workspace_reparse :: path_error where
  "err_workspace_reparse = PathErr ''path.root_reparse''
    ''workspace root must be a real directory''"

definition err_workspace_unresolved :: path_error where
  "err_workspace_unresolved = PathErr ''path.root_unavailable''
    ''workspace root cannot be resolved''"

definition err_canonical_unavailable :: path_error where
  "err_canonical_unavailable = PathErr ''path.root_unavailable''
    ''canonical workspace root cannot be inspected''"

definition err_canonical_reparse :: path_error where
  "err_canonical_reparse = PathErr ''path.root_reparse''
    ''canonical workspace root must be a real directory''"

definition err_absolute_outside :: path_error where
  "err_absolute_outside = PathErr ''path.outside_root''
    ''absolute action target is outside its declared root''"

definition err_root_target :: path_error where
  "err_root_target = PathErr ''path.root_target''
    ''the root itself is not a valid file action target''"

definition err_invalid_relative :: path_error where
  "err_invalid_relative = PathErr ''path.invalid_relative''
    ''action target must contain only normal relative components''"

definition err_symlink :: path_error where
  "err_symlink = PathErr ''path.symlink_or_reparse''
    ''action target contains a symlink, junction, or reparse point''"

definition err_invalid_component :: path_error where
  "err_invalid_component = PathErr ''path.invalid_component''
    ''an intermediate action path component is not a directory''"

definition err_component_missing :: path_error where
  "err_component_missing = PathErr ''path.not_found''
    ''action path component does not exist or cannot be inspected''"

definition err_no_component :: path_error where
  "err_no_component = PathErr ''path.invalid_relative''
    ''action target has no usable path component''"

definition err_sensitive :: path_error where
  "err_sensitive = PathErr ''path.sensitive''
    ''action target is covered by the sensitive-path policy''"

definition err_nested_repository :: path_error where
  "err_nested_repository = PathErr ''git.nested_repository''
    ''action target crosses a nested repository or submodule boundary''"

definition err_hash_limit :: path_error where
  "err_hash_limit = PathErr ''path.hash_limit''
    ''file is too large for a policy content-hash precondition''"

definition err_read_failed :: path_error where
  "err_read_failed = PathErr ''path.read_failed''
    ''file cannot be hashed for policy validation''"

definition err_hash_mismatch :: path_error where
  "err_hash_mismatch = PathErr ''path.hash_mismatch''
    ''file content no longer matches the expected hash''"

section \<open>Operations\<close>

text \<open>On Unix a link or reparse point is a symbolic link.\<close>

definition metadata_is_link_or_reparse :: "node \<Rightarrow> bool" where
  "metadata_is_link_or_reparse n = is_link_node n"

definition metadata_attributes :: "node \<Rightarrow> nat" where
  "metadata_attributes n = 0"

definition relative_target :: "path \<Rightarrow> path \<Rightarrow> (path_error, path) res" where
  "relative_target root requested =
    try_then (if is_absolute requested then ok_or err_absolute_outside (strip_prefix requested root)
              else Inr requested)
      (\<lambda>relative.
        if relative = [] then Inl err_root_target
        else if list_all is_normal (components relative) then Inr relative
        else Inl err_invalid_relative)"

text \<open>The loop of \<open>inspect_components\<close> over the remaining components.\<close>

fun inspect_components_from ::
  "fs \<Rightarrow> path \<Rightarrow> component list \<Rightarrow> path_expectation \<Rightarrow> (path_error, bool \<times> node option) res" where
  "inspect_components_from f current [] expectation = Inl err_no_component"
| "inspect_components_from f current (c # cs) expectation =
    (let current = path_join current (component_str c) in
     case symlink_metadata f current of
       Inr n \<Rightarrow>
         if metadata_is_link_or_reparse n then Inl err_symlink
         else if cs \<noteq> [] \<and> \<not> is_dir_node n then Inl err_invalid_component
         else if cs = [] then Inr (True, Some n)
         else inspect_components_from f current cs expectation
     | Inl e \<Rightarrow>
         if e = NotFound \<and> expectation = NewFile \<and> cs = [] then Inr (False, None)
         else Inl err_component_missing)"

definition inspect_components ::
  "fs \<Rightarrow> path \<Rightarrow> path \<Rightarrow> path_expectation \<Rightarrow> (path_error, bool \<times> node option) res" where
  "inspect_components f root relative expectation =
    inspect_components_from f root (components relative) expectation"

definition sensitive_exact :: "string list" where
  "sensitive_exact =
    [''.git'', ''.npmrc'', ''.pypirc'', ''.netrc'', ''_netrc'', ''auth.json'', ''.ssh'', ''.gnupg'',
     ''.aws'', ''.azure'', ''.kube'', ''credentials'', ''credentials.json'', ''id_rsa'',
     ''id_rsa.pub'', ''id_dsa'', ''id_dsa.pub'', ''id_ecdsa'', ''id_ecdsa.pub'', ''id_ed25519'',
     ''id_ed25519.pub'']"

definition sensitive_suffixes :: "string list" where
  "sensitive_suffixes =
    [''.pem'', ''.key'', ''.p12'', ''.pfx'', ''.jks'', ''.keystore'', ''.kdbx'']"

definition sensitive_stems :: "string list" where
  "sensitive_stems = [''credential'', ''credentials'', ''secret'', ''secrets'', ''token'', ''tokens'']"

definition is_sensitive_name :: "string \<Rightarrow> bool" where
  "is_sensitive_name name =
    (if name = ''.env'' \<or> starts_with name ''.env.'' \<or> starts_with name ''.env-'' then True
     else if name \<in> set sensitive_exact then True
     else if list_ex (ends_with name) sensitive_suffixes then True
     else let stem = (case rsplit_once (CHR ''.'') name of None \<Rightarrow> name | Some (stem, _) \<Rightarrow> stem) in
       list_ex (\<lambda>p. stem = p \<or> starts_with stem (p @ ''-'') \<or> starts_with stem (p @ ''_''))
         sensitive_stems
       \<or> starts_with stem ''service-account'' \<or> starts_with stem ''service_account'')"

definition reject_sensitive_path :: "path \<Rightarrow> (path_error, unit) res" where
  "reject_sensitive_path relative =
    ensure (\<not> list_ex (\<lambda>c. is_sensitive_name (to_ascii_lowercase (component_str c))) (components relative))
      err_sensitive"

fun reject_nested_from :: "fs \<Rightarrow> path \<Rightarrow> component list \<Rightarrow> (path_error, unit) res" where
  "reject_nested_from f current [] = Inr ()"
| "reject_nested_from f current (c # cs) =
    (let current = path_join current (component_str c) in
     case symlink_metadata f (path_join current ''.git'') of
       Inr n \<Rightarrow>
         if is_dir_node n \<or> is_file_node n \<or> metadata_is_link_or_reparse n
         then Inl err_nested_repository else reject_nested_from f current cs
     | Inl _ \<Rightarrow> reject_nested_from f current cs)"

definition reject_nested_repository :: "fs \<Rightarrow> path \<Rightarrow> path \<Rightarrow> (path_error, unit) res" where
  "reject_nested_repository f root relative = reject_nested_from f root (components relative)"

text \<open>A modification time before 1970 counts as zero.\<close>

definition fingerprint ::
  "host \<Rightarrow> fs \<Rightarrow> node option \<Rightarrow> path \<Rightarrow> string option \<Rightarrow> (path_error, path_fingerprint) res" where
  "fingerprint h f meta p expected =
    (case meta of
       None \<Rightarrow> Inr \<lparr>pf_metadata_hash = h_blake3 h ''missing'', pf_content_hash = None,
                    pf_bytes = 0, pf_modified_unix_nanos = 0\<rparr>
     | Some n \<Rightarrow>
         let nanos = nat (m_mtime (node_meta n));
             metadata_value = dec_of_nat (node_len n) @ '':'' @ dec_of_nat nanos @ '':''
               @ dec_of_bool (is_file_node n) @ '':'' @ dec_of_nat (metadata_attributes n)
         in try_then
           (if is_file_node n \<and> (expected \<noteq> None \<or> node_len n \<le> MAX_POLICY_HASH_FILE_BYTES) then
              (if node_len n > MAX_POLICY_HASH_FILE_BYTES then Inl err_hash_limit
               else try_then (map_err (\<lambda>_. err_read_failed) (fs_read f p))
                 (\<lambda>bytes. let actual = h_blake3 h bytes in
                    if expected \<noteq> None \<and> expected \<noteq> Some actual then Inl err_hash_mismatch
                    else Inr (Some actual)))
            else Inr None)
           (\<lambda>content_hash.
              Inr \<lparr>pf_metadata_hash = h_blake3 h metadata_value, pf_content_hash = content_hash,
                   pf_bytes = node_len n, pf_modified_unix_nanos = nanos\<rparr>))"

definition check_expectation :: "path_expectation \<Rightarrow> node option \<Rightarrow> (path_error, unit) res" where
  "check_expectation expectation meta =
    (case meta of
       Some n \<Rightarrow>
         (case expectation of
            ExpectFile \<Rightarrow> if \<not> is_file_node n then Inl err_not_file else Inr ()
          | ExpectDirectory \<Rightarrow> if \<not> is_dir_node n then Inl err_not_directory else Inr ()
          | NewFile \<Rightarrow> Inl err_already_exists
          | ExistingEntry \<Rightarrow> Inr ())
     | None \<Rightarrow> if expectation \<noteq> NewFile then Inl err_target_missing else Inr ())"

definition inspect_path ::
  "host \<Rightarrow> fs \<Rightarrow> path_target \<Rightarrow> path_expectation \<Rightarrow> (path_error, path_report) res" where
  "inspect_path h f target expectation =
    try_then (map_err (\<lambda>_. err_root_unavailable) (symlink_metadata f (pt_root target)))
    (\<lambda>root_metadata.
      if \<not> is_dir_node root_metadata \<or> metadata_is_link_or_reparse root_metadata
      then Inl err_root_reparse else
    try_then (map_err (\<lambda>_. err_root_unresolved) (canonicalize f (pt_root target)))
    (\<lambda>root.
    try_then (relative_target root (pt_path target))
    (\<lambda>relative.
    try_then (reject_sensitive_path relative)
    (\<lambda>_.
    try_then (reject_nested_repository f root relative)
    (\<lambda>_.
    let candidate = path_join root relative in
    try_then (inspect_components f root relative expectation)
    (\<lambda>(found, meta).
    try_then
      (if found then
         try_then (map_err (\<lambda>_. err_resolve_failed) (canonicalize f candidate))
           (\<lambda>resolved. if path_starts_with resolved root then Inr resolved
                        else Inl err_resolves_outside)
       else Inr candidate)
    (\<lambda>resolved_target.
    try_then (check_expectation expectation meta)
    (\<lambda>_.
    try_then (fingerprint h f meta resolved_target (pt_expected_hash target))
    (\<lambda>fp.
      Inr \<lparr>ps_root = root, ps_target = resolved_target, ps_relative_path = relative,
           ps_exists = found, ps_fingerprint = fp\<rparr>)))))))))"

definition inspect_root :: "fs \<Rightarrow> path \<Rightarrow> (path_error, path) res" where
  "inspect_root f p =
    try_then (map_err (\<lambda>_. err_workspace_unavailable) (symlink_metadata f p))
    (\<lambda>meta.
      if \<not> is_dir_node meta \<or> metadata_is_link_or_reparse meta then Inl err_workspace_reparse else
    try_then (map_err (\<lambda>_. err_workspace_unresolved) (canonicalize f p))
    (\<lambda>canonical.
    try_then (map_err (\<lambda>_. err_canonical_unavailable) (symlink_metadata f canonical))
    (\<lambda>canonical_metadata.
      if \<not> is_dir_node canonical_metadata \<or> metadata_is_link_or_reparse canonical_metadata
      then Inl err_canonical_reparse
      else Inr canonical)))"

definition revalidate_path :: "host \<Rightarrow> fs \<Rightarrow> path_report \<Rightarrow> (path_error, path_report) res" where
  "revalidate_path h f report =
    inspect_path h f
      \<lparr>pt_root = ps_root report, pt_path = ps_relative_path report, pt_range = None,
       pt_expected_hash = pf_content_hash (ps_fingerprint report)\<rparr>
      (if ps_exists report then ExistingEntry else NewFile)"

section \<open>What a successful inspection guarantees\<close>

definition non_junk :: "string list \<Rightarrow> string list" where
  "non_junk ts = filter (\<lambda>t. \<not> junk t) ts"

lemma relative_target_Inr:
  assumes "relative_target root p = Inr rel"
  shows "rel \<noteq> []" "\<forall>c \<in> set (components rel). is_normal c"
  using assms by (auto simp: relative_target_def res_simps list_all_iff split: if_splits)

text \<open>The names a relative path of normal components spells.\<close>

lemma normal_names:
  assumes "rel \<noteq> []" "\<forall>c \<in> set (components rel). is_normal c"
  shows "\<not> is_absolute rel" "components rel = map Normal (non_junk (tokens rel))"
    "\<forall>n \<in> set (non_junk (tokens rel)). valid_name n" "\<forall>t \<in> set (tokens rel). junk t \<or> valid_name t"
proof -
  note n = components_all_normal [OF assms(2)]
  show "\<not> is_absolute rel"
    by (rule n(1))
  have not_dd: "t \<noteq> ''..''" if "t \<in> set (tokens rel)" "\<not> junk t" for t
    using that assms(2) n(2) by (fastforce simp: body_def component_of_def is_normal_def)
  show tok: "\<forall>t \<in> set (tokens rel). junk t \<or> valid_name t"
    using not_dd tokens_no_sep by (fastforce simp: valid_name_def)
  then show "\<forall>n \<in> set (non_junk (tokens rel)). valid_name n"
    by (auto simp: non_junk_def)
  show "components rel = map Normal (non_junk (tokens rel))"
    using n(2) not_dd by (auto simp: body_def non_junk_def component_of_def)
qed

lemma reject_sensitive_Inr:
  assumes "reject_sensitive_path rel = Inr u" "components rel = map Normal ns"
  shows "\<forall>n \<in> set ns. \<not> is_sensitive_name (to_ascii_lowercase n)"
  using assms by (auto simp: reject_sensitive_path_def res_simps list_ex_iff component_str_def)

lemma inspect_components_from_Inr:
  assumes "wf_fs f" "\<forall>n \<in> set l. valid_name n" "\<forall>n \<in> set ns. valid_name n" "is_dir_at f l"
    and "inspect_components_from f (abs_path l) (map Normal ns) e = Inr (found, meta)"
  shows "ns \<noteq> [] \<and> (\<forall>k < length ns. is_dir_at f (l @ take k ns))
    \<and> (found \<longrightarrow> (\<exists>n. meta = Some n \<and> fs_nodes f (l @ ns) = Some n \<and> \<not> is_link_node n))
    \<and> (\<not> found \<longrightarrow> meta = None \<and> e = NewFile \<and> symlink_metadata f (abs_path (l @ ns)) = Inl NotFound)"
  using assms
proof (induction ns arbitrary: l)
  case (Cons n ns)
  have join: "path_join (abs_path l) (component_str (Normal n)) = abs_path (l @ [n])"
    using Cons.prems by (simp add: component_str_def path_join_abs_path)
  note step = Cons.prems(5) [unfolded list.map inspect_components_from.simps join Let_def]
  have here: "is_dir_at f l"
    by (rule Cons.prems)
  show ?case
  proof (cases "symlink_metadata f (abs_path (l @ [n]))")
    case (Inl err)
    then show ?thesis
      using step here by (auto split: if_splits)
  next
    case (Inr x)
    then have x: "fs_nodes f (l @ [n]) = Some x"
      using Cons.prems symlink_metadata_spelled by auto
    show ?thesis
    proof (cases "ns = []")
      case True
      then show ?thesis
        using step Inr x here by (auto simp: metadata_is_link_or_reparse_def split: if_splits)
    next
      case False
      then have dir: "is_dir_at f (l @ [n])"
          and rec: "inspect_components_from f (abs_path (l @ [n])) (map Normal ns) e = Inr (found, meta)"
        using step Inr x by (auto simp: is_dir_at_def split: if_splits node.splits)
      have "\<forall>k < length (n # ns). is_dir_at f (l @ take k (n # ns))"
        if "\<forall>k < length ns. is_dir_at f ((l @ [n]) @ take k ns)"
        using that here by (auto simp: less_Suc_eq_0_disj)
      then show ?thesis
        using Cons.IH [of "l @ [n]"] Cons.prems dir rec by simp
    qed
  qed
qed simp

lemma reject_nested_from_Inr:
  assumes "\<forall>n \<in> set l. valid_name n" "\<forall>n \<in> set ns. valid_name n"
    and "reject_nested_from f (abs_path l) (map Normal ns) = Inr u"
  shows "\<forall>k < length ns. \<forall>x. symlink_metadata f (abs_path (l @ take (Suc k) ns @ [''.git''])) = Inr x
    \<longrightarrow> \<not> is_dir_node x \<and> \<not> is_file_node x \<and> \<not> is_link_node x"
  using assms
proof (induction ns arbitrary: l)
  case (Cons n ns)
  have git: "valid_name ''.git''"
    by (simp add: valid_name_def junk_def sep_def)
  have join: "path_join (abs_path l) (component_str (Normal n)) = abs_path (l @ [n])"
    "path_join (abs_path (l @ [n])) ''.git'' = abs_path (l @ [n, ''.git''])"
    using Cons.prems git path_join_abs_path [of "l @ [n]" "''.git''"]
    by (simp_all add: component_str_def path_join_abs_path)
  note step = Cons.prems(3) [unfolded list.map reject_nested_from.simps join Let_def]
  have rec: "reject_nested_from f (abs_path (l @ [n])) (map Normal ns) = Inr u"
    using step by (auto split: sum.splits if_splits)
  have here: "\<forall>x. symlink_metadata f (abs_path (l @ [n, ''.git''])) = Inr x
      \<longrightarrow> \<not> is_dir_node x \<and> \<not> is_file_node x \<and> \<not> is_link_node x"
    using step by (auto simp: metadata_is_link_or_reparse_def split: if_splits)
  show ?case
    using Cons.IH [of "l @ [n]"] Cons.prems rec here by (auto simp: less_Suc_eq_0_disj)
qed simp

text \<open>
  What the rest of the runtime may rely on for an accepted target: \<open>ns\<close> are the names below the
  canonical root \<open>l\<close>.
\<close>

definition safe_below :: "fs \<Rightarrow> path_report \<Rightarrow> location \<Rightarrow> string list \<Rightarrow> bool" where
  "safe_below f r l ns =
    (ps_root r = abs_path l \<and> is_dir_at f l
     \<and> ns \<noteq> [] \<and> (\<forall>n \<in> set (l @ ns). valid_name n)
     \<and> components (ps_relative_path r) = map Normal ns
     \<and> (\<forall>n \<in> set ns. \<not> is_sensitive_name (to_ascii_lowercase n))
     \<and> (\<forall>k < length ns. is_dir_at f (l @ take k ns))
     \<and> (\<forall>k < length ns. \<forall>x. symlink_metadata f (abs_path (l @ take (Suc k) ns @ [''.git''])) = Inr x
          \<longrightarrow> \<not> is_dir_node x \<and> \<not> is_file_node x \<and> \<not> is_link_node x)
     \<and> (if ps_exists r
        then ps_target r = abs_path (l @ ns)
          \<and> (\<exists>n. fs_nodes f (l @ ns) = Some n \<and> \<not> is_link_node n)
        else path_eq (ps_target r) (abs_path (l @ ns))
          \<and> symlink_metadata f (abs_path (l @ ns)) = Inl NotFound))"

text \<open>The target of an existing candidate resolves to the spelled location.\<close>

lemma canonical_candidate:
  assumes "wf_fs f" "\<forall>n \<in> set l. valid_name n" "is_dir_at f l" "rel \<noteq> []"
    and "\<forall>c \<in> set (components rel). is_normal c" and ns: "ns = non_junk (tokens rel)"
    and "\<forall>k < length ns. is_dir_at f (l @ take k ns)"
    and "fs_nodes f (l @ ns) = Some n" "\<not> is_link_node n"
    and "canonicalize f (path_join (abs_path l) rel) = Inr q"
  shows "q = abs_path (l @ ns)"
proof -
  note nn = normal_names [OF assms(4,5)]
  have abs: "is_absolute (path_join (abs_path l) rel)" "path_join (abs_path l) rel \<noteq> []"
    using nn(1) is_absolute_join [of rel "abs_path l"] by (auto simp: is_absolute_iff abs_path_def)
  obtain q' where q': "resolve f (path_join (abs_path l) rel) True = Inr q'" "q = abs_path q'"
    using assms(10) by (auto simp: canonicalize_def res_simps)
  then have walk: "walk max_links f [] ([] # l @ tokens rel) True = Inr q'"
    using abs tokens_path_join_abs_path [OF assms(2) nn(1)] by (simp add: resolve_def)
  have filt: "filter (\<lambda>t. \<not> junk t) ([] # l @ tokens rel) = l @ ns"
    using assms(2) ns by (auto simp: non_junk_def valid_name_def filter_id_conv)
  have nolink: "fs_nodes f (take (Suc k) (l @ ns)) \<noteq> Some (LinkNode m t)"
    if k: "k < length (l @ ns)" for k m t
  proof (cases "drop (Suc k) (l @ ns) = []")
    case True
    then have "take (Suc k) (l @ ns) = l @ ns"
      by simp
    then show ?thesis
      using assms(8,9) by (metis node_kind_simps(9) option.inject)
  next
    case False
    then have "is_dir_at f (take (Suc k) (l @ ns))"
      using wf_fs_ancestor [OF assms(1), of "take (Suc k) (l @ ns)" "drop (Suc k) (l @ ns)" n] assms(8)
      by (simp only: append_take_drop_id not_False_eq_True)
    then show ?thesis
      by (auto simp: is_dir_at_iff)
  qed
  have "q' = [] @ filter (\<lambda>t. \<not> junk t) ([] # l @ tokens rel)"
  proof (rule walk_spelled_junk [OF _ _ walk])
    show "\<forall>t \<in> set ([] # l @ tokens rel). junk t \<or> valid_name t"
      using assms(2) nn(4) by auto
  qed (simp only: filt nolink append_Nil, use nolink in blast)
  then show ?thesis
    using q' filt by simp
qed

lemma inspect_path_steps:
  assumes "inspect_path h f t e = Inr r"
  obtains rm root rel found meta target fp where
    "symlink_metadata f (pt_root t) = Inr rm" "is_dir_node rm"
    "canonicalize f (pt_root t) = Inr root"
    "relative_target root (pt_path t) = Inr rel"
    "reject_sensitive_path rel = Inr ()" "reject_nested_repository f root rel = Inr ()"
    "inspect_components f root rel e = Inr (found, meta)"
    "if found then canonicalize f (path_join root rel) = Inr target \<and> path_starts_with target root
     else target = path_join root rel"
    "check_expectation e meta = Inr ()"
    "fingerprint h f meta target (pt_expected_hash t) = Inr fp"
    "r = \<lparr>ps_root = root, ps_target = target, ps_relative_path = rel, ps_exists = found,
          ps_fingerprint = fp\<rparr>"
  using assms by (auto simp: inspect_path_def res_simps Let_def split: if_splits)

lemma inspect_path_safe:
  assumes "wf_fs f" "inspect_path h f t e = Inr r"
  obtains l ns where "safe_below f r l ns"
    "check_expectation e (if ps_exists r then fs_nodes f (l @ ns) else None) = Inr ()"
    "fingerprint h f (if ps_exists r then fs_nodes f (l @ ns) else None) (ps_target r)
       (pt_expected_hash t) = Inr (ps_fingerprint r)"
proof (rule inspect_path_steps [OF assms(2)])
  fix rm root rel found meta target fp
  assume rm: "symlink_metadata f (pt_root t) = Inr rm" "is_dir_node rm"
    "canonicalize f (pt_root t) = Inr root"
    and rel: "relative_target root (pt_path t) = Inr rel"
    and sens: "reject_sensitive_path rel = Inr ()"
    and nest: "reject_nested_repository f root rel = Inr ()"
    and comps: "inspect_components f root rel e = Inr (found, meta)"
    and tgt: "if found then canonicalize f (path_join root rel) = Inr target \<and> path_starts_with target root
     else target = path_join root rel"
    and exp: "check_expectation e meta = Inr ()"
    and fp: "fingerprint h f meta target (pt_expected_hash t) = Inr fp"
    and r: "r = \<lparr>ps_root = root, ps_target = target, ps_relative_path = rel, ps_exists = found,
          ps_fingerprint = fp\<rparr>"
  obtain l where l: "root = abs_path l" "\<forall>n \<in> set l. valid_name n" "is_dir_at f l"
    using canonicalize_dir [OF assms(1) rm(3,1,2)] by blast
  define ns where "ns = non_junk (tokens rel)"
  note rt = relative_target_Inr [OF rel]
  note nn = normal_names [OF rt, folded ns_def]
  have ic: "ns \<noteq> [] \<and> (\<forall>k < length ns. is_dir_at f (l @ take k ns))
    \<and> (found \<longrightarrow> (\<exists>n. meta = Some n \<and> fs_nodes f (l @ ns) = Some n \<and> \<not> is_link_node n))
    \<and> (\<not> found \<longrightarrow> meta = None \<and> e = NewFile \<and> symlink_metadata f (abs_path (l @ ns)) = Inl NotFound)"
    using inspect_components_from_Inr [OF assms(1) l(2) nn(3) l(3)] comps l(1) nn(2)
    by (simp add: inspect_components_def)
  have nested: "\<forall>k < length ns. \<forall>x. symlink_metadata f (abs_path (l @ take (Suc k) ns @ [''.git''])) = Inr x
    \<longrightarrow> \<not> is_dir_node x \<and> \<not> is_file_node x \<and> \<not> is_link_node x"
    using reject_nested_from_Inr [OF l(2) nn(3)] nest l(1) nn(2)
    by (simp add: reject_nested_repository_def)
  have "found \<longrightarrow> target = abs_path (l @ ns)"
    using canonical_candidate [OF assms(1) l(2,3) rt ns_def] ic tgt l(1) by auto
  moreover have v: "\<forall>n \<in> set (l @ ns). valid_name n"
    using l nn by auto
  then have "path_eq (path_join root rel) (abs_path (l @ ns))"
    using components_join_abs [of root rel] l nn(1,2) components_all_normal(2) [OF rt(2)]
    by (simp add: path_eq_def components_abs_path [OF v] components_abs_path [OF l(2)])
  ultimately have "safe_below f r l ns"
    using l nn(2,3) ic nested tgt r reject_sensitive_Inr [OF sens nn(2)]
    by (auto simp: safe_below_def)
  moreover have "meta = (if ps_exists r then fs_nodes f (l @ ns) else None)"
    using ic r by auto
  ultimately show thesis
    using that exp fp r by simp
qed

text \<open>Reading back the resolved target gives the contents of the node that was inspected.\<close>

lemma fs_read_spelled:
  assumes "wf_fs f" "fs_read f (abs_path loc) = Inr bytes" "loc \<noteq> []"
    and "\<forall>x \<in> set loc. valid_name x" "fs_nodes f loc = Some n" "\<not> is_link_node n"
  shows "\<exists>m. n = FileNode m bytes"
proof -
  obtain l x where loc: "loc = l @ [x]"
    using assms(3) by (cases loc rule: rev_cases) auto
  have dir: "is_dir_at f l"
    using wf_fs_parent assms(1,5) loc by blast
  obtain q y where q: "resolve f (abs_path loc) True = Inr q" "lookup f q = Inr y"
      and y: "(case y of FileNode _ c \<Rightarrow> Inr c | DirNode _ \<Rightarrow> Inl IsADirectory | _ \<Rightarrow> Inl OtherIo) = Inr bytes"
    using assms(2) by (auto simp: fs_read_def metadata_def res_simps)
  have "q = loc"
    using resolve_spelled [OF assms(1) q(1) [unfolded loc] _ _ dir] assms loc by (cases n) auto
  then show ?thesis
    using q y assms(5) by (auto simp: lookup_Inr split: node.splits)
qed

lemma fingerprint_Inr:
  assumes "fingerprint h f (Some n) p expected = Inr fp"
  shows "pf_bytes fp = node_len n"
    "pf_content_hash fp =
      (if is_file_node n \<and> node_len n \<le> MAX_POLICY_HASH_FILE_BYTES
       then map_option (h_blake3 h) (ok_of (fs_read f p)) else None)"
    "is_file_node n \<Longrightarrow> node_len n \<le> MAX_POLICY_HASH_FILE_BYTES \<Longrightarrow> \<exists>bytes. fs_read f p = Inr bytes"
    "is_file_node n \<Longrightarrow> expected \<noteq> None \<Longrightarrow> pf_content_hash fp = expected"
  using assms
  by (auto simp: fingerprint_def Let_def res_simps split: if_splits)

text \<open>An accepted existing regular file of bounded size is bound to the hash of its contents.\<close>

lemma inspect_path_content:
  assumes "wf_fs f" "inspect_path h f t e = Inr r" "safe_below f r l ns"
    and "fs_nodes f (l @ ns) = Some (FileNode m c)" "ps_exists r" "length c \<le> MAX_POLICY_HASH_FILE_BYTES"
  shows "pf_content_hash (ps_fingerprint r) = Some (h_blake3 h c)"
proof -
  obtain l' ns' where s: "safe_below f r l' ns'"
      "fingerprint h f (if ps_exists r then fs_nodes f (l' @ ns') else None) (ps_target r)
       (pt_expected_hash t) = Inr (ps_fingerprint r)"
    using inspect_path_safe [OF assms(1,2)] by blast
  have valid: "\<forall>n \<in> set (l @ ns). valid_name n" "\<forall>n \<in> set (l' @ ns'). valid_name n"
    "ps_target r = abs_path (l @ ns)" "ps_target r = abs_path (l' @ ns')" "l @ ns \<noteq> []"
    using assms(3,5) s(1) by (auto simp: safe_below_def)
  then have same: "l' @ ns' = l @ ns"
    using abs_path_inj by metis
  then have fp: "fingerprint h f (Some (FileNode m c)) (ps_target r) (pt_expected_hash t)
      = Inr (ps_fingerprint r)"
    using s(2) assms(4,5) by simp
  have len: "node_len (FileNode m c) = length c"
    by (simp add: node_len_def)
  obtain bytes where bytes: "fs_read f (ps_target r) = Inr bytes"
    using fingerprint_Inr(3) [OF fp] assms(6) len by auto
  then have "\<exists>m'. FileNode m c = FileNode m' bytes"
    using fs_read_spelled [OF assms(1) _ valid(5,1) assms(4)] valid(3) by simp
  then show ?thesis
    using fingerprint_Inr(2) [OF fp] bytes assms(6) len by simp
qed

end
