(* ===== verification/PolicyRules.thy ===== *)
theory PolicyRules
  imports PolicyModel
begin

text \<open>
  The outcomes of the policy rules and the checks on hashes, identifiers, path lists, environment
  names and build arguments (\<open>opticcode-policy/src/engine.rs\<close>, the helpers below
  \<open>evaluate_process\<close>).  Every outcome the engine can return is one named constant, so that the rules
  read like the code and the proofs never unfold the explanatory texts.
\<close>

named_theorems out_kinds "which outcomes allow, need an approval, or deny"

section \<open>Outcomes\<close>

type_synonym rule_outcome = "policy_decision \<times> string \<times> string \<times> string \<times> bool"

definition allowed :: "string \<Rightarrow> string \<Rightarrow> string list \<Rightarrow> string \<Rightarrow> string \<Rightarrow> rule_outcome" where
  "allowed rule scope conditions user_reason technical_reason =
    (Allow rule Low scope conditions, user_reason, technical_reason,
     ''Proceed through the structured executor and revalidate before and after.'', False)"

definition approval_required :: "string \<Rightarrow> risk_level \<Rightarrow> string \<Rightarrow> string \<Rightarrow> string \<Rightarrow> rule_outcome" where
  "approval_required rule risk user_reason technical_reason recommended =
    (RequireApproval rule user_reason risk technical_reason, user_reason, technical_reason,
     recommended, True)"

definition denied ::
  "string \<Rightarrow> risk_level \<Rightarrow> string \<Rightarrow> string \<Rightarrow> string \<Rightarrow> bool \<Rightarrow> rule_outcome" where
  "denied rule risk user_reason technical_reason recommended retriable =
    (Deny rule user_reason risk, user_reason, technical_reason, recommended, retriable)"

definition out_read_only_write_denied :: rule_outcome where
  "out_read_only_write_denied = denied ''mode.read_only_write_denied'' High
    ''The current read_only mode cannot write or mutate state.''
    ''No approval can widen read_only mode implicitly.''
    ''Start an explicit worktree proposal or approved apply flow.''
    True"

definition out_outside_scope_denied :: rule_outcome where
  "out_outside_scope_denied = denied ''path.outside_authorized_root'' Critical
    ''The action target is outside its authorized root.''
    ''The target is neither the canonical workspace nor its active leased worktree.''
    ''Use a path inside the current workspace or active proposal worktree.''
    False"

definition out_unknown :: rule_outcome where
  "out_unknown = denied ''action.unknown'' Critical
    ''Unknown actions are never authorized.''
    ''The closed policy action enum did not recognize this action.''
    ''Upgrade the client or use a supported structured action.''
    False"

definition out_modify_policy :: rule_outcome where
  "out_modify_policy = denied ''policy.modification_denied'' Critical
    ''The model cannot modify its authorization policy.''
    ''Policy changes are outside all runtime action scopes.''
    ''Change policy source manually and review it as code.''
    False"

definition out_elevate :: rule_outcome where
  "out_elevate = denied ''process.elevation_denied'' Critical
    ''Privilege elevation is not available.''
    ''Elevated execution is excluded from OpticCode runtime capabilities.''
    ''Run any administrative maintenance manually outside OpticCode.''
    False"

definition out_read_file :: rule_outcome where
  "out_read_file = allowed ''read.safe_workspace_file'' ''workspace_source''
    [''regular path'', ''inside workspace'', ''secret path denied'', ''TOCTOU revalidation'']
    ''Safe workspace source may be read.''
    ''The file passed canonicalization, root, reparse, nested-repository, and sensitive-path checks.''"

definition out_read_directory :: rule_outcome where
  "out_read_directory = allowed ''read.safe_workspace_directory'' ''workspace_directory''
    [''regular path'', ''inside workspace'', ''bounded traversal required'']
    ''The safe workspace directory may be inspected.''
    ''Directory traversal remains bounded and cannot cross links or repository boundaries.''"

definition out_search :: rule_outcome where
  "out_search = allowed ''analysis.search_read_only'' ''workspace_search''
    [''bounded query'', ''safe source types'', ''no writes'']
    ''Read-only workspace search is allowed.''
    ''Search is constrained to the canonical workspace and safe paths.''"

definition out_context :: rule_outcome where
  "out_context = allowed ''analysis.context_read_only'' ''workspace_context''
    [''bounded context'', ''safe source reads'', ''no writes'']
    ''Java and project context may be built.''
    ''Context construction is a read-only action over validated roots.''"

definition out_rag_outside :: rule_outcome where
  "out_rag_outside = denied ''rag.index_outside_workspace'' High
    ''The RAG index is outside the authorized workspace.''
    ''This policy version only trusts a workspace-owned validated index.''
    ''Use the configured OpticCode RAG v2 index inside the workspace.''
    False"

definition out_rag :: rule_outcome where
  "out_rag = allowed ''rag.safe_index_read'' ''rag_v2''
    [''validated index'', ''bounded hits'', ''secret exclusions'']
    ''The validated local RAG index may be queried.''
    ''RAG access is local and read-only; source policy still applies.''"

definition out_delete_recursive :: rule_outcome where
  "out_delete_recursive = denied ''delete.recursive_denied'' Critical
    ''Recursive deletion is not available.''
    ''The action requested a recursive filesystem delete.''
    ''Review and delete individual files manually if still necessary.''
    False"

definition out_delete_original :: rule_outcome where
  "out_delete_original = denied ''delete.original_requires_apply'' Critical
    ''Direct deletion from the original workspace is blocked.''
    ''Original deletions must be represented by a verified transactional patch.''
    ''Create and verify the deletion in a disposable worktree first.''
    False"

definition out_delete_worktree :: rule_outcome where
  "out_delete_worktree = approval_required ''delete.worktree_file_requires_approval'' High
    ''Deleting a proposal file requires explicit confirmation.''
    ''The deletion is confined to the disposable worktree but remains destructive.''
    ''Review the exact worktree file and approve the one-shot action.''"

definition out_worktree_detached :: rule_outcome where
  "out_worktree_detached = denied ''worktree.detached_required'' High
    ''OpticCode worktrees must use detached HEAD.''
    ''Creating or moving a user branch is outside the disposable-worktree scope.''
    ''Create the worktree at the exact base commit with detached HEAD.''
    False"

definition out_worktree_boundary :: rule_outcome where
  "out_worktree_boundary = denied ''worktree.git_boundary_required'' High
    ''Creating a worktree requires an observed Git boundary.''
    ''The source HEAD and repository layout were not supplied by the trusted Git adapter.''
    ''Refresh repository state before creating the disposable worktree.''
    True"

definition out_worktree_head :: rule_outcome where
  "out_worktree_head = denied ''worktree.head_mismatch'' High
    ''The source HEAD changed before worktree creation.''
    ''The requested base commit differs from the observed repository boundary.''
    ''Refresh and recreate the proposal from the current HEAD.''
    True"

definition out_worktree_dirty :: rule_outcome where
  "out_worktree_dirty = denied ''worktree.source_dirty'' High
    ''The source repository must be clean before worktree creation.''
    ''A missing or false cleanliness observation fails closed.''
    ''Commit, stash, or otherwise resolve source changes, then refresh Git state.''
    True"

definition out_create_worktree :: rule_outcome where
  "out_create_worktree = allowed ''worktree.create_disposable'' ''opticcode_temp_worktree''
    [''detached HEAD'', ''controlled temporary root'', ''exact base commit'', ''recoverable lease'']
    ''A disposable OpticCode worktree may be created.''
    ''The destination is a direct child of controlled temporary storage.''"

definition out_git_read_unknown :: rule_outcome where
  "out_git_read_unknown = denied ''git.read_operation_unknown'' High
    ''Unknown Git operations are blocked.''
    ''The Git read operation is outside the closed allowlist.''
    ''Use status, diff, log, show, rev-parse, or list-files.''
    False"

definition out_git_read :: rule_outcome where
  "out_git_read = allowed ''git.read_allowlist'' ''repository_read''
    [''read-only Git operation'', ''no ref mutation'', ''no network'']
    ''The requested Git inspection is allowed.''
    ''The operation is in the closed read-only Git allowlist.''"

definition out_git_write_unknown :: rule_outcome where
  "out_git_write_unknown = denied ''git.write_operation_unknown'' Critical
    ''Unknown Git writes are blocked.''
    ''The requested Git mutation is not represented by a safe dedicated action.''
    ''Use a dedicated worktree or transaction operation.''
    False"

definition out_git_write :: rule_outcome where
  "out_git_write = denied ''git.generic_write_denied'' High
    ''Generic Git writes are not available.''
    ''Worktree and apply mutations must use their dedicated structured actions.''
    ''Use CreateWorktree, CleanupWorktree, ApplyPatch, or GitCommit.''
    False"

definition out_git_commit :: rule_outcome where
  "out_git_commit = approval_required ''git.local_commit_requires_approval'' High
    ''Creating a local commit requires explicit confirmation.''
    ''A commit changes repository refs even without network access.''
    ''Review the staged tree and approve the exact one-shot commit.''"

definition out_git_push :: rule_outcome where
  "out_git_push = denied ''git.push_denied'' Critical
    ''Git push is never performed by this policy version.''
    ''Remote ref mutation is outside OpticCode local-agent capabilities.''
    ''Push manually after reviewing local changes and commits.''
    False"

definition out_network :: rule_outcome where
  "out_network = denied ''network.standalone_denied'' Critical
    ''Standalone network access is unavailable.''
    ''Network access must be tied to an explicitly approved bounded operation.''
    ''Use local data, or approve a supported Maven/Gradle verification action.''
    False"

definition out_package_install :: rule_outcome where
  "out_package_install = denied ''package.install_denied'' Critical
    ''Automatic package installation is disabled.''
    ''Package installation changes the machine outside the project transaction boundary.''
    ''Install reviewed dependencies manually.''
    False"

definition out_publish :: rule_outcome where
  "out_publish = denied ''publish.denied'' Critical
    ''Publishing and releases are disabled.''
    ''The action would expose or distribute an artifact outside the local workspace.''
    ''Publish manually after reviewing the verified artifact.''
    False"

definition out_recover :: rule_outcome where
  "out_recover = approval_required ''transaction.recovery_requires_approval'' High
    ''Targeted recovery requires explicit confirmation.''
    ''Recovery may mutate files or remove abandoned controlled resources.''
    ''Inspect the transaction, then approve this exact one-shot recovery.''"

definition out_rollback :: rule_outcome where
  "out_rollback = approval_required ''transaction.rollback_requires_approval'' High
    ''Rolling back an applied transaction requires explicit confirmation.''
    ''Rollback rewrites the exact files recorded by a previous transaction.''
    ''Inspect transaction state and approve this exact one-shot rollback.''"

definition out_write_original :: rule_outcome where
  "out_write_original = denied ''write.original_requires_apply'' Critical
    ''Direct writes to the original workspace are blocked.''
    ''Original changes must use a verified ApplyPatch action and one-shot approval.''
    ''Create and verify a proposal in an active OpticCode worktree first.''
    False"

definition out_write_create :: rule_outcome where
  "out_write_create = allowed ''write.active_worktree_create'' ''active_opticcode_worktree''
    [''validated lease'', ''controlled temporary root'', ''new path validated by the proposal contract'', ''transactional write'']
    ''The new file may be created inside the active disposable worktree.''
    ''The original workspace remains untouched until a separate approved apply.''"

definition out_write_worktree :: rule_outcome where
  "out_write_worktree = allowed ''write.active_worktree'' ''active_opticcode_worktree''
    [''validated lease'', ''controlled temporary root'', ''expected file hash'', ''transactional write'']
    ''The existing file may be changed inside the active disposable worktree.''
    ''The original workspace is outside the target root and remains untouched.''"

definition out_path_limit :: rule_outcome where
  "out_path_limit = denied ''action.path_limit'' High
    ''The patch contains too many paths.''
    ''The structured patch exceeded the policy path bound.''
    ''Split the proposal into smaller reviewed transactions.''
    True"

definition out_apply_mode :: rule_outcome where
  "out_apply_mode = denied ''apply.mode_required'' Critical
    ''Applying to the original workspace requires approved_apply mode.''
    ''The request did not enter the narrow state-bound apply mode.''
    ''Verify the proposal, obtain native confirmation, then retry once.''
    True"

definition out_apply_boundary :: rule_outcome where
  "out_apply_boundary = denied ''apply.git_boundary_required'' Critical
    ''Applying to the original workspace requires a complete Git boundary.''
    ''The runtime cannot bind approval to an observed repository HEAD without Git metadata.''
    ''Rebuild the verified proposal state from the repository adapter.''
    True"

definition out_apply_head :: rule_outcome where
  "out_apply_head = denied ''apply.head_mismatch'' Critical
    ''Repository HEAD no longer matches the verified proposal.''
    ''The apply action base commit differs from the currently observed Git boundary.''
    ''Re-verify the proposal against the current HEAD.''
    True"

definition out_apply_dirty :: rule_outcome where
  "out_apply_dirty = denied ''apply.repository_dirty'' Critical
    ''Applying to a dirty or unobserved repository is blocked.''
    ''approved_apply requires an explicit clean observation from Git State Guard.''
    ''Refresh Git state and resolve all pre-existing changes before approval.''
    True"

definition out_apply_original :: rule_outcome where
  "out_apply_original = approval_required ''apply.original_requires_approval'' High
    ''Applying verified changes to the original workspace requires confirmation.''
    ''The approval binds request, workspace, mode, HEAD, working tree, diff, files, actions, and transaction.''
    ''Review the verified diff in the IDE and confirm the native modal.''"

definition out_apply_worktree :: rule_outcome where
  "out_apply_worktree = allowed ''apply.active_worktree'' ''active_opticcode_worktree''
    [''validated lease'', ''transactional patch'', ''bounded file set'', ''created paths validated by the proposal contract'', ''post-apply verification'']
    ''The patch may be applied transactionally inside the disposable worktree.''
    ''The original workspace is outside the target transaction.''"

definition out_timeout :: rule_outcome where
  "out_timeout = denied ''process.timeout_invalid'' High
    ''The process timeout is outside policy bounds.''
    ''A bounded timeout is mandatory for every child process.''
    ''Use a timeout between 1 ms and one hour.''
    True"

definition out_output_limit :: rule_outcome where
  "out_output_limit = denied ''process.output_limit_invalid'' High
    ''The process output bound is invalid.''
    ''Bounded stdout and stderr capture is mandatory.''
    ''Use an output limit up to 16 MiB per stream.''
    True"

definition out_arguments :: rule_outcome where
  "out_arguments = denied ''process.arguments_too_large'' High
    ''The process argument list exceeds policy bounds.''
    ''Arguments must remain separately represented and bounded.''
    ''Reduce the argument list.''
    True"

definition out_metacharacter :: rule_outcome where
  "out_metacharacter = denied ''process.metacharacter_denied'' Critical
    ''Shell composition and control characters are blocked.''
    ''At least one argument contains a shell operator, newline, NUL, or command substitution.''
    ''Pass plain, separate build-tool arguments only.''
    False"

definition out_network_undeclared :: rule_outcome where
  "out_network_undeclared = denied ''network.undeclared'' Critical
    ''Undeclared network access is blocked.''
    ''Every process must declare whether it may contact the network.''
    ''Declare denied, declared, or required network intent.''
    True"

definition out_shell :: rule_outcome where
  "out_shell = denied ''process.shell_denied'' Critical
    ''Arbitrary shell execution is blocked.''
    ''PowerShell, cmd, bash, and composed shell launch are outside the process allowlist.''
    ''Use a supported build executable with separate arguments.''
    False"

definition out_java_runtime :: rule_outcome where
  "out_java_runtime = denied ''process.java_runtime_denied'' Critical
    ''Direct Java execution is not enabled by this policy version.''
    ''A generic Java or javac command can load arbitrary classes or annotation processors.''
    ''Use an allowlisted Maven or Gradle verification task in the disposable worktree.''
    False"

definition out_executable_unknown :: rule_outcome where
  "out_executable_unknown = denied ''process.executable_unknown'' Critical
    ''The executable is not in the build allowlist.''
    ''Only Maven and Gradle verification executables are supported.''
    ''Use the project Maven or Gradle wrapper with bounded arguments.''
    False"

definition out_wrapper_drift :: rule_outcome where
  "out_wrapper_drift = denied ''process.wrapper_drift'' Critical
    ''A modified project build wrapper cannot be executed.''
    ''The wrapper content in the disposable worktree differs from the observed source wrapper.''
    ''Restore the wrapper and keep proposal edits outside build launchers.''
    False"

definition out_wrapper_launch :: rule_outcome where
  "out_wrapper_launch = denied ''process.wrapper_launch_invalid'' High
    ''The project build wrapper launch mode is invalid.''
    ''Windows command scripts use the dedicated launcher; executable wrappers launch directly.''
    ''Use the launch mode associated with the validated wrapper type.''
    True"

definition out_executable_untrusted :: rule_outcome where
  "out_executable_untrusted = denied ''process.executable_untrusted'' Critical
    ''The installed build executable is not from a trusted absolute location.''
    ''Bare PATH lookup and executables outside system installation roots can be shadowed.''
    ''Use the validated project wrapper or an absolute Maven/Gradle installation path.''
    False"

definition out_installed_launch :: rule_outcome where
  "out_installed_launch = denied ''process.installed_launch_invalid'' High
    ''The installed build executable launch mode is invalid.''
    ''Native executables use direct launch; validated Windows scripts use the dedicated script launcher.''
    ''Use the launch mode associated with the validated executable type.''
    True"

definition out_install_goal :: rule_outcome where
  "out_install_goal = denied ''process.package_install_denied'' Critical
    ''Install and dependency-management goals are blocked.''
    ''The build invocation requests a machine or dependency state mutation.''
    ''Use compile, test, verify, package, or check goals.''
    False"

definition out_option :: rule_outcome where
  "out_option = denied ''process.option_denied'' Critical
    ''The build command contains an option outside the verification allowlist.''
    ''Project, settings, init-script, extension, response-file, or tool-home overrides can escape the reviewed build boundary.''
    ''Use the project defaults and ordinary verification flags only.''
    False"

definition out_goal_unknown :: rule_outcome where
  "out_goal_unknown = denied ''process.goal_unknown'' High
    ''The build goal is not in the verification allowlist.''
    ''Only compile, test, verify, package, and check-style tasks are supported.''
    ''Select an allowlisted verification goal.''
    True"

definition out_build_offline :: rule_outcome where
  "out_build_offline = allowed ''process.build_offline'' ''active_worktree_build''
    [''Maven or Gradle allowlist'', ''offline'', ''bounded timeout'', ''bounded output'', ''active worktree cwd'']
    ''The offline build or test may run in the disposable worktree.''
    ''Executable, arguments, cwd, timeout, output, and network intent passed policy.''"

definition out_offline_required :: rule_outcome where
  "out_offline_required = denied ''process.offline_required'' High
    ''A network-denied build must explicitly use offline mode.''
    ''The process requested network denial without Maven or Gradle's offline flag.''
    ''Add --offline (or -o) or declare the exact network requirement for approval.''
    True"

definition out_build_network :: rule_outcome where
  "out_build_network = approval_required ''process.build_network_requires_approval'' Medium
    ''This Maven or Gradle verification may access the network.''
    ''The invocation is bounded but is not provably offline.''
    ''Confirm the exact build command and declared network access.''"

definition out_cleanup_active :: rule_outcome where
  "out_cleanup_active = allowed ''worktree.cleanup_active'' ''active_opticcode_worktree''
    [''validated lease'', ''targeted removal'', ''registration recheck'']
    ''The active disposable worktree may be cleaned up.''
    ''Cleanup is restricted to the exact leased worktree and never uses global prune.''"

definition out_cleanup_recovery :: rule_outcome where
  "out_cleanup_recovery = approval_required ''worktree.recovery_requires_approval'' High
    ''Recovering an abandoned worktree requires confirmation.''
    ''The target is not the current active worktree for this request.''
    ''Inspect the lease and approve targeted recovery.''"

definition out_environment_limit :: rule_outcome where
  "out_environment_limit = denied ''process.environment_limit'' High
    ''The process environment allowlist is too large.''
    ''Only a bounded set of inherited environment names may reach a child process.''
    ''Reduce the environment allowlist.''
    True"

definition out_environment_order :: rule_outcome where
  "out_environment_order = denied ''process.environment_order'' High
    ''The process environment allowlist must be unique and sorted.''
    ''Deterministic ordering prevents ambiguous or duplicated inherited variables.''
    ''Sort and deduplicate the environment names.''
    True"

definition out_environment_denied :: rule_outcome where
  "out_environment_denied = denied ''process.environment_denied'' Critical
    ''The process requested an environment variable outside the allowlist.''
    ''Secrets, shell configuration, JVM option injection, and arbitrary variables are not inherited.''
    ''Use only the documented non-secret build environment names.''
    False"


section \<open>Checks on values\<close>

definition validate_sorted_paths :: "path list \<Rightarrow> (path_error, unit) res" where
  "validate_sorted_paths paths =
    try_then
      (try_each (\<lambda>p. if is_absolute p \<or> \<not> list_all is_normal (components p)
                     then Inl (PathErr ''path.invalid_relative''
                            ''file lists must contain normal relative paths'')
                     else Inr (replace_char (CHR 0x5C) (CHR ''/'') p)) paths)
      (\<lambda>normalized.
        ensure (windows_increasing normalized)
          (PathErr ''action.path_order''
             ''file lists must be unique and sorted deterministically''))"

definition validate_hash_value :: "string \<Rightarrow> string \<Rightarrow> (path_error, unit) res" where
  "validate_hash_value val label =
    ensure (length val = 64 \<and> list_all is_ascii_hexdigit val)
      (PathErr ''action.hash_invalid'' (label @ '' is not a 64-character hexadecimal digest''))"

definition validate_git_oid :: "string \<Rightarrow> string \<Rightarrow> (path_error, unit) res" where
  "validate_git_oid val label =
    ensure ((length val = 40 \<or> length val = 64) \<and> list_all is_ascii_hexdigit val)
      (PathErr ''git.oid_invalid'' (label @ '' is not a full hexadecimal Git object ID''))"

definition has_line_control :: "string \<Rightarrow> bool" where
  "has_line_control s = list_ex (\<lambda>c. c = CHR 0x0D \<or> c = CHR 0x0A \<or> c = CHR 0x00) s"

definition validate_identifier_value :: "string \<Rightarrow> string \<Rightarrow> (path_error, unit) res" where
  "validate_identifier_value val label =
    ensure (\<not> (val = [] \<or> length val > MAX_POLICY_IDENTIFIER_BYTES \<or> has_line_control val))
      (PathErr ''action.identifier_invalid''
        (label @ '' is empty, too long, or contains control characters''))"

definition is_run_id_byte :: "char \<Rightarrow> bool" where
  "is_run_id_byte c = (is_ascii_alphanumeric c \<or> c = CHR ''-'' \<or> c = CHR ''_'')"

definition err_run_id :: path_error where
  "err_run_id = PathErr ''worktree.run_id''
    (''worktree run ID must contain only ASCII letters, digits, '' @
     [CHR 0x27, CHR ''-'', CHR 0x27] @ '' or '' @ [CHR 0x27, CHR ''_'', CHR 0x27])"

definition validate_worktree_run_id :: "string \<Rightarrow> (path_error, unit) res" where
  "validate_worktree_run_id val =
    ensure (1 \<le> length val \<and> length val \<le> 96 \<and> list_all is_run_id_byte val) err_run_id"

definition validate_request_identifier :: "string \<Rightarrow> nat \<Rightarrow> string \<Rightarrow> (policy_error, unit) res" where
  "validate_request_identifier val max_len label =
    ensure (val \<noteq> [] \<and> length val \<le> max_len
        \<and> list_all (\<lambda>c. is_run_id_byte c \<or> c = CHR ''.'' \<or> c = CHR '':'') val)
      (InvalidRequest (label @ '' contains unsupported characters or exceeds its bound''))"

section \<open>Process arguments\<close>

definition environment_allowed :: "string list" where
  "environment_allowed = [''CI'', ''GRADLE_USER_HOME'', ''JAVA_HOME'', ''MAVEN_USER_HOME'', ''NO_COLOR'']"

definition environment_name_ok :: "string \<Rightarrow> bool" where
  "environment_name_ok name =
    (\<not> (name = [] \<or> length name > 64
        \<or> \<not> list_all (\<lambda>c. is_ascii_upper c \<or> is_ascii_digit c \<or> c = CHR ''_'') name
        \<or> name \<notin> set environment_allowed))"

definition validate_environment_allowlist :: "string list \<Rightarrow> rule_outcome option" where
  "validate_environment_allowlist environment =
    (if length environment > MAX_POLICY_ENVIRONMENT_KEYS then Some out_environment_limit
     else if \<not> windows_increasing environment then Some out_environment_order
     else if list_ex (\<lambda>name. \<not> environment_name_ok name) environment
     then Some out_environment_denied
     else None)"

definition shell_operators :: "string list" where
  "shell_operators = [''&'', ''&&'', ''|'', ''||'', '';'', ''>'', ''>>'', ''<'', ''2>'']"

definition unsafe_argument :: "string \<Rightarrow> process_launch \<Rightarrow> bool" where
  "unsafe_argument argument launch =
    (if argument = [] \<or> has_line_control argument \<or> CHR 0x60 \<in> set argument
        \<or> str_contains argument ''$('' then True
     else if str_trim argument \<in> set shell_operators
        \<or> list_ex (\<lambda>part. part \<in> set shell_operators) (split_whitespace argument) then True
     else launch = WindowsCommandScript
        \<and> list_ex (\<lambda>c. c \<in> set ''&|<>^%!'') argument)"

definition is_shell_executable :: "string \<Rightarrow> bool" where
  "is_shell_executable name =
    (name \<in> set [''cmd'', ''cmd.exe'', ''powershell'', ''powershell.exe'', ''pwsh'', ''pwsh.exe'',
                ''bash'', ''bash.exe'', ''sh'', ''sh.exe'', ''wsl'', ''wsl.exe''])"

datatype build_tool = Maven | Gradle

definition package_install_goal :: "build_tool \<Rightarrow> string list \<Rightarrow> bool" where
  "package_install_goal tool arguments =
    list_ex (\<lambda>argument. let lower = to_ascii_lowercase argument in
      (tool = Maven \<and> (lower = ''install'' \<or> lower = ''deploy''
          \<or> str_contains lower ''dependency:get'' \<or> str_contains lower ''wrapper:''))
      \<or> (tool = Gradle \<and> (lower = ''wrapper'' \<or> str_contains lower ''publish''
          \<or> str_contains lower ''dependencyupdates''))) arguments"

definition maven_options :: "string list" where
  "maven_options = [''-f'', ''--file'', ''-s'', ''--settings'', ''-gs'', ''--global-settings'', ''-t'',
     ''--toolchains'']"

definition maven_option_prefixes :: "string list" where
  "maven_option_prefixes = [''-dmaven.ext.class.path='', ''-dmaven.home='',
     ''-dmaven.multimoduleprojectdirectory='']"

definition gradle_options :: "string list" where
  "gradle_options = [''-b'', ''--build-file'', ''-c'', ''--settings-file'', ''-p'', ''--project-dir'',
     ''-g'', ''--gradle-user-home'', ''--init-script'', ''--include-build'']"

definition gradle_option_prefixes :: "string list" where
  "gradle_option_prefixes = [''--build-file='', ''--settings-file='', ''--project-dir='',
     ''--gradle-user-home='', ''--init-script='', ''--include-build='']"

definition dangerous_build_option :: "build_tool \<Rightarrow> string list \<Rightarrow> bool" where
  "dangerous_build_option tool arguments =
    list_ex (\<lambda>argument. let lower = to_ascii_lowercase argument in
      if starts_with lower ''@'' then True
      else if tool = Maven
      then lower \<in> set maven_options \<or> list_ex (starts_with lower) maven_option_prefixes
      else argument = ''-I'' \<or> lower \<in> set gradle_options
        \<or> list_ex (starts_with lower) gradle_option_prefixes) arguments"

text \<open>The code collects the goals into a set; both tests below ignore order and repetition.\<close>

definition build_goals :: "string list \<Rightarrow> string list" where
  "build_goals arguments = map to_ascii_lowercase (filter (\<lambda>a. \<not> starts_with a ''-'') arguments)"

definition maven_goals :: "string list" where
  "maven_goals = [''clean'', ''compile'', ''test'', ''verify'', ''package'', ''checkstyle:check'']"

definition gradle_goals :: "string list" where
  "gradle_goals = [''clean'', ''compilejava'', ''test'', ''check'', ''build'', ''assemble'']"

definition allowed_build_goals :: "build_tool \<Rightarrow> string list \<Rightarrow> bool" where
  "allowed_build_goals tool arguments =
    (let goals = build_goals arguments in
     goals \<noteq> [] \<and>
     list_all (\<lambda>goal.
       if tool = Maven then goal \<in> set maven_goals
       else goal \<in> set gradle_goals \<or> ends_with goal '':test'' \<or> ends_with goal '':check''
         \<or> ends_with goal '':build'') goals)"

section \<open>Rendering\<close>

definition hash_text :: "host \<Rightarrow> string \<Rightarrow> string" where
  "hash_text h val = h_blake3 h val"

definition normalized_absolute :: "path \<Rightarrow> string" where
  "normalized_absolute p = to_ascii_lowercase (replace_char (CHR 0x5C) (CHR ''/'') p)"

definition bounded :: "string \<Rightarrow> nat \<Rightarrow> string" where
  "bounded val limit =
    (if length val \<le> limit then val
     else take (floor_boundary val (min (limit - 16) (length val))) val @ ''...[truncated]'')"

definition transaction_id_of :: "policy_action \<Rightarrow> string option" where
  "transaction_id_of action = (case action of
      ApplyPatch a \<Rightarrow> Some (ap_transaction_id a)
    | RecoverTransaction a \<Rightarrow> Some (ta_transaction_id a)
    | RollbackTransaction a \<Rightarrow> Some (ta_transaction_id a)
    | _ \<Rightarrow> None)"

section \<open>Lemmas\<close>

text \<open>A bounded text is bounded.\<close>

lemma bounded_length:
  assumes "15 \<le> limit"
  shows "length (bounded val limit) \<le> limit"
proof -
  have "floor_boundary val (min (limit - 16) (length val)) \<le> limit - 16"
    using floor_boundary_le [of val "min (limit - 16) (length val)"] by simp
  then show ?thesis
    using assms by (auto simp: bounded_def)
qed

lemma out_allow [out_kinds, simp]:
  "is_Allow (fst out_read_file)"
  "is_Allow (fst out_read_directory)"
  "is_Allow (fst out_search)"
  "is_Allow (fst out_context)"
  "is_Allow (fst out_rag)"
  "is_Allow (fst out_create_worktree)"
  "is_Allow (fst out_git_read)"
  "is_Allow (fst out_write_create)"
  "is_Allow (fst out_write_worktree)"
  "is_Allow (fst out_apply_worktree)"
  "is_Allow (fst out_build_offline)"
  "is_Allow (fst out_cleanup_active)"
  by (simp_all add:
      allowed_def out_read_file_def out_read_directory_def out_search_def
      out_context_def out_rag_def out_create_worktree_def out_git_read_def
      out_write_create_def out_write_worktree_def out_apply_worktree_def out_build_offline_def
      out_cleanup_active_def)

lemma out_approval [out_kinds, simp]:
  "is_RequireApproval (fst out_delete_worktree)" "\<not> is_Allow (fst out_delete_worktree)"
  "is_RequireApproval (fst out_git_commit)" "\<not> is_Allow (fst out_git_commit)"
  "is_RequireApproval (fst out_recover)" "\<not> is_Allow (fst out_recover)"
  "is_RequireApproval (fst out_rollback)" "\<not> is_Allow (fst out_rollback)"
  "is_RequireApproval (fst out_apply_original)" "\<not> is_Allow (fst out_apply_original)"
  "is_RequireApproval (fst out_build_network)" "\<not> is_Allow (fst out_build_network)"
  "is_RequireApproval (fst out_cleanup_recovery)" "\<not> is_Allow (fst out_cleanup_recovery)"
  by (simp_all add:
      approval_required_def out_delete_worktree_def out_git_commit_def out_recover_def
      out_rollback_def out_apply_original_def out_build_network_def out_cleanup_recovery_def)

lemma out_deny [out_kinds, simp]:
  "\<not> is_Allow (fst out_read_only_write_denied)" "\<not> is_RequireApproval (fst out_read_only_write_denied)"
  "\<not> is_Allow (fst out_outside_scope_denied)" "\<not> is_RequireApproval (fst out_outside_scope_denied)"
  "\<not> is_Allow (fst out_unknown)" "\<not> is_RequireApproval (fst out_unknown)"
  "\<not> is_Allow (fst out_modify_policy)" "\<not> is_RequireApproval (fst out_modify_policy)"
  "\<not> is_Allow (fst out_elevate)" "\<not> is_RequireApproval (fst out_elevate)"
  "\<not> is_Allow (fst out_rag_outside)" "\<not> is_RequireApproval (fst out_rag_outside)"
  "\<not> is_Allow (fst out_delete_recursive)" "\<not> is_RequireApproval (fst out_delete_recursive)"
  "\<not> is_Allow (fst out_delete_original)" "\<not> is_RequireApproval (fst out_delete_original)"
  "\<not> is_Allow (fst out_worktree_detached)" "\<not> is_RequireApproval (fst out_worktree_detached)"
  "\<not> is_Allow (fst out_worktree_boundary)" "\<not> is_RequireApproval (fst out_worktree_boundary)"
  "\<not> is_Allow (fst out_worktree_head)" "\<not> is_RequireApproval (fst out_worktree_head)"
  "\<not> is_Allow (fst out_worktree_dirty)" "\<not> is_RequireApproval (fst out_worktree_dirty)"
  "\<not> is_Allow (fst out_git_read_unknown)" "\<not> is_RequireApproval (fst out_git_read_unknown)"
  "\<not> is_Allow (fst out_git_write_unknown)" "\<not> is_RequireApproval (fst out_git_write_unknown)"
  "\<not> is_Allow (fst out_git_write)" "\<not> is_RequireApproval (fst out_git_write)"
  "\<not> is_Allow (fst out_git_push)" "\<not> is_RequireApproval (fst out_git_push)"
  "\<not> is_Allow (fst out_network)" "\<not> is_RequireApproval (fst out_network)"
  "\<not> is_Allow (fst out_package_install)" "\<not> is_RequireApproval (fst out_package_install)"
  "\<not> is_Allow (fst out_publish)" "\<not> is_RequireApproval (fst out_publish)"
  "\<not> is_Allow (fst out_write_original)" "\<not> is_RequireApproval (fst out_write_original)"
  "\<not> is_Allow (fst out_path_limit)" "\<not> is_RequireApproval (fst out_path_limit)"
  "\<not> is_Allow (fst out_apply_mode)" "\<not> is_RequireApproval (fst out_apply_mode)"
  "\<not> is_Allow (fst out_apply_boundary)" "\<not> is_RequireApproval (fst out_apply_boundary)"
  "\<not> is_Allow (fst out_apply_head)" "\<not> is_RequireApproval (fst out_apply_head)"
  "\<not> is_Allow (fst out_apply_dirty)" "\<not> is_RequireApproval (fst out_apply_dirty)"
  "\<not> is_Allow (fst out_timeout)" "\<not> is_RequireApproval (fst out_timeout)"
  "\<not> is_Allow (fst out_output_limit)" "\<not> is_RequireApproval (fst out_output_limit)"
  "\<not> is_Allow (fst out_arguments)" "\<not> is_RequireApproval (fst out_arguments)"
  "\<not> is_Allow (fst out_metacharacter)" "\<not> is_RequireApproval (fst out_metacharacter)"
  "\<not> is_Allow (fst out_network_undeclared)" "\<not> is_RequireApproval (fst out_network_undeclared)"
  "\<not> is_Allow (fst out_shell)" "\<not> is_RequireApproval (fst out_shell)"
  "\<not> is_Allow (fst out_java_runtime)" "\<not> is_RequireApproval (fst out_java_runtime)"
  "\<not> is_Allow (fst out_executable_unknown)" "\<not> is_RequireApproval (fst out_executable_unknown)"
  "\<not> is_Allow (fst out_wrapper_drift)" "\<not> is_RequireApproval (fst out_wrapper_drift)"
  "\<not> is_Allow (fst out_wrapper_launch)" "\<not> is_RequireApproval (fst out_wrapper_launch)"
  "\<not> is_Allow (fst out_executable_untrusted)" "\<not> is_RequireApproval (fst out_executable_untrusted)"
  "\<not> is_Allow (fst out_installed_launch)" "\<not> is_RequireApproval (fst out_installed_launch)"
  "\<not> is_Allow (fst out_install_goal)" "\<not> is_RequireApproval (fst out_install_goal)"
  "\<not> is_Allow (fst out_option)" "\<not> is_RequireApproval (fst out_option)"
  "\<not> is_Allow (fst out_goal_unknown)" "\<not> is_RequireApproval (fst out_goal_unknown)"
  "\<not> is_Allow (fst out_offline_required)" "\<not> is_RequireApproval (fst out_offline_required)"
  "\<not> is_Allow (fst out_environment_limit)" "\<not> is_RequireApproval (fst out_environment_limit)"
  "\<not> is_Allow (fst out_environment_order)" "\<not> is_RequireApproval (fst out_environment_order)"
  "\<not> is_Allow (fst out_environment_denied)" "\<not> is_RequireApproval (fst out_environment_denied)"
  by (simp_all add:
      denied_def out_read_only_write_denied_def out_outside_scope_denied_def out_unknown_def
      out_modify_policy_def out_elevate_def out_rag_outside_def out_delete_recursive_def
      out_delete_original_def out_worktree_detached_def out_worktree_boundary_def out_worktree_head_def
      out_worktree_dirty_def out_git_read_unknown_def out_git_write_unknown_def out_git_write_def
      out_git_push_def out_network_def out_package_install_def out_publish_def
      out_write_original_def out_path_limit_def out_apply_mode_def out_apply_boundary_def
      out_apply_head_def out_apply_dirty_def out_timeout_def out_output_limit_def
      out_arguments_def out_metacharacter_def out_network_undeclared_def out_shell_def
      out_java_runtime_def out_executable_unknown_def out_wrapper_drift_def out_wrapper_launch_def
      out_executable_untrusted_def out_installed_launch_def out_install_goal_def out_option_def
      out_goal_unknown_def out_offline_required_def out_environment_limit_def out_environment_order_def
      out_environment_denied_def)

lemma out_not_approval [out_kinds, simp]:
  "\<not> is_RequireApproval (fst out_read_file)"
  "\<not> is_RequireApproval (fst out_read_directory)"
  "\<not> is_RequireApproval (fst out_search)"
  "\<not> is_RequireApproval (fst out_context)"
  "\<not> is_RequireApproval (fst out_rag)"
  "\<not> is_RequireApproval (fst out_create_worktree)"
  "\<not> is_RequireApproval (fst out_git_read)"
  "\<not> is_RequireApproval (fst out_write_create)"
  "\<not> is_RequireApproval (fst out_write_worktree)"
  "\<not> is_RequireApproval (fst out_apply_worktree)"
  "\<not> is_RequireApproval (fst out_build_offline)"
  "\<not> is_RequireApproval (fst out_cleanup_active)"
  by (simp_all add:
      allowed_def out_read_file_def out_read_directory_def out_search_def
      out_context_def out_rag_def out_create_worktree_def out_git_read_def
      out_write_create_def out_write_worktree_def out_apply_worktree_def out_build_offline_def
      out_cleanup_active_def)

end
