(* ===== verification/PolicyWorktree.thy ===== *)
theory PolicyWorktree
  imports PolicyPaths PolicyRules
begin

text \<open>
  The engine's validation of its surroundings (\<open>opticcode-policy/src/engine.rs\<close>): the active
  worktree descriptor against the runtime lease and the \<open>.git\<close> indirection on disk, the destination
  of a new worktree, the repository boundary, installed executables, and the scope a request may
  read.  All of it only observes the file system.
\<close>

definition WORKTREE_STORAGE_DIRECTORY :: string where
  "WORKTREE_STORAGE_DIRECTORY = ''opticcode-worktrees''"

definition WORKTREE_RUNS_DIRECTORY :: string where
  "WORKTREE_RUNS_DIRECTORY = ''runs''"

definition WORKTREE_LEASES_DIRECTORY :: string where
  "WORKTREE_LEASES_DIRECTORY = ''leases''"

definition MAX_LEASE_BYTES :: nat where "MAX_LEASE_BYTES = 64 * 1024"

section \<open>Refusals\<close>

definition err_source_state_missing :: path_error where
  "err_source_state_missing = PathErr ''worktree.source_state_missing''
    ''active worktree requires an observed source repository boundary''"

definition err_source_head_drift :: path_error where
  "err_source_head_drift = PathErr ''worktree.source_head_drift''
    ''source HEAD changed after the worktree lease was created''"

definition err_source_dirty :: path_error where
  "err_source_dirty = PathErr ''worktree.source_dirty''
    ''source repository is dirty or its cleanliness is unobserved''"

definition err_owner_mismatch :: path_error where
  "err_owner_mismatch = PathErr ''worktree.owner_mismatch''
    ''active worktree does not belong to this workspace and request''"

definition err_source_mismatch :: path_error where
  "err_source_mismatch = PathErr ''worktree.source_mismatch''
    ''active worktree source does not match the workspace''"

definition err_storage_missing :: path_error where
  "err_storage_missing = PathErr ''worktree.storage_mismatch''
    ''active worktree is not in controlled temporary storage''"

definition err_storage_mismatch :: path_error where
  "err_storage_mismatch = PathErr ''worktree.storage_mismatch''
    ''active worktree path does not match its controlled run ID''"

definition err_lease_missing :: path_error where
  "err_lease_missing = PathErr ''worktree.lease_missing''
    ''active worktree has no runtime lease''"

definition err_lease_not_regular :: path_error where
  "err_lease_not_regular = PathErr ''worktree.lease_invalid''
    ''active worktree lease is not a bounded regular file''"

definition err_lease_unreadable :: path_error where
  "err_lease_unreadable = PathErr ''worktree.lease_invalid''
    ''active worktree lease cannot be read''"

definition err_lease_schema :: path_error where
  "err_lease_schema = PathErr ''worktree.lease_invalid''
    ''active worktree lease schema is invalid''"

definition err_lease_mismatch :: path_error where
  "err_lease_mismatch = PathErr ''worktree.lease_mismatch''
    ''active worktree does not match its runtime lease''"

definition err_gitfile_missing :: path_error where
  "err_gitfile_missing = PathErr ''git.worktree_file_missing''
    ''active worktree is missing its .git indirection file''"

definition err_gitfile_unsafe :: path_error where
  "err_gitfile_unsafe = PathErr ''git.worktree_file_invalid''
    ''worktree .git indirection is unsafe''"

definition err_gitfile_unreadable :: path_error where
  "err_gitfile_unreadable = PathErr ''git.worktree_file_invalid''
    ''worktree .git indirection cannot be read''"

definition err_gitfile_format :: path_error where
  "err_gitfile_format = PathErr ''git.worktree_file_invalid''
    ''worktree .git indirection has an invalid format''"

definition err_gitdir_unresolved :: path_error where
  "err_gitdir_unresolved = PathErr ''git.worktree_gitdir_invalid''
    ''worktree gitdir cannot be resolved''"

definition err_gitdir_declared :: path_error where
  "err_gitdir_declared = PathErr ''git.worktree_gitdir_invalid''
    ''declared worktree gitdir cannot be resolved''"

definition err_commondir_declared :: path_error where
  "err_commondir_declared = PathErr ''git.commondir_invalid''
    ''declared Git common directory cannot be resolved''"

definition err_gitdir_boundary :: path_error where
  "err_gitdir_boundary = PathErr ''git.boundary_mismatch''
    ''worktree gitdir and common Git directory boundaries do not match''"

definition err_commondir_missing :: path_error where
  "err_commondir_missing = PathErr ''git.commondir_invalid''
    ''worktree gitdir is missing its commondir file''"

definition err_commondir_unsafe :: path_error where
  "err_commondir_unsafe = PathErr ''git.commondir_invalid''
    ''worktree commondir indirection is unsafe''"

definition err_commondir_unreadable :: path_error where
  "err_commondir_unreadable = PathErr ''git.commondir_invalid''
    ''worktree commondir indirection cannot be read''"

definition err_commondir_differs :: path_error where
  "err_commondir_differs = PathErr ''git.commondir_invalid''
    ''worktree commondir file differs from the declared Git boundary''"

definition err_storage_unavailable :: path_error where
  "err_storage_unavailable = PathErr ''worktree.storage_unavailable''
    ''controlled worktree runs directory is unavailable''"

definition err_destination_denied :: path_error where
  "err_destination_denied = PathErr ''worktree.destination_denied''
    ''worktree destination is outside the controlled run directory''"

definition err_destination_exists :: path_error where
  "err_destination_exists = PathErr ''worktree.destination_exists''
    ''worktree destination already exists''"

definition err_outside_workspace :: path_error where
  "err_outside_workspace = PathErr ''path.outside_workspace''
    ''read root is outside the workspace and active worktree''"

definition err_path_limit :: path_error where
  "err_path_limit = PathErr ''action.path_limit''
    ''action contains too many paths''"

definition err_transaction_workspace :: path_error where
  "err_transaction_workspace = PathErr ''transaction.workspace_mismatch''
    ''transaction belongs to a different workspace''"

definition err_tree_unobserved :: path_error where
  "err_tree_unobserved = PathErr ''git.working_tree_unobserved''
    ''working-tree digest is required for this mutating action''"

definition err_workspace_mismatch :: path_error where
  "err_workspace_mismatch = PathErr ''git.workspace_mismatch''
    ''declared repository root differs from the workspace root''"

definition err_main_gitdir :: path_error where
  "err_main_gitdir = PathErr ''git.boundary_mismatch''
    ''main worktree gitdir must match its common directory''"

definition err_main_dotgit :: path_error where
  "err_main_dotgit = PathErr ''git.boundary_mismatch''
    ''main Git directory is not the workspace .git directory''"

definition err_linked_gitdir :: path_error where
  "err_linked_gitdir = PathErr ''git.boundary_mismatch''
    ''linked worktree gitdir is outside the declared common directory''"

definition err_objects :: path_error where
  "err_objects = PathErr ''git.object_boundary_mismatch''
    ''Git object directory is not the exact common objects directory''"

definition err_head_invalid :: path_error where
  "err_head_invalid = PathErr ''git.head_invalid''
    ''repository HEAD is not a full hexadecimal object ID''"

definition err_index_missing :: path_error where
  "err_index_missing = PathErr ''git.index_missing''
    ''Git index boundary does not exist or cannot be inspected''"

definition err_index_outside :: path_error where
  "err_index_outside = PathErr ''git.index_missing''
    ''Git index boundary is empty or outside the worktree gitdir''"

section \<open>The active worktree\<close>

definition require_working_tree_digest :: "policy_request \<Rightarrow> (path_error, unit) res" where
  "require_working_tree_digest request =
    (case ws_working_tree_digest (rq_workspace request) of
       None \<Rightarrow> Inl err_tree_unobserved
     | Some digest \<Rightarrow> validate_hash_value digest ''working-tree digest'')"

definition controlled_worktree_storage :: "host \<Rightarrow> fs \<Rightarrow> (path_error, path) res" where
  "controlled_worktree_storage h f =
    inspect_root f (path_join (h_temp_dir h) WORKTREE_STORAGE_DIRECTORY)"

definition lease_matches ::
  "fs \<Rightarrow> worktree_lease \<Rightarrow> active_worktree \<Rightarrow> path \<Rightarrow> path \<Rightarrow> string \<Rightarrow> string \<Rightarrow> bool" where
  "lease_matches f lease descriptor root workspace_root workspace_id request_id =
    (\<not> (wl_schema_version lease \<noteq> 1
        \<or> wl_run_id lease \<noteq> aw_run_id descriptor
        \<or> \<not> opt_path_eq (ok_of (canonicalize f (wl_source_git_root lease))) (Some workspace_root)
        \<or> \<not> opt_path_eq (ok_of (canonicalize f (wl_worktree_path lease))) (Some root)
        \<or> wl_source_commit lease \<noteq> aw_base_head descriptor
        \<or> wl_owner_workspace_id lease \<noteq> workspace_id
        \<or> wl_owner_request_id lease \<noteq> request_id))"

definition validate_worktree_lease ::
  "host \<Rightarrow> fs \<Rightarrow> path \<Rightarrow> active_worktree \<Rightarrow> path \<Rightarrow> path \<Rightarrow> string \<Rightarrow> string \<Rightarrow> (path_error, unit) res" where
  "validate_worktree_lease h f storage descriptor root workspace_root workspace_id request_id =
    (let lease_path = path_join (path_join storage WORKTREE_LEASES_DIRECTORY)
                        (aw_run_id descriptor @ ''.json'') in
     try_then (map_err (\<lambda>_. err_lease_missing) (symlink_metadata f lease_path))
     (\<lambda>meta.
       if \<not> is_file_node meta \<or> metadata_is_link_or_reparse meta \<or> node_len meta > MAX_LEASE_BYTES
       then Inl err_lease_not_regular else
     try_then (map_err (\<lambda>_. err_lease_unreadable) (fs_read f lease_path))
     (\<lambda>bytes.
     try_then (ok_or err_lease_schema (h_parse_lease h bytes))
     (\<lambda>lease.
       ensure (lease_matches f lease descriptor root workspace_root workspace_id request_id)
         err_lease_mismatch))))"

definition gitdir_prefix :: string where "gitdir_prefix = ''gitdir:''"

definition strip_gitdir :: "string \<Rightarrow> string option" where
  "strip_gitdir content =
    (let t = str_trim content in
     if starts_with t gitdir_prefix then Some (str_trim (drop (length gitdir_prefix) t)) else None)"

definition small_regular :: "node \<Rightarrow> bool" where
  "small_regular meta =
    (\<not> (\<not> is_file_node meta \<or> metadata_is_link_or_reparse meta \<or> node_len meta > 8 * 1024))"

definition validate_git_file :: "fs \<Rightarrow> path \<Rightarrow> active_worktree \<Rightarrow> (path_error, unit) res" where
  "validate_git_file f root descriptor =
    (let git_file = path_join root ''.git'' in
     try_then (map_err (\<lambda>_. err_gitfile_missing) (symlink_metadata f git_file))
     (\<lambda>meta.
       if \<not> small_regular meta then Inl err_gitfile_unsafe else
     try_then (map_err (\<lambda>_. err_gitfile_unreadable) (read_to_string f git_file))
     (\<lambda>content.
     try_then (ok_or err_gitfile_format (strip_gitdir content))
     (\<lambda>p.
     let p = (if is_absolute p then p else path_join root p) in
     try_then (map_err (\<lambda>_. err_gitdir_unresolved) (canonicalize f p))
     (\<lambda>git_dir.
     try_then (map_err (\<lambda>_. err_gitdir_declared) (canonicalize f (aw_git_dir descriptor)))
     (\<lambda>expected_git_dir.
     try_then (map_err (\<lambda>_. err_commondir_declared) (canonicalize f (aw_common_dir descriptor)))
     (\<lambda>common_dir.
       if \<not> path_eq git_dir expected_git_dir \<or> path_eq git_dir common_dir
          \<or> \<not> path_starts_with git_dir common_dir
       then Inl err_gitdir_boundary else
     let commondir_file = path_join git_dir ''commondir'' in
     try_then (map_err (\<lambda>_. err_commondir_missing) (symlink_metadata f commondir_file))
     (\<lambda>meta.
       if \<not> small_regular meta then Inl err_commondir_unsafe else
     try_then (map_err (\<lambda>_. err_commondir_unreadable) (read_to_string f commondir_file))
     (\<lambda>commondir_value.
     let commondir_path = str_trim commondir_value;
         commondir_path = (if is_absolute commondir_path then commondir_path
                           else path_join git_dir commondir_path) in
     ensure (opt_path_eq (ok_of (canonicalize f commondir_path)) (Some common_dir))
       err_commondir_differs)))))))))"

definition validate_active_descriptor ::
  "host \<Rightarrow> fs \<Rightarrow> active_worktree option \<Rightarrow> path \<Rightarrow> string \<Rightarrow> string \<Rightarrow> (path_error, path option) res" where
  "validate_active_descriptor h f descriptor workspace_root workspace_id request_id =
    (case descriptor of
       None \<Rightarrow> Inr None
     | Some d \<Rightarrow>
         try_then (validate_worktree_run_id (aw_run_id d)) (\<lambda>_.
         try_then (validate_identifier_value (aw_owner_workspace_id d) ''worktree owner workspace ID'') (\<lambda>_.
         try_then (validate_identifier_value (aw_owner_request_id d) ''worktree owner request ID'') (\<lambda>_.
         try_then (validate_git_oid (aw_base_head d) ''worktree base HEAD'') (\<lambda>_.
         if aw_owner_workspace_id d \<noteq> workspace_id \<or> aw_owner_request_id d \<noteq> request_id
         then Inl err_owner_mismatch else
         try_then (inspect_root f (aw_source_root d)) (\<lambda>source.
         if \<not> path_eq source workspace_root then Inl err_source_mismatch else
         try_then (inspect_root f (aw_root d)) (\<lambda>root.
         try_then (controlled_worktree_storage h f) (\<lambda>storage.
         try_then (map_err (\<lambda>_. err_storage_missing)
           (canonicalize f (path_join (path_join storage WORKTREE_RUNS_DIRECTORY) (aw_run_id d))))
         (\<lambda>expected.
         if \<not> path_eq root expected then Inl err_storage_mismatch else
         try_then (validate_worktree_lease h f storage d root workspace_root workspace_id request_id) (\<lambda>_.
         try_then (validate_git_file f root d) (\<lambda>_.
         Inr (Some root))))))))))))"

definition validated_active_worktree ::
  "host \<Rightarrow> fs \<Rightarrow> policy_request \<Rightarrow> path \<Rightarrow> (path_error, path option) res" where
  "validated_active_worktree h f request workspace_root =
    (let ws = rq_workspace request in
     try_then (validate_active_descriptor h f (ws_active_worktree ws) workspace_root
                 (ws_workspace_id ws) (rq_request_id request))
     (\<lambda>active.
       case ws_active_worktree ws of
         None \<Rightarrow> Inr active
       | Some descriptor \<Rightarrow>
           (case ws_repository ws of
              None \<Rightarrow> Inl err_source_state_missing
            | Some repository \<Rightarrow>
                if gb_head repository \<noteq> aw_base_head descriptor then Inl err_source_head_drift
                else if ws_repository_clean ws \<noteq> Some True then Inl err_source_dirty
                else try_then (require_working_tree_digest request) (\<lambda>_. Inr active))))"

section \<open>Destinations, executables and scopes\<close>

definition validate_worktree_destination :: "host \<Rightarrow> fs \<Rightarrow> path \<Rightarrow> string \<Rightarrow> (path_error, unit) res" where
  "validate_worktree_destination h f destination run_id =
    try_then (validate_worktree_run_id run_id) (\<lambda>_.
    try_then (controlled_worktree_storage h f) (\<lambda>storage.
    try_then (map_err (\<lambda>_. err_storage_unavailable)
      (canonicalize f (path_join storage WORKTREE_RUNS_DIRECTORY))) (\<lambda>runs.
    let destination_parent = Option.bind (path_parent destination) (\<lambda>p. ok_of (canonicalize f p)) in
    if \<not> opt_path_eq destination_parent (Some runs) \<or> file_name destination \<noteq> Some run_id
    then Inl err_destination_denied
    else if path_exists f destination then Inl err_destination_exists
    else Inr ())))"

definition installed_roots :: "path list" where
  "installed_roots = [''/usr/bin'', ''/usr/local/bin'', ''/opt'']"

fun inspect_installed_from ::
  "host \<Rightarrow> fs \<Rightarrow> path \<Rightarrow> path list \<Rightarrow> (path_error, path_report option) res" where
  "inspect_installed_from h f canonical [] = Inr None"
| "inspect_installed_from h f canonical (root # roots) =
    (case inspect_root f root of
       Inl _ \<Rightarrow> inspect_installed_from h f canonical roots
     | Inr root \<Rightarrow>
         if path_starts_with canonical root then
           try_then (inspect_path h f \<lparr>pt_root = root, pt_path = canonical, pt_range = None,
                       pt_expected_hash = None\<rparr> ExpectFile) (\<lambda>r. Inr (Some r))
         else inspect_installed_from h f canonical roots)"

definition inspect_installed_executable ::
  "host \<Rightarrow> fs \<Rightarrow> path \<Rightarrow> (path_error, path_report option) res" where
  "inspect_installed_executable h f executable =
    (if \<not> is_absolute executable then Inr None
     else case canonicalize f executable of
       Inl _ \<Rightarrow> Inr None
     | Inr canonical \<Rightarrow> inspect_installed_from h f canonical installed_roots)"

definition require_read_scope ::
  "host \<Rightarrow> fs \<Rightarrow> policy_request \<Rightarrow> path \<Rightarrow> path \<Rightarrow> (path_error, unit) res" where
  "require_read_scope h f request workspace_root action_root =
    (if path_eq action_root workspace_root then Inr ()
     else try_then (validated_active_worktree h f request workspace_root) (\<lambda>active.
       ensure (opt_path_eq active (Some action_root)) err_outside_workspace))"

definition validate_transaction_action ::
  "fs \<Rightarrow> transaction_action \<Rightarrow> path \<Rightarrow> (path_error, unit) res" where
  "validate_transaction_action f action workspace_root =
    try_then (inspect_root f (ta_workspace_root action)) (\<lambda>root.
    if \<not> path_eq root workspace_root then Inl err_transaction_workspace else
    try_then (validate_identifier_value (ta_transaction_id action) ''transaction ID'') (\<lambda>_.
    validate_hash_value (ta_expected_state_hash action) ''transaction state hash''))"

section \<open>The repository boundary\<close>

definition validate_repository_boundary ::
  "fs \<Rightarrow> git_boundary option \<Rightarrow> path \<Rightarrow> (path_error, unit) res" where
  "validate_repository_boundary f boundary workspace =
    (case boundary of
       None \<Rightarrow> Inr ()
     | Some b \<Rightarrow>
         try_then (inspect_root f workspace) (\<lambda>workspace.
         try_then (inspect_root f (gb_worktree_root b)) (\<lambda>worktree.
         if \<not> path_eq workspace worktree then Inl err_workspace_mismatch else
         try_then (inspect_root f (gb_git_dir b)) (\<lambda>git_dir.
         try_then (inspect_root f (gb_common_dir b)) (\<lambda>common_dir.
         try_then (inspect_root f (gb_object_dir b)) (\<lambda>object_dir.
         if gb_main_worktree b \<and> \<not> path_eq git_dir common_dir then Inl err_main_gitdir
         else if gb_main_worktree b
           \<and> \<not> opt_path_eq (ok_of (canonicalize f (path_join workspace ''.git''))) (Some git_dir)
         then Inl err_main_dotgit
         else if \<not> gb_main_worktree b
           \<and> (path_eq git_dir common_dir \<or> \<not> path_starts_with git_dir common_dir)
         then Inl err_linked_gitdir
         else if \<not> path_eq object_dir (path_join common_dir ''objects'') then Inl err_objects
         else if \<not> (length (gb_head b) = 40 \<or> length (gb_head b) = 64)
           \<or> \<not> list_all is_ascii_hexdigit (gb_head b)
         then Inl err_head_invalid else
         try_then (map_err (\<lambda>_. err_index_missing) (symlink_metadata f (gb_index b))) (\<lambda>index_metadata.
         if \<not> is_file_node index_metadata \<or> metadata_is_link_or_reparse index_metadata
           \<or> file_name (gb_index b) \<noteq> Some ''index''
           \<or> \<not> opt_path_eq (Option.bind (path_parent (gb_index b)) (\<lambda>p. ok_of (canonicalize f p)))
                (Some git_dir)
         then Inl err_index_outside
         else Inr ())))))))"

section \<open>Lemmas\<close>

lemma inspect_root_Inr:
  assumes "wf_fs f" "inspect_root f p = Inr q"
  obtains l where "q = abs_path l" "\<forall>n \<in> set l. valid_name n" "is_dir_at f l"
proof -
  obtain m where "canonicalize f p = Inr q" "symlink_metadata f p = Inr m" "is_dir_node m"
    using assms(2) by (auto simp: inspect_root_def res_simps split: if_splits)
  then show thesis
    using canonicalize_dir [OF assms(1)] that by blast
qed

lemma path_eq_abs_path:
  assumes "\<forall>n \<in> set a. valid_name n" "\<forall>n \<in> set b. valid_name n"
  shows "path_eq (abs_path a) (abs_path b) \<longleftrightarrow> a = b"
  using assms by (auto simp: path_eq_def components_abs_path dest: map_injective [OF _ injI])

lemma opt_path_eq_Some [simp]: "opt_path_eq (Some a) (Some b) = path_eq a b" "\<not> opt_path_eq None (Some b)"
  by (simp_all add: opt_path_eq_def)

lemma opt_path_eq_iff: "opt_path_eq a (Some b) \<longleftrightarrow> (\<exists>p. a = Some p \<and> path_eq p b)"
  by (cases a) auto

text \<open>What a validated active worktree guarantees.\<close>

lemma validated_active_Some:
  assumes "validated_active_worktree h f request ws = Inr (Some root)"
  obtains d repository storage where
    "ws_active_worktree (rq_workspace request) = Some d"
    "aw_owner_workspace_id d = ws_workspace_id (rq_workspace request)"
    "aw_owner_request_id d = rq_request_id request"
    "inspect_root f (aw_root d) = Inr root"
    "controlled_worktree_storage h f = Inr storage"
    "\<exists>expected. canonicalize f (path_join (path_join storage WORKTREE_RUNS_DIRECTORY) (aw_run_id d))
       = Inr expected \<and> path_eq root expected"
    "validate_worktree_lease h f storage d root ws (ws_workspace_id (rq_workspace request))
       (rq_request_id request) = Inr ()"
    "validate_git_file f root d = Inr ()"
    "ws_repository (rq_workspace request) = Some repository"
    "gb_head repository = aw_base_head d"
    "ws_repository_clean (rq_workspace request) = Some True"
    "require_working_tree_digest request = Inr ()"
  using assms
  by (auto simp: validated_active_worktree_def validate_active_descriptor_def res_simps Let_def
      split: option.splits if_splits)

text \<open>
  The \<open>.git\<close> entry tells the two kinds of worktree apart: a regular file in a leased worktree, a
  directory in the main one.
\<close>

lemma gitfile_is_file:
  assumes "wf_fs f" "validate_git_file f (abs_path l) d = Inr ()"
    and "\<forall>n \<in> set l. valid_name n" "is_dir_at f l"
  shows "\<exists>m c. fs_nodes f (l @ [''.git'']) = Some (FileNode m c)"
proof -
  have git: "valid_name ''.git''"
    by (simp add: valid_name_def junk_def sep_def)
  obtain meta where "symlink_metadata f (path_join (abs_path l) ''.git'') = Inr meta" "is_file_node meta"
    using assms(2) by (auto simp: validate_git_file_def small_regular_def res_simps Let_def split: if_splits)
  then show ?thesis
    using symlink_metadata_spelled [OF assms(1,3) git assms(4)] path_join_abs_path [OF assms(3) git]
    by (cases meta) auto
qed

lemma active_is_not_main_worktree:
  assumes "wf_fs f" "inspect_root f p = Inr ws"
    and "validate_repository_boundary f (ws_repository (rq_workspace request)) p = Inr ()"
    and "ws_repository (rq_workspace request) = Some b" "gb_main_worktree b"
    and "validated_active_worktree h f request ws = Inr (Some active)"
  shows "\<not> path_eq active ws"
proof
  assume eq: "path_eq active ws"
  have git: "valid_name ''.git''"
    by (simp add: valid_name_def junk_def sep_def)
  obtain d where d: "inspect_root f (aw_root d) = Inr active" "validate_git_file f active d = Inr ()"
    using validated_active_Some [OF assms(6)] by blast
  obtain l where l: "active = abs_path l" "\<forall>n \<in> set l. valid_name n" "is_dir_at f l"
    using inspect_root_Inr [OF assms(1) d(1)] by blast
  obtain lw where lw: "ws = abs_path lw" "\<forall>n \<in> set lw. valid_name n"
    using inspect_root_Inr [OF assms(1,2)] by blast
  have same: "ws = abs_path l"
    using eq l lw path_eq_abs_path by auto
  obtain m c where gitfile: "fs_nodes f (l @ [''.git'']) = Some (FileNode m c)"
    using gitfile_is_file [OF assms(1) d(2) [unfolded l(1)] l(2,3)] by blast
  obtain g git_dir where g: "inspect_root f (gb_git_dir b) = Inr git_dir"
      "canonicalize f (path_join ws ''.git'') = Inr g" "path_eq g git_dir"
    using assms(2-5)
    by (auto simp: validate_repository_boundary_def res_simps opt_path_eq_iff split: if_splits)
  obtain q where q: "resolve f (abs_path (l @ [''.git''])) True = Inr q" "g = abs_path q"
    using g(2) same path_join_abs_path [OF l(2) git] by (auto simp: canonicalize_def res_simps)
  then have "g = abs_path (l @ [''.git''])"
    using resolve_spelled [OF assms(1) q(1) l(2) git l(3)] gitfile by simp
  moreover obtain lg where "git_dir = abs_path lg" "\<forall>n \<in> set lg. valid_name n" "is_dir_at f lg"
    using inspect_root_Inr [OF assms(1) g(1)] by blast
  ultimately show False
    using g(3) l(2) git gitfile path_eq_abs_path [of "l @ [''.git'']" lg] by (auto simp: is_dir_at_iff)
qed

end
