(* ===== verification/PolicyEngine.thy ===== *)
theory PolicyEngine
  imports PolicyWorktree
begin

text \<open>
  The rules of the policy engine (\<open>opticcode-policy/src/engine.rs\<close>, from \<open>evaluate\<close> to
  \<open>evaluate_cleanup\<close>).  The code pushes the inspected paths into a vector that survives an early
  return; a value of type \<open>checked\<close> is therefore a result together with the reports pushed so far,
  and \<open>and_then\<close> sequences two such steps.
\<close>

named_theorems checked_simps "how a sequence of checked steps can succeed"

section \<open>Sequencing checks\<close>

type_synonym 'a checked = "(path_error, 'a) res \<times> path_report list"

definition check_only :: "(path_error, 'a) res \<Rightarrow> 'a checked" where
  "check_only r = (r, [])"

definition push :: "path_report \<Rightarrow> unit checked" where
  "push p = (Inr (), [p])"

definition done_with :: "'a \<Rightarrow> 'a checked" where
  "done_with a = (Inr a, [])"

definition and_then :: "'a checked \<Rightarrow> ('a \<Rightarrow> 'b checked) \<Rightarrow> 'b checked" where
  "and_then m k = (case fst m of
      Inl e \<Rightarrow> (Inl e, snd m)
    | Inr a \<Rightarrow> (fst (k a), snd m @ snd (k a)))"

fun each_path :: "('a \<Rightarrow> unit checked) \<Rightarrow> 'a list \<Rightarrow> unit checked" where
  "each_path f [] = done_with ()"
| "each_path f (x # xs) = and_then (f x) (\<lambda>_. each_path f xs)"

section \<open>Rules\<close>

definition target_at :: "path \<Rightarrow> path \<Rightarrow> path_target" where
  "target_at root p = \<lparr>pt_root = root, pt_path = p, pt_range = None, pt_expected_hash = None\<rparr>"

definition inspect_and_push :: "host \<Rightarrow> fs \<Rightarrow> path_target \<Rightarrow> path_expectation \<Rightarrow> unit checked" where
  "inspect_and_push h f target expectation = and_then (check_only (inspect_path h f target expectation)) push"

definition inspect_path_list :: "host \<Rightarrow> fs \<Rightarrow> path \<Rightarrow> path list \<Rightarrow> unit checked" where
  "inspect_path_list h f root input =
    (if length input > MAX_POLICY_PATHS then check_only (Inl err_path_limit) else
     and_then (check_only (validate_sorted_paths input)) (\<lambda>_.
     each_path (\<lambda>p. inspect_and_push h f (target_at root p) ExistingEntry) input))"

definition evaluate_write ::
  "host \<Rightarrow> fs \<Rightarrow> policy_request \<Rightarrow> path \<Rightarrow> path_target \<Rightarrow> path_expectation \<Rightarrow> bool \<Rightarrow> rule_outcome checked" where
  "evaluate_write h f request workspace_root target expectation creation =
    and_then (check_only (inspect_path h f target expectation)) (\<lambda>report.
    and_then (check_only (validated_active_worktree h f request workspace_root)) (\<lambda>active.
    if rq_mode request = ReadOnly then done_with out_read_only_write_denied
    else if \<not> opt_path_eq active (Some (ps_root report)) then done_with out_write_original
    else and_then (push report) (\<lambda>_.
      done_with (if creation then out_write_create else out_write_worktree))))"

text \<open>\<open>saturating_add\<close> cannot saturate here: the lengths of two vectors in memory.\<close>

definition evaluate_apply_patch ::
  "host \<Rightarrow> fs \<Rightarrow> policy_request \<Rightarrow> path \<Rightarrow> apply_patch_action \<Rightarrow> rule_outcome checked" where
  "evaluate_apply_patch h f request workspace_root action =
    and_then (check_only (validate_hash_value (ap_diff_hash action) ''diff hash'')) (\<lambda>_.
    and_then (check_only (validate_hash_value (ap_files_hash action) ''file-set hash'')) (\<lambda>_.
    and_then (check_only (validate_identifier_value (ap_transaction_id action) ''transaction ID'')) (\<lambda>_.
    and_then (check_only (validate_git_oid (ap_base_head action) ''base HEAD'')) (\<lambda>_.
    and_then (check_only (validate_sorted_paths (ap_paths action))) (\<lambda>_.
    and_then (check_only (validate_sorted_paths (ap_created_paths action))) (\<lambda>_.
    if length (ap_paths action) + length (ap_created_paths action) > MAX_POLICY_PATHS
    then done_with out_path_limit else
    and_then (check_only (inspect_root f (ap_root action))) (\<lambda>root.
    and_then (check_only (validated_active_worktree h f request workspace_root)) (\<lambda>active.
    and_then (each_path (\<lambda>p. inspect_and_push h f (target_at root p) ExpectFile) (ap_paths action)) (\<lambda>_.
    and_then (each_path (\<lambda>p. inspect_and_push h f (target_at root p) NewFile) (ap_created_paths action)) (\<lambda>_.
    if path_eq root workspace_root then
      (if rq_mode request \<noteq> ApprovedApply then done_with out_apply_mode
       else case ws_repository (rq_workspace request) of
         None \<Rightarrow> done_with out_apply_boundary
       | Some repository \<Rightarrow>
           if gb_head repository \<noteq> ap_base_head action then done_with out_apply_head
           else if ws_repository_clean (rq_workspace request) \<noteq> Some True
           then done_with out_apply_dirty
           else and_then (check_only (require_working_tree_digest request)) (\<lambda>_.
             done_with out_apply_original))
    else if opt_path_eq active (Some root) \<and> rq_mode request = WorktreeEdit
    then done_with out_apply_worktree
    else done_with out_outside_scope_denied))))))))))"

datatype executable_class = Tool build_tool bool | JavaRuntime | OtherExecutable

definition classify_executable :: "string \<Rightarrow> executable_class" where
  "classify_executable name =
    (if name \<in> set [''mvn'', ''mvn.exe'', ''mvn.cmd''] then Tool Maven False
     else if name \<in> set [''mvnw'', ''mvnw.cmd''] then Tool Maven True
     else if name \<in> set [''gradle'', ''gradle.exe'', ''gradle.bat''] then Tool Gradle False
     else if name \<in> set [''gradlew'', ''gradlew.bat''] then Tool Gradle True
     else if name \<in> set [''java'', ''java.exe'', ''javac'', ''javac.exe''] then JavaRuntime
     else OtherExecutable)"

definition executable_name :: "path \<Rightarrow> string" where
  "executable_name executable =
    to_ascii_lowercase (case file_name executable of None \<Rightarrow> '''' | Some n \<Rightarrow> n)"

text \<open>
  The last group of checks of \<open>evaluate_process\<close>, on the goals and options of the build tool.
\<close>

definition evaluate_build_arguments :: "run_process_action \<Rightarrow> build_tool \<Rightarrow> rule_outcome" where
  "evaluate_build_arguments action tool =
    (if package_install_goal tool (rp_arguments action) then out_install_goal
     else if dangerous_build_option tool (rp_arguments action) then out_option
     else if \<not> allowed_build_goals tool (rp_arguments action) then out_goal_unknown
     else
       let offline = list_ex (\<lambda>a. a = ''-o'' \<or> a = ''--offline'') (rp_arguments action) in
       if offline \<and> rp_network action = NetDenied then out_build_offline
       else if rp_network action = NetDenied then out_offline_required
       else out_build_network)"

text \<open>The executable of the invocation; on Unix every executable is launched directly.\<close>

definition evaluate_wrapper ::
  "host \<Rightarrow> fs \<Rightarrow> path \<Rightarrow> path \<Rightarrow> path \<Rightarrow> run_process_action \<Rightarrow> rule_outcome option checked" where
  "evaluate_wrapper h f workspace_root active cwd action =
    (let executable = (if is_absolute (rp_executable action) then rp_executable action
                       else path_join cwd (rp_executable action)) in
     and_then (check_only (inspect_path h f (target_at active executable) ExpectFile)) (\<lambda>wrapper.
     and_then (check_only (inspect_path h f (target_at workspace_root (ps_relative_path wrapper)) ExpectFile))
     (\<lambda>source_wrapper.
       if pf_content_hash (ps_fingerprint wrapper) \<noteq> pf_content_hash (ps_fingerprint source_wrapper)
       then done_with (Some out_wrapper_drift)
       else and_then (push wrapper) (\<lambda>_. and_then (push source_wrapper) (\<lambda>_.
         done_with (if rp_launch action \<noteq> Direct then Some out_wrapper_launch else None))))))"

definition evaluate_installed ::
  "host \<Rightarrow> fs \<Rightarrow> run_process_action \<Rightarrow> rule_outcome option checked" where
  "evaluate_installed h f action =
    and_then (check_only (inspect_installed_executable h f (rp_executable action))) (\<lambda>found.
      case found of
        None \<Rightarrow> done_with (Some out_executable_untrusted)
      | Some report \<Rightarrow>
          and_then (push report) (\<lambda>_.
            done_with (if rp_launch action \<noteq> Direct then Some out_installed_launch else None)))"

definition push_cwd :: "host \<Rightarrow> fs \<Rightarrow> path \<Rightarrow> path \<Rightarrow> unit checked" where
  "push_cwd h f active cwd =
    (if path_eq cwd active then done_with ()
     else and_then (check_only (ok_or (PathErr ''process.cwd_outside_worktree''
                      ''process cwd is outside the active worktree'') (strip_prefix cwd active)))
       (\<lambda>relative. inspect_and_push h f (target_at active relative) ExpectDirectory))"

text \<open>The checks on the invocation itself, in the order of the code; \<open>None\<close> passes.\<close>

definition process_refusal :: "run_process_action \<Rightarrow> rule_outcome option" where
  "process_refusal action =
    (if rp_timeout_ms action = 0 \<or> rp_timeout_ms action > MAX_POLICY_TIMEOUT_MS
     then Some out_timeout
     else if rp_output_limit_bytes action = 0 \<or> rp_output_limit_bytes action > MAX_POLICY_OUTPUT_BYTES
     then Some out_output_limit
     else if length (rp_arguments action) > MAX_POLICY_ARGUMENTS
       \<or> sum_list (map length (rp_arguments action)) > MAX_POLICY_ARGUMENT_BYTES
     then Some out_arguments
     else (case validate_environment_allowlist (rp_environment_allowlist action) of
       Some rule \<Rightarrow> Some rule
     | None \<Rightarrow>
         if list_ex (\<lambda>a. unsafe_argument a (rp_launch action)) (rp_arguments action)
         then Some out_metacharacter
         else if rp_network action = NetUndeclared then Some out_network_undeclared
         else if is_shell_executable (executable_name (rp_executable action)) \<or> rp_launch action = Shell
         then Some out_shell
         else None))"

definition evaluate_executable ::
  "host \<Rightarrow> fs \<Rightarrow> path \<Rightarrow> path \<Rightarrow> path \<Rightarrow> run_process_action \<Rightarrow> rule_outcome checked" where
  "evaluate_executable h f workspace_root active cwd action =
    (case classify_executable (executable_name (rp_executable action)) of
       JavaRuntime \<Rightarrow> done_with out_java_runtime
     | OtherExecutable \<Rightarrow> done_with out_executable_unknown
     | Tool tool project_wrapper \<Rightarrow>
         and_then (if project_wrapper then evaluate_wrapper h f workspace_root active cwd action
                   else evaluate_installed h f action)
         (\<lambda>refused. case refused of
             Some rule \<Rightarrow> done_with rule
           | None \<Rightarrow> done_with (evaluate_build_arguments action tool)))"

definition evaluate_process ::
  "host \<Rightarrow> fs \<Rightarrow> policy_request \<Rightarrow> path \<Rightarrow> run_process_action \<Rightarrow> rule_outcome checked" where
  "evaluate_process h f request workspace_root action =
    (if rq_mode request \<noteq> WorktreeEdit then done_with out_read_only_write_denied else
     and_then (check_only (validated_active_worktree h f request workspace_root)) (\<lambda>active_opt.
     (case active_opt of
       None \<Rightarrow> done_with out_outside_scope_denied
     | Some active \<Rightarrow>
         and_then (check_only (inspect_root f (rp_cwd action))) (\<lambda>cwd.
         if \<not> path_starts_with cwd active then done_with out_outside_scope_denied else
         and_then (push_cwd h f active cwd) (\<lambda>_.
         (case process_refusal action of
            Some rule \<Rightarrow> done_with rule
          | None \<Rightarrow> evaluate_executable h f workspace_root active cwd action))))))"

definition evaluate_cleanup ::
  "host \<Rightarrow> fs \<Rightarrow> policy_request \<Rightarrow> path \<Rightarrow> cleanup_worktree_action \<Rightarrow> rule_outcome checked" where
  "evaluate_cleanup h f request workspace_root action =
    and_then (check_only (validate_worktree_run_id (cl_run_id action))) (\<lambda>_.
    if rq_mode request = ReadOnly then done_with out_read_only_write_denied else
    and_then (check_only (inspect_root f (cl_repository_root action))) (\<lambda>repository.
    if \<not> path_eq repository workspace_root then done_with out_outside_scope_denied else
    and_then (check_only (validated_active_worktree h f request workspace_root)) (\<lambda>active.
    and_then (check_only (inspect_root f (cl_worktree_root action))) (\<lambda>target.
    if opt_path_eq active (Some target) \<and> rq_mode request = WorktreeEdit
      \<and> (case ws_active_worktree (rq_workspace request) of
           None \<Rightarrow> False | Some w \<Rightarrow> aw_run_id w = cl_run_id action)
    then done_with out_cleanup_active
    else done_with out_cleanup_recovery))))"

definition evaluate_delete ::
  "host \<Rightarrow> fs \<Rightarrow> policy_request \<Rightarrow> path \<Rightarrow> delete_action \<Rightarrow> rule_outcome checked" where
  "evaluate_delete h f request workspace_root action =
    (if da_recursive action then done_with out_delete_recursive else
     and_then (check_only (inspect_path h f (da_target action) ExpectFile)) (\<lambda>report.
     and_then (check_only (require_read_scope h f request workspace_root (ps_root report))) (\<lambda>_.
     if rq_mode request = ReadOnly then done_with out_read_only_write_denied
     else if path_eq (ps_root report) workspace_root then done_with out_delete_original
     else and_then (push report) (\<lambda>_. done_with out_delete_worktree))))"

definition evaluate_create_worktree ::
  "host \<Rightarrow> fs \<Rightarrow> policy_request \<Rightarrow> path \<Rightarrow> create_worktree_action \<Rightarrow> rule_outcome checked" where
  "evaluate_create_worktree h f request workspace_root action =
    and_then (check_only (inspect_root f (cw_repository_root action))) (\<lambda>repository.
    if \<not> path_eq repository workspace_root then done_with out_outside_scope_denied else
    and_then (check_only (validate_git_oid (cw_base_head action) ''worktree base HEAD'')) (\<lambda>_.
    and_then (check_only (validate_worktree_destination h f (cw_destination action) (cw_run_id action))) (\<lambda>_.
    if \<not> cw_detached action then done_with out_worktree_detached
    else if rq_mode request \<noteq> WorktreeEdit then done_with out_read_only_write_denied
    else case ws_repository (rq_workspace request) of
      None \<Rightarrow> done_with out_worktree_boundary
    | Some boundary \<Rightarrow>
        if gb_head boundary \<noteq> cw_base_head action then done_with out_worktree_head
        else if ws_repository_clean (rq_workspace request) \<noteq> Some True then done_with out_worktree_dirty
        else and_then (check_only (require_working_tree_digest request)) (\<lambda>_.
          done_with out_create_worktree))))"

definition evaluate_read ::
  "host \<Rightarrow> fs \<Rightarrow> policy_request \<Rightarrow> path \<Rightarrow> path_target \<Rightarrow> path_expectation \<Rightarrow> rule_outcome \<Rightarrow> rule_outcome checked" where
  "evaluate_read h f request workspace_root target expectation outcome =
    and_then (check_only (inspect_path h f target expectation)) (\<lambda>report.
    and_then (check_only (require_read_scope h f request workspace_root (ps_root report))) (\<lambda>_.
    and_then (push report) (\<lambda>_. done_with outcome)))"

definition evaluate_analysis ::
  "host \<Rightarrow> fs \<Rightarrow> policy_request \<Rightarrow> path \<Rightarrow> path \<Rightarrow> string \<Rightarrow> string \<Rightarrow> path list \<Rightarrow> rule_outcome \<Rightarrow>
   rule_outcome checked" where
  "evaluate_analysis h f request workspace_root root_path hash label listed outcome =
    and_then (check_only (inspect_root f root_path)) (\<lambda>root.
    and_then (check_only (require_read_scope h f request workspace_root root)) (\<lambda>_.
    and_then (check_only (validate_hash_value hash label)) (\<lambda>_.
    and_then (inspect_path_list h f root listed) (\<lambda>_. done_with outcome))))"

definition evaluate_transaction ::
  "fs \<Rightarrow> policy_request \<Rightarrow> path \<Rightarrow> transaction_action \<Rightarrow> rule_outcome \<Rightarrow> rule_outcome checked" where
  "evaluate_transaction f request workspace_root action outcome =
    and_then (check_only (validate_transaction_action f action workspace_root)) (\<lambda>_.
    done_with (if rq_mode request = ReadOnly then out_read_only_write_denied else outcome))"

definition evaluate_git_commit ::
  "host \<Rightarrow> fs \<Rightarrow> policy_request \<Rightarrow> path \<Rightarrow> git_commit_action \<Rightarrow> rule_outcome checked" where
  "evaluate_git_commit h f request workspace_root action =
    and_then (check_only (validate_hash_value (gc_tree_hash action) ''Git tree hash'')) (\<lambda>_.
    and_then (check_only (validate_hash_value (gc_message_hash action) ''commit message hash'')) (\<lambda>_.
    and_then (check_only (inspect_root f (gc_repository_root action))) (\<lambda>repository.
    and_then (check_only (require_read_scope h f request workspace_root repository)) (\<lambda>_.
    done_with (if rq_mode request = ReadOnly then out_read_only_write_denied else out_git_commit)))))"

definition evaluate_git_read ::
  "host \<Rightarrow> fs \<Rightarrow> policy_request \<Rightarrow> path \<Rightarrow> git_read_action \<Rightarrow> rule_outcome checked" where
  "evaluate_git_read h f request workspace_root action =
    (if gr_operation action = GitReadUnknown then done_with out_git_read_unknown else
     and_then (check_only (inspect_root f (gr_repository_root action))) (\<lambda>repository.
     and_then (check_only (require_read_scope h f request workspace_root repository)) (\<lambda>_.
     and_then (inspect_path_list h f repository (gr_paths action)) (\<lambda>_. done_with out_git_read))))"

definition evaluate_rag :: "fs \<Rightarrow> path \<Rightarrow> rag_action \<Rightarrow> rule_outcome checked" where
  "evaluate_rag f workspace_root action =
    and_then (check_only (validate_hash_value (ra_query_hash action) ''RAG query hash'')) (\<lambda>_.
    and_then (check_only (inspect_root f (ra_index_root action))) (\<lambda>root.
    done_with (if \<not> path_starts_with root workspace_root then out_rag_outside else out_rag)))"

fun evaluate_action ::
  "host \<Rightarrow> fs \<Rightarrow> policy_request \<Rightarrow> path \<Rightarrow> policy_action \<Rightarrow> rule_outcome checked" where
  "evaluate_action h f request ws UnknownAction = done_with out_unknown"
| "evaluate_action h f request ws ModifyPolicy = done_with out_modify_policy"
| "evaluate_action h f request ws ElevatePrivileges = done_with out_elevate"
| "evaluate_action h f request ws (ReadFile t) = evaluate_read h f request ws t ExpectFile out_read_file"
| "evaluate_action h f request ws (ReadDirectory t) =
     evaluate_read h f request ws t ExpectDirectory out_read_directory"
| "evaluate_action h f request ws (Search a) =
     evaluate_analysis h f request ws (sa_root a) (sa_query_hash a) ''search query hash'' (sa_paths a) out_search"
| "evaluate_action h f request ws (BuildContext a) =
     evaluate_analysis h f request ws (ca_root a) (ca_task_hash a) ''context task hash''
       (ca_candidate_paths a) out_context"
| "evaluate_action h f request ws (UseRag a) = evaluate_rag f ws a"
| "evaluate_action h f request ws (WriteFile t) = evaluate_write h f request ws t ExpectFile False"
| "evaluate_action h f request ws (CreateFile t) = evaluate_write h f request ws t NewFile True"
| "evaluate_action h f request ws (DeleteFile a) = evaluate_delete h f request ws a"
| "evaluate_action h f request ws (ApplyPatch a) = evaluate_apply_patch h f request ws a"
| "evaluate_action h f request ws (RunProcess a) = evaluate_process h f request ws a"
| "evaluate_action h f request ws (CreateWorktree a) = evaluate_create_worktree h f request ws a"
| "evaluate_action h f request ws (CleanupWorktree a) = evaluate_cleanup h f request ws a"
| "evaluate_action h f request ws (GitRead a) = evaluate_git_read h f request ws a"
| "evaluate_action h f request ws (GitWrite a) =
     done_with (if gw_operation a = GitWriteUnknown then out_git_write_unknown else out_git_write)"
| "evaluate_action h f request ws (GitCommit a) = evaluate_git_commit h f request ws a"
| "evaluate_action h f request ws (GitPush _) = done_with out_git_push"
| "evaluate_action h f request ws (NetworkAccess _ _) = done_with out_network"
| "evaluate_action h f request ws (PackageInstall _ _) = done_with out_package_install"
| "evaluate_action h f request ws (Publish _ _) = done_with out_publish"
| "evaluate_action h f request ws (RecoverTransaction a) = evaluate_transaction f request ws a out_recover"
| "evaluate_action h f request ws (RollbackTransaction a) = evaluate_transaction f request ws a out_rollback"

section \<open>Evaluation of a request\<close>

definition MAX_TECHNICAL_REASON_BYTES :: nat where "MAX_TECHNICAL_REASON_BYTES = 2 * 1024"
definition MAX_USER_REASON_BYTES :: nat where "MAX_USER_REASON_BYTES = 512"

definition invalid_path_request :: "path_error \<Rightarrow> policy_error" where
  "invalid_path_request e = InvalidRequest (path_error_to_string e)"

definition approval_id_ok :: "string \<Rightarrow> bool" where
  "approval_id_ok s =
    (\<not> (s = [] \<or> length s > MAX_POLICY_IDENTIFIER_BYTES \<or> \<not> list_all is_run_id_byte s))"

definition validate_request :: "fs \<Rightarrow> policy_request \<Rightarrow> (policy_error, unit) res" where
  "validate_request f request =
    (if rq_schema_version request \<noteq> POLICY_SCHEMA_VERSION \<or> rq_protocol request \<noteq> POLICY_PROTOCOL_ID
     then Inl (InvalidRequest (''expected '' @ POLICY_PROTOCOL_ID @ '' schema '' @ dec_of_nat POLICY_SCHEMA_VERSION))
     else
     try_then (validate_request_identifier (rq_request_id request) MAX_POLICY_REQUEST_ID_BYTES ''request ID'') (\<lambda>_.
     try_then (validate_request_identifier (rq_action_id request) MAX_POLICY_IDENTIFIER_BYTES ''action ID'') (\<lambda>_.
     try_then (validate_request_identifier (ws_workspace_id (rq_workspace request))
       MAX_POLICY_IDENTIFIER_BYTES ''workspace ID'') (\<lambda>_.
     try_then (validate_request_identifier (rq_profile request) 96 ''profile'') (\<lambda>_.
     try_then (validate_request_identifier (client_name (rq_client request)) 96 ''client name'') (\<lambda>_.
     try_then (validate_request_identifier (client_version (rq_client request)) 96 ''client version'') (\<lambda>_.
     if rq_origin request = OriginUnknown
     then Inl (InvalidRequest ''unknown action origin is not accepted'')
     else if (case rq_approval_id request of None \<Rightarrow> False | Some a \<Rightarrow> \<not> approval_id_ok a)
     then Inl (InvalidRequest ''approval ID is malformed'')
     else
     try_then (case ws_working_tree_digest (rq_workspace request) of
         None \<Rightarrow> Inr ()
       | Some digest \<Rightarrow> map_err invalid_path_request (validate_hash_value digest ''working-tree digest'')) (\<lambda>_.
     map_err invalid_path_request
       (validate_repository_boundary f (ws_repository (rq_workspace request)) (ws_root (rq_workspace request)))))))))))"

definition action_hash :: "host \<Rightarrow> policy_action \<Rightarrow> (policy_error, string) res" where
  "action_hash h action = try_then (map_err InvalidRequest (h_json_action h action)) (\<lambda>b. Inr (h_blake3 h b))"

definition security_context_hash :: "host \<Rightarrow> policy_request \<Rightarrow> (policy_error, string) res" where
  "security_context_hash h request =
    try_then (map_err InvalidRequest (h_json_request h request)) (\<lambda>b. Inr (h_blake3 h b))"

definition path_denied :: "path_error \<Rightarrow> rule_outcome" where
  "path_denied e = denied (pe_rule e) High ''The requested path is blocked by the safety policy.''
     (pe_message e) ''Choose a regular, non-sensitive path inside the authorized workspace.'' False"

record evaluation =
  ev_report :: policy_report
  ev_paths :: "path_report list"

definition outcome_of :: "rule_outcome checked \<Rightarrow> rule_outcome" where
  "outcome_of c = (case fst c of Inl e \<Rightarrow> path_denied e | Inr out \<Rightarrow> out)"

definition report_of ::
  "policy_request \<Rightarrow> string \<Rightarrow> string \<Rightarrow> rule_outcome \<Rightarrow> bool \<Rightarrow> policy_report" where
  "report_of request action_digest workspace_hash outcome has_paths =
    (case outcome of (decision, user_reason, technical_reason, recommended_action, retriable) \<Rightarrow>
      \<lparr>pr_schema_version = POLICY_SCHEMA_VERSION, pr_protocol = POLICY_PROTOCOL_ID,
       pr_policy_version = POLICY_VERSION, pr_request_id = rq_request_id request,
       pr_action_id = rq_action_id request, pr_action_kind = action_kind (rq_action request),
       pr_action_hash = action_digest, pr_workspace_hash = workspace_hash, pr_decision = decision,
       pr_user_reason = bounded user_reason MAX_USER_REASON_BYTES,
       pr_technical_reason = bounded technical_reason MAX_TECHNICAL_REASON_BYTES,
       pr_recommended_action = bounded recommended_action MAX_USER_REASON_BYTES,
       pr_retriable = retriable, pr_revalidation_required = has_paths, pr_audit_event_id = None\<rparr>)"

definition evaluate :: "host \<Rightarrow> fs \<Rightarrow> policy_request \<Rightarrow> (policy_error, evaluation) res" where
  "evaluate h f request =
    try_then (validate_request f request) (\<lambda>_.
    try_then (map_err invalid_path_request (inspect_root f (ws_root (rq_workspace request)))) (\<lambda>workspace_root.
    let workspace_hash = hash_text h (ws_workspace_id (rq_workspace request) @ '':'' @
                           normalized_absolute workspace_root) in
    try_then (action_hash h (rq_action request)) (\<lambda>action_digest.
    let checked = evaluate_action h f request workspace_root (rq_action request) in
    Inr \<lparr>ev_report = report_of request action_digest workspace_hash (outcome_of checked) (snd checked \<noteq> []),
         ev_paths = snd checked\<rparr>)))"

section \<open>How checked steps succeed\<close>

lemma checked_fst [simp]:
  "fst (check_only r) = r" "fst (done_with a) = Inr a" "fst (push p) = Inr ()"
  by (simp_all add: check_only_def done_with_def push_def)

lemma checked_snd [simp]:
  "snd (check_only r) = []" "snd (done_with a) = []" "snd (push p) = [p]"
  by (simp_all add: check_only_def done_with_def push_def)

lemma and_then_Inr [checked_simps]:
  "fst (and_then m k) = Inr b \<longleftrightarrow> (\<exists>a. fst m = Inr a \<and> fst (k a) = Inr b)"
  by (auto simp: and_then_def split: sum.splits)

lemma snd_and_then:
  "snd (and_then m k) = snd m @ (case fst m of Inl e \<Rightarrow> [] | Inr a \<Rightarrow> snd (k a))"
  by (auto simp: and_then_def split: sum.splits)

lemma set_snd_and_then:
  assumes "r \<in> set (snd (and_then m k))"
  shows "r \<in> set (snd m) \<or> (\<exists>a. fst m = Inr a \<and> r \<in> set (snd (k a)))"
  using assms by (auto simp: snd_and_then split: sum.splits)

text \<open>
  \<open>grants c P\<close>: whenever the step \<open>c\<close> ends in an outcome that is not a denial, \<open>P\<close> holds of it.
\<close>

definition grants :: "rule_outcome checked \<Rightarrow> (rule_outcome \<Rightarrow> bool) \<Rightarrow> bool" where
  "grants c P = (\<forall>out. fst c = Inr out \<longrightarrow> is_Deny (fst out) \<or> P out)"

lemma grants_done [simp]: "grants (done_with out) P \<longleftrightarrow> is_Deny (fst out) \<or> P out"
  by (simp add: grants_def)

lemma grants_and_then: "grants (and_then m k) P \<longleftrightarrow> (\<forall>a. fst m = Inr a \<longrightarrow> grants (k a) P)"
  by (auto simp: grants_def checked_simps)

lemma grants_mono: "grants c P \<Longrightarrow> (\<And>out. P out \<Longrightarrow> Q out) \<Longrightarrow> grants c Q"
  by (auto simp: grants_def)

lemma is_Deny_iff: "is_Deny d \<longleftrightarrow> \<not> is_Allow d \<and> \<not> is_RequireApproval d"
  by (cases d) auto

lemma path_denied_deny [simp]: "is_Deny (fst (path_denied e))"
  by (simp add: path_denied_def denied_def)

text \<open>A decision other than a denial comes from an outcome of a rule.\<close>

lemma evaluate_Inr:
  assumes "evaluate h f request = Inr ev"
  obtains ws digest where
    "validate_request f request = Inr ()" "inspect_root f (ws_root (rq_workspace request)) = Inr ws"
    "action_hash h (rq_action request) = Inr digest"
    "ev_paths ev = snd (evaluate_action h f request ws (rq_action request))"
    "pr_decision (ev_report ev) = fst (outcome_of (evaluate_action h f request ws (rq_action request)))"
    "pr_action_hash (ev_report ev) = digest"
    "pr_request_id (ev_report ev) = rq_request_id request"
    "pr_revalidation_required (ev_report ev) \<longleftrightarrow> ev_paths ev \<noteq> []"
  using assms by (auto simp: evaluate_def res_simps Let_def report_of_def case_prod_beta)

lemma evaluate_grants:
  assumes "evaluate h f request = Inr ev" "\<not> is_Deny (pr_decision (ev_report ev))"
  obtains ws out where
    "validate_request f request = Inr ()" "inspect_root f (ws_root (rq_workspace request)) = Inr ws"
    "fst (evaluate_action h f request ws (rq_action request)) = Inr out"
    "ev_paths ev = snd (evaluate_action h f request ws (rq_action request))"
    "pr_decision (ev_report ev) = fst out"
    "\<And>P. grants (evaluate_action h f request ws (rq_action request)) P \<Longrightarrow> P out"
  using assms(1)
proof (rule evaluate_Inr)
  fix ws digest
  assume ws: "validate_request f request = Inr ()"
      "inspect_root f (ws_root (rq_workspace request)) = Inr ws"
    and paths: "ev_paths ev = snd (evaluate_action h f request ws (rq_action request))"
    and d: "pr_decision (ev_report ev) = fst (outcome_of (evaluate_action h f request ws (rq_action request)))"
  obtain out where out: "fst (evaluate_action h f request ws (rq_action request)) = Inr out"
    using d assms(2) by (cases "fst (evaluate_action h f request ws (rq_action request))")
      (auto simp: outcome_of_def)
  then have dec: "pr_decision (ev_report ev) = fst out"
    using d by (simp add: outcome_of_def)
  have "P out" if "grants (evaluate_action h f request ws (rq_action request)) P" for P
    using that out dec assms(2) by (auto simp: grants_def)
  then show thesis
    using that [OF ws out paths dec] by blast
qed

section \<open>What the rules grant\<close>

text \<open>The actions that never change a file, a reference or a process.\<close>

fun observing :: "policy_action \<Rightarrow> bool" where
  "observing (ReadFile _) = True"
| "observing (ReadDirectory _) = True"
| "observing (Search _) = True"
| "observing (BuildContext _) = True"
| "observing (UseRag _) = True"
| "observing (GitRead _) = True"
| "observing _ = False"

text \<open>The actions outside every scope of this policy version.\<close>

fun forbidden :: "policy_action \<Rightarrow> bool" where
  "forbidden UnknownAction = True"
| "forbidden ModifyPolicy = True"
| "forbidden ElevatePrivileges = True"
| "forbidden (GitWrite _) = True"
| "forbidden (GitPush _) = True"
| "forbidden (NetworkAccess _ _) = True"
| "forbidden (PackageInstall _ _) = True"
| "forbidden (Publish _ _) = True"
| "forbidden _ = False"

lemma forbidden_deny:
  "forbidden a \<Longrightarrow> grants (evaluate_action h f request ws a) (\<lambda>_. False)"
  by (cases a) (auto simp: is_Deny_iff)

lemmas evaluate_rule_defs =
  evaluate_read_def evaluate_analysis_def evaluate_rag_def evaluate_write_def evaluate_delete_def
  evaluate_apply_patch_def evaluate_create_worktree_def evaluate_cleanup_def
  evaluate_git_read_def evaluate_git_commit_def evaluate_transaction_def

lemma read_only_grants:
  assumes "rq_mode request = ReadOnly"
  shows "grants (evaluate_action h f request ws a) (\<lambda>out. is_Allow (fst out) \<and> observing a)"
  using assms
  by (cases a)
    (auto simp: evaluate_rule_defs evaluate_process_def grants_and_then is_Deny_iff
      split: option.splits)

text \<open>Every report a rule pushes is the result of a successful inspection.\<close>

definition from_inspection :: "host \<Rightarrow> fs \<Rightarrow> 'a checked \<Rightarrow> bool" where
  "from_inspection h f c = (\<forall>r \<in> set (snd c). \<exists>t e. inspect_path h f t e = Inr r)"

lemma from_inspection_simps [simp]:
  "from_inspection h f (done_with a)" "from_inspection h f (check_only r)"
  "from_inspection h f (push p) \<longleftrightarrow> (\<exists>t e. inspect_path h f t e = Inr p)"
  by (simp_all add: from_inspection_def)

lemma from_inspection_and_then [simp]:
  "from_inspection h f (and_then m k) \<longleftrightarrow>
     from_inspection h f m \<and> (\<forall>a. fst m = Inr a \<longrightarrow> from_inspection h f (k a))"
  by (cases "fst m") (auto simp: from_inspection_def snd_and_then)

lemma from_inspection_each_path:
  "(\<And>x. from_inspection h f (g x)) \<Longrightarrow> from_inspection h f (each_path g xs)"
  by (induction xs) auto

lemma from_inspection_push [simp]: "from_inspection h f (inspect_and_push h f t e)"
  by (auto simp: inspect_and_push_def)

lemma from_inspection_list [simp]: "from_inspection h f (inspect_path_list h f root input)"
  by (auto simp: inspect_path_list_def intro: from_inspection_each_path)

lemma installed_from_inspection:
  "inspect_installed_from h f p roots = Inr (Some r) \<Longrightarrow> \<exists>t e. inspect_path h f t e = Inr r"
  by (induction roots) (auto simp: res_simps split: sum.splits if_splits)

lemma installed_inspected:
  "inspect_installed_executable h f p = Inr (Some r) \<Longrightarrow> \<exists>t e. inspect_path h f t e = Inr r"
  by (auto simp: inspect_installed_executable_def intro: installed_from_inspection
      split: if_splits sum.splits)

lemma from_inspection_executable [simp]:
  "from_inspection h f (evaluate_executable h f ws active cwd a)"
  by (auto simp: evaluate_executable_def evaluate_wrapper_def evaluate_installed_def Let_def
      dest: installed_inspected split: executable_class.splits option.splits)

lemma from_inspection_action: "from_inspection h f (evaluate_action h f request ws a)"
  by (cases a)
    (auto simp: evaluate_rule_defs evaluate_process_def push_cwd_def
      intro: from_inspection_each_path split: option.splits)

text \<open>Direct writes are granted only below the validated active worktree.\<close>

lemma write_grants:
  "grants (evaluate_write h f request ws t e c)
    (\<lambda>out. is_Allow (fst out) \<and> rq_mode request \<noteq> ReadOnly
      \<and> (\<exists>report active. inspect_path h f t e = Inr report
           \<and> validated_active_worktree h f request ws = Inr (Some active)
           \<and> path_eq active (ps_root report)))"
  by (auto simp: evaluate_write_def grants_and_then is_Deny_iff opt_path_eq_def split: option.splits)

text \<open>The observations an approval of a change of the original workspace rests on.\<close>

definition apply_ready :: "policy_request \<Rightarrow> apply_patch_action \<Rightarrow> bool" where
  "apply_ready request a =
    (rq_mode request = ApprovedApply
     \<and> map_option gb_head (ws_repository (rq_workspace request)) = Some (ap_base_head a)
     \<and> ws_repository_clean (rq_workspace request) = Some True
     \<and> (case ws_working_tree_digest (rq_workspace request) of None \<Rightarrow> False | Some d \<Rightarrow> hex64 d))"

lemma require_digest_Inr:
  "require_working_tree_digest request = Inr u \<Longrightarrow>
    (case ws_working_tree_digest (rq_workspace request) of None \<Rightarrow> False | Some d \<Rightarrow> hex64 d)"
  by (auto simp: require_working_tree_digest_def validate_hash_value_def hex64_def res_simps
      split: option.splits)

lemma apply_grants:
  "grants (evaluate_apply_patch h f request ws a)
    (\<lambda>out. \<exists>root active. inspect_root f (ap_root a) = Inr root
      \<and> validated_active_worktree h f request ws = Inr active
      \<and> (if path_eq root ws then out = out_apply_original \<and> apply_ready request a
         else out = out_apply_worktree \<and> rq_mode request = WorktreeEdit \<and> opt_path_eq active (Some root)))"
  by (auto simp: evaluate_apply_patch_def grants_and_then is_Deny_iff apply_ready_def
      dest: require_digest_Inr split: option.splits)

text \<open>What the argument checks of a process leave.\<close>

definition process_bounded :: "run_process_action \<Rightarrow> bool" where
  "process_bounded a =
    (0 < rp_timeout_ms a \<and> rp_timeout_ms a \<le> MAX_POLICY_TIMEOUT_MS
     \<and> 0 < rp_output_limit_bytes a \<and> rp_output_limit_bytes a \<le> MAX_POLICY_OUTPUT_BYTES
     \<and> length (rp_arguments a) \<le> MAX_POLICY_ARGUMENTS
     \<and> sum_list (map length (rp_arguments a)) \<le> MAX_POLICY_ARGUMENT_BYTES
     \<and> set (rp_environment_allowlist a) \<subseteq> set environment_allowed
     \<and> (\<forall>arg \<in> set (rp_arguments a). \<not> unsafe_argument arg (rp_launch a))
     \<and> rp_network a \<noteq> NetUndeclared \<and> rp_launch a = Direct
     \<and> \<not> is_shell_executable (executable_name (rp_executable a)))"

lemma environment_refusal_deny:
  "validate_environment_allowlist env = Some out \<Longrightarrow> is_Deny (fst out)"
  by (auto simp: validate_environment_allowlist_def is_Deny_iff split: if_splits)

lemma environment_names:
  "validate_environment_allowlist env = None \<Longrightarrow> set env \<subseteq> set environment_allowed"
  by (auto simp: validate_environment_allowlist_def environment_name_ok_def list_ex_iff
      split: if_splits)

lemma process_refusal_deny: "process_refusal a = Some out \<Longrightarrow> is_Deny (fst out)"
  by (auto simp: process_refusal_def is_Deny_iff split: if_splits option.splits
      dest: environment_refusal_deny)

lemma process_refusal_None:
  "process_refusal a = None \<Longrightarrow> rp_launch a = Direct \<Longrightarrow> process_bounded a"
  by (auto simp: process_refusal_def process_bounded_def list_ex_iff split: if_splits option.splits
      dest: environment_names)

definition build_ok :: "run_process_action \<Rightarrow> build_tool \<Rightarrow> rule_outcome \<Rightarrow> bool" where
  "build_ok a tool out =
    (\<not> package_install_goal tool (rp_arguments a) \<and> \<not> dangerous_build_option tool (rp_arguments a)
     \<and> allowed_build_goals tool (rp_arguments a)
     \<and> (if rp_network a = NetDenied
        then out = out_build_offline \<and> (''-o'' \<in> set (rp_arguments a) \<or> ''--offline'' \<in> set (rp_arguments a))
        else out = out_build_network))"

lemma build_arguments_grant:
  "is_Deny (fst (evaluate_build_arguments a tool)) \<or> build_ok a tool (evaluate_build_arguments a tool)"
  by (auto simp: evaluate_build_arguments_def build_ok_def Let_def is_Deny_iff list_ex_iff)

lemma executable_refusal_deny:
  "fst (evaluate_wrapper h f ws active cwd a) = Inr (Some out) \<Longrightarrow> is_Deny (fst out)"
  "fst (evaluate_installed h f a) = Inr (Some out) \<Longrightarrow> is_Deny (fst out)"
  by (auto simp: evaluate_wrapper_def evaluate_installed_def Let_def checked_simps is_Deny_iff
      split: if_splits option.splits)

lemma executable_direct:
  "fst (evaluate_wrapper h f ws active cwd a) = Inr None \<Longrightarrow> rp_launch a = Direct"
  "fst (evaluate_installed h f a) = Inr None \<Longrightarrow> rp_launch a = Direct"
  by (auto simp: evaluate_wrapper_def evaluate_installed_def Let_def checked_simps
      split: if_splits option.splits)

lemma executable_grants:
  "grants (evaluate_executable h f ws active cwd a)
    (\<lambda>out. rp_launch a = Direct \<and> (\<exists>tool wrapper.
       classify_executable (executable_name (rp_executable a)) = Tool tool wrapper \<and> build_ok a tool out))"
  using build_arguments_grant [of a]
  by (auto simp: evaluate_executable_def grants_and_then is_Deny_iff
      dest: executable_refusal_deny executable_direct
      split: executable_class.splits option.splits if_splits)

lemma process_grants:
  "grants (evaluate_process h f request ws a)
    (\<lambda>out. rq_mode request = WorktreeEdit \<and> process_bounded a
      \<and> (\<exists>active cwd tool wrapper. validated_active_worktree h f request ws = Inr (Some active)
           \<and> inspect_root f (rp_cwd a) = Inr cwd \<and> path_starts_with cwd active
           \<and> classify_executable (executable_name (rp_executable a)) = Tool tool wrapper
           \<and> build_ok a tool out))"
proof -
  have inner: "grants (case process_refusal a of Some rule \<Rightarrow> done_with rule
        | None \<Rightarrow> evaluate_executable h f ws active cwd a)
      (\<lambda>out. process_bounded a \<and> (\<exists>tool wrapper.
         classify_executable (executable_name (rp_executable a)) = Tool tool wrapper \<and> build_ok a tool out))"
    for active cwd
    using process_refusal_deny process_refusal_None
    by (auto split: option.splits intro!: grants_mono [OF executable_grants])
  then show ?thesis
    by (auto simp: evaluate_process_def grants_and_then is_Deny_iff split: option.splits
        intro!: grants_mono [OF inner])
qed

end
