(* ===== verification/Actions.thy ===== *)
theory Actions
  imports StdFs
begin

text \<open>
  Effectful code as state passing: an action takes the state and returns its result with the new
  state, and an error keeps the changes made before it.  \<open>act_then\<close> is sequencing with the early return
  of the question-mark operator, \<open>act_try\<close> runs an action and hands its result, an error too, to the
  caller, \<open>act_each\<close> is a loop that stops at the first error.
\<close>

named_theorems act_simps "how a sequence of actions can end"

type_synonym ('s, 'e, 'a) action = "'s \<Rightarrow> ('e, 'a) res \<times> 's"

definition act_return :: "'a \<Rightarrow> ('s, 'e, 'a) action" where
  "act_return a w = (Inr a, w)"

definition act_fail :: "'e \<Rightarrow> ('s, 'e, 'a) action" where
  "act_fail e w = (Inl e, w)"

definition act_then :: "('s, 'e, 'a) action \<Rightarrow> ('a \<Rightarrow> ('s, 'e, 'b) action) \<Rightarrow> ('s, 'e, 'b) action" where
  "act_then m k w = (case m w of (Inl e, w') \<Rightarrow> (Inl e, w') | (Inr a, w') \<Rightarrow> k a w')"

definition act_if :: "bool \<Rightarrow> 'e \<Rightarrow> ('s, 'e, unit) action" where
  "act_if ok e = (if ok then act_return () else act_fail e)"

definition act_res :: "('e, 'a) res \<Rightarrow> ('s, 'e, 'a) action" where
  "act_res r w = (r, w)"

definition act_try :: "('s, 'e, 'a) action \<Rightarrow> (('e, 'a) res \<Rightarrow> ('s, 'f, 'b) action) \<Rightarrow> ('s, 'f, 'b) action" where
  "act_try m k w = (case m w of (r, w') \<Rightarrow> k r w')"

fun act_each :: "('a \<Rightarrow> ('s, 'e, 'b) action) \<Rightarrow> 'a list \<Rightarrow> ('s, 'e, 'b list) action" where
  "act_each f [] = act_return []"
| "act_each f (x # xs) = act_then (f x) (\<lambda>y. act_then (act_each f xs) (\<lambda>ys. act_return (y # ys)))"

lemma act_then_Inr [act_simps]:
  "act_then m k w = (Inr b, w'') \<longleftrightarrow> (\<exists>a w'. m w = (Inr a, w') \<and> k a w' = (Inr b, w''))"
  by (auto simp: act_then_def split: prod.splits sum.splits)

lemma act_basic_simps [act_simps]:
  "act_return a w = (r, w') \<longleftrightarrow> r = Inr a \<and> w' = w"
  "act_fail e w = (r, w') \<longleftrightarrow> r = Inl e \<and> w' = w"
  "act_if ok e w = (Inr u, w') \<longleftrightarrow> ok \<and> w' = w"
  "act_res x w = (r, w') \<longleftrightarrow> r = x \<and> w' = w"
  by (auto simp: act_return_def act_fail_def act_if_def act_res_def)

text \<open>
  What holds of the state after an action whatever its result: \<open>act_keeps R m\<close> says that the state before
  and after are related by the preorder \<open>R\<close>.
\<close>

definition act_keeps :: "('s \<Rightarrow> 's \<Rightarrow> bool) \<Rightarrow> ('s, 'e, 'a) action \<Rightarrow> bool" where
  "act_keeps R m \<longleftrightarrow> (\<forall>w. R w (snd (m w)))"

lemma act_keepsD: "act_keeps R m \<Longrightarrow> m w = (r, w') \<Longrightarrow> R w w'"
  unfolding act_keeps_def by (metis snd_conv)

lemma act_keeps_pure:
  assumes "reflp R"
  shows "act_keeps R (act_return a)" "act_keeps R (act_fail e)" "act_keeps R (act_if ok e)"
    "act_keeps R (act_res x)"
  using assms by (auto simp: act_keeps_def act_return_def act_fail_def act_if_def act_res_def reflp_def)

lemma act_keeps_then:
  assumes "transp R" "act_keeps R m" "\<And>a. act_keeps R (k a)"
  shows "act_keeps R (act_then m k)"
  unfolding act_keeps_def
proof
  fix w
  obtain r w' where m: "m w = (r, w')"
    by (cases "m w")
  have "R w w'" "R w' (snd (k a w'))" for a
    using assms(2,3) m unfolding act_keeps_def by (metis snd_conv, metis)
  then show "R w (snd (act_then m k w))"
    using m transpD [OF assms(1)] by (cases r) (auto simp: act_then_def)
qed

lemma act_keeps_try:
  assumes "transp R" "act_keeps R m" "\<And>r. act_keeps R (k r)"
  shows "act_keeps R (act_try m k)"
  unfolding act_keeps_def
proof
  fix w
  obtain r w' where m: "m w = (r, w')"
    by (cases "m w")
  have "R w w'" "R w' (snd (k r w'))"
    using assms(2,3) m unfolding act_keeps_def by (metis snd_conv, metis)
  then show "R w (snd (act_try m k w))"
    using m transpD [OF assms(1)] by (auto simp: act_try_def)
qed

lemma act_keeps_each:
  assumes "reflp R" "transp R" "\<And>x. x \<in> set xs \<Longrightarrow> act_keeps R (f x)"
  shows "act_keeps R (act_each f xs)"
  using assms by (induction xs) (auto intro!: act_keeps_then act_keeps_pure)

end
