(* ===== verification/PolicyState.thy ===== *)
theory PolicyState
  imports Actions
begin

text \<open>
  The state directory of the policy crate (helpers of \<open>opticcode-policy/src/audit.rs\<close>): controlled
  directories, storage identifiers and atomic creation of a record.  A state-changing operation is
  a function on the \<open>world\<close> (file system, clock, process identifier, storage counter, operating-system
  randomness) that returns its result together with the new world; an error keeps the changes made
  before it.
\<close>

section \<open>Failures and the world\<close>

text \<open>
  An \<open>anyhow\<close> error is a message, or an input/output error under a context message (empty when the
  code adds none).
\<close>

datatype fail = Bail string | IoFail string io_error

fun fail_text :: "fail \<Rightarrow> string" where
  "fail_text (Bail m) = m"
| "fail_text (IoFail ctx e) = (if ctx = [] then io_text e else ctx)"

fun is_not_found_chain :: "fail \<Rightarrow> bool" where
  "is_not_found_chain (IoFail ctx e) = (e = NotFound)"
| "is_not_found_chain (Bail _) = False"

text \<open>
  \<open>w_random n\<close> is the answer of the operating system to the \<open>n\<close>-th request for twelve random bytes,
  \<open>None\<close> when it fails; \<open>w_meta\<close> is the metadata it gives to new entries.
\<close>

record world =
  w_fs :: fs
  w_clock :: nat
  w_pid :: nat
  w_counter :: nat
  w_draws :: nat
  w_random :: "nat \<Rightarrow> string option"
  w_meta :: meta

type_synonym 'a act = "(world, fail, 'a) action"

text \<open>Observing and changing the file system, with the context message of the call.\<close>

definition observe :: "string \<Rightarrow> (fs \<Rightarrow> (io_error, 'a) res) \<Rightarrow> 'a act" where
  "observe ctx g w = (map_err (IoFail ctx) (g (w_fs w)), w)"

definition ask :: "(fs \<Rightarrow> 'a) \<Rightarrow> 'a act" where
  "ask g w = (Inr (g (w_fs w)), w)"

definition change :: "string \<Rightarrow> (meta \<Rightarrow> fs \<Rightarrow> (io_error, fs) res) \<Rightarrow> unit act" where
  "change ctx g w = (case g (w_meta w) (w_fs w) of
      Inl e \<Rightarrow> (Inl (IoFail ctx e), w)
    | Inr f \<Rightarrow> (Inr (), w\<lparr>w_fs := f\<rparr>))"

lemma world_act_simps [act_simps]:
  "observe ctx g w = (Inr x, w') \<longleftrightarrow> g (w_fs w) = Inr x \<and> w' = w"
  "ask h w = (Inr x, w') \<longleftrightarrow> x = h (w_fs w) \<and> w' = w"
  "change ctx k w = (Inr u, w') \<longleftrightarrow> (\<exists>f. k (w_meta w) (w_fs w) = Inr f \<and> w' = w\<lparr>w_fs := f\<rparr>)"
  by (auto simp: observe_def ask_def change_def res_simps split: sum.splits)

section \<open>Identifiers\<close>

definition validate_storage_id :: "string \<Rightarrow> (fail, unit) res" where
  "validate_storage_id s =
    ensure (\<not> (s = [] \<or> length s > 160
       \<or> \<not> list_all (\<lambda>c. is_ascii_alphanumeric c \<or> c = CHR ''-'' \<or> c = CHR ''_'') s))
      (Bail ''invalid policy state identifier'')"

definition validate_directory_name :: "string \<Rightarrow> (fail, unit) res" where
  "validate_directory_name s =
    ensure (\<not> (s = [] \<or> length s > 64
       \<or> \<not> list_all (\<lambda>c. is_ascii_alphanumeric c \<or> c = CHR ''-'' \<or> c = CHR ''_'') s))
      (Bail ''invalid policy state directory name'')"

definition validate_digest :: "string \<Rightarrow> string \<Rightarrow> (fail, unit) res" where
  "validate_digest s label =
    ensure (length s = 64 \<and> list_all is_ascii_hexdigit s)
      (Bail (label @ '' must be a 64-character hexadecimal digest''))"

definition hex_digit :: "nat \<Rightarrow> char" where
  "hex_digit n = ''0123456789abcdef'' ! (n mod 16)"

fun hex_of_nat :: "nat \<Rightarrow> string" where
  "hex_of_nat n = (if n < 16 then [hex_digit n] else hex_of_nat (n div 16) @ [hex_digit (n mod 16)])"

declare hex_of_nat.simps [simp del]

definition hex_bytes :: "string \<Rightarrow> string" where
  "hex_bytes s = concat (map (\<lambda>c. [hex_digit ((of_char c :: nat) div 16), hex_digit ((of_char c :: nat) mod 16)]) s)"

text \<open>The storage counter is an \<open>AtomicU64\<close>: it wraps.\<close>

definition new_storage_id :: "string \<Rightarrow> string act" where
  "new_storage_id name w =
    (case validate_directory_name name of
       Inl e \<Rightarrow> (Inl e, w)
     | Inr _ \<Rightarrow>
         (case w_random w (w_draws w) of
            None \<Rightarrow> (Inl (Bail ''failed to obtain OS randomness''), w\<lparr>w_draws := w_draws w + 1\<rparr>)
          | Some random \<Rightarrow>
              (Inr (pad_zero 20 (dec_of_nat (w_clock w)) @ ''-'' @ pad_zero 10 (dec_of_nat (w_pid w)) @ ''-''
                    @ pad_zero 16 (hex_of_nat (w_counter w)) @ ''-'' @ hex_bytes random),
               w\<lparr>w_draws := w_draws w + 1, w_counter := (w_counter w + 1) mod 2 ^ 64\<rparr>)))"

section \<open>Controlled directories\<close>

text \<open>\<open>fs::create_dir_all\<close>; the fuel bounds the number of parents.\<close>

fun create_dir_all :: "nat \<Rightarrow> meta \<Rightarrow> path \<Rightarrow> fs \<Rightarrow> (io_error, fs) res" where
  "create_dir_all 0 m p f = Inl OtherIo"
| "create_dir_all (Suc k) m p f =
    (if p = [] then Inr f
     else case create_dir f p m of
       Inr f' \<Rightarrow> Inr f'
     | Inl e \<Rightarrow>
         if e \<noteq> NotFound then (if path_is_dir f p then Inr f else Inl e)
         else (case path_parent p of
             None \<Rightarrow> Inl OtherIo
           | Some q \<Rightarrow>
               try_then (create_dir_all k m q f) (\<lambda>f'.
               case create_dir f' p m of
                 Inr f'' \<Rightarrow> Inr f''
               | Inl e' \<Rightarrow> if path_is_dir f' p then Inr f' else Inl e')))"

definition POLICY_DIRECTORY :: string where "POLICY_DIRECTORY = ''policy-v1''"

definition ensure_controlled_directory :: "path \<Rightarrow> unit act" where
  "ensure_controlled_directory p =
    act_then (ask (\<lambda>f. path_exists f p)) (\<lambda>present.
    if present then
      act_then (observe (''failed to inspect state directory: '' @ p) (\<lambda>f. symlink_metadata f p)) (\<lambda>n.
      act_if (is_dir_node n \<and> \<not> is_link_node n) (Bail ''policy state root must be a real directory''))
    else (case path_parent p of
        None \<Rightarrow> act_fail (Bail ''policy state root has no parent directory'')
      | Some parent \<Rightarrow>
          act_then (ask (\<lambda>f. path_exists f parent)) (\<lambda>there.
          act_then (if there then act_return ()
                    else change (''failed to prepare state root parent: '' @ parent)
                      (\<lambda>m. create_dir_all (Suc (length (components parent))) m parent)) (\<lambda>_.
          act_then (change (''failed to create policy state root: '' @ p) (\<lambda>m f. create_dir f p m)) (\<lambda>_.
          act_then (observe [] (\<lambda>f. symlink_metadata f p)) (\<lambda>n.
          act_if (is_dir_node n \<and> \<not> is_link_node n) (Bail ''created policy state root is unsafe'')))))))"

text \<open>\<open>create_dir\<close> on an existing entry is not an error here.\<close>

definition create_dir_if_absent :: "string \<Rightarrow> path \<Rightarrow> unit act" where
  "create_dir_if_absent ctx p w = (case create_dir (w_fs w) p (w_meta w) of
      Inr f \<Rightarrow> (Inr (), w\<lparr>w_fs := f\<rparr>)
    | Inl AlreadyExists \<Rightarrow> (Inr (), w)
    | Inl e \<Rightarrow> (Inl (IoFail ctx e), w))"

definition ensure_controlled_child :: "path \<Rightarrow> path \<Rightarrow> unit act" where
  "ensure_controlled_child parent child =
    act_then (observe (''failed to resolve controlled parent: '' @ parent) (\<lambda>f. canonicalize f parent)) (\<lambda>parent.
    act_then (create_dir_if_absent (''failed to create '' @ child) child) (\<lambda>_.
    act_then (observe (''failed to inspect controlled child: '' @ child) (\<lambda>f. symlink_metadata f child)) (\<lambda>n.
    if \<not> is_dir_node n \<or> is_link_node n
    then act_fail (Bail ''policy state directory is a symlink or reparse point'')
    else
    act_then (observe [] (\<lambda>f. canonicalize f child)) (\<lambda>canonical.
    act_if (opt_path_eq (path_parent canonical) (Some parent))
      (Bail ''policy state directory escaped its controlled parent'')))))"

definition policy_subdirectory :: "path \<Rightarrow> string \<Rightarrow> path act" where
  "policy_subdirectory state_root name =
    (case validate_directory_name name of
       Inl e \<Rightarrow> act_fail e
     | Inr _ \<Rightarrow>
         act_then (ensure_controlled_directory state_root) (\<lambda>_.
         let policy_root = path_join state_root POLICY_DIRECTORY in
         act_then (ensure_controlled_child state_root policy_root) (\<lambda>_.
         let directory = path_join policy_root name in
         act_then (ensure_controlled_child policy_root directory) (\<lambda>_. act_return directory))))"

text \<open>The environment variables are arguments.\<close>

definition default_policy_state_dir ::
  "string option \<Rightarrow> string option \<Rightarrow> string option \<Rightarrow> (fail, path) res" where
  "default_policy_state_dir override xdg_state_home home =
    (case override of
       Some p \<Rightarrow> if p = [] then Inl (Bail ''OPTICCODE_POLICY_STATE_DIR cannot be empty'') else Inr p
     | None \<Rightarrow>
         (case xdg_state_home of
            Some base \<Rightarrow> Inr (path_join base ''opticcode'')
          | None \<Rightarrow>
              (case home of
                 None \<Rightarrow> Inl (Bail ''HOME is required for OpticCode policy state'')
               | Some home \<Rightarrow> Inr (path_join (path_join (path_join home ''.local'') ''state'') ''opticcode''))))"

section \<open>Atomic creation of a record\<close>

text \<open>
  The temporary file is removed when flushing or publishing it fails.  A failure while writing it is a failure
  of \<open>create_new\<close>: both leave no temporary file.
\<close>

definition or_remove :: "path \<Rightarrow> unit act \<Rightarrow> unit act" where
  "or_remove temp m w = (case m w of
      (Inr u, w') \<Rightarrow> (Inr u, w')
    | (Inl e, w') \<Rightarrow> (Inl e, (case remove_file (w_fs w') temp of Inl _ \<Rightarrow> w' | Inr f \<Rightarrow> w'\<lparr>w_fs := f\<rparr>)))"

definition atomic_create :: "path \<Rightarrow> path \<Rightarrow> string \<Rightarrow> unit act" where
  "atomic_create parent final_path bytes =
    act_then (observe (''failed to resolve state directory: '' @ parent) (\<lambda>f. canonicalize f parent)) (\<lambda>parent.
    case path_parent final_path of
      None \<Rightarrow> act_fail (Bail ''state record has no parent directory'')
    | Some final_parent \<Rightarrow>
        act_then (observe (''failed to resolve state record parent: '' @ final_parent)
          (\<lambda>f. canonicalize f final_parent)) (\<lambda>canonical_final_parent.
        if \<not> path_eq canonical_final_parent parent
        then act_fail (Bail ''state record parent escaped its controlled directory'')
        else
        act_then (new_storage_id ''tmp'') (\<lambda>temp_id.
        let temp_path = path_join parent (''.'' @ temp_id @ ''.tmp'') in
        act_then (change (''failed to create temporary state record: '' @ temp_path)
          (\<lambda>m f. create_new f temp_path m bytes)) (\<lambda>_.
        or_remove temp_path
          (act_then (observe [] (\<lambda>f. sync_all f temp_path)) (\<lambda>_.
           change (''failed to publish state record '' @ final_path)
             (\<lambda>m f. rename_file f temp_path final_path)))))))"

section \<open>Listing a controlled directory\<close>

definition is_json_record :: "path \<Rightarrow> path \<Rightarrow> bool" where
  "is_json_record canonical p =
    (opt_path_eq (path_parent p) (Some canonical) \<and> extension p = Some ''json''
     \<and> (case file_stem p of None \<Rightarrow> False | Some stem \<Rightarrow> is_ok (validate_storage_id stem)))"

definition controlled_json_files :: "path \<Rightarrow> path list act" where
  "controlled_json_files directory =
    act_then (observe (''failed to resolve policy state directory: '' @ directory)
      (\<lambda>f. canonicalize f directory)) (\<lambda>canonical.
    act_then (observe (''failed to enumerate policy state directory: '' @ canonical)
      (\<lambda>f. read_dir f canonical)) (\<lambda>names.
    act_return (filter (is_json_record canonical) (map (path_join canonical) names))))"

text \<open>\<open>Vec<PathBuf>::sort\<close>: by components.\<close>

definition sort_paths :: "path list \<Rightarrow> path list" where
  "sort_paths ps = sort_key components ps"

end
