(* ===== verification/PolicyAudit.thy ===== *)
theory PolicyAudit
  imports PolicyModel PolicyState
begin

text \<open>
  The audit log of policy decisions (\<open>opticcode-policy/src/audit.rs\<close>): one file per event below a
  directory per workspace digest, written atomically and rotated to a bounded number of events and
  bytes; listing skips files that do not parse or do not validate.
\<close>

definition AUDIT_SCHEMA_VERSION :: nat where "AUDIT_SCHEMA_VERSION = 1"
definition MAX_AUDIT_EVENTS :: nat where "MAX_AUDIT_EVENTS = 2048"
definition MAX_AUDIT_BYTES :: nat where "MAX_AUDIT_BYTES = 32 * 1024 * 1024"
definition MAX_AUDIT_RECORD_BYTES :: nat where "MAX_AUDIT_RECORD_BYTES = 64 * 1024"

record audit_event =
  ae_schema_version :: nat
  ae_event_id :: string
  ae_timestamp_unix_ms :: nat
  ae_request_id :: string
  ae_action_id_hash :: string
  ae_action_kind :: string
  ae_action_hash :: string
  ae_rule_id :: string
  ae_decision :: string
  ae_risk :: risk_level
  ae_workspace_hash :: string
  ae_origin :: action_origin
  ae_approval_state :: string
  ae_approval_hash :: "string option"
  ae_transaction_hash :: "string option"
  ae_result :: string
  ae_duration_us :: nat

record audit_query =
  aq_limit :: nat
  aq_workspace_hash :: "string option"
  aq_action_kind :: "string option"

record audit_report =
  ar_schema_version :: nat
  ar_storage :: path
  ar_events :: "audit_event list"
  ar_ignored_partial_records :: nat
  ar_bounded :: bool

record audit_store =
  as_state_root :: path
  as_workspaces_dir :: path

text \<open>The serialiser and the parser of an event.\<close>

record audit_codec =
  ac_to_json :: "audit_event \<Rightarrow> (string, string) res"
  ac_from_json :: "string \<Rightarrow> audit_event option"

definition audit_open :: "path \<Rightarrow> audit_store act" where
  "audit_open state_root =
    act_then (ensure_controlled_directory state_root) (\<lambda>_.
    let policy_root = path_join state_root POLICY_DIRECTORY in
    act_then (ensure_controlled_child state_root policy_root) (\<lambda>_.
    let audit_root = path_join policy_root ''audit'' in
    act_then (ensure_controlled_child policy_root audit_root) (\<lambda>_.
    let workspaces_dir = path_join audit_root ''workspaces'' in
    act_then (ensure_controlled_child audit_root workspaces_dir) (\<lambda>_.
    act_return \<lparr>as_state_root = state_root, as_workspaces_dir = workspaces_dir\<rparr>))))"

definition audit_field_ok :: "string \<Rightarrow> bool" where
  "audit_field_ok s =
    (\<not> (s = [] \<or> length s > 256 \<or> list_ex (\<lambda>c. c = CHR 0x0D \<or> c = CHR 0x0A \<or> c = CHR 0x00) s))"

definition audit_fields :: "audit_event \<Rightarrow> string list" where
  "audit_fields e = [ae_request_id e, ae_action_id_hash e, ae_action_kind e, ae_action_hash e, ae_rule_id e,
     ae_decision e, ae_workspace_hash e, ae_approval_state e, ae_result e]"

definition validate_event :: "audit_event \<Rightarrow> (fail, unit) res" where
  "validate_event e =
    (if ae_schema_version e \<noteq> AUDIT_SCHEMA_VERSION then Inl (Bail ''unsupported policy audit schema'')
     else if \<not> list_all audit_field_ok (audit_fields e)
     then Inl (Bail ''policy audit event contains an invalid bounded field'')
     else
     try_then (if ae_event_id e \<noteq> [] then validate_storage_id (ae_event_id e) else Inr ()) (\<lambda>_.
     try_then (validate_digest (ae_action_id_hash e) ''audit action ID digest'') (\<lambda>_.
     try_then (validate_digest (ae_action_hash e) ''audit action digest'') (\<lambda>_.
     try_then (validate_digest (ae_workspace_hash e) ''audit workspace digest'') (\<lambda>_.
     try_then (case ae_approval_hash e of None \<Rightarrow> Inr () | Some v \<Rightarrow> validate_digest v ''audit approval digest'') (\<lambda>_.
     (case ae_transaction_hash e of None \<Rightarrow> Inr () | Some v \<Rightarrow> validate_digest v ''audit transaction digest'')))))))"

definition lift_res :: "(fail, 'a) res \<Rightarrow> 'a act" where
  "lift_res r w = (r, w)"

definition workspace_events_dir :: "audit_store \<Rightarrow> string \<Rightarrow> bool \<Rightarrow> path act" where
  "workspace_events_dir s workspace_hash create =
    act_then (lift_res (validate_digest workspace_hash ''audit workspace digest'')) (\<lambda>_.
    let workspace = path_join (as_workspaces_dir s) workspace_hash;
        events = path_join workspace ''events'' in
    if create then
      act_then (ensure_controlled_child (as_workspaces_dir s) workspace) (\<lambda>_.
      act_then (ensure_controlled_child workspace events) (\<lambda>_. act_return events))
    else
      act_then (observe (''audit workspace namespace is unavailable: '' @ workspace_hash)
        (\<lambda>f. canonicalize f workspace)) (\<lambda>canonical_workspace.
      act_then (observe [] (\<lambda>f. canonicalize f (as_workspaces_dir s))) (\<lambda>workspaces.
      if \<not> opt_path_eq (path_parent canonical_workspace) (Some workspaces)
      then act_fail (Bail ''audit workspace namespace escaped its controlled parent'') else
      act_then (observe [] (\<lambda>f. symlink_metadata f canonical_workspace)) (\<lambda>n.
      if \<not> is_dir_node n \<or> is_link_node n then act_fail (Bail ''audit workspace namespace is unsafe'') else
      act_then (observe (''audit event namespace is unavailable: '' @ workspace_hash)
        (\<lambda>f. canonicalize f events)) (\<lambda>canonical_events.
      if \<not> opt_path_eq (path_parent canonical_events) (Some canonical_workspace)
      then act_fail (Bail ''audit event namespace escaped its workspace'')
      else act_return canonical_events)))))"

section \<open>Rotation\<close>

text \<open>Removing a record that is already gone is not an error.\<close>

definition remove_record :: "path \<Rightarrow> unit act" where
  "remove_record p w = (case remove_file (w_fs w) p of
      Inr f \<Rightarrow> (Inr (), w\<lparr>w_fs := f\<rparr>)
    | Inl NotFound \<Rightarrow> (Inr (), w)
    | Inl e \<Rightarrow> (Inl (IoFail (''failed to rotate policy audit record: '' @ p) e), w))"

fun rotate_loop :: "(path \<times> nat) list \<Rightarrow> nat \<Rightarrow> nat \<Rightarrow> nat \<Rightarrow> unit act" where
  "rotate_loop [] remove_count total_bytes max_bytes = act_return ()"
| "rotate_loop ((p, bytes) # es) remove_count total_bytes max_bytes =
    (if remove_count = 0 \<and> total_bytes \<le> max_bytes then act_return ()
     else act_then (remove_record p) (\<lambda>_.
       rotate_loop es (remove_count - 1) (total_bytes - bytes) max_bytes))"

definition record_sizes :: "fs \<Rightarrow> path list \<Rightarrow> (path \<times> nat) list" where
  "record_sizes f ps = concat (map (\<lambda>p. case symlink_metadata f p of
      Inr n \<Rightarrow> if is_file_node n \<and> \<not> is_link_node n then [(p, node_len n)] else []
    | Inl _ \<Rightarrow> []) ps)"

definition rotate_to_limits :: "path \<Rightarrow> nat \<Rightarrow> nat \<Rightarrow> unit act" where
  "rotate_to_limits events_dir max_events max_bytes =
    act_then (controlled_json_files events_dir) (\<lambda>ps.
    act_then (ask (\<lambda>f. record_sizes f ps)) (\<lambda>unsorted.
    let entries = sort_key (\<lambda>e. components (fst e)) unsorted;
        total_bytes = foldl (\<lambda>s e. sat_add s (snd e)) 0 entries
    in rotate_loop entries (length entries - max_events) total_bytes max_bytes))"

definition audit_record :: "audit_codec \<Rightarrow> audit_store \<Rightarrow> audit_event \<Rightarrow> string act" where
  "audit_record c s event =
    act_then (lift_res (validate_event event)) (\<lambda>_.
    act_then (if ae_event_id event = [] then new_storage_id ''audit'' else act_return (ae_event_id event)) (\<lambda>event_id.
    let event = event\<lparr>ae_event_id := event_id\<rparr> in
    act_then (lift_res (validate_storage_id event_id)) (\<lambda>_.
    act_then (lift_res (map_err (\<lambda>_. Bail ''failed to serialize policy audit event'') (ac_to_json c event))) (\<lambda>json.
    let bytes = json @ [CHR 0x0A] in
    if length bytes > MAX_AUDIT_RECORD_BYTES
    then act_fail (Bail ''policy audit event exceeds the bounded record size'') else
    act_then (workspace_events_dir s (ae_workspace_hash event) True) (\<lambda>events_dir.
    act_then (atomic_create events_dir (path_join events_dir (event_id @ ''.json'')) bytes) (\<lambda>_.
    act_then (rotate_to_limits events_dir MAX_AUDIT_EVENTS MAX_AUDIT_BYTES) (\<lambda>_.
    act_return event_id)))))))"

section \<open>Listing\<close>

definition parse_record :: "audit_codec \<Rightarrow> fs \<Rightarrow> path \<Rightarrow> audit_event option" where
  "parse_record c f p = (case symlink_metadata f p of
      Inl _ \<Rightarrow> None
    | Inr n \<Rightarrow>
        if \<not> (is_file_node n \<and> \<not> is_link_node n \<and> node_len n \<le> MAX_AUDIT_RECORD_BYTES) then None
        else (case fs_read f p of
            Inl _ \<Rightarrow> None
          | Inr bytes \<Rightarrow>
              (case ac_from_json c bytes of
                 None \<Rightarrow> None
               | Some e \<Rightarrow> if is_ok (validate_event e) then Some e else None)))"

definition query_matches :: "audit_query \<Rightarrow> audit_event \<Rightarrow> bool" where
  "query_matches q e =
    (\<not> ((case aq_workspace_hash q of None \<Rightarrow> False | Some h \<Rightarrow> h \<noteq> ae_workspace_hash e)
        \<or> (case aq_action_kind q of None \<Rightarrow> False | Some k \<Rightarrow> k \<noteq> ae_action_kind e)))"

text \<open>
  The loop of \<open>list\<close> over the remaining paths, newest first; it stops once \<open>room\<close> events have been
  collected (the limit is at least one).
\<close>

fun list_loop ::
  "audit_codec \<Rightarrow> fs \<Rightarrow> audit_query \<Rightarrow> path list \<Rightarrow> nat \<Rightarrow> audit_event list \<times> nat" where
  "list_loop c f q [] room = ([], 0)"
| "list_loop c f q (p # ps) room =
    (case parse_record c f p of
       None \<Rightarrow> (let (es, ignored) = list_loop c f q ps room in (es, ignored + 1))
     | Some e \<Rightarrow>
         if \<not> query_matches q e then list_loop c f q ps room
         else if room = 1 then ([e], 0)
         else (let (es, ignored) = list_loop c f q ps (room - 1) in (e # es, ignored)))"

definition event_directory :: "fs \<Rightarrow> path \<Rightarrow> string \<Rightarrow> (io_error, path list) res" where
  "event_directory f canonical name =
    (let p = path_join canonical name in
     case file_name p of
       None \<Rightarrow> Inr []
     | Some name \<Rightarrow>
         if \<not> is_ok (validate_digest name ''audit workspace digest'') then Inr []
         else try_then (symlink_metadata f p) (\<lambda>n.
           if \<not> is_dir_node n \<or> is_link_node n then Inr []
           else try_then (canonicalize f p) (\<lambda>resolved.
             if \<not> opt_path_eq (path_parent resolved) (Some canonical) then Inr []
             else (let events = path_join resolved ''events'' in
               case symlink_metadata f events of
                 Inl _ \<Rightarrow> Inr []
               | Inr m \<Rightarrow>
                   if \<not> is_dir_node m \<or> is_link_node m then Inr []
                   else try_then (canonicalize f events) (\<lambda>events.
                     Inr (if opt_path_eq (path_parent events) (Some resolved) then [events] else []))))))"

definition controlled_workspace_event_directories :: "path \<Rightarrow> path list act" where
  "controlled_workspace_event_directories directory =
    act_then (observe (''failed to resolve audit workspace directory: '' @ directory)
      (\<lambda>f. canonicalize f directory)) (\<lambda>canonical.
    act_then (observe [] (\<lambda>f. read_dir f canonical)) (\<lambda>names.
    act_then (observe [] (\<lambda>f. try_each (event_directory f canonical) names)) (\<lambda>found.
    act_return (sort_paths (concat found)))))"

fun json_files_of :: "path list \<Rightarrow> path list act" where
  "json_files_of [] = act_return []"
| "json_files_of (d # ds) =
    act_then (controlled_json_files d) (\<lambda>ps. act_then (json_files_of ds) (\<lambda>qs. act_return (ps @ qs)))"

definition list_sources :: "audit_store \<Rightarrow> audit_query \<Rightarrow> (path \<times> path list) act" where
  "list_sources s q = (case aq_workspace_hash q of
      None \<Rightarrow>
        act_then (controlled_workspace_event_directories (as_workspaces_dir s)) (\<lambda>dirs.
        act_then (json_files_of dirs) (\<lambda>ps. act_return (as_workspaces_dir s, ps)))
    | Some workspace_hash \<Rightarrow>
        act_then (lift_res (validate_digest workspace_hash ''audit workspace digest'')) (\<lambda>_ w.
        (case workspace_events_dir s workspace_hash False w of
           (Inr events, w') \<Rightarrow> act_then (controlled_json_files events) (\<lambda>ps. act_return (events, ps)) w'
         | (Inl e, w') \<Rightarrow>
             if is_not_found_chain e
             then (Inr (path_join (path_join (as_workspaces_dir s) workspace_hash) ''events'', []), w')
             else (Inl e, w'))))"

definition audit_list :: "audit_codec \<Rightarrow> audit_store \<Rightarrow> audit_query \<Rightarrow> audit_report act" where
  "audit_list c s q =
    act_then (list_sources s q) (\<lambda>(storage, ps).
    act_then (ask (\<lambda>f. list_loop c f q (rev (sort_paths ps)) (max 1 (min (aq_limit q) MAX_AUDIT_EVENTS))))
    (\<lambda>(events, ignored).
    act_return \<lparr>ar_schema_version = AUDIT_SCHEMA_VERSION, ar_storage = storage,
      ar_events = sort_key (\<lambda>e. (ae_timestamp_unix_ms e, ae_event_id e)) events,
      ar_ignored_partial_records = ignored, ar_bounded = True\<rparr>))"

definition list_scoped :: "audit_codec \<Rightarrow> audit_store \<Rightarrow> string \<Rightarrow> audit_query \<Rightarrow> audit_report act" where
  "list_scoped c s authority q =
    act_then (lift_res (validate_digest authority ''audit authority workspace digest'')) (\<lambda>_.
    if aq_workspace_hash q \<noteq> Some authority
    then act_fail (Bail ''audit query is not scoped to the authorized workspace'')
    else audit_list c s q)"

section \<open>Lemmas\<close>

lemma lift_res_simps [act_simps]: "lift_res r w = (Inr x, w') \<longleftrightarrow> r = Inr x \<and> w' = w"
  by (auto simp: lift_res_def)

text \<open>The rotation drops a prefix of the sorted records: as many as it must, and no more.\<close>

fun rotate_drop :: "nat list \<Rightarrow> nat \<Rightarrow> nat \<Rightarrow> nat \<Rightarrow> nat" where
  "rotate_drop [] remove_count total_bytes max_bytes = 0"
| "rotate_drop (b # bs) remove_count total_bytes max_bytes =
    (if remove_count = 0 \<and> total_bytes \<le> max_bytes then 0
     else Suc (rotate_drop bs (remove_count - 1) (total_bytes - b) max_bytes))"

lemma rotate_drop_spec:
  fixes bs :: "nat list" and r total_bytes m :: nat
  assumes "total_bytes = sum_list bs"
  defines "k \<equiv> rotate_drop bs r total_bytes m"
  shows "k \<le> length bs" "min r (length bs) \<le> k" "sum_list (drop k bs) \<le> m"
    "r < k \<Longrightarrow> sum_list (drop (k - 1) bs) > m"
proof -
  have "k \<le> length bs \<and> min r (length bs) \<le> k \<and> sum_list (drop k bs) \<le> m
      \<and> (r < k \<longrightarrow> sum_list (drop (k - 1) bs) > m)"
    unfolding k_def using assms(1)
  proof (induction bs r total_bytes m rule: rotate_drop.induct)
    case (2 b bs r total_bytes m)
    show ?case
    proof (cases "r = 0 \<and> total_bytes \<le> m")
      case False
      let ?k = "rotate_drop bs (r - 1) (total_bytes - b) m"
      have IH: "?k \<le> length bs" "min (r - 1) (length bs) \<le> ?k" "sum_list (drop ?k bs) \<le> m"
          "r - 1 < ?k \<Longrightarrow> sum_list (drop (?k - 1) bs) > m"
        using "2.IH" [OF False] "2.prems" by auto
      moreover have "sum_list (drop ?k (b # bs)) > m" if "r < Suc ?k"
        using that IH(4) False "2.prems" by (cases ?k) (auto simp: Suc_diff_Suc)
      moreover have "min r (Suc (length bs)) \<le> Suc ?k"
        using IH(2) by (cases r) auto
      ultimately show ?thesis
        using False by auto
    qed (use "2.prems" in auto)
  qed auto
  then show "k \<le> length bs" "min r (length bs) \<le> k" "sum_list (drop k bs) \<le> m"
      "r < k \<Longrightarrow> sum_list (drop (k - 1) bs) > m"
    by auto
qed

text \<open>The records of a directory with their sizes, oldest name first, as the rotation sees them.\<close>

definition audit_entries :: "fs \<Rightarrow> location \<Rightarrow> (path \<times> nat) list" where
  "audit_entries f d = sort_key (\<lambda>e. components (fst e))
     (record_sizes f (filter (is_json_record (abs_path d)) (map (path_join (abs_path d)) (names_in f d))))"

text \<open>A directory on which nothing fails.\<close>

definition quiet_dir :: "fs \<Rightarrow> location \<Rightarrow> bool" where
  "quiet_dir f d = (wf_fs f \<and> open_dir f d \<and> distinct (map fst (fs_tree f))
     \<and> (\<forall>n. fs_fault f (d @ [n]) = None \<and> fs_wfault f (d @ [n]) = None))"

definition del_names :: "location \<Rightarrow> string list \<Rightarrow> fs \<Rightarrow> fs" where
  "del_names d ns f = fold (\<lambda>n. fs_del (d @ [n])) ns f"

lemma quiet_dir_del:
  assumes "quiet_dir f d" "fs_nodes f (d @ [n]) = Some (FileNode m c)"
  shows "quiet_dir (fs_del (d @ [n]) f) d"
  using assms open_dir_del [of f d "d @ [n]"] wf_fs_del [of f "d @ [n]"]
  by (auto simp: quiet_dir_def is_dir_at_iff) (simp add: fs_del_def distinct_delete)

lemma remove_record_open:
  assumes "quiet_dir f d" "fs_nodes f (d @ [n]) = Some (FileNode m c)" "w_fs w = f"
  shows "remove_record (abs_path (d @ [n])) w = (Inr (), w\<lparr>w_fs := fs_del (d @ [n]) f\<rparr>)"
proof -
  have "valid_name n"
    using assms by (auto simp: quiet_dir_def wf_fs_def)
  then show ?thesis
    using assms
    by (simp add: remove_record_def remove_file_def entry_at_open quiet_dir_def write_guard_def)
qed

lemma files_after_del:
  assumes "distinct (n # ns)" "\<forall>x \<in> set ns. \<exists>m c. fs_nodes f (d @ [x]) = Some (FileNode m c)"
  shows "\<forall>x \<in> set ns. \<exists>m c. fs_nodes (fs_del (d @ [n]) f) (d @ [x]) = Some (FileNode m c)"
proof
  fix x
  assume "x \<in> set ns"
  moreover then have "x \<noteq> n"
    using assms(1) by auto
  ultimately show "\<exists>m c. fs_nodes (fs_del (d @ [n]) f) (d @ [x]) = Some (FileNode m c)"
    using assms(2) by auto
qed

lemma rotate_loop_open:
  assumes "quiet_dir f d" "distinct ns" "w_fs w = f"
    and "\<forall>n \<in> set ns. \<exists>m c. fs_nodes f (d @ [n]) = Some (FileNode m c)" "length bs = length ns"
  shows "rotate_loop (zip (map (\<lambda>n. abs_path (d @ [n])) ns) bs) r t m w
    = (Inr (), w\<lparr>w_fs := del_names d (take (rotate_drop bs r t m) ns) f\<rparr>)"
  using assms
proof (induction bs r t m arbitrary: ns w f rule: rotate_drop.induct)
  case (1 r t m)
  then show ?case
    by (simp add: act_return_def del_names_def)
next
  case (2 b bs r t m)
  then obtain n ns' where ns: "ns = n # ns'"
    by (cases ns) auto
  show ?case
  proof (cases "r = 0 \<and> t \<le> m")
    case True
    then show ?thesis
      using 2 ns by (simp add: act_return_def del_names_def)
  next
    case False
    obtain m' c where node: "fs_nodes f (d @ [n]) = Some (FileNode m' c)"
      using 2 ns by auto
    let ?f = "fs_del (d @ [n]) f" and ?w = "w\<lparr>w_fs := fs_del (d @ [n]) f\<rparr>"
    have rest: "\<forall>x \<in> set ns'. \<exists>m c. fs_nodes ?f (d @ [x]) = Some (FileNode m c)"
      using files_after_del "2.prems"(2,4) ns by simp
    have "rotate_loop (zip (map (\<lambda>n. abs_path (d @ [n])) ns') bs) (r - 1) (t - b) m ?w
        = (Inr (), ?w\<lparr>w_fs := del_names d (take (rotate_drop bs (r - 1) (t - b) m) ns') ?f\<rparr>)"
      using "2.IH" [OF False quiet_dir_del [OF "2.prems"(1) node], of ns' ?w] "2.prems" ns rest by auto
    then show ?thesis
      using False ns remove_record_open [OF "2.prems"(1) node "2.prems"(3)]
      by (auto simp: act_then_def del_names_def)
  qed
qed

lemma insort_key_map: "insort_key k (g x) (map g xs) = map g (insort_key (\<lambda>x. k (g x)) x xs)"
  by (induction xs) auto

lemma sort_key_map: "sort_key k (map g xs) = map g (sort_key (\<lambda>x. k (g x)) xs)"
  by (induction xs) (auto simp: insort_key_map)

text \<open>The entries of a directory, by name and size.\<close>

definition record_file :: "fs \<Rightarrow> location \<Rightarrow> string \<Rightarrow> bool" where
  "record_file f d n = (is_json_record (abs_path d) (abs_path (d @ [n]))
     \<and> (\<exists>m c. fs_nodes f (d @ [n]) = Some (FileNode m c)))"

definition size_at :: "fs \<Rightarrow> location \<Rightarrow> string \<Rightarrow> nat" where
  "size_at f d n = (case fs_nodes f (d @ [n]) of Some (FileNode m c) \<Rightarrow> length c | _ \<Rightarrow> 0)"

definition sorted_names :: "fs \<Rightarrow> location \<Rightarrow> string list" where
  "sorted_names f d = sort_key (\<lambda>n. components (abs_path (d @ [n]))) (filter (record_file f d) (names_in f d))"

lemma names_in_valid: "wf_fs f \<Longrightarrow> n \<in> set (names_in f d) \<Longrightarrow> valid_name n"
  by (auto simp: names_in_iff wf_fs_def)

lemma distinct_names_in:
  assumes "distinct (map fst (fs_tree f))"
  shows "distinct (names_in f d)"
proof -
  have "inj_on last {k. k \<noteq> [] \<and> butlast k = d}"
    by (rule inj_onI) (auto, metis append_butlast_last_id)
  then show ?thesis
    using assms by (auto simp: names_in_def distinct_map intro: inj_on_subset)
qed

lemma record_sizes_open:
  assumes "quiet_dir f d" "\<forall>n \<in> set ns. valid_name n"
  shows "record_sizes f (filter (is_json_record (abs_path d)) (map (path_join (abs_path d)) ns))
    = map (\<lambda>n. (abs_path (d @ [n]), size_at f d n)) (filter (record_file f d) ns)"
  using assms(2)
proof (induction ns)
  case (Cons n ns)
  have open_d: "wf_fs f" "open_dir f d" "fs_fault f (d @ [n]) = None"
    using assms by (auto simp: quiet_dir_def)
  have join: "path_join (abs_path d) n = abs_path (d @ [n])"
    using Cons.prems open_dirD(2) [OF open_d(2)] by (simp add: path_join_abs_path)
  have "symlink_metadata f (abs_path (d @ [n])) = lookup f (d @ [n])"
    using symlink_metadata_open [OF open_d(1,2)] Cons.prems by simp
  then show ?case
    using Cons open_d(3)
    by (auto simp: join record_sizes_def record_file_def size_at_def lookup_def node_len_def
        split: option.splits node.splits)
qed (simp add: record_sizes_def)

lemma audit_entries_open:
  assumes "quiet_dir f d"
  shows "audit_entries f d = map (\<lambda>n. (abs_path (d @ [n]), size_at f d n)) (sorted_names f d)"
proof -
  have "\<forall>n \<in> set (names_in f d). valid_name n"
    using assms names_in_valid by (auto simp: quiet_dir_def)
  then show ?thesis
    by (simp add: audit_entries_def sorted_names_def record_sizes_open [OF assms] sort_key_map)
qed

lemma nodes_del_names:
  "fs_nodes (del_names d ns f) l = (if \<exists>n \<in> set ns. l = d @ [n] then None else fs_nodes f l)"
  unfolding del_names_def
  by (induction ns arbitrary: f) auto

lemma tree_del_names:
  "fs_tree (del_names d ns f) = filter (\<lambda>e. \<forall>n \<in> set ns. fst e \<noteq> d @ [n]) (fs_tree f)"
  unfolding del_names_def
  by (induction ns arbitrary: f) (auto simp: fs_del_def AList.delete_eq intro!: filter_cong)

lemma quiet_dir_del_names:
  assumes "quiet_dir f d" "\<forall>n \<in> set ns. \<exists>m c. fs_nodes f (d @ [n]) = Some (FileNode m c)" "distinct ns"
  shows "quiet_dir (del_names d ns f) d"
  using assms
proof (induction ns arbitrary: f)
  case (Cons n ns)
  obtain m c where "fs_nodes f (d @ [n]) = Some (FileNode m c)"
    using Cons.prems(2) by auto
  then show ?case
    using Cons.IH [of "fs_del (d @ [n]) f"] Cons.prems quiet_dir_del [of f d n m c]
      files_after_del [of n ns f d] by (simp add: del_names_def)
qed (simp add: del_names_def)

lemma names_in_del_names:
  "names_in (del_names d ns f) d = filter (\<lambda>n. n \<notin> set ns) (names_in f d)"
proof -
  have "filter (\<lambda>k. k \<noteq> [] \<and> butlast k = d) (map fst (fs_tree (del_names d ns f)))
      = filter (\<lambda>k. last k \<notin> set ns) (filter (\<lambda>k. k \<noteq> [] \<and> butlast k = d) (map fst (fs_tree f)))"
    by (auto simp: tree_del_names filter_map o_def intro!: arg_cong [of _ _ "map fst"] filter_cong)
      (metis snoc_eq_iff_butlast)+
  then show ?thesis
    by (simp add: names_in_def filter_map o_def)
qed

lemma sorted_names_del_names:
  assumes "quiet_dir f d"
  defines "k ns \<equiv> filter (\<lambda>n. n \<notin> set ns) (sorted_names f d)"
  shows "sorted_names (del_names d ns f) d = k ns"
proof -
  have "filter (record_file (del_names d ns f) d) (filter (\<lambda>n. n \<notin> set ns) (names_in f d))
      = filter (\<lambda>n. n \<notin> set ns) (filter (record_file f d) (names_in f d))"
    by (auto simp: record_file_def nodes_del_names intro!: filter_cong)
  then show ?thesis
    unfolding sorted_names_def k_def by (simp only: names_in_del_names filter_sort)
qed

lemma filter_drop_prefix:
  assumes "distinct xs"
  shows "filter (\<lambda>x. x \<notin> set (take k xs)) xs = drop k xs"
proof -
  have "filter (\<lambda>x. x \<notin> set (take k xs)) (take k xs @ drop k xs) = drop k xs"
    using assms set_take_disj_set_drop_if_distinct [of xs k k]
    by (auto simp: filter_empty_conv filter_id_conv simp del: append_take_drop_id)
  then show ?thesis
    by simp
qed

lemma foldl_sat_add:
  "a + sum_list (map snd es) \<le> u64_max \<Longrightarrow>
    foldl (\<lambda>s e. sat_add s (snd e)) a es = a + sum_list (map snd es)"
  by (induction es arbitrary: a) (auto simp: sat_add_def min_def)

lemma controlled_json_files_open:
  assumes "quiet_dir (w_fs w) d"
  shows "controlled_json_files (abs_path d) w
    = (Inr (filter (is_json_record (abs_path d)) (map (path_join (abs_path d)) (names_in (w_fs w) d))), w)"
proof -
  have o: "wf_fs (w_fs w)" "open_dir (w_fs w) d"
    using assms by (auto simp: quiet_dir_def)
  then have "read_dir (w_fs w) (abs_path d) = Inr (names_in (w_fs w) d)"
    using open_dirD [OF o(2)] by (auto simp: read_dir_def resolve_open_dir lookup_def is_dir_at_iff)
  then show ?thesis
    using canonicalize_open_dir [OF o]
    by (simp add: controlled_json_files_def act_then_def observe_def act_return_def)
qed

definition rotation_count :: "(path \<times> nat) list \<Rightarrow> nat \<Rightarrow> nat \<Rightarrow> nat" where
  "rotation_count es max_events max_bytes =
    rotate_drop (map snd es) (length es - max_events) (sum_list (map snd es)) max_bytes"

text \<open>
  Rotation of a directory on which nothing fails: the oldest records go, what is left are the
  newest ones, and no other file changes.
\<close>

lemma rotate_to_limits_quiet:
  fixes max_events max_bytes :: nat
  assumes "quiet_dir (w_fs w) d" "sum_list (map snd (audit_entries (w_fs w) d)) \<le> u64_max"
  defines "es \<equiv> audit_entries (w_fs w) d"
  shows "\<exists>w'. rotate_to_limits (abs_path d) max_events max_bytes w = (Inr (), w')
    \<and> audit_entries (w_fs w') d = drop (rotation_count es max_events max_bytes) es
    \<and> (\<forall>l. (\<forall>n. l \<noteq> d @ [n]) \<longrightarrow> fs_nodes (w_fs w') l = fs_nodes (w_fs w) l)"
proof -
  let ?f = "w_fs w" and ?ns = "sorted_names (w_fs w) d" and ?k = "rotation_count es max_events max_bytes"
  have es: "es = map (\<lambda>n. (abs_path (d @ [n]), size_at ?f d n)) ?ns"
    using audit_entries_open [OF assms(1)] by (simp add: es_def)
  then have zip: "es = zip (map (\<lambda>n. abs_path (d @ [n])) ?ns) (map snd es)"
    by (simp add: zip_map_map zip_same_conv_map o_def)
  have dist: "distinct ?ns"
    using assms(1) distinct_names_in by (auto simp: sorted_names_def quiet_dir_def)
  have files: "\<forall>n \<in> set ?ns. \<exists>m c. fs_nodes ?f (d @ [n]) = Some (FileNode m c)"
    by (auto simp: sorted_names_def record_file_def)
  have sum: "foldl (\<lambda>s e. sat_add s (snd e)) 0 es = sum_list (map snd es)"
    using foldl_sat_add [of 0 es] assms(2) by (simp add: es_def)
  let ?w = "w\<lparr>w_fs := del_names d (take ?k ?ns) ?f\<rparr>"
  have "rotate_to_limits (abs_path d) max_events max_bytes w
      = rotate_loop es (length es - max_events) (sum_list (map snd es)) max_bytes w"
    using sum by (simp add: rotate_to_limits_def act_then_def controlled_json_files_open [OF assms(1)]
        ask_def audit_entries_def [symmetric] es_def Let_def del: length_sort)
  also have "\<dots> = (Inr (), ?w)"
    using rotate_loop_open [OF assms(1) dist refl files, of "map snd es"] zip es
    by (simp add: rotation_count_def)
  finally have run: "rotate_to_limits (abs_path d) max_events max_bytes w = (Inr (), ?w)" .
  have quiet: "quiet_dir (del_names d (take ?k ?ns) ?f) d"
    using quiet_dir_del_names [OF assms(1), of "take ?k ?ns"] files dist by (auto dest: in_set_takeD)
  have kept: "sorted_names (del_names d (take ?k ?ns) ?f) d = drop ?k ?ns"
    using sorted_names_del_names [OF assms(1)] filter_drop_prefix [OF dist] by simp
  have "size_at (del_names d (take ?k ?ns) ?f) d n = size_at ?f d n" if "n \<in> set (drop ?k ?ns)" for n
    using that set_take_disj_set_drop_if_distinct [OF dist, of ?k ?k]
    by (auto simp: size_at_def nodes_del_names)
  then have "audit_entries (del_names d (take ?k ?ns) ?f) d = drop ?k es"
    using audit_entries_open [OF quiet] kept es by (simp add: drop_map)
  then show ?thesis
    using run by (auto simp: nodes_del_names)
qed

text \<open>Both limits hold after a rotation, and only as much was dropped as the limits ask for.\<close>

lemma rotation_count_bounds:
  fixes max_events max_bytes :: nat
  shows "length (drop (rotation_count es max_events max_bytes) es) \<le> max_events"
    "sum_list (map snd (drop (rotation_count es max_events max_bytes) es)) \<le> max_bytes"
    "length es \<le> max_events \<Longrightarrow> sum_list (map snd es) \<le> max_bytes \<Longrightarrow>
       rotation_count es max_events max_bytes = 0"
proof -
  note spec = rotate_drop_spec [OF refl, where bs = "map snd es" and r = "length es - max_events"
      and m = max_bytes, folded rotation_count_def]
  show "length (drop (rotation_count es max_events max_bytes) es) \<le> max_events"
    using spec(2) by auto
  show "sum_list (map snd (drop (rotation_count es max_events max_bytes) es)) \<le> max_bytes"
    using spec(3) by (simp add: drop_map)
  show "rotation_count es max_events max_bytes = 0"
    if "length es \<le> max_events" "sum_list (map snd es) \<le> max_bytes"
    using that by (cases es) (auto simp: rotation_count_def)
qed

end
