(* ===== verification/PolicyApproval.thy ===== *)
theory PolicyApproval
  imports PolicyModel PolicyAudit
begin

text \<open>
  One-shot approvals (\<open>opticcode-policy/src/approval.rs\<close>): issuing a record bound to the observed
  state, and consuming it.  Consumption is modelled twice from the same steps: \<open>consume_at\<close> runs them
  in sequence, and \<open>consume_step\<close> is the single-step machine that several processes sharing the state
  directory interleave.  Each step is one call to the file system.
\<close>

definition APPROVAL_SCHEMA_VERSION :: nat where "APPROVAL_SCHEMA_VERSION = 1"
definition DEFAULT_APPROVAL_TTL_SECONDS :: nat where "DEFAULT_APPROVAL_TTL_SECONDS = 10 * 60"
definition MAX_APPROVAL_TTL_SECONDS :: nat where "MAX_APPROVAL_TTL_SECONDS = 30 * 60"
definition MAX_APPROVAL_RECORD_BYTES :: nat where "MAX_APPROVAL_RECORD_BYTES = 256 * 1024"
definition MAX_APPROVAL_FILES :: nat where "MAX_APPROVAL_FILES = 512"
definition MAX_APPROVAL_ACTIONS :: nat where "MAX_APPROVAL_ACTIONS = 128"

record approval_binding =
  ab_request_id :: string
  ab_workspace_id :: string
  ab_workspace_root_hash :: string
  ab_mode :: policy_mode
  ab_base_head :: string
  ab_working_tree_digest :: string
  ab_diff_hash :: string
  ab_files_hash :: string
  ab_files :: "file_binding list"
  ab_action_hashes :: "string list"
  ab_transaction_id :: string

record native_confirmation =
  nc_client :: string
  nc_confirmation_id :: string

datatype approval_state = Available | Consumed

record approval_grant =
  ag_schema_version :: nat
  ag_approval_id :: string
  ag_issued_unix_ms :: nat
  ag_expires_unix_ms :: nat
  ag_binding_hash :: string
  ag_state :: approval_state

datatype approval_error = Missing | Expired | Reused | WrongRequest | WrongWorkspace | WrongMode
  | HeadChanged | WorkingTreeChanged | DiffChanged | FilesChanged | ActionsChanged
  | TransactionChanged | InvalidRecord

fun approval_error_text :: "approval_error \<Rightarrow> string" where
  "approval_error_text Missing = ''approval does not exist''"
| "approval_error_text Expired = ''approval expired''"
| "approval_error_text Reused = ''approval was already consumed''"
| "approval_error_text WrongRequest = ''approval belongs to another request''"
| "approval_error_text WrongWorkspace = ''approval belongs to another workspace''"
| "approval_error_text WrongMode = ''approval belongs to another policy mode''"
| "approval_error_text HeadChanged = ''repository HEAD changed after approval''"
| "approval_error_text WorkingTreeChanged = ''working tree changed after approval''"
| "approval_error_text DiffChanged = ''verified diff changed after approval''"
| "approval_error_text FilesChanged = ''approved file set or hashes changed''"
| "approval_error_text ActionsChanged = ''approved action list changed''"
| "approval_error_text TransactionChanged = ''transaction binding changed''"
| "approval_error_text InvalidRecord = ''approval record is invalid''"

record approval_store =
  st_active_dir :: path
  st_used_dir :: path

record approval_record =
  rc_schema_version :: nat
  rc_issued_unix_ms :: nat
  rc_expires_unix_ms :: nat
  rc_confirmation_hash :: string
  rc_binding_hash :: string
  rc_binding :: approval_binding

record approval_codec =
  pc_blake3 :: "string \<Rightarrow> string"
  pc_json_binding :: "approval_binding \<Rightarrow> (string, string) res"
  pc_json_record :: "approval_record \<Rightarrow> (string, string) res"
  pc_parse_record :: "string \<Rightarrow> approval_record option"

section \<open>Validation of a binding\<close>

definition validate_hash :: "string \<Rightarrow> (fail, unit) res" where
  "validate_hash s = ensure (length s = 64 \<and> list_all is_ascii_hexdigit s)
     (Bail ''approval binding contains an invalid hash'')"

definition validate_bounded_identifier :: "string \<Rightarrow> nat \<Rightarrow> (fail, unit) res" where
  "validate_bounded_identifier s limit =
    ensure (\<not> (s = [] \<or> length s > limit \<or> list_ex (\<lambda>c. c = CHR 0x0D \<or> c = CHR 0x0A \<or> c = CHR 0x00) s))
      (Bail ''approval binding contains an invalid identifier'')"

definition native_confirmation_explicit :: "string \<Rightarrow> string \<Rightarrow> (fail, native_confirmation) res" where
  "native_confirmation_explicit client confirmation_id =
    try_then (validate_bounded_identifier client 96) (\<lambda>_.
    try_then (validate_bounded_identifier confirmation_id 160) (\<lambda>_.
    Inr \<lparr>nc_client = client, nc_confirmation_id = confirmation_id\<rparr>))"

definition validate_binding :: "approval_binding \<Rightarrow> (fail, unit) res" where
  "validate_binding b =
    try_then (validate_bounded_identifier (ab_request_id b) 160) (\<lambda>_.
    try_then (validate_bounded_identifier (ab_workspace_id b) 160) (\<lambda>_.
    try_then (validate_hash (ab_workspace_root_hash b)) (\<lambda>_.
    try_then (validate_hash (ab_working_tree_digest b)) (\<lambda>_.
    try_then (validate_hash (ab_diff_hash b)) (\<lambda>_.
    try_then (validate_hash (ab_files_hash b)) (\<lambda>_.
    try_then (validate_bounded_identifier (ab_base_head b) 160) (\<lambda>_.
    try_then (validate_bounded_identifier (ab_transaction_id b) 160) (\<lambda>_.
    if ab_files b = [] \<or> length (ab_files b) > MAX_APPROVAL_FILES
    then Inl (Bail ''approval must bind a bounded non-empty file list'')
    else if ab_action_hashes b = [] \<or> length (ab_action_hashes b) > MAX_APPROVAL_ACTIONS
    then Inl (Bail ''approval must bind a bounded non-empty action list'')
    else
    try_then (try_each (\<lambda>x. try_then (validate_hash (fb_path_hash x)) (\<lambda>_. validate_hash (fb_expected_hash x)))
      (ab_files b)) (\<lambda>_.
    try_then (try_each validate_hash (ab_action_hashes b)) (\<lambda>_. Inr ()))))))))))"

definition normalized :: "approval_binding \<Rightarrow> (fail, approval_binding) res" where
  "normalized b =
    try_then (validate_binding b) (\<lambda>_.
    if \<not> distinct (ab_files b) then Inl (Bail ''approval file bindings must be unique'')
    else if \<not> distinct (ab_action_hashes b) then Inl (Bail ''approval action hashes must be unique'')
    else Inr b)"

definition compare_binding :: "approval_binding \<Rightarrow> approval_binding \<Rightarrow> (approval_error, unit) res" where
  "compare_binding expected observed =
    (if ab_request_id expected \<noteq> ab_request_id observed then Inl WrongRequest
     else if ab_workspace_id expected \<noteq> ab_workspace_id observed
       \<or> ab_workspace_root_hash expected \<noteq> ab_workspace_root_hash observed then Inl WrongWorkspace
     else if ab_mode expected \<noteq> ab_mode observed then Inl WrongMode
     else if ab_base_head expected \<noteq> ab_base_head observed then Inl HeadChanged
     else if ab_working_tree_digest expected \<noteq> ab_working_tree_digest observed then Inl WorkingTreeChanged
     else if ab_diff_hash expected \<noteq> ab_diff_hash observed then Inl DiffChanged
     else if ab_files_hash expected \<noteq> ab_files_hash observed \<or> ab_files expected \<noteq> ab_files observed
     then Inl FilesChanged
     else if ab_transaction_id expected \<noteq> ab_transaction_id observed then Inl TransactionChanged
     else if ab_action_hashes expected \<noteq> ab_action_hashes observed then Inl ActionsChanged
     else Inr ())"

definition hash_binding :: "approval_codec \<Rightarrow> approval_binding \<Rightarrow> (fail, string) res" where
  "hash_binding c b = try_then (map_err Bail (pc_json_binding c b)) (\<lambda>j. Inr (pc_blake3 c j))"

section \<open>Opening and issuing\<close>

definition ensure_child :: "path \<Rightarrow> path \<Rightarrow> unit act" where
  "ensure_child parent child =
    act_then (observe [] (\<lambda>f. canonicalize f parent)) (\<lambda>parent.
    act_then (create_dir_if_absent [] child) (\<lambda>_.
    act_then (observe [] (\<lambda>f. symlink_metadata f child)) (\<lambda>n.
    if \<not> is_dir_node n \<or> is_link_node n then act_fail (Bail ''approval state directory is unsafe'') else
    act_then (observe [] (\<lambda>f. canonicalize f child)) (\<lambda>canonical.
    act_if (opt_path_eq (path_parent canonical) (Some parent))
      (Bail ''approval state directory escaped its parent'')))))"

definition approval_open :: "path \<Rightarrow> approval_store act" where
  "approval_open state_root =
    act_then (policy_subdirectory state_root ''approvals'') (\<lambda>approval_root.
    let active_dir = path_join approval_root ''active'' in
    act_then (ensure_child approval_root active_dir) (\<lambda>_.
    let used_dir = path_join approval_root ''used'' in
    act_then (ensure_child approval_root used_dir) (\<lambda>_.
    act_return \<lparr>st_active_dir = active_dir, st_used_dir = used_dir\<rparr>)))"

definition issue_at ::
  "approval_codec \<Rightarrow> approval_store \<Rightarrow> approval_binding \<Rightarrow> native_confirmation \<Rightarrow> nat \<Rightarrow> nat \<Rightarrow>
   approval_grant act" where
  "issue_at c st binding confirmation ttl_seconds now_ms =
    (if ttl_seconds = 0 \<or> ttl_seconds > MAX_APPROVAL_TTL_SECONDS
     then act_fail (Bail (''approval TTL must be between 1 and '' @ dec_of_nat MAX_APPROVAL_TTL_SECONDS @ '' seconds''))
     else
     act_then (lift_res (normalized binding)) (\<lambda>binding.
     act_then (lift_res (hash_binding c binding)) (\<lambda>binding_hash.
     act_then (new_storage_id ''grant'') (\<lambda>storage_id.
     let approval_id = ''approval-'' @ storage_id in
     act_then (lift_res (validate_storage_id approval_id)) (\<lambda>_.
     let expires_unix_ms = sat_add now_ms (sat_mul ttl_seconds 1000);
         record = \<lparr>rc_schema_version = APPROVAL_SCHEMA_VERSION, rc_issued_unix_ms = now_ms,
           rc_expires_unix_ms = expires_unix_ms,
           rc_confirmation_hash = pc_blake3 c (nc_client confirmation @ '':'' @ nc_confirmation_id confirmation),
           rc_binding_hash = binding_hash, rc_binding = binding\<rparr> in
     act_then (lift_res (map_err (\<lambda>_. Bail ''failed to serialize approval record'') (pc_json_record c record))) (\<lambda>json.
     let bytes = json @ [CHR 0x0A] in
     if length bytes > MAX_APPROVAL_RECORD_BYTES
     then act_fail (Bail ''approval record exceeds its bounded size'') else
     act_then (atomic_create (st_active_dir st)
       (path_join (st_active_dir st) (approval_id @ ''.json'')) bytes) (\<lambda>_.
     act_return \<lparr>ag_schema_version = APPROVAL_SCHEMA_VERSION, ag_approval_id = approval_id,
       ag_issued_unix_ms = now_ms, ag_expires_unix_ms = expires_unix_ms,
       ag_binding_hash = binding_hash, ag_state = Available\<rparr>)))))))"

section \<open>Consuming\<close>

definition active_path :: "approval_store \<Rightarrow> string \<Rightarrow> path" where
  "active_path st i = path_join (st_active_dir st) (i @ ''.json'')"

definition used_path :: "approval_store \<Rightarrow> string \<Rightarrow> path" where
  "used_path st i = path_join (st_used_dir st) (i @ ''.json'')"

definition consuming_path :: "approval_store \<Rightarrow> string \<Rightarrow> path" where
  "consuming_path st i = path_join (st_used_dir st) (i @ ''-consuming.json'')"

definition claim_path :: "approval_store \<Rightarrow> string \<Rightarrow> path" where
  "claim_path st i = path_join (st_used_dir st) (i @ ''.claim'')"

definition read_record :: "approval_codec \<Rightarrow> fs \<Rightarrow> path \<Rightarrow> (approval_error, approval_record) res" where
  "read_record c f p =
    try_then (map_err (\<lambda>_. InvalidRecord) (symlink_metadata f p)) (\<lambda>n.
    if \<not> is_file_node n \<or> is_link_node n \<or> node_len n > MAX_APPROVAL_RECORD_BYTES then Inl InvalidRecord else
    try_then (map_err (\<lambda>_. InvalidRecord) (fs_read f p)) (\<lambda>bytes.
    ok_or InvalidRecord (pc_parse_record c bytes)))"

text \<open>The decision on the record that was moved aside.\<close>

definition judge_record ::
  "approval_codec \<Rightarrow> string \<Rightarrow> approval_binding \<Rightarrow> nat \<Rightarrow> approval_record \<Rightarrow> (approval_error, approval_grant) res" where
  "judge_record c approval_id observed now_ms record =
    try_then (map_err (\<lambda>_. InvalidRecord) (normalized observed)) (\<lambda>normal.
    try_then (map_err (\<lambda>_. InvalidRecord) (hash_binding c (rc_binding record))) (\<lambda>binding_hash.
    if rc_schema_version record \<noteq> APPROVAL_SCHEMA_VERSION \<or> rc_binding_hash record \<noteq> binding_hash
      \<or> rc_expires_unix_ms record < rc_issued_unix_ms record
      \<or> length (rc_confirmation_hash record) \<noteq> 64
    then Inl InvalidRecord
    else if now_ms > rc_expires_unix_ms record then Inl Expired
    else
    try_then (compare_binding (rc_binding record) normal) (\<lambda>_.
    Inr \<lparr>ag_schema_version = APPROVAL_SCHEMA_VERSION, ag_approval_id = approval_id,
      ag_issued_unix_ms = rc_issued_unix_ms record, ag_expires_unix_ms = rc_expires_unix_ms record,
      ag_binding_hash = rc_binding_hash record, ag_state = Consumed\<rparr>)))"

type_synonym consume_result = "(approval_error, approval_grant) res"

text \<open>Where a consumer stands between two calls to the file system.\<close>

datatype consumer = CheckSpent | CheckActive | TakeClaim | MoveAside | ReadRecord
  | Retire consume_result | Finished consume_result

definition consume_step ::
  "approval_codec \<Rightarrow> approval_store \<Rightarrow> string \<Rightarrow> approval_binding \<Rightarrow> nat \<Rightarrow> meta \<Rightarrow>
   consumer \<Rightarrow> fs \<Rightarrow> consumer \<times> fs" where
  "consume_step c st i observed now_ms m pc f = (case pc of
      CheckSpent \<Rightarrow>
        (if path_exists f (claim_path st i) \<or> path_exists f (used_path st i) \<or> path_exists f (consuming_path st i)
         then (Finished (Inl Reused), f) else (CheckActive, f))
    | CheckActive \<Rightarrow> (if \<not> path_exists f (active_path st i) then (Finished (Inl Missing), f) else (TakeClaim, f))
    | TakeClaim \<Rightarrow>
        (case create_new f (claim_path st i) m [] of
           Inr f' \<Rightarrow>
             (if is_ok (sync_all f' (claim_path st i)) then MoveAside else Finished (Inl InvalidRecord), f')
         | Inl e \<Rightarrow> (Finished (Inl (if e = AlreadyExists then Reused else InvalidRecord)), f))
    | MoveAside \<Rightarrow>
        (case rename_file f (active_path st i) (consuming_path st i) of
           Inr f' \<Rightarrow> (ReadRecord, f')
         | Inl e \<Rightarrow> (Finished (Inl (if e = NotFound then Reused else InvalidRecord)), f))
    | ReadRecord \<Rightarrow>
        (Retire (try_then (read_record c f (consuming_path st i)) (judge_record c i observed now_ms)), f)
    | Retire outcome \<Rightarrow>
        (case rename_file f (consuming_path st i) (used_path st i) of
           Inr f' \<Rightarrow> (Finished outcome, f')
         | Inl _ \<Rightarrow> (Finished (Inl InvalidRecord), f))
    | Finished r \<Rightarrow> (Finished r, f))"

definition consume_run ::
  "approval_codec \<Rightarrow> approval_store \<Rightarrow> string \<Rightarrow> approval_binding \<Rightarrow> nat \<Rightarrow> meta \<Rightarrow> fs \<Rightarrow> consumer \<times> fs" where
  "consume_run c st i observed now_ms m f =
    ((\<lambda>(pc, f). consume_step c st i observed now_ms m pc f) ^^ 6) (CheckSpent, f)"

definition consume_at ::
  "approval_codec \<Rightarrow> approval_store \<Rightarrow> string \<Rightarrow> approval_binding \<Rightarrow> nat \<Rightarrow> world \<Rightarrow> consume_result \<times> world" where
  "consume_at c st i observed now_ms w =
    (case validate_storage_id i of
       Inl _ \<Rightarrow> (Inl InvalidRecord, w)
     | Inr _ \<Rightarrow>
         (case consume_run c st i observed now_ms (w_meta w) (w_fs w) of
            (Finished r, f) \<Rightarrow> (r, w\<lparr>w_fs := f\<rparr>)
          | (_, f) \<Rightarrow> (Inl InvalidRecord, w\<lparr>w_fs := f\<rparr>)))"

section \<open>Lemmas\<close>

lemma consume_step_simps [simp]: "consume_step c st i b now m (Finished r) f = (Finished r, f)"
  by (simp add: consume_step_def)

text \<open>Six steps always finish: the last branch of \<open>consume_at\<close> is never taken.\<close>

lemma consume_run_finishes: "\<exists>r. fst (consume_run c st i b now m f) = Finished r"
  by (simp add: consume_run_def numeral_eq_Suc consume_step_def split: sum.splits if_splits)

text \<open>Comparing bindings accepts exactly equal bindings.\<close>

lemma compare_binding_iff: "compare_binding a b = Inr () \<longleftrightarrow> a = b"
  by (auto simp: compare_binding_def)

lemma normalized_Inr: "normalized b = Inr b' \<Longrightarrow> b' = b"
  by (auto simp: normalized_def res_simps split: if_splits)

lemma judge_record_Inr:
  assumes "judge_record c i observed now record = Inr g"
  shows "rc_binding record = observed" "now \<le> rc_expires_unix_ms record"
    "hash_binding c observed = Inr (rc_binding_hash record)" "ag_state g = Consumed"
    "ag_expires_unix_ms g = rc_expires_unix_ms record" "ag_approval_id g = i"
    "ag_binding_hash g = rc_binding_hash record"
  using assms normalized_Inr
  by (auto simp: judge_record_def res_simps compare_binding_iff split: if_splits)

section \<open>Several consumers of one approval\<close>

text \<open>
  \<open>interleave step env\<close>: the states that processes numbered by naturals reach when they take steps in
  any order, with steps of the environment in between.
\<close>

inductive interleave ::
  "(nat \<Rightarrow> 'p \<Rightarrow> 's \<Rightarrow> 'p \<times> 's) \<Rightarrow> ('s \<Rightarrow> 's \<Rightarrow> bool) \<Rightarrow> (nat \<Rightarrow> 'p) \<Rightarrow> 's \<Rightarrow> (nat \<Rightarrow> 'p) \<Rightarrow> 's \<Rightarrow> bool"
  for step env ps0 s0 where
  start: "interleave step env ps0 s0 ps0 s0"
| process: "interleave step env ps0 s0 ps s \<Longrightarrow> step k (ps k) s = (pc, s') \<Longrightarrow>
    interleave step env ps0 s0 (ps(k := pc)) s'"
| outside: "interleave step env ps0 s0 ps s \<Longrightarrow> env s s' \<Longrightarrow> interleave step env ps0 s0 ps s'"

text \<open>Steps of one process alone are an interleaving.\<close>

lemma interleave_alone:
  "interleave step env ps0 s0 (ps0(k := fst (((\<lambda>(pc, s). step k pc s) ^^ n) (ps0 k, s0))))
     (snd (((\<lambda>(pc, s). step k pc s) ^^ n) (ps0 k, s0)))"
proof (induction n)
  case (Suc n)
  let ?r = "((\<lambda>(pc, s). step k pc s) ^^ n) (ps0 k, s0)"
  have "step k ((ps0(k := fst ?r)) k) (snd ?r) = ((\<lambda>(pc, s). step k pc s) ^^ Suc n) (ps0 k, s0)"
    by (simp add: case_prod_beta)
  then show ?case
    using interleave.process [OF Suc, of k] by (metis fun_upd_upd prod.collapse)
qed (simp add: interleave.start)

text \<open>An environment that may do anything but break the invariant or free what is taken.\<close>

definition honest :: "('s \<Rightarrow> bool) \<Rightarrow> ('s \<Rightarrow> bool) \<Rightarrow> 's \<Rightarrow> 's \<Rightarrow> bool" where
  "honest good taken s s' = (good s' \<and> (taken s \<longrightarrow> taken s'))"

text \<open>
  The contract of a claim: a process gets past it only from a state in which it is not taken, and
  once taken it stays taken.  Then at most one process is ever past it.
\<close>

locale one_shot =
  fixes good :: "'s \<Rightarrow> bool"
    and taken :: "'s \<Rightarrow> bool"
    and past :: "'p \<Rightarrow> bool"
    and step :: "nat \<Rightarrow> 'p \<Rightarrow> 's \<Rightarrow> 'p \<times> 's"
  assumes step_good: "good s \<Longrightarrow> step k pc s = (pc', s') \<Longrightarrow> good s'"
    and step_taken: "good s \<Longrightarrow> step k pc s = (pc', s') \<Longrightarrow> taken s \<Longrightarrow> taken s'"
    and step_past: "good s \<Longrightarrow> step k pc s = (pc', s') \<Longrightarrow> past pc' \<Longrightarrow> past pc \<or> (\<not> taken s \<and> taken s')"
begin

lemma interleave_inv:
  assumes "interleave step (honest good taken) ps0 s0 ps s" "good s0" "\<And>k. \<not> past (ps0 k)"
  shows "good s \<and> (\<forall>k. past (ps k) \<longrightarrow> taken s) \<and> (\<forall>k l. past (ps k) \<longrightarrow> past (ps l) \<longrightarrow> k = l)"
  using assms(1)
proof induction
  case (process ps s k pc s')
  have "good s" "taken s \<longrightarrow> taken s'" "past pc \<longrightarrow> past (ps k) \<or> (\<not> taken s \<and> taken s')" "good s'"
    using process step_good step_taken step_past by blast+
  then show ?case
    using process.IH by (auto split: if_splits)
qed (use assms(2,3) in \<open>auto simp: honest_def\<close>)

text \<open>From a state in which it is taken, no process ever gets past it.\<close>

lemma taken_blocks:
  assumes "interleave step (honest good taken) ps0 s0 ps s" "good s0" "taken s0" "\<And>k. \<not> past (ps0 k)"
  shows "good s \<and> taken s \<and> (\<forall>k. \<not> past (ps k))"
  using assms(1)
proof induction
  case (process ps s k pc s')
  then show ?case
    using step_good [of s k "ps k" pc s'] step_taken [of s k "ps k" pc s'] step_past [of s k "ps k" pc s']
    by auto
qed (use assms(2-4) in \<open>auto simp: honest_def\<close>)

lemma at_most_one:
  assumes "interleave step (honest good taken) ps0 s0 ps s" "good s0" "\<And>k. \<not> past (ps0 k)" "past (ps k)" "past (ps l)"
  shows "k = l"
  using interleave_inv [OF assms(1-3)] assms(4,5) by blast

end

text \<open>The state directory of a store whose two directories are open.\<close>

definition store_ready :: "approval_store \<Rightarrow> string \<Rightarrow> fs \<Rightarrow> bool" where
  "store_ready st i f = (\<exists>a u. st = \<lparr>st_active_dir = abs_path a, st_used_dir = abs_path u\<rparr>
     \<and> is_ok (validate_storage_id i) \<and> wf_fs f \<and> open_dir f a \<and> open_dir f u)"

definition claim_taken :: "approval_store \<Rightarrow> string \<Rightarrow> fs \<Rightarrow> bool" where
  "claim_taken st i f = (case entry_at f (claim_path st i) of Inl _ \<Rightarrow> False | Inr l \<Rightarrow> fs_nodes f l \<noteq> None)"

fun past_claim :: "consumer \<Rightarrow> bool" where
  "past_claim MoveAside = True"
| "past_claim ReadRecord = True"
| "past_claim (Retire r) = True"
| "past_claim (Finished (Inr g)) = True"
| "past_claim _ = False"

lemma storage_id_names:
  assumes "is_ok (validate_storage_id i)" "sep \<notin> set ext" "\<not> junk (i @ ext)" "i @ ext \<noteq> ''..''"
  shows "valid_name (i @ ext)"
proof -
  have "sep \<notin> set i"
    using assms(1) by (auto simp: validate_storage_id_def res_simps list_all_iff sep_def str_simps)
  then show ?thesis
    using assms by (auto simp: valid_name_def)
qed

lemma approval_names:
  assumes "is_ok (validate_storage_id i)"
  shows "valid_name (i @ ''.json'')" "valid_name (i @ ''-consuming.json'')" "valid_name (i @ ''.claim'')"
  using assms by (auto intro!: storage_id_names simp: sep_def junk_def)

lemma claim_taken_ready:
  assumes "store_ready st i f" "st = \<lparr>st_active_dir = abs_path a, st_used_dir = abs_path u\<rparr>" "open_dir f u"
  shows "claim_taken st i f \<longleftrightarrow> fs_nodes f (u @ [i @ ''.claim'']) \<noteq> None"
proof -
  have "wf_fs f" "valid_name (i @ ''.claim'')"
    using assms(1) approval_names by (auto simp: store_ready_def)
  moreover from this have "claim_path st i = abs_path (u @ [i @ ''.claim''])"
    using assms(2,3) path_join_abs_path open_dirD(2) by (simp add: claim_path_def)
  ultimately show ?thesis
    using entry_at_open [OF _ assms(3)] by (simp add: claim_taken_def)
qed

lemma consume_step_ready:
  assumes "store_ready st i f" "consume_step c st i b now m pc f = (pc', f')"
  shows "store_ready st i f'" "claim_taken st i f \<Longrightarrow> claim_taken st i f'"
    "past_claim pc' \<Longrightarrow> past_claim pc \<or> (\<not> claim_taken st i f \<and> claim_taken st i f')"
proof -
  obtain a u where st: "st = \<lparr>st_active_dir = abs_path a, st_used_dir = abs_path u\<rparr>"
      and i: "is_ok (validate_storage_id i)" and wf: "wf_fs f" and a: "open_dir f a" and u: "open_dir f u"
    using assms(1) by (auto simp: store_ready_def)
  note names = approval_names [OF i]
  have paths: "claim_path st i = abs_path (u @ [i @ ''.claim''])"
    "used_path st i = abs_path (u @ [i @ ''.json''])"
    "consuming_path st i = abs_path (u @ [i @ ''-consuming.json''])"
    "active_path st i = abs_path (a @ [i @ ''.json''])"
    using st names open_dirD(2) [OF a] open_dirD(2) [OF u]
    by (simp_all add: claim_path_def used_path_def consuming_path_def active_path_def path_join_abs_path)
  have ready: "store_ready st i g" if "wf_fs g" "open_dir g a" "open_dir g u" for g
    using st i that by (auto simp: store_ready_def)
  have taken: "claim_taken st i g \<longleftrightarrow> fs_nodes g (u @ [i @ ''.claim'']) \<noteq> None"
    if "wf_fs g" "open_dir g a" "open_dir g u" for g
    using claim_taken_ready [OF ready [OF that] st that(3)] .
  have diff: "i @ ''.claim'' \<noteq> i @ ''.json''" "i @ ''.claim'' \<noteq> i @ ''-consuming.json''"
    by simp_all
  have keep: "store_ready st i f \<and> (claim_taken st i f \<longrightarrow> claim_taken st i f)"
    using assms(1) by simp
  have create: "store_ready st i g \<and> \<not> claim_taken st i f \<and> claim_taken st i g"
    if "create_new f (claim_path st i) m [] = Inr g" for g
    using create_new_open [OF wf u names(3) that [unfolded paths]] ready taken a u wf by auto
  have move: "store_ready st i g \<and> (claim_taken st i f \<longrightarrow> claim_taken st i g)"
    if "rename_file f (active_path st i) (consuming_path st i) = Inr g" for g
    using rename_file_open [OF wf a u names(1,2) that [unfolded paths]] ready taken diff a u wf by auto
  have retire: "store_ready st i g \<and> (claim_taken st i f \<longrightarrow> claim_taken st i g)"
    if "rename_file f (consuming_path st i) (used_path st i) = Inr g" for g
    using rename_file_open [OF wf u u names(2,1) that [unfolded paths]] ready taken diff a u wf by auto
  show "store_ready st i f'" "claim_taken st i f \<Longrightarrow> claim_taken st i f'"
    "past_claim pc' \<Longrightarrow> past_claim pc \<or> (\<not> claim_taken st i f \<and> claim_taken st i f')"
    using assms(2) keep create move retire
    by (auto simp: consume_step_def split: consumer.splits if_splits sum.splits)
qed

interpretation claim: one_shot "store_ready st i" "claim_taken st i" past_claim
    "\<lambda>k. consume_step c st i (observed k) (now k) (m k)"
  for c st i observed now m
  by unfold_locales (auto dest: consume_step_ready)

text \<open>A consumption that succeeds finds the claim free and leaves it taken.\<close>

lemma consume_run_spends:
  assumes "store_ready st i f" "consume_run c st i b now m f = (Finished (Inr g), f')"
  shows "store_ready st i f'" "claim_taken st i f'" "\<not> claim_taken st i f"
proof -
  let ?step = "\<lambda>k :: nat. consume_step c st i b now m"
  let ?ps = "(\<lambda>_. CheckSpent)(0 := Finished (Inr g))"
  have run: "interleave ?step (honest (store_ready st i) (claim_taken st i)) (\<lambda>_. CheckSpent) f ?ps f'"
    using interleave_alone [of ?step "honest (store_ready st i) (claim_taken st i)" "\<lambda>_. CheckSpent" f 0 6]
      assms(2) unfolding consume_run_def by simp
  have past: "past_claim (?ps 0)" and start: "\<And>k :: nat. \<not> past_claim ((\<lambda>_. CheckSpent) k)"
    by simp_all
  note kept = claim.interleave_inv [where observed = "\<lambda>_. b" and now = "\<lambda>_. now" and m = "\<lambda>_. m",
      OF run assms(1) start]
  show "store_ready st i f'" "claim_taken st i f'"
    using kept past by blast+
  show "\<not> claim_taken st i f"
    using claim.taken_blocks [where observed = "\<lambda>_. b" and now = "\<lambda>_. now" and m = "\<lambda>_. m",
        OF run assms(1) _ start] past by blast
qed

end
