(* ===== verification/PolicyCheck.thy ===== *)
theory PolicyCheck
  imports PolicyEngine PolicyApproval
begin

text \<open>
  The policy engine as its clients call it (\<open>PolicyEngine\<close> and \<open>PolicyPreflight\<close> in
  \<open>opticcode-policy/src/engine.rs\<close>): explaining a request, checking it with consumption of an approval
  and an audit record, issuing an approval, and revalidating a preflight against fresh observations.
  The clock does not advance within one call; the environment may change it between calls.
\<close>

record policy_engine =
  pe_audit :: audit_store
  pe_approvals :: approval_store

record policy_preflight =
  pp_report :: policy_report
  pp_paths :: "path_report list"
  pp_request :: policy_request
  pp_base_rule_id :: string
  pp_security_context_hash :: string

record engine_host =
  eh_host :: host
  eh_audit :: audit_codec
  eh_approval :: approval_codec

definition storage_error :: "fail \<Rightarrow> policy_error" where
  "storage_error e = Storage (fail_text e)"

definition engine_open :: "path \<Rightarrow> world \<Rightarrow> (policy_error, policy_engine) res \<times> world" where
  "engine_open state_root w =
    (case audit_open state_root w of
       (Inl e, w1) \<Rightarrow> (Inl (storage_error e), w1)
     | (Inr audit, w1) \<Rightarrow>
         (case approval_open state_root w1 of
            (Inl e, w2) \<Rightarrow> (Inl (storage_error e), w2)
          | (Inr approvals, w2) \<Rightarrow> (Inr \<lparr>pe_audit = audit, pe_approvals = approvals\<rparr>, w2)))"

definition ensure_state_outside_workspace :: "policy_engine \<Rightarrow> fs \<Rightarrow> policy_request \<Rightarrow> (policy_error, unit) res" where
  "ensure_state_outside_workspace engine f request =
    try_then (map_err (\<lambda>e. Storage (io_text e)) (canonicalize f (as_state_root (pe_audit engine)))) (\<lambda>state.
    try_then (map_err invalid_path_request (inspect_root f (ws_root (rq_workspace request)))) (\<lambda>workspace.
    if path_starts_with state workspace \<or> path_starts_with workspace state
    then Inl (Storage ''policy state must not overlap the source workspace'')
    else Inr ()))"

section \<open>The binding of an approval\<close>

definition hash_file_bindings :: "host \<Rightarrow> file_binding list \<Rightarrow> (policy_error, string) res" where
  "hash_file_bindings h files =
    try_then (map_err InvalidRequest (h_json_files h files)) (\<lambda>b. Inr (h_blake3 h b))"

definition file_binding_of :: "host \<Rightarrow> path_report \<Rightarrow> file_binding" where
  "file_binding_of h p =
    \<lparr>fb_path_hash = hash_text h (normalized_absolute (ps_root p) @ '':'' @
       replace_char (CHR 0x5C) (CHR ''/'') (ps_relative_path p)),
     fb_expected_hash = (case pf_content_hash (ps_fingerprint p) of
        Some c \<Rightarrow> c | None \<Rightarrow> pf_metadata_hash (ps_fingerprint p))\<rparr>"

definition head_or_none :: "policy_request \<Rightarrow> string" where
  "head_or_none request = (case ws_repository (rq_workspace request) of None \<Rightarrow> ''no-head'' | Some r \<Rightarrow> gb_head r)"

text \<open>
  Slicing a digest to 16 bytes panics in Rust when it is shorter; every digest that reaches the
  slice has been checked to have 64 (\<open>GitCommit\<close>) or comes from the hash function.
\<close>

definition binding_parts ::
  "host \<Rightarrow> policy_request \<Rightarrow> string \<Rightarrow> file_binding list \<Rightarrow> (policy_error, string \<times> string \<times> string \<times> string) res" where
  "binding_parts h request digest files = (case rq_action request of
      ApplyPatch a \<Rightarrow> Inr (ap_base_head a, ap_diff_hash a, ap_files_hash a, ap_transaction_id a)
    | GitCommit a \<Rightarrow> try_then (hash_file_bindings h files) (\<lambda>fh.
        Inr (head_or_none request, gc_tree_hash a, fh, ''commit-'' @ take 16 (gc_tree_hash a)))
    | RecoverTransaction a \<Rightarrow> try_then (hash_file_bindings h files) (\<lambda>fh.
        Inr (head_or_none request, ta_expected_state_hash a, fh, ta_transaction_id a))
    | RollbackTransaction a \<Rightarrow> try_then (hash_file_bindings h files) (\<lambda>fh.
        Inr (head_or_none request, ta_expected_state_hash a, fh, ta_transaction_id a))
    | _ \<Rightarrow> try_then (hash_file_bindings h files) (\<lambda>fh.
        Inr (head_or_none request, digest, fh, ''action-'' @ take 16 digest)))"

definition binding_files :: "host \<Rightarrow> path \<Rightarrow> path_report list \<Rightarrow> file_binding list" where
  "binding_files h workspace_root paths =
    (if paths = [] then [\<lparr>fb_path_hash = hash_text h (normalized_absolute workspace_root),
                         fb_expected_hash = hash_text h ''no_file_binding''\<rparr>]
     else map (file_binding_of h) paths)"

definition approval_binding_of ::
  "host \<Rightarrow> fs \<Rightarrow> policy_request \<Rightarrow> path_report list \<Rightarrow> (policy_error, approval_binding) res" where
  "approval_binding_of h f request paths =
    try_then (action_hash h (rq_action request)) (\<lambda>digest.
    try_then (map_err invalid_path_request (inspect_root f (ws_root (rq_workspace request)))) (\<lambda>workspace_root.
    try_then (ok_or (InvalidRequest ''approval requires an observed working-tree digest'')
      (ws_working_tree_digest (rq_workspace request))) (\<lambda>tree.
    try_then (map_err invalid_path_request (validate_hash_value tree ''working-tree digest'')) (\<lambda>_.
    let files = binding_files h workspace_root paths in
    try_then (binding_parts h request digest files) (\<lambda>(base_head, diff_hash, files_hash, transaction_id).
    map_err (\<lambda>e. InvalidRequest (fail_text e)) (normalized
      \<lparr>ab_request_id = rq_request_id request,
       ab_workspace_id = ws_workspace_id (rq_workspace request),
       ab_workspace_root_hash = hash_text h (normalized_absolute workspace_root),
       ab_mode = rq_mode request, ab_base_head = base_head, ab_working_tree_digest = tree,
       ab_diff_hash = diff_hash, ab_files_hash = files_hash, ab_files = files,
       ab_action_hashes = [digest], ab_transaction_id = transaction_id\<rparr>))))))"

section \<open>Explaining and checking\<close>

definition preflight_of ::
  "host \<Rightarrow> policy_request \<Rightarrow> policy_report \<Rightarrow> path_report list \<Rightarrow> string \<Rightarrow> (policy_error, policy_preflight) res" where
  "preflight_of h request report paths base_rule =
    try_then (security_context_hash h request) (\<lambda>ctx.
    Inr \<lparr>pp_report = report, pp_paths = paths, pp_request = request, pp_base_rule_id = base_rule,
         pp_security_context_hash = ctx\<rparr>)"

definition explain :: "host \<Rightarrow> policy_engine \<Rightarrow> fs \<Rightarrow> policy_request \<Rightarrow> (policy_error, policy_preflight) res" where
  "explain h engine f request =
    try_then (ensure_state_outside_workspace engine f request) (\<lambda>_.
    try_then (evaluate h f request) (\<lambda>ev.
    preflight_of h request (ev_report ev) (ev_paths ev) (rule_id (pr_decision (ev_report ev)))))"

definition approval_failure_rule :: "approval_error \<Rightarrow> string \<times> bool" where
  "approval_failure_rule e = (case e of
      Expired \<Rightarrow> (''approval.expired'', True)
    | Reused \<Rightarrow> (''approval.reused'', False)
    | WrongRequest \<Rightarrow> (''approval.request_drift'', False)
    | WrongWorkspace \<Rightarrow> (''approval.workspace_drift'', False)
    | WrongMode \<Rightarrow> (''approval.mode_drift'', False)
    | HeadChanged \<Rightarrow> (''approval.head_drift'', True)
    | WorkingTreeChanged \<Rightarrow> (''approval.working_tree_drift'', True)
    | DiffChanged \<Rightarrow> (''approval.diff_drift'', True)
    | FilesChanged \<Rightarrow> (''approval.files_drift'', True)
    | ActionsChanged \<Rightarrow> (''approval.actions_drift'', True)
    | TransactionChanged \<Rightarrow> (''approval.transaction_drift'', True)
    | Missing \<Rightarrow> (''approval.missing'', True)
    | InvalidRecord \<Rightarrow> (''approval.invalid'', False))"

definition apply_approval_failure :: "policy_report \<Rightarrow> approval_error \<Rightarrow> policy_report" where
  "apply_approval_failure report e = report\<lparr>
     pr_decision := Deny (fst (approval_failure_rule e)) (approval_error_text e) High,
     pr_user_reason := ''The approval is no longer valid for this action.'',
     pr_technical_reason := bounded (approval_error_text e) MAX_TECHNICAL_REASON_BYTES,
     pr_recommended_action := ''Re-verify the proposal and request a new native confirmation.'',
     pr_retriable := snd (approval_failure_rule e)\<rparr>"

definition apply_approval_success :: "policy_report \<Rightarrow> policy_request \<Rightarrow> policy_report" where
  "apply_approval_success report request = report\<lparr>
     pr_decision := Allow ''approval.one_shot'' Low (action_kind (rq_action request))
       [''native confirmation'', ''one-shot approval consumed'', ''state binding matched'',
        ''revalidate immediately before execution''],
     pr_user_reason := ''The exact approved action may run once.'',
     pr_technical_reason := ''The runtime consumed a valid state-bound approval record.'',
     pr_recommended_action := ''Execute immediately, then verify postconditions.'',
     pr_retriable := False\<rparr>"

text \<open>The use of the approval, when the decision asks for one and the request carries one.\<close>

definition use_approval ::
  "engine_host \<Rightarrow> policy_engine \<Rightarrow> policy_request \<Rightarrow> evaluation \<Rightarrow> world \<Rightarrow>
   (policy_error, policy_report \<times> string) res \<times> world" where
  "use_approval eh engine request ev w =
    (let status = (if rq_approval_id request \<noteq> None then ''present'' else ''none'') in
     if \<not> is_RequireApproval (pr_decision (ev_report ev)) then (Inr (ev_report ev, status), w)
     else (case rq_approval_id request of
         None \<Rightarrow> (Inr (ev_report ev, status), w)
       | Some approval_id \<Rightarrow>
           (case approval_binding_of (eh_host eh) (w_fs w) request (ev_paths ev) of
              Inl e \<Rightarrow> (Inl e, w)
            | Inr binding \<Rightarrow>
                (case consume_at (eh_approval eh) (pe_approvals engine) approval_id binding (w_clock w) w of
                   (Inr _, w') \<Rightarrow> (Inr (apply_approval_success (ev_report ev) request, ''consumed''), w')
                 | (Inl e, w') \<Rightarrow> (Inr (apply_approval_failure (ev_report ev) e, ''invalid''), w')))))"

definition audit_event_of ::
  "host \<Rightarrow> policy_request \<Rightarrow> policy_report \<Rightarrow> string \<Rightarrow> nat \<Rightarrow> nat \<Rightarrow> audit_event" where
  "audit_event_of h request report approval_status now_ms elapsed_us =
    \<lparr>ae_schema_version = 1, ae_event_id = [], ae_timestamp_unix_ms = now_ms,
     ae_request_id = rq_request_id request, ae_action_id_hash = hash_text h (rq_action_id request),
     ae_action_kind = action_kind (rq_action request), ae_action_hash = pr_action_hash report,
     ae_rule_id = rule_id (pr_decision report), ae_decision = decision_kind (pr_decision report),
     ae_risk = decision_risk (pr_decision report), ae_workspace_hash = pr_workspace_hash report,
     ae_origin = rq_origin request, ae_approval_state = approval_status,
     ae_approval_hash = map_option (hash_text h) (rq_approval_id request),
     ae_transaction_hash = map_option (hash_text h) (transaction_id_of (rq_action request)),
     ae_result = (if report_allowed report then ''authorized'' else ''blocked''),
     ae_duration_us = min elapsed_us u64_max\<rparr>"

definition policy_check ::
  "engine_host \<Rightarrow> policy_engine \<Rightarrow> policy_request \<Rightarrow> nat \<Rightarrow> world \<Rightarrow> (policy_error, policy_preflight) res \<times> world" where
  "policy_check eh engine request elapsed_us w =
    (case ensure_state_outside_workspace engine (w_fs w) request of
       Inl e \<Rightarrow> (Inl e, w)
     | Inr _ \<Rightarrow>
         (case evaluate (eh_host eh) (w_fs w) request of
            Inl e \<Rightarrow> (Inl e, w)
          | Inr ev \<Rightarrow>
              (case use_approval eh engine request ev w of
                 (Inl e, w1) \<Rightarrow> (Inl e, w1)
               | (Inr (report, status), w1) \<Rightarrow>
                   (case audit_record (eh_audit eh) (pe_audit engine)
                        (audit_event_of (eh_host eh) request report status (w_clock w1) elapsed_us) w1 of
                      (Inl e, w2) \<Rightarrow> (Inl (storage_error e), w2)
                    | (Inr event_id, w2) \<Rightarrow>
                        (preflight_of (eh_host eh) request (report\<lparr>pr_audit_event_id := Some event_id\<rparr>)
                           (ev_paths ev) (rule_id (pr_decision (ev_report ev))), w2)))))"

definition issue_approval ::
  "engine_host \<Rightarrow> policy_engine \<Rightarrow> policy_request \<Rightarrow> native_confirmation \<Rightarrow> nat \<Rightarrow> world \<Rightarrow>
   (policy_error, approval_grant) res \<times> world" where
  "issue_approval eh engine request confirmation ttl_seconds w =
    (case ensure_state_outside_workspace engine (w_fs w) request of
       Inl e \<Rightarrow> (Inl e, w)
     | Inr _ \<Rightarrow>
         if rq_approval_id request \<noteq> None
         then (Inl (InvalidRequest ''cannot issue an approval from a request that already carries one''), w)
         else (case evaluate (eh_host eh) (w_fs w) request of
             Inl e \<Rightarrow> (Inl e, w)
           | Inr ev \<Rightarrow>
               if \<not> is_RequireApproval (pr_decision (ev_report ev))
               then (Inl (InvalidRequest ''only require_approval decisions can receive a grant''), w)
               else (case approval_binding_of (eh_host eh) (w_fs w) request (ev_paths ev) of
                   Inl e \<Rightarrow> (Inl e, w)
                 | Inr binding \<Rightarrow>
                     (case issue_at (eh_approval eh) (pe_approvals engine) binding confirmation ttl_seconds (w_clock w) w of
                        (Inl e, w') \<Rightarrow> (Inl (storage_error e), w')
                      | (Inr g, w') \<Rightarrow> (Inr g, w')))))"

definition engine_approval_binding ::
  "host \<Rightarrow> policy_engine \<Rightarrow> fs \<Rightarrow> policy_request \<Rightarrow> (policy_error, approval_binding) res" where
  "engine_approval_binding h engine f request =
    try_then (ensure_state_outside_workspace engine f request) (\<lambda>_.
    try_then (evaluate h f request) (\<lambda>ev. approval_binding_of h f request (ev_paths ev)))"

section \<open>Revalidation\<close>

text \<open>Path reports are compared field by field, paths by their components.\<close>

definition report_eq :: "path_report \<Rightarrow> path_report \<Rightarrow> bool" where
  "report_eq a b = (path_eq (ps_root a) (ps_root b) \<and> path_eq (ps_target a) (ps_target b)
     \<and> path_eq (ps_relative_path a) (ps_relative_path b) \<and> ps_exists a = ps_exists b
     \<and> ps_fingerprint a = ps_fingerprint b)"

fun revalidate_paths :: "host \<Rightarrow> fs \<Rightarrow> path_report list \<Rightarrow> (policy_error, unit) res" where
  "revalidate_paths h f [] = Inr ()"
| "revalidate_paths h f (before # rest) =
    try_then (map_err (\<lambda>e. InvalidRequest (path_error_to_string e)) (revalidate_path h f before)) (\<lambda>after.
    if \<not> report_eq before after then Inl (InvalidRequest ''policy path changed after authorization'')
    else revalidate_paths h f rest)"

definition revalidate_observed ::
  "host \<Rightarrow> fs \<Rightarrow> policy_preflight \<Rightarrow> policy_request \<Rightarrow> (policy_error, unit) res" where
  "revalidate_observed h f pp observed =
    try_then (security_context_hash h observed) (\<lambda>ctx.
    if ctx \<noteq> pp_security_context_hash pp
    then Inl (InvalidRequest ''policy security context changed after authorization'') else
    try_then (evaluate h f observed) (\<lambda>fresh.
    if rule_id (pr_decision (ev_report fresh)) \<noteq> pp_base_rule_id pp
      \<or> \<not> list_all2 report_eq (ev_paths fresh) (pp_paths pp)
    then Inl (InvalidRequest ''policy decision inputs changed after authorization'')
    else revalidate_paths h f (pp_paths pp)))"

definition revalidate_preflight :: "host \<Rightarrow> fs \<Rightarrow> policy_preflight \<Rightarrow> (policy_error, unit) res" where
  "revalidate_preflight h f pp = revalidate_observed h f pp (pp_request pp)"

section \<open>Lemmas\<close>

text \<open>A call that returns a preflight has evaluated the request and recorded an event.\<close>

lemma policy_check_Inr:
  assumes "policy_check eh engine request el w = (Inr pp, w')"
  obtains ev report status w1 event_id where
    "ensure_state_outside_workspace engine (w_fs w) request = Inr ()"
    "evaluate (eh_host eh) (w_fs w) request = Inr ev"
    "use_approval eh engine request ev w = (Inr (report, status), w1)"
    "audit_record (eh_audit eh) (pe_audit engine)
       (audit_event_of (eh_host eh) request report status (w_clock w1) el) w1 = (Inr event_id, w')"
    "pp_report pp = report\<lparr>pr_audit_event_id := Some event_id\<rparr>" "pp_paths pp = ev_paths ev"
    "pp_request pp = request" "pp_base_rule_id pp = rule_id (pr_decision (ev_report ev))"
    "security_context_hash (eh_host eh) request = Inr (pp_security_context_hash pp)"
  using assms
  by (auto simp: policy_check_def preflight_of_def res_simps split: sum.splits prod.splits)

lemma use_approval_allow:
  assumes "use_approval eh engine request ev w = (Inr (report, status), w1)" "report_allowed report"
  shows "(is_Allow (pr_decision (ev_report ev)) \<and> report = ev_report ev \<and> w1 = w)
    \<or> (is_RequireApproval (pr_decision (ev_report ev)) \<and> status = ''consumed''
       \<and> (\<exists>i binding g. rq_approval_id request = Some i
            \<and> approval_binding_of (eh_host eh) (w_fs w) request (ev_paths ev) = Inr binding
            \<and> consume_at (eh_approval eh) (pe_approvals engine) i binding (w_clock w) w = (Inr g, w1)))"
  using assms
  by (auto simp: use_approval_def report_allowed_def apply_approval_failure_def Let_def
      split: if_splits option.splits sum.splits prod.splits)

text \<open>
  What a successful consumption rests on: the record that was moved aside carries exactly the
  observed binding and has not expired.
\<close>

lemma consume_run_Inr:
  assumes "consume_run c st i observed now m f = (Finished (Inr g), f')"
  shows "\<exists>f1 record. read_record c f1 (consuming_path st i) = Inr record
    \<and> judge_record c i observed now record = Inr g"
  using assms
  by (auto simp: consume_run_def numeral_eq_Suc consume_step_def res_simps
      split: sum.splits if_splits)

lemma consume_at_Inr:
  assumes "consume_at c st i observed now w = (Inr g, w')"
  shows "ag_state g = Consumed" "ag_approval_id g = i" "now \<le> ag_expires_unix_ms g"
    "hash_binding c observed = Inr (ag_binding_hash g)"
proof -
  obtain f' where "consume_run c st i observed now (w_meta w) (w_fs w) = (Finished (Inr g), f')"
    using assms by (auto simp: consume_at_def split: sum.splits prod.splits consumer.splits)
  then obtain rcd where r: "judge_record c i observed now rcd = Inr g"
    using consume_run_Inr by blast
  show "ag_state g = Consumed" "ag_approval_id g = i" "now \<le> ag_expires_unix_ms g"
      "hash_binding c observed = Inr (ag_binding_hash g)"
    using judge_record_Inr [OF r] by auto
qed

text \<open>The binding of an approval names everything the decision rested on.\<close>

lemma approval_binding_of_Inr:
  assumes "approval_binding_of h f request paths = Inr b"
  obtains ws digest tree where
    "inspect_root f (ws_root (rq_workspace request)) = Inr ws"
    "action_hash h (rq_action request) = Inr digest" "ab_action_hashes b = [digest]"
    "ws_working_tree_digest (rq_workspace request) = Some tree" "ab_working_tree_digest b = tree" "hex64 tree"
    "ab_request_id b = rq_request_id request" "ab_mode b = rq_mode request"
    "ab_workspace_id b = ws_workspace_id (rq_workspace request)"
    "ab_workspace_root_hash b = h_blake3 h (normalized_absolute ws)"
    "ab_files b = binding_files h ws paths"
proof -
  obtain ws digest tree base diff fh tx where x: "inspect_root f (ws_root (rq_workspace request)) = Inr ws"
      "action_hash h (rq_action request) = Inr digest"
      "ws_working_tree_digest (rq_workspace request) = Some tree" "hex64 tree"
      "normalized \<lparr>ab_request_id = rq_request_id request,
       ab_workspace_id = ws_workspace_id (rq_workspace request),
       ab_workspace_root_hash = hash_text h (normalized_absolute ws),
       ab_mode = rq_mode request, ab_base_head = base, ab_working_tree_digest = tree,
       ab_diff_hash = diff, ab_files_hash = fh, ab_files = binding_files h ws paths,
       ab_action_hashes = [digest], ab_transaction_id = tx\<rparr> = Inr b"
    using assms by (auto simp: approval_binding_of_def res_simps Let_def hex64_def validate_hash_value_def
        split: prod.splits)
  then show thesis
    using that [OF x(1,2) _ x(3) _ x(4)] normalized_Inr [OF x(5)] by (auto simp: hash_text_def)
qed

lemma evaluate_ok:
  assumes "validate_request f request = Inr ()" "inspect_root f (ws_root (rq_workspace request)) = Inr ws"
    and "action_hash h (rq_action request) = Inr digest"
  obtains ev where "evaluate h f request = Inr ev"
    "ev_paths ev = snd (evaluate_action h f request ws (rq_action request))"
    "pr_decision (ev_report ev) = fst (outcome_of (evaluate_action h f request ws (rq_action request)))"
  using assms by (auto simp: evaluate_def Let_def report_of_def case_prod_beta)

text \<open>What an accepted revalidation establishes about the files behind the preflight.\<close>

lemma revalidate_paths_Inr:
  "revalidate_paths h f ps = Inr () \<Longrightarrow> p \<in> set ps \<Longrightarrow>
    \<exists>q. revalidate_path h f p = Inr q \<and> report_eq p q"
  by (induction ps) (auto simp: res_simps split: if_splits)

lemma revalidate_observed_Inr:
  assumes "revalidate_observed h f pp observed = Inr ()"
  shows "security_context_hash h observed = Inr (pp_security_context_hash pp)"
    "\<exists>ev. evaluate h f observed = Inr ev \<and> rule_id (pr_decision (ev_report ev)) = pp_base_rule_id pp
       \<and> list_all2 report_eq (ev_paths ev) (pp_paths pp)"
    "revalidate_paths h f (pp_paths pp) = Inr ()"
  using assms by (auto simp: revalidate_observed_def res_simps split: if_splits)

end
