(* ===== verification/Scenario.thy ===== *)
theory Scenario
  imports PolicyCheck "HOL-Library.Code_Target_Nat"
begin

text \<open>
  One concrete machine on which the properties are exercised: a workspace \<open>/w\<close> with its main Git
  directory, a leased worktree \<open>/t/opticcode-worktrees/runs/r1\<close> with its \<open>.git\<close> file, the lease, the
  policy state directory \<open>/s\<close>, and the outside functions instantiated by concrete ones.
\<close>

definition plain_meta :: meta where
  "plain_meta = \<lparr>m_len = 4096, m_mtime = 7, m_mode = 420\<rparr>"

definition demo_head :: string where
  "demo_head = replicate 40 (CHR ''a'')"

definition demo_digest :: string where
  "demo_digest = replicate 64 (CHR ''b'')"

abbreviation demo_dir :: "location \<Rightarrow> location \<times> node" where
  "demo_dir l \<equiv> (l, DirNode plain_meta)"

abbreviation demo_file :: "location \<Rightarrow> string \<Rightarrow> location \<times> node" where
  "demo_file l c \<equiv> (l, FileNode plain_meta c)"

definition demo_tree :: "(location \<times> node) list" where
  "demo_tree =
    [demo_dir [], demo_dir [''w''], demo_dir [''w'', ''.git''], demo_dir [''w'', ''.git'', ''objects''],
     demo_file [''w'', ''.git'', ''index''] ''idx'', demo_file [''w'', ''A''] ''class'',
     demo_dir [''w'', ''.git'', ''worktrees''], demo_dir [''w'', ''.git'', ''worktrees'', ''r1''],
     demo_file [''w'', ''.git'', ''worktrees'', ''r1'', ''commondir''] ''../..'',
     demo_dir [''t''], demo_dir [''t'', ''opticcode-worktrees''],
     demo_dir [''t'', ''opticcode-worktrees'', ''runs''], demo_dir [''t'', ''opticcode-worktrees'', ''leases''],
     demo_dir [''t'', ''opticcode-worktrees'', ''runs'', ''r1''],
     demo_file [''t'', ''opticcode-worktrees'', ''runs'', ''r1'', ''.git''] ''gitdir: /w/.git/worktrees/r1'',
     demo_file [''t'', ''opticcode-worktrees'', ''runs'', ''r1'', ''A''] ''class'',
     demo_file [''t'', ''opticcode-worktrees'', ''runs'', ''r1'', ''mvnw''] ''run'',
     demo_file [''w'', ''mvnw''] ''run'',
     demo_file [''t'', ''opticcode-worktrees'', ''leases'', ''r1.json''] ''lease'',
     demo_dir [''s''], demo_dir [''s'', ''policy-v1''], demo_dir [''s'', ''policy-v1'', ''audit''],
     demo_dir [''s'', ''policy-v1'', ''audit'', ''workspaces''],
     demo_dir [''s'', ''policy-v1'', ''approvals''], demo_dir [''s'', ''policy-v1'', ''approvals'', ''active''],
     demo_dir [''s'', ''policy-v1'', ''approvals'', ''used'']]"

definition demo_fs :: fs where
  "demo_fs = \<lparr>fs_tree = demo_tree, fs_cwd = [], fs_fault = (\<lambda>_. None), fs_wfault = (\<lambda>_. None),
     fs_sfault = (\<lambda>_. None)\<rparr>"

definition demo_lease :: worktree_lease where
  "demo_lease = \<lparr>wl_schema_version = 1, wl_run_id = ''r1'', wl_owner_workspace_id = ''ws'',
     wl_owner_request_id = ''rq'', wl_process_id = 1, wl_created_unix_ms = 1, wl_source_git_root = ''/w'',
     wl_source_project = ''/w'', wl_source_commit = demo_head,
     wl_worktree_path = ''/t/opticcode-worktrees/runs/r1''\<rparr>"

definition demo_host :: host where
  "demo_host = \<lparr>h_blake3 = (\<lambda>s. if s = ''class'' then replicate 64 (CHR ''c'') else replicate 64 (CHR ''d'')),
     h_json_action = (\<lambda>_. Inr ''action''), h_json_request = (\<lambda>_. Inr ''request''),
     h_json_files = (\<lambda>_. Inr ''files''),
     h_parse_lease = (\<lambda>s. if s = ''lease'' then Some demo_lease else None), h_temp_dir = ''/t''\<rparr>"

definition demo_boundary :: git_boundary where
  "demo_boundary = \<lparr>gb_worktree_root = ''/w'', gb_git_dir = ''/w/.git'', gb_common_dir = ''/w/.git'',
     gb_index = ''/w/.git/index'', gb_object_dir = ''/w/.git/objects'', gb_head = demo_head,
     gb_main_worktree = True\<rparr>"

definition demo_active :: active_worktree where
  "demo_active = \<lparr>aw_run_id = ''r1'', aw_owner_workspace_id = ''ws'', aw_owner_request_id = ''rq'',
     aw_root = ''/t/opticcode-worktrees/runs/r1'', aw_source_root = ''/w'', aw_base_head = demo_head,
     aw_git_dir = ''/w/.git/worktrees/r1'', aw_common_dir = ''/w/.git''\<rparr>"

definition demo_workspace :: policy_workspace where
  "demo_workspace = \<lparr>ws_workspace_id = ''ws'', ws_root = ''/w'', ws_repository = Some demo_boundary,
     ws_active_worktree = Some demo_active, ws_working_tree_digest = Some demo_digest,
     ws_repository_clean = Some True\<rparr>"

definition demo_request :: "policy_mode \<Rightarrow> policy_action \<Rightarrow> policy_request" where
  "demo_request mode action = policy_request_new ''0.1.0'' ''rq'' ''act'' mode demo_workspace action"

definition plain_request :: "policy_action \<Rightarrow> policy_request" where
  "plain_request action = policy_request_new ''1'' ''rq'' ''act'' ReadOnly
     \<lparr>ws_workspace_id = ''ws'', ws_root = ''/w'', ws_repository = None, ws_active_worktree = None,
      ws_working_tree_digest = None, ws_repository_clean = None\<rparr> action"

definition demo_target :: "path \<Rightarrow> path \<Rightarrow> path_target" where
  "demo_target root p = \<lparr>pt_root = root, pt_path = p, pt_range = None, pt_expected_hash = None\<rparr>"

definition decision_of :: "(policy_error, evaluation) res \<Rightarrow> policy_decision option" where
  "decision_of r = map_option (\<lambda>ev. pr_decision (ev_report ev)) (ok_of r)"

definition demo_world :: world where
  "demo_world = \<lparr>w_fs = demo_fs, w_clock = 1000, w_pid = 7, w_counter = 0, w_draws = 0,
     w_random = (\<lambda>_. Some ''xyzxyzxyzxyz''), w_meta = plain_meta\<rparr>"

text \<open>A smaller machine with a workspace of one file and an empty policy state.\<close>

definition small_world :: world where
  "small_world = demo_world\<lparr>w_fs := demo_fs\<lparr>fs_tree :=
     [demo_dir [], demo_dir [''w''], demo_file [''w'', ''A''] ''class'', demo_dir [''s''], demo_dir [''s'', ''x'']]\<rparr>\<rparr>"

definition small_engine :: policy_engine where
  "small_engine = \<lparr>pe_audit = \<lparr>as_state_root = ''/s'', as_workspaces_dir = ''/s/x''\<rparr>,
     pe_approvals = \<lparr>st_active_dir = ''/s/a'', st_used_dir = ''/s/u''\<rparr>\<rparr>"

definition demo_engine :: policy_engine where
  "demo_engine = \<lparr>pe_audit = \<lparr>as_state_root = ''/s'', as_workspaces_dir = ''/s/policy-v1/audit/workspaces''\<rparr>,
     pe_approvals = \<lparr>st_active_dir = ''/s/policy-v1/approvals/active'',
       st_used_dir = ''/s/policy-v1/approvals/used''\<rparr>\<rparr>"

definition demo_binding :: approval_binding where
  "demo_binding = \<lparr>ab_request_id = ''rq'', ab_workspace_id = ''ws'', ab_workspace_root_hash = demo_digest,
     ab_mode = ApprovedApply, ab_base_head = demo_head, ab_working_tree_digest = demo_digest,
     ab_diff_hash = demo_digest, ab_files_hash = demo_digest,
     ab_files = [\<lparr>fb_path_hash = demo_digest, fb_expected_hash = demo_digest\<rparr>],
     ab_action_hashes = [demo_digest], ab_transaction_id = ''tx''\<rparr>"

definition demo_record :: approval_record where
  "demo_record = \<lparr>rc_schema_version = 1, rc_issued_unix_ms = 900, rc_expires_unix_ms = 2000,
     rc_confirmation_hash = demo_digest, rc_binding_hash = demo_digest, rc_binding = demo_binding\<rparr>"

definition demo_approval_codec :: approval_codec where
  "demo_approval_codec = \<lparr>pc_blake3 = (\<lambda>_. demo_digest), pc_json_binding = (\<lambda>_. Inr ''binding''),
     pc_json_record = (\<lambda>_. Inr ''record''),
     pc_parse_record = (\<lambda>s. if starts_with s ''record'' then Some demo_record else None)\<rparr>"

definition demo_eh :: engine_host where
  "demo_eh = \<lparr>eh_host = demo_host,
     eh_audit = \<lparr>ac_to_json = (\<lambda>_. Inr ''event''), ac_from_json = (\<lambda>_. None)\<rparr>,
     eh_approval = demo_approval_codec\<rparr>"

end
