(* ===== verification/PolicyProperties.thy ===== *)
theory PolicyProperties
  imports Scenario
begin

text \<open>
  The properties of the policy component, stated over its definitions, with a witness on the
  concrete machine of \<open>Scenario\<close> for each property that has hypotheses.
\<close>

section \<open>The concrete machine\<close>

lemma demo_wf: "wf_fs demo_fs"
proof (rule wf_fs_by_entries)
  show "is_dir_at demo_fs []" "is_dir_at demo_fs (fs_cwd demo_fs)"
    by code_simp+
  show "\<forall>e \<in> set (fs_tree demo_fs). fst e = []
      \<or> (is_dir_at demo_fs (butlast (fst e)) \<and> valid_name (last (fst e)))"
    by code_simp
qed

abbreviation demo_wt :: path where
  "demo_wt \<equiv> ''/t/opticcode-worktrees/runs/r1''"

lemma demo_request_sel [simp]:
  "rq_workspace (demo_request mode a) = demo_workspace" "rq_action (demo_request mode a) = a"
  "rq_mode (demo_request mode a) = mode" "rq_approval_id (demo_request mode a) = None"
  by (simp_all add: demo_request_def policy_request_new_def)

lemma demo_root: "inspect_root demo_fs (ws_root demo_workspace) = Inr ''/w''"
  by code_simp

lemma demo_boundary_ok:
  "validate_repository_boundary demo_fs (ws_repository demo_workspace) (ws_root demo_workspace) = Inr ()"
  by code_simp

lemma demo_valid: "validate_request demo_fs (demo_request mode a) = Inr ()"
proof -
  have "is_ok (validate_request_identifier ''rq'' MAX_POLICY_REQUEST_ID_BYTES ''request ID'')"
    "is_ok (validate_request_identifier ''act'' MAX_POLICY_IDENTIFIER_BYTES ''action ID'')"
    "is_ok (validate_request_identifier ''ws'' MAX_POLICY_IDENTIFIER_BYTES ''workspace ID'')"
    "is_ok (validate_request_identifier ''default'' 96 ''profile'')"
    "is_ok (validate_request_identifier ''opticcode-cli'' 96 ''client name'')"
    "is_ok (validate_request_identifier ''0.1.0'' 96 ''client version'')"
    "is_ok (validate_hash_value demo_digest ''working-tree digest'')"
    by code_simp+
  then show ?thesis
    using demo_boundary_ok
    by (auto simp: validate_request_def demo_request_def policy_request_new_def demo_workspace_def
        res_simps)
qed

lemma demo_action_hash: "action_hash demo_host a = Inr (replicate 64 (CHR ''d''))"
  by (simp add: action_hash_def demo_host_def)

lemma demo_evaluate:
  obtains ev where "evaluate demo_host demo_fs (demo_request mode a) = Inr ev"
    "ev_paths ev = snd (evaluate_action demo_host demo_fs (demo_request mode a) ''/w'' a)"
    "pr_decision (ev_report ev) =
       fst (outcome_of (evaluate_action demo_host demo_fs (demo_request mode a) ''/w'' a))"
  using evaluate_ok [OF demo_valid _ demo_action_hash] demo_root that by auto

abbreviation demo_write :: policy_action where
  "demo_write \<equiv> WriteFile (demo_target demo_wt ''A'')"

lemma fst_and_then_ok: "fst m = Inr a \<Longrightarrow> fst (and_then m k) = fst (k a)"
  by (simp add: and_then_def)

lemma is_ok_unit: "is_ok r \<Longrightarrow> r = Inr ()"
  by (cases r) auto

lemma demo_values:
  "validate_hash_value demo_digest label = Inr ()" "validate_git_oid demo_head label = Inr ()"
  "validate_identifier_value ''ws'' label = Inr ()" "validate_identifier_value ''rq'' label = Inr ()"
  "validate_identifier_value ''tx'' label = Inr ()" "validate_worktree_run_id ''r1'' = Inr ()"
proof -
  have "length demo_digest = 64 \<and> list_all is_ascii_hexdigit demo_digest"
    "(length demo_head = 40 \<or> length demo_head = 64) \<and> list_all is_ascii_hexdigit demo_head"
    by code_simp+
  then show "validate_hash_value demo_digest label = Inr ()" "validate_git_oid demo_head label = Inr ()"
    by (simp_all add: validate_hash_value_def validate_git_oid_def)
  show "validate_identifier_value ''ws'' label = Inr ()" "validate_identifier_value ''rq'' label = Inr ()"
    "validate_identifier_value ''tx'' label = Inr ()"
    by (simp_all add: validate_identifier_value_def has_line_control_def MAX_POLICY_IDENTIFIER_BYTES_def)
  show "validate_worktree_run_id ''r1'' = Inr ()"
    by (rule is_ok_unit) code_simp
qed

lemma demo_paths:
  "inspect_root demo_fs ''/w'' = Inr ''/w''" "inspect_root demo_fs demo_wt = Inr demo_wt"
  "controlled_worktree_storage demo_host demo_fs = Inr ''/t/opticcode-worktrees''"
  "canonicalize demo_fs (path_join (path_join ''/t/opticcode-worktrees'' WORKTREE_RUNS_DIRECTORY) ''r1'')
     = Inr demo_wt"
  by code_simp+

lemma demo_lease_ok:
  "validate_worktree_lease demo_host demo_fs ''/t/opticcode-worktrees'' demo_active demo_wt ''/w'' ''ws'' ''rq'' = Inr ()"
  "validate_git_file demo_fs demo_wt demo_active = Inr ()"
  by (rule is_ok_unit, code_simp)+

lemma demo_active_ok:
  "validated_active_worktree demo_host demo_fs (demo_request mode a) ''/w'' = Inr (Some demo_wt)"
proof -
  have sel: "aw_run_id demo_active = ''r1''" "aw_owner_workspace_id demo_active = ''ws''"
    "aw_owner_request_id demo_active = ''rq''" "aw_root demo_active = demo_wt"
    "aw_source_root demo_active = ''/w''" "aw_base_head demo_active = demo_head" "gb_head demo_boundary = demo_head"
    "rq_request_id (demo_request mode a) = ''rq''"
    by (simp_all add: demo_active_def demo_boundary_def demo_request_def policy_request_new_def)
  have "validate_active_descriptor demo_host demo_fs (Some demo_active) ''/w'' ''ws'' ''rq'' = Inr (Some demo_wt)"
    using demo_values demo_paths demo_lease_ok
    by (simp add: validate_active_descriptor_def sel path_eq_def)
  then show ?thesis
    using demo_values by (simp add: validated_active_worktree_def demo_workspace_def sel
        require_working_tree_digest_def)
qed

lemma demo_inspections:
  "is_ok (inspect_path demo_host demo_fs (target_at ''/w'' ''A'') ExpectFile)"
  "map_option ps_root (ok_of (inspect_path demo_host demo_fs (demo_target demo_wt ''A'') ExpectFile)) = Some demo_wt"
  by code_simp+

lemma demo_write_allowed:
  "is_Allow (fst (outcome_of (evaluate_action demo_host demo_fs (demo_request WorktreeEdit demo_write) ''/w''
     demo_write)))"
proof -
  obtain r where r: "inspect_path demo_host demo_fs (demo_target demo_wt ''A'') ExpectFile = Inr r" "ps_root r = demo_wt"
    using demo_inspections(2) by (auto simp: res_simps)
  have "fst (evaluate_write demo_host demo_fs (demo_request WorktreeEdit demo_write) ''/w''
      (demo_target demo_wt ''A'') ExpectFile False) = Inr out_write_worktree"
    using r demo_active_ok
    by (simp add: evaluate_write_def fst_and_then_ok opt_path_eq_def path_eq_def)
  then show ?thesis
    by (simp add: outcome_of_def)
qed

abbreviation small_read :: policy_request where
  "small_read \<equiv> plain_request (ReadFile (demo_target ''/w'' ''A''))"

lemma small_check:
  obtains pp w' where "policy_check demo_eh small_engine small_read 5 small_world = (Inr pp, w')"
    "report_allowed (pp_report pp)"
proof -
  have "case fst (policy_check demo_eh small_engine small_read 5 small_world) of
      Inr pp \<Rightarrow> report_allowed (pp_report pp) | _ \<Rightarrow> False"
    by code_simp
  then show thesis
    using that by (cases "policy_check demo_eh small_engine small_read 5 small_world") (auto split: sum.splits)
qed

lemma demo_decides:
  assumes "P (fst (outcome_of (evaluate_action demo_host demo_fs (demo_request mode a) ''/w'' a)))"
  obtains ev where "evaluate demo_host demo_fs (demo_request mode a) = Inr ev"
    "P (pr_decision (ev_report ev))"
  using demo_evaluate [of mode a] assms by metis

section \<open>Decisions\<close>

text \<open>
  C1. Authority: a check authorises an action only when a rule of the engine allows it on the
  observed file system, or when the decision asks for an approval, the request carries one, and that
  approval is consumed in this very call for the binding of the state observed in this call, before
  it expires.
\<close>

theorem check_authorises_by_rule_or_grant:
  assumes "policy_check eh engine request el w = (Inr pp, w')" "report_allowed (pp_report pp)"
  shows "\<exists>ev. evaluate (eh_host eh) (w_fs w) request = Inr ev \<and>
    (is_Allow (pr_decision (ev_report ev)) \<or>
     (is_RequireApproval (pr_decision (ev_report ev)) \<and>
      (\<exists>i b g w1. rq_approval_id request = Some i
        \<and> approval_binding_of (eh_host eh) (w_fs w) request (ev_paths ev) = Inr b
        \<and> consume_at (eh_approval eh) (pe_approvals engine) i b (w_clock w) w = (Inr g, w1)
        \<and> ag_state g = Consumed \<and> w_clock w \<le> ag_expires_unix_ms g)))"
proof -
  obtain ev report status w1 event_id where e: "evaluate (eh_host eh) (w_fs w) request = Inr ev"
      and u: "use_approval eh engine request ev w = (Inr (report, status), w1)"
      and r: "pp_report pp = report\<lparr>pr_audit_event_id := Some event_id\<rparr>"
    using policy_check_Inr [OF assms(1)] by metis
  have "report_allowed report"
    using assms(2) r by (simp add: report_allowed_def)
  then show ?thesis
    using use_approval_allow [OF u] e consume_at_Inr by fastforce
qed

theorem check_authorises_by_rule_or_grant_witness:
  "\<exists>pp w' ev. policy_check demo_eh small_engine small_read 5 small_world = (Inr pp, w')
    \<and> report_allowed (pp_report pp) \<and> evaluate demo_host (w_fs small_world) small_read = Inr ev
    \<and> \<not> is_Deny (pr_decision (ev_report ev))"
proof (rule small_check)
  fix pp w'
  assume c: "policy_check demo_eh small_engine small_read 5 small_world = (Inr pp, w')"
      "report_allowed (pp_report pp)"
  then show ?thesis
    using check_authorises_by_rule_or_grant [OF c] by (auto simp: demo_eh_def is_Deny_iff)
qed

text \<open>
  C2. Read-only mode: whatever approval the request carries, a check in \<open>read_only\<close> mode authorises
  only actions that observe.
\<close>

theorem read_only_only_observes:
  assumes "policy_check eh engine request el w = (Inr pp, w')" "report_allowed (pp_report pp)"
    and "rq_mode request = ReadOnly"
  shows "observing (rq_action request)"
proof -
  obtain ev report status w1 event_id where e: "evaluate (eh_host eh) (w_fs w) request = Inr ev"
      and u: "use_approval eh engine request ev w = (Inr (report, status), w1)"
      and r: "pp_report pp = report\<lparr>pr_audit_event_id := Some event_id\<rparr>"
    using policy_check_Inr [OF assms(1)] by metis
  then have "\<not> is_Deny (pr_decision (ev_report ev))"
    using use_approval_allow [OF u] assms(2) by (auto simp: report_allowed_def is_Deny_iff)
  then show ?thesis
    using evaluate_grants [OF e] read_only_grants [OF assms(3)] by metis
qed

theorem read_only_only_observes_witness:
  "\<exists>pp w'. policy_check demo_eh small_engine small_read 5 small_world = (Inr pp, w')
    \<and> report_allowed (pp_report pp) \<and> rq_mode small_read = ReadOnly \<and> observing (rq_action small_read)"
proof (rule small_check)
  fix pp w'
  assume c: "policy_check demo_eh small_engine small_read 5 small_world = (Inr pp, w')"
      "report_allowed (pp_report pp)"
  have m: "rq_mode small_read = ReadOnly"
    by (simp add: plain_request_def policy_request_new_def)
  show ?thesis
    using read_only_only_observes [OF c m] c m by blast
qed

text \<open>
  C3. Deny by default: unknown actions, changes of the policy, privilege elevation, generic Git
  writes, pushes, standalone network access, package installation and publishing are denied in
  every mode and on every file system.
\<close>

theorem forbidden_actions_denied:
  assumes "evaluate h f request = Inr ev" "forbidden (rq_action request)"
  shows "is_Deny (pr_decision (ev_report ev))"
proof (rule ccontr)
  assume "\<not> is_Deny (pr_decision (ev_report ev))"
  then show False
    using evaluate_grants [OF assms(1)] forbidden_deny [OF assms(2)] by metis
qed

theorem forbidden_actions_denied_witness:
  "\<exists>ev. evaluate demo_host demo_fs (demo_request ApprovedApply ModifyPolicy) = Inr ev
    \<and> forbidden ModifyPolicy \<and> is_Deny (pr_decision (ev_report ev))"
  using demo_evaluate [of ApprovedApply ModifyPolicy]
    forbidden_actions_denied [of demo_host demo_fs "demo_request ApprovedApply ModifyPolicy"]
  by (metis demo_request_sel(2) forbidden.simps(2))

section \<open>Writes, patches and processes\<close>

text \<open>
  C4. Direct writes: when the repository boundary names the main worktree, an allowed write or
  creation has a target inspected to lie below the root of the leased worktree of this request,
  and that root is not the workspace itself.
\<close>

theorem allowed_writes_stay_in_lease:
  assumes "wf_fs f" "evaluate h f request = Inr ev" "is_Allow (pr_decision (ev_report ev))"
    and "rq_action request = WriteFile t \<or> rq_action request = CreateFile t"
    and "ws_repository (rq_workspace request) = Some b" "gb_main_worktree b"
  shows "\<exists>ws active report l ns. inspect_root f (ws_root (rq_workspace request)) = Inr ws
    \<and> validated_active_worktree h f request ws = Inr (Some active) \<and> \<not> path_eq active ws
    \<and> path_eq active (ps_root report) \<and> safe_below f report l ns
    \<and> inspect_path h f t (if rq_action request = WriteFile t then ExpectFile else NewFile) = Inr report"
proof -
  have "\<not> is_Deny (pr_decision (ev_report ev))"
    using assms(3) by (simp add: is_Deny_iff)
  from evaluate_grants [OF assms(2) this] obtain ws where
      valid: "validate_request f request = Inr ()" and ws: "inspect_root f (ws_root (rq_workspace request)) = Inr ws"
      and grant: "\<And>P. grants (evaluate_action h f request ws (rq_action request)) P \<Longrightarrow> \<exists>out. P out"
    by metis
  let ?e = "if rq_action request = WriteFile t then ExpectFile else NewFile"
  have "grants (evaluate_action h f request ws (rq_action request))
      (\<lambda>out. \<exists>report active. inspect_path h f t ?e = Inr report
           \<and> validated_active_worktree h f request ws = Inr (Some active)
           \<and> path_eq active (ps_root report))"
    using assms(4) by (auto intro!: grants_mono [OF write_grants])
  then obtain report active where r: "inspect_path h f t ?e = Inr report"
      "validated_active_worktree h f request ws = Inr (Some active)" "path_eq active (ps_root report)"
    using grant by blast
  have "validate_repository_boundary f (ws_repository (rq_workspace request)) (ws_root (rq_workspace request)) = Inr ()"
    using valid by (auto simp: validate_request_def res_simps split: if_splits)
  then have "\<not> path_eq active ws"
    using active_is_not_main_worktree [OF assms(1) ws _ assms(5,6) r(2)] by simp
  moreover obtain l ns where "safe_below f report l ns"
    using inspect_path_safe [OF assms(1) r(1)] by blast
  ultimately show ?thesis
    using ws r by blast
qed

theorem allowed_writes_stay_in_lease_witness:
  "\<exists>ev ws active report l ns. evaluate demo_host demo_fs (demo_request WorktreeEdit demo_write) = Inr ev
    \<and> is_Allow (pr_decision (ev_report ev))
    \<and> validated_active_worktree demo_host demo_fs (demo_request WorktreeEdit demo_write) ws = Inr (Some active)
    \<and> \<not> path_eq active ws \<and> safe_below demo_fs report l ns"
proof (rule demo_decides [of is_Allow, OF demo_write_allowed])
  fix ev
  assume e: "evaluate demo_host demo_fs (demo_request WorktreeEdit demo_write) = Inr ev"
    and a: "is_Allow (pr_decision (ev_report ev))"
  have "rq_action (demo_request WorktreeEdit demo_write) = demo_write
      \<or> rq_action (demo_request WorktreeEdit demo_write) = CreateFile (demo_target demo_wt ''A'')"
    by simp
  moreover have "ws_repository (rq_workspace (demo_request WorktreeEdit demo_write)) = Some demo_boundary"
      "gb_main_worktree demo_boundary"
    by (simp_all add: demo_workspace_def demo_boundary_def)
  ultimately show ?thesis
    using allowed_writes_stay_in_lease [OF demo_wf e a] e a by blast
qed

text \<open>
  C5. Patches: a patch whose root is the workspace is never allowed outright, and asks for an
  approval only in \<open>approved_apply\<close> mode with the observed HEAD equal to the base of the patch, an
  explicit clean observation and a well-formed working-tree digest; a patch that is allowed targets
  the leased worktree in \<open>worktree_edit\<close> mode.
\<close>

theorem patches_of_the_original_need_approval:
  assumes "evaluate h f request = Inr ev" "rq_action request = ApplyPatch a"
    and "\<not> is_Deny (pr_decision (ev_report ev))"
  shows "\<exists>ws root active. inspect_root f (ws_root (rq_workspace request)) = Inr ws
    \<and> inspect_root f (ap_root a) = Inr root \<and> validated_active_worktree h f request ws = Inr active
    \<and> (if path_eq root ws
       then is_RequireApproval (pr_decision (ev_report ev)) \<and> apply_ready request a
       else is_Allow (pr_decision (ev_report ev)) \<and> rq_mode request = WorktreeEdit
         \<and> opt_path_eq active (Some root))"
proof -
  from evaluate_grants [OF assms(1,3)] obtain ws out where
      ws: "inspect_root f (ws_root (rq_workspace request)) = Inr ws" and d: "pr_decision (ev_report ev) = fst out"
      and grant: "\<And>P. grants (evaluate_action h f request ws (rq_action request)) P \<Longrightarrow> P out"
    by metis
  obtain root active where r: "inspect_root f (ap_root a) = Inr root"
      "validated_active_worktree h f request ws = Inr active"
      "if path_eq root ws then out = out_apply_original \<and> apply_ready request a
         else out = out_apply_worktree \<and> rq_mode request = WorktreeEdit \<and> opt_path_eq active (Some root)"
    using grant [of "\<lambda>out. \<exists>root active. inspect_root f (ap_root a) = Inr root
        \<and> validated_active_worktree h f request ws = Inr active
        \<and> (if path_eq root ws then out = out_apply_original \<and> apply_ready request a
           else out = out_apply_worktree \<and> rq_mode request = WorktreeEdit \<and> opt_path_eq active (Some root))"]
      apply_grants [of h f request ws a] assms(2) by auto
  then show ?thesis
    using ws d by (intro exI conjI) (auto split: if_splits)
qed

abbreviation demo_patch :: policy_action where
  "demo_patch \<equiv> ApplyPatch \<lparr>ap_root = ''/w'', ap_paths = [''A''], ap_created_paths = [], ap_diff_hash = demo_digest,
     ap_files_hash = demo_digest, ap_transaction_id = ''tx'', ap_base_head = demo_head\<rparr>"

lemma demo_patch_grants:
  "is_RequireApproval (fst (outcome_of (evaluate_action demo_host demo_fs
      (demo_request ApprovedApply demo_patch) ''/w'' demo_patch)))"
proof -
  obtain r where r: "inspect_path demo_host demo_fs (target_at ''/w'' ''A'') ExpectFile = Inr r"
    using demo_inspections(1) by (auto simp: res_simps)
  have list: "fst (each_path (\<lambda>p. inspect_and_push demo_host demo_fs (target_at ''/w'' p) ExpectFile) [''A'']) = Inr ()"
    using r by (simp add: fst_and_then_ok inspect_and_push_def)
  have sorted: "validate_sorted_paths [''A''] = Inr ()" "validate_sorted_paths [] = Inr ()"
    by (rule is_ok_unit, code_simp)+
  have repo: "ws_repository demo_workspace = Some demo_boundary" "gb_head demo_boundary = demo_head"
      "ws_repository_clean demo_workspace = Some True" "ws_working_tree_digest demo_workspace = Some demo_digest"
    by (simp_all add: demo_workspace_def demo_boundary_def)
  have "fst (evaluate_action demo_host demo_fs (demo_request ApprovedApply demo_patch) ''/w'' demo_patch)
      = Inr out_apply_original"
    using list sorted demo_values demo_paths demo_active_ok
    by (simp add: evaluate_apply_patch_def fst_and_then_ok MAX_POLICY_PATHS_def path_eq_def repo
        require_working_tree_digest_def del: each_path.simps(2))
  then show ?thesis
    by (simp add: outcome_of_def)
qed

theorem patches_of_the_original_need_approval_witness:
  "\<exists>ev ws root. evaluate demo_host demo_fs (demo_request ApprovedApply demo_patch) = Inr ev
    \<and> is_RequireApproval (pr_decision (ev_report ev))
    \<and> inspect_root demo_fs ''/w'' = Inr ws \<and> inspect_root demo_fs ''/w'' = Inr root \<and> path_eq root ws"
proof (rule demo_decides [where P = is_RequireApproval and mode = ApprovedApply and a = demo_patch])
  show "is_RequireApproval (fst (outcome_of (evaluate_action demo_host demo_fs
      (demo_request ApprovedApply demo_patch) ''/w'' demo_patch)))"
    by (rule demo_patch_grants)
next
  fix ev
  assume e: "evaluate demo_host demo_fs (demo_request ApprovedApply demo_patch) = Inr ev"
    and a: "is_RequireApproval (pr_decision (ev_report ev))"
  have "\<not> is_Deny (pr_decision (ev_report ev))"
    using a by (simp add: is_Deny_iff)
  then show ?thesis
    using patches_of_the_original_need_approval [OF e demo_request_sel(2)] e a demo_root
    by (auto simp: demo_workspace_def path_eq_def split: if_splits)
qed

text \<open>
  C6. Processes: a process is granted only in \<open>worktree_edit\<close> mode, in a directory below the leased
  worktree, with bounded time, output and arguments, only allow-listed environment names, no unsafe
  argument and no shell, for Maven or Gradle with allow-listed goals; it is allowed without an
  approval only when it is network-denied and carries an offline flag.
\<close>

theorem processes_are_bounded_builds:
  assumes "evaluate h f request = Inr ev" "rq_action request = RunProcess a"
    and "\<not> is_Deny (pr_decision (ev_report ev))"
  shows "rq_mode request = WorktreeEdit \<and> process_bounded a
    \<and> (\<exists>ws active cwd tool wrapper. inspect_root f (ws_root (rq_workspace request)) = Inr ws
       \<and> validated_active_worktree h f request ws = Inr (Some active)
       \<and> inspect_root f (rp_cwd a) = Inr cwd \<and> path_starts_with cwd active
       \<and> classify_executable (executable_name (rp_executable a)) = Tool tool wrapper
       \<and> \<not> package_install_goal tool (rp_arguments a) \<and> \<not> dangerous_build_option tool (rp_arguments a)
       \<and> allowed_build_goals tool (rp_arguments a)
       \<and> (is_Allow (pr_decision (ev_report ev)) \<longrightarrow> rp_network a = NetDenied
            \<and> (''-o'' \<in> set (rp_arguments a) \<or> ''--offline'' \<in> set (rp_arguments a))))"
proof -
  from evaluate_grants [OF assms(1,3)] obtain ws out where
      ws: "inspect_root f (ws_root (rq_workspace request)) = Inr ws" and d: "pr_decision (ev_report ev) = fst out"
      and grant: "\<And>P. grants (evaluate_action h f request ws (rq_action request)) P \<Longrightarrow> P out"
    by metis
  have "rq_mode request = WorktreeEdit \<and> process_bounded a
      \<and> (\<exists>active cwd tool wrapper. validated_active_worktree h f request ws = Inr (Some active)
           \<and> inspect_root f (rp_cwd a) = Inr cwd \<and> path_starts_with cwd active
           \<and> classify_executable (executable_name (rp_executable a)) = Tool tool wrapper
           \<and> build_ok a tool out)"
    by (rule grant) (simp only: assms(2) evaluate_action.simps process_grants)
  then show ?thesis
    using ws d by (auto simp: build_ok_def split: if_splits)
qed

abbreviation demo_run :: run_process_action where
  "demo_run \<equiv> \<lparr>rp_executable = ''mvnw'', rp_arguments = [''test'', ''-o''], rp_cwd = demo_wt,
     rp_timeout_ms = 1000, rp_output_limit_bytes = 1000, rp_network = NetDenied, rp_launch = Direct,
     rp_environment_allowlist = [''CI'']\<rparr>"

lemma demo_run_grants:
  "is_Allow (fst (outcome_of (evaluate_action demo_host demo_fs
      (demo_request WorktreeEdit (RunProcess demo_run)) ''/w'' (RunProcess demo_run))))"
proof -
  have pure: "process_refusal demo_run = None" "path_starts_with demo_wt demo_wt"
    "classify_executable (executable_name ''mvnw'') = Tool Maven True"
    by code_simp+
  have wrapper: "fst (evaluate_wrapper demo_host demo_fs ''/w'' demo_wt demo_wt demo_run) = Inr None"
    by code_simp
  have goals: "is_Allow (fst (evaluate_build_arguments demo_run Maven))"
    by code_simp
  have "fst (evaluate_action demo_host demo_fs (demo_request WorktreeEdit (RunProcess demo_run)) ''/w''
      (RunProcess demo_run)) = Inr (evaluate_build_arguments demo_run Maven)"
    using pure wrapper demo_active_ok demo_paths(2)
    by (simp add: evaluate_process_def fst_and_then_ok push_cwd_def path_eq_def evaluate_executable_def)
  then show ?thesis
    using goals by (simp add: outcome_of_def)
qed

theorem processes_are_bounded_builds_witness:
  "\<exists>ev. evaluate demo_host demo_fs (demo_request WorktreeEdit (RunProcess demo_run)) = Inr ev
    \<and> is_Allow (pr_decision (ev_report ev)) \<and> process_bounded demo_run"
proof (rule demo_decides [where P = is_Allow and mode = WorktreeEdit and a = "RunProcess demo_run"])
  show "is_Allow (fst (outcome_of (evaluate_action demo_host demo_fs
      (demo_request WorktreeEdit (RunProcess demo_run)) ''/w'' (RunProcess demo_run))))"
    by (rule demo_run_grants)
next
  fix ev
  assume e: "evaluate demo_host demo_fs (demo_request WorktreeEdit (RunProcess demo_run)) = Inr ev"
    and a: "is_Allow (pr_decision (ev_report ev))"
  have "\<not> is_Deny (pr_decision (ev_report ev))"
    using a by (simp add: is_Deny_iff)
  then show ?thesis
    using processes_are_bounded_builds [OF e demo_request_sel(2)] e a by blast
qed

section \<open>Paths\<close>

text \<open>
  C7. Confinement: every path report of an evaluation, whatever the decision, names a place below a
  real directory reached over real directories only: no link, no parent component, no sensitive
  name and no nested repository on the way, and an existing target resolves to exactly that place.
\<close>

theorem evaluated_paths_are_confined:
  assumes "wf_fs f" "evaluate h f request = Inr ev" "r \<in> set (ev_paths ev)"
  shows "\<exists>l ns. safe_below f r l ns"
proof -
  obtain ws where "ev_paths ev = snd (evaluate_action h f request ws (rq_action request))"
    using evaluate_Inr [OF assms(2)] by blast
  then obtain t e where "inspect_path h f t e = Inr r"
    using from_inspection_action assms(3) by (fastforce simp: from_inspection_def)
  then show ?thesis
    using inspect_path_safe [OF assms(1)] by metis
qed

lemma demo_patch_paths:
  "snd (evaluate_action demo_host demo_fs (demo_request ApprovedApply demo_patch) ''/w'' demo_patch) \<noteq> []"
proof -
  obtain r where r: "inspect_path demo_host demo_fs (target_at ''/w'' ''A'') ExpectFile = Inr r"
    using demo_inspections(1) by (auto simp: res_simps)
  have list: "snd (each_path (\<lambda>p. inspect_and_push demo_host demo_fs (target_at ''/w'' p) ExpectFile) [''A'']) \<noteq> []"
    using r by (simp add: snd_and_then inspect_and_push_def)
  have sorted: "validate_sorted_paths [''A''] = Inr ()" "validate_sorted_paths [] = Inr ()"
    by (rule is_ok_unit, code_simp)+
  show ?thesis
    using list sorted demo_values demo_paths demo_active_ok
    by (simp add: evaluate_apply_patch_def snd_and_then MAX_POLICY_PATHS_def del: each_path.simps(2))
qed

theorem evaluated_paths_are_confined_witness:
  "\<exists>ev r l ns. evaluate demo_host demo_fs (demo_request ApprovedApply demo_patch) = Inr ev
    \<and> r \<in> set (ev_paths ev) \<and> safe_below demo_fs r l ns"
proof (rule demo_evaluate [of ApprovedApply demo_patch])
  fix ev
  assume e: "evaluate demo_host demo_fs (demo_request ApprovedApply demo_patch) = Inr ev"
      "ev_paths ev = snd (evaluate_action demo_host demo_fs (demo_request ApprovedApply demo_patch) ''/w'' demo_patch)"
  then have "ev_paths ev \<noteq> []"
    using demo_patch_paths by (simp only: not_False_eq_True)
  then obtain r where "r \<in> set (ev_paths ev)"
    using last_in_set by blast
  then show ?thesis
    using evaluated_paths_are_confined [OF demo_wf e(1)] e(1) by blast
qed

text \<open>
  C8. Revalidation: when a report of a regular file of at most 16 MiB is revalidated on a later file
  system and compares equal, the file found there has the contents that were inspected, provided the
  digest does not collide on the two contents.
\<close>

theorem revalidation_detects_changed_contents:
  assumes "wf_fs f" "inspect_path h f t e = Inr r" "safe_below f r l ns"
    and "fs_nodes f (l @ ns) = Some (FileNode m c)" "ps_exists r" "length c \<le> MAX_POLICY_HASH_FILE_BYTES"
    and "wf_fs f'" "revalidate_path h f' r = Inr r'" "report_eq r r'"
    and "\<forall>c'. h_blake3 h c' = h_blake3 h c \<longrightarrow> c' = c"
  shows "\<exists>m'. fs_nodes f' (l @ ns) = Some (FileNode m' c)"
proof -
  have hash: "pf_content_hash (ps_fingerprint r) = Some (h_blake3 h c)"
    by (rule inspect_path_content [OF assms(1-6)])
  obtain l' ns' where s: "safe_below f' r' l' ns'"
    "fingerprint h f' (if ps_exists r' then fs_nodes f' (l' @ ns') else None) (ps_target r')
       (Some (h_blake3 h c)) = Inr (ps_fingerprint r')"
    using inspect_path_safe [OF assms(7) assms(8) [unfolded revalidate_path_def]] hash
    by (metis path_target.select_convs(4))
  have ex: "ps_exists r'" "path_eq (ps_target r) (ps_target r')" "ps_fingerprint r' = ps_fingerprint r"
    using assms(5,9) by (auto simp: report_eq_def)
  have valid: "\<forall>n \<in> set (l @ ns). valid_name n" "\<forall>n \<in> set (l' @ ns'). valid_name n" "l' @ ns' \<noteq> []"
    "ps_target r = abs_path (l @ ns)" "ps_target r' = abs_path (l' @ ns')"
    "\<exists>n. fs_nodes f' (l' @ ns') = Some n \<and> \<not> is_link_node n"
    using assms(3,5) s(1) ex(1) by (auto simp: safe_below_def)
  then have same: "l' @ ns' = l @ ns"
    using ex(2) path_eq_abs_path [OF valid(1,2)] by simp
  obtain n where n: "fs_nodes f' (l' @ ns') = Some n" "\<not> is_link_node n"
    using valid(6) by blast
  note fp = s(2) [unfolded n(1) if_P [OF ex(1)]]
  have "pf_content_hash (ps_fingerprint r') \<noteq> None"
    using hash ex(3) by simp
  then obtain bytes where b: "fs_read f' (ps_target r') = Inr bytes" "h_blake3 h bytes = h_blake3 h c"
    using fingerprint_Inr(2) [OF fp] hash ex(3)
    by (cases "fs_read f' (ps_target r')") (auto split: if_splits)
  then show ?thesis
    using fs_read_spelled [OF assms(7) _ valid(3,2) n, of bytes] valid(5) assms(10) n same by auto
qed

lemma demo_report:
  obtains r where "inspect_path demo_host demo_fs (target_at ''/w'' ''A'') ExpectFile = Inr r"
    "safe_below demo_fs r [''w''] [''A'']" "ps_exists r" "revalidate_path demo_host demo_fs r = Inr r"
proof -
  obtain r where r: "inspect_path demo_host demo_fs (target_at ''/w'' ''A'') ExpectFile = Inr r"
    using demo_inspections(1) by (auto simp: res_simps)
  have all: "case inspect_path demo_host demo_fs (target_at ''/w'' ''A'') ExpectFile of
      Inr r \<Rightarrow> ps_root r = ''/w'' \<and> ps_exists r \<and> ps_target r = ''/w/A'' \<and> ps_relative_path r = ''A''
        \<and> revalidate_path demo_host demo_fs r = Inr r | Inl _ \<Rightarrow> False"
    by code_simp
  then have f: "ps_root r = ''/w''" "ps_exists r" "ps_target r = ''/w/A''"
      "revalidate_path demo_host demo_fs r = Inr r"
    using r by simp_all
  obtain l ns where s: "safe_below demo_fs r l ns"
    using inspect_path_safe [OF demo_wf r] by blast
  then have "\<forall>n \<in> set (l @ ns). valid_name n" "abs_path l = ''/w''" "abs_path (l @ ns) = ''/w/A''"
    using f by (auto simp: safe_below_def)
  moreover have "\<forall>n \<in> set [''w'', ''A'']. valid_name n" "abs_path [''w''] = ''/w''"
      "abs_path [''w'', ''A''] = ''/w/A''"
    by (simp_all add: valid_name_def junk_def sep_def abs_path_def)
  ultimately have "l = [''w'']" "l @ ns = [''w'', ''A'']"
    using abs_path_inj [of l "[''w'']"] abs_path_inj [of "l @ ns" "[''w'', ''A'']"] by auto
  then show thesis
    using that [OF r _ f(2,4)] s by simp
qed

theorem revalidation_detects_changed_contents_witness:
  "\<exists>r m. inspect_path demo_host demo_fs (target_at ''/w'' ''A'') ExpectFile = Inr r
    \<and> revalidate_path demo_host demo_fs r = Inr r
    \<and> fs_nodes demo_fs [''w'', ''A''] = Some (FileNode m ''class'')"
proof (rule demo_report)
  fix r
  assume r: "inspect_path demo_host demo_fs (target_at ''/w'' ''A'') ExpectFile = Inr r"
    "safe_below demo_fs r [''w''] [''A'']" "ps_exists r" "revalidate_path demo_host demo_fs r = Inr r"
  have node: "fs_nodes demo_fs ([''w''] @ [''A'']) = Some (FileNode plain_meta ''class'')"
    by code_simp
  have len: "length ''class'' \<le> MAX_POLICY_HASH_FILE_BYTES"
    by (simp add: MAX_POLICY_HASH_FILE_BYTES_def)
  have eq: "report_eq r r"
    by (simp add: report_eq_def path_eq_def)
  have inj: "\<forall>c'. h_blake3 demo_host c' = h_blake3 demo_host ''class'' \<longrightarrow> c' = ''class''"
    by (simp add: demo_host_def)
  show ?thesis
    using revalidation_detects_changed_contents [OF demo_wf r(1,2) node r(3) len demo_wf r(4) eq inj] r by auto
qed

section \<open>Approvals\<close>

text \<open>
  C9. One shot under concurrency: however many processes try to consume one approval, each with its
  own observed binding and clock, interleaved call by call and with an environment that may do
  anything to the disk but break the two directories or remove the claim, at most one of them is
  granted it.
\<close>

theorem approval_granted_at_most_once:
  assumes "interleave (\<lambda>k. consume_step c st i (observed k) (now k) (m k))
      (honest (store_ready st i) (claim_taken st i)) (\<lambda>_. CheckSpent) f0 ps f"
    and "store_ready st i f0"
    and "ps k = Finished (Inr g)" "ps l = Finished (Inr g')"
  shows "k = l"
  by (rule claim.at_most_one [OF assms(1,2)]) (simp_all add: assms(3,4))

text \<open>The store of the demonstration with one issued approval.\<close>

definition approval_fs :: fs where
  "approval_fs = demo_fs\<lparr>fs_tree := [demo_dir [], demo_dir [''a''], demo_dir [''u''],
     demo_file [''a'', ''id.json''] ''record'']\<rparr>"

definition approval_st :: approval_store where
  "approval_st = \<lparr>st_active_dir = ''/a'', st_used_dir = ''/u''\<rparr>"

lemma approval_ready: "store_ready approval_st ''id'' approval_fs"
proof -
  have "wf_fs approval_fs"
    by (rule wf_fs_by_entries) (code_simp+)
  moreover have "is_dir_at approval_fs [''a'']" "is_dir_at approval_fs [''u'']" "valid_name ''a''" "valid_name ''u''"
    by code_simp+
  then have "open_dir approval_fs [''a'']" "open_dir approval_fs [''u'']"
    by (simp_all add: open_dir_def) (simp_all add: approval_fs_def demo_fs_def)
  moreover have "is_ok (validate_storage_id ''id'')" "approval_st = \<lparr>st_active_dir = abs_path [''a''], st_used_dir = abs_path [''u'']\<rparr>"
    by code_simp+
  ultimately show ?thesis
    unfolding store_ready_def by blast
qed

definition approval_run :: "consumer \<times> fs" where
  "approval_run = consume_run demo_approval_codec approval_st ''id'' demo_binding 1000 plain_meta approval_fs"

lemma approval_run_granted: "\<exists>g. fst approval_run = Finished (Inr g)"
proof -
  have "case fst approval_run of Finished (Inr g) \<Rightarrow> True | _ \<Rightarrow> False"
    by code_simp
  then show ?thesis
    by (auto split: consumer.splits sum.splits)
qed

theorem approval_granted_at_most_once_witness:
  "\<exists>ps f g. interleave (\<lambda>k. consume_step demo_approval_codec approval_st ''id'' demo_binding 1000 plain_meta)
      (honest (store_ready approval_st ''id'') (claim_taken approval_st ''id'')) (\<lambda>_. CheckSpent) approval_fs ps f
    \<and> ps 3 = Finished (Inr g) \<and> (\<forall>l g'. ps l = Finished (Inr g') \<longrightarrow> (3 :: nat) = l)"
proof -
  let ?ps = "(\<lambda>_ :: nat. CheckSpent)(3 := fst approval_run)"
  have run: "interleave (\<lambda>k. consume_step demo_approval_codec approval_st ''id'' demo_binding 1000 plain_meta)
      (honest (store_ready approval_st ''id'') (claim_taken approval_st ''id'')) (\<lambda>_. CheckSpent) approval_fs
      ?ps (snd approval_run)"
    using interleave_alone [of "\<lambda>k. consume_step demo_approval_codec approval_st ''id'' demo_binding 1000 plain_meta"
        "honest (store_ready approval_st ''id'') (claim_taken approval_st ''id'')" "\<lambda>_. CheckSpent" approval_fs 3 6]
    by (simp add: approval_run_def consume_run_def)
  obtain g where g: "fst approval_run = Finished (Inr g)"
    using approval_run_granted by blast
  then have three: "?ps 3 = Finished (Inr g)"
    by simp
  have once: "3 = l" if l: "?ps l = Finished (Inr g')" for l g'
    by (rule approval_granted_at_most_once [where observed = "\<lambda>_. demo_binding" and now = "\<lambda>_. 1000"
        and m = "\<lambda>_. plain_meta", OF run approval_ready three l])
  show ?thesis
    by (intro exI [of _ ?ps] exI [of _ "snd approval_run"] exI [of _ g] conjI allI impI run three once)
qed

text \<open>
  C10. What a grant certifies: judging a stored record succeeds exactly when the observed binding is
  valid, every field of the stored binding equals the observed one, the stored hash is the hash of
  that binding, the record is well formed, and the clock has not passed its expiry.
\<close>

theorem grant_iff_binding_matches:
  "(\<exists>g. judge_record c i observed now rcd = Inr g) \<longleftrightarrow>
    normalized observed = Inr observed \<and> rc_binding rcd = observed
    \<and> hash_binding c observed = Inr (rc_binding_hash rcd)
    \<and> rc_schema_version rcd = APPROVAL_SCHEMA_VERSION \<and> rc_issued_unix_ms rcd \<le> rc_expires_unix_ms rcd
    \<and> length (rc_confirmation_hash rcd) = 64 \<and> now \<le> rc_expires_unix_ms rcd"
  (is "?lhs \<longleftrightarrow> ?rhs")
proof
  assume ?lhs
  then obtain g where g: "judge_record c i observed now rcd = Inr g"
    by blast
  then obtain b where "normalized observed = Inr b"
    by (auto simp: judge_record_def res_simps)
  then show ?rhs
    using g judge_record_Inr [OF g] normalized_Inr by (auto simp: judge_record_def res_simps split: if_splits)
next
  assume ?rhs
  moreover from this have "compare_binding (rc_binding rcd) observed = Inr ()"
    by (simp add: compare_binding_iff)
  ultimately show ?lhs
    by (auto simp: judge_record_def)
qed

text \<open>
  C11. A spent approval stays spent: after a successful consumption, no later call to consume it
  succeeds, whatever binding it observes and whatever its clock, as long as the claim file is there.
\<close>

theorem spent_approval_stays_spent:
  assumes "store_ready st i (w_fs w)" "consume_at c st i b now w = (Inr g, w')"
  shows "store_ready st i (w_fs w') \<and> claim_taken st i (w_fs w')
    \<and> (\<forall>w2 c' b' now'. store_ready st i (w_fs w2) \<longrightarrow> claim_taken st i (w_fs w2) \<longrightarrow>
         \<not> is_ok (fst (consume_at c' st i b' now' w2)))"
proof -
  have granted: "\<exists>f'. consume_run c st i b now (w_meta w) (w_fs w) = (Finished (Inr g), f') \<and> w_fs w' = f'"
    if "consume_at c st i b now w = (Inr g, w')" for c b now w g w'
    using that by (auto simp: consume_at_def split: sum.splits prod.splits consumer.splits)
  have "\<not> is_ok (fst (consume_at c' st i b' now' w2))"
    if w2: "store_ready st i (w_fs w2)" "claim_taken st i (w_fs w2)" for w2 c' b' now'
  proof
    assume "is_ok (fst (consume_at c' st i b' now' w2))"
    then obtain g2 w3 where "consume_at c' st i b' now' w2 = (Inr g2, w3)"
      by (cases "consume_at c' st i b' now' w2") (auto simp: res_simps)
    then show False
      using granted consume_run_spends(3) [OF w2(1)] w2(2) by blast
  qed
  then show ?thesis
    using granted [OF assms(2)] consume_run_spends [OF assms(1)] by blast
qed

theorem spent_approval_stays_spent_witness:
  "\<exists>g w'. consume_at demo_approval_codec approval_st ''id'' demo_binding 1000 (demo_world\<lparr>w_fs := approval_fs\<rparr>) = (Inr g, w')
    \<and> \<not> is_ok (fst (consume_at demo_approval_codec approval_st ''id'' demo_binding 1001 w'))"
proof -
  have id: "validate_storage_id ''id'' = Inr ()"
    by code_simp
  obtain g f' where "consume_run demo_approval_codec approval_st ''id'' demo_binding 1000 plain_meta approval_fs
      = (Finished (Inr g), f')"
    using approval_run_granted by (metis approval_run_def prod.collapse)
  then have c: "consume_at demo_approval_codec approval_st ''id'' demo_binding 1000 (demo_world\<lparr>w_fs := approval_fs\<rparr>)
      = (Inr g, demo_world\<lparr>w_fs := f'\<rparr>)"
    using id by (simp add: consume_at_def demo_world_def)
  have "store_ready approval_st ''id'' (w_fs (demo_world\<lparr>w_fs := approval_fs\<rparr>))"
    using approval_ready by simp
  then show ?thesis
    using spent_approval_stays_spent [OF _ c] c by blast
qed

section \<open>Audit\<close>





section \<open>Further properties of decisions\<close>

text \<open>
  C13. Explaining and checking agree: for a request without an approval, the decision, the rule, the
  paths and the context of a check are those of an explanation on the same file system.
\<close>

theorem explain_predicts_check:
  assumes "policy_check eh engine request el w = (Inr pp, w')" "rq_approval_id request = None"
  shows "\<exists>pp0. explain (eh_host eh) engine (w_fs w) request = Inr pp0
    \<and> pr_decision (pp_report pp0) = pr_decision (pp_report pp) \<and> pp_paths pp0 = pp_paths pp
    \<and> pp_base_rule_id pp0 = pp_base_rule_id pp \<and> pp_security_context_hash pp0 = pp_security_context_hash pp"
proof -
  obtain ev report status w1 event_id where
      o: "ensure_state_outside_workspace engine (w_fs w) request = Inr ()"
      and e: "evaluate (eh_host eh) (w_fs w) request = Inr ev"
      and u: "use_approval eh engine request ev w = (Inr (report, status), w1)"
      and r: "pp_report pp = report\<lparr>pr_audit_event_id := Some event_id\<rparr>" "pp_paths pp = ev_paths ev"
        "pp_base_rule_id pp = rule_id (pr_decision (ev_report ev))"
        "security_context_hash (eh_host eh) request = Inr (pp_security_context_hash pp)"
    using policy_check_Inr [OF assms(1)] by metis
  have "report = ev_report ev"
    using u assms(2) by (auto simp: use_approval_def Let_def split: if_splits)
  then show ?thesis
    using o e r by (auto simp: explain_def preflight_of_def)
qed

theorem explain_predicts_check_witness:
  "\<exists>pp w' pp0. policy_check demo_eh small_engine small_read 5 small_world = (Inr pp, w')
    \<and> explain demo_host small_engine (w_fs small_world) small_read = Inr pp0
    \<and> pr_decision (pp_report pp0) = pr_decision (pp_report pp)"
proof (rule small_check)
  fix pp w'
  assume c: "policy_check demo_eh small_engine small_read 5 small_world = (Inr pp, w')"
  have n: "rq_approval_id small_read = None"
    by (simp add: plain_request_def policy_request_new_def)
  show ?thesis
    using explain_predicts_check [OF c n] c by (auto simp: demo_eh_def)
qed


end
