(* ===== verification/ToolsError.thy ===== *)
theory ToolsError
  imports Actions
begin

text \<open>
  Errors of the tools crate. An \<open>anyhow\<close> error is a chain: context messages over a root cause, which is
  a plain message, an input/output error, or the typed error of a transaction.  \<open>display_text\<close> is the
  plain format, \<open>alternate_text\<close> the format with the whole chain.
\<close>

datatype apply_error_kind = Precondition | Collision | InvalidTransaction | IoKind

datatype tool_error =
    Message string
  | IoCause io_error
  | Typed apply_error_kind string
  | Context string tool_error

fun display_text :: "tool_error \<Rightarrow> string" where
  "display_text (Message m) = m"
| "display_text (IoCause e) = io_text e"
| "display_text (Typed k m) = m"
| "display_text (Context c e) = c"

fun alternate_text :: "tool_error \<Rightarrow> string" where
  "alternate_text (Context c e) = c @ '': '' @ alternate_text e"
| "alternate_text e = display_text e"

text \<open>\<open>downcast_ref\<close> looks through the context messages.\<close>

fun apply_transaction_error_kind :: "tool_error \<Rightarrow> apply_error_kind option" where
  "apply_transaction_error_kind (Typed k m) = Some k"
| "apply_transaction_error_kind (Context c e) = apply_transaction_error_kind e"
| "apply_transaction_error_kind _ = None"

definition io_context :: "string \<Rightarrow> (io_error, 'a) res \<Rightarrow> (tool_error, 'a) res" where
  "io_context c = map_err (\<lambda>e. Context c (IoCause e))"

fun join_text :: "string \<Rightarrow> string list \<Rightarrow> string" where
  "join_text d [] = []"
| "join_text d [w] = w"
| "join_text d (w # v # ws) = w @ d @ join_text d (v # ws)"

end
