(* ===== verification/GitState.thy ===== *)
theory GitState
  imports ToolsError "HOL-Library.Option_ord"
begin

text \<open>
  Git worktree snapshots and their comparison (\<open>opticcode-tools/src/git_state.rs\<close>). The \<open>git\<close> executable is
  a parameter: what it answers to a command line in a directory of a file system. The parser of its
  output, the fingerprints, the attribution of changes to a build and the strict policy are the code's.
\<close>

record cmd_output =
  co_success :: bool
  co_stdout :: string
  co_stderr :: string

record git_host =
  gh_git :: "fs \<Rightarrow> path \<Rightarrow> string list \<Rightarrow> (io_error, cmd_output) res"
  gh_blake3 :: "string \<Rightarrow> string"

datatype git_change_kind = GitModified | GitAdded | GitDeleted | GitRenamed | GitCopied | GitUntracked
  | GitTypeChanged | GitUnmerged | GitIgnored | GitUnknown

datatype git_change_origin = PreExisting | BuildGenerated | TrackedChanged | UntrackedGenerated | UnknownOrigin

datatype git_guard_status = Captured | Unavailable

record git_change =
  gc_index_status :: char
  gc_worktree_status :: char
  gc_kind :: git_change_kind
  gc_path :: string
  gc_original_path :: "string option"
  gc_content_fingerprint :: "string option"

record git_metrics =
  gm_duration_us :: nat
  gm_status_entries :: nat
  gm_fingerprinted_files :: nat
  gm_fingerprinted_bytes :: nat

record git_snapshot =
  gs_schema_version :: nat
  gs_root :: path
  gs_changes :: "git_change list"
  gs_metrics :: git_metrics

record classified_change =
  cc_change :: git_change
  cc_before :: "git_change option"
  cc_origin :: git_change_origin
  cc_existed_before :: bool
  cc_changed_during_build :: bool
  cc_tracked_was_clean_before :: bool

record diff_counts =
  dc_before :: nat
  dc_after :: nat
  dc_pre_existing :: nat
  dc_build_generated :: nat
  dc_tracked_changed :: nat
  dc_untracked_generated :: nat
  dc_unknown :: nat
  dc_changed_during_build :: nat
  dc_resolved_pre_existing :: nat
  dc_strict_candidates :: nat

record git_diff =
  gd_changes_after :: "classified_change list"
  gd_resolved_pre_existing :: "git_change list"
  gd_counts :: diff_counts

record strict_policy =
  sp_enabled :: bool
  sp_passed :: bool
  sp_reasons :: "string list"

record build_git_report =
  br_schema_version :: nat
  br_status :: git_guard_status
  br_message :: "string option"
  br_before :: "git_snapshot option"
  br_after :: "git_snapshot option"
  br_diff :: "git_diff option"
  br_strict_policy :: strict_policy

section \<open>Names\<close>

fun git_kind_str :: "git_change_kind \<Rightarrow> string" where
  "git_kind_str GitModified = ''modified''"
| "git_kind_str GitAdded = ''added''"
| "git_kind_str GitDeleted = ''deleted''"
| "git_kind_str GitRenamed = ''renamed''"
| "git_kind_str GitCopied = ''copied''"
| "git_kind_str GitUntracked = ''untracked''"
| "git_kind_str GitTypeChanged = ''type_changed''"
| "git_kind_str GitUnmerged = ''unmerged''"
| "git_kind_str GitIgnored = ''ignored''"
| "git_kind_str GitUnknown = ''unknown''"

fun git_origin_str :: "git_change_origin \<Rightarrow> string" where
  "git_origin_str PreExisting = ''pre_existing''"
| "git_origin_str BuildGenerated = ''build_generated''"
| "git_origin_str TrackedChanged = ''tracked_changed''"
| "git_origin_str UntrackedGenerated = ''untracked_generated''"
| "git_origin_str UnknownOrigin = ''unknown''"

definition is_tracked :: "git_change \<Rightarrow> bool" where
  "is_tracked c = (gc_kind c \<noteq> GitUntracked \<and> gc_kind c \<noteq> GitIgnored)"

definition display_path :: "git_change \<Rightarrow> string" where
  "display_path c = (case gc_original_path c of
      None \<Rightarrow> gc_path c
    | Some original \<Rightarrow> original @ '' -> '' @ gc_path c)"

section \<open>Parsing the status output\<close>

definition nul :: char where "nul = CHR 0x00"

text \<open>
  The cursor into the input is the rest of the input; a field ends before the next NUL byte, which
  is consumed.
\<close>

definition read_nul_field :: "string \<Rightarrow> string \<Rightarrow> (tool_error, string \<times> string) res" where
  "read_nul_field input label = (case split_once nul input of
      None \<Rightarrow> Inl (Message (''truncated porcelain v1 output: missing NUL after '' @ label))
    | Some (field, rest) \<Rightarrow> Inr (field, rest))"

definition decode_path :: "string \<Rightarrow> string \<Rightarrow> (tool_error, string) res" where
  "decode_path bytes label =
    (if bytes = [] then Inl (Message (''invalid porcelain v1 output: empty '' @ label))
     else if utf8_valid bytes then Inr bytes
     else Inl (Context (label @ '' is not valid UTF-8'') (Message ''invalid utf-8 sequence'')))"

definition is_unmerged :: "char \<Rightarrow> char \<Rightarrow> bool" where
  "is_unmerged index worktree =
    ((index, worktree) \<in> set [(CHR ''D'', CHR ''D''), (CHR ''A'', CHR ''U''), (CHR ''U'', CHR ''D''), (CHR ''U'', CHR ''A''),
       (CHR ''D'', CHR ''U''), (CHR ''A'', CHR ''A''), (CHR ''U'', CHR ''U'')])"

definition classify_kind :: "char \<Rightarrow> char \<Rightarrow> git_change_kind" where
  "classify_kind index worktree =
    (let pair = [index, worktree] in
     if pair = ''??'' then GitUntracked
     else if pair = ''!!'' then GitIgnored
     else if is_unmerged index worktree then GitUnmerged
     else if CHR ''R'' \<in> set pair then GitRenamed
     else if CHR ''C'' \<in> set pair then GitCopied
     else if CHR ''D'' \<in> set pair then GitDeleted
     else if CHR ''A'' \<in> set pair then GitAdded
     else if CHR ''T'' \<in> set pair then GitTypeChanged
     else if CHR ''M'' \<in> set pair then GitModified
     else GitUnknown)"

definition is_ascii_byte :: "char \<Rightarrow> bool" where
  "is_ascii_byte c = ((of_char c :: nat) < 128)"

text \<open>One record of the loop of \<open>parse_porcelain_v1_z\<close>: the change and the rest of the input.\<close>

definition parse_entry :: "string \<Rightarrow> (tool_error, git_change \<times> string) res" where
  "parse_entry input =
    try_then (read_nul_field input ''status entry'') (\<lambda>(field, rest).
    if length field < 4 then Inl (Message ''invalid porcelain v1 entry: expected XY, space, and path'')
    else if field ! 2 \<noteq> CHR '' '' then Inl (Message ''invalid porcelain v1 entry: missing separator after XY status'')
    else if \<not> is_ascii_byte (field ! 0) \<or> \<not> is_ascii_byte (field ! 1)
    then Inl (Message ''invalid porcelain v1 entry: status bytes must be ASCII'')
    else
    try_then (decode_path (drop 3 field) ''path'') (\<lambda>p.
    let kind = classify_kind (field ! 0) (field ! 1);
        change = (\<lambda>original. \<lparr>gc_index_status = field ! 0, gc_worktree_status = field ! 1, gc_kind = kind,
          gc_path = p, gc_original_path = original, gc_content_fingerprint = None\<rparr>)
    in if kind = GitRenamed \<or> kind = GitCopied then
         try_then (read_nul_field rest ''rename/copy source path'') (\<lambda>(source, rest').
         try_then (decode_path source ''rename/copy source path'') (\<lambda>original.
         Inr (change (Some original), rest')))
       else Inr (change None, rest)))"

lemma split_once_shorter: "split_once d s = Some (a, b) \<Longrightarrow> length b < length s"
  by (induction s arbitrary: a) (auto split: if_splits)

lemma read_nul_field_shorter: "read_nul_field s label = Inr (a, b) \<Longrightarrow> length b < length s"
  by (auto simp: read_nul_field_def split: option.splits dest: split_once_shorter)

lemma parse_entry_shorter: "parse_entry s = Inr (c, rest) \<Longrightarrow> length rest < length s"
  by (auto simp: parse_entry_def res_simps Let_def split: if_splits dest!: read_nul_field_shorter)

function parse_porcelain_v1_z :: "string \<Rightarrow> (tool_error, git_change list) res" where
  "parse_porcelain_v1_z input =
    (if input = [] then Inr []
     else case parse_entry input of
       Inl e \<Rightarrow> Inl e
     | Inr (c, rest) \<Rightarrow> try_then (parse_porcelain_v1_z rest) (\<lambda>cs. Inr (c # cs)))"
  by pat_completeness auto
termination
  by (relation "measure length") (auto dest: parse_entry_shorter)

declare parse_porcelain_v1_z.simps [simp del]

section \<open>Capturing a snapshot\<close>

definition GIT_STATUS_ARGS :: "string list" where
  "GIT_STATUS_ARGS = [''-c'', ''core.quotepath=false'', ''-c'', ''status.relativePaths=false'', ''status'',
     ''--porcelain=v1'', ''-z'', ''--untracked-files=all'']"

definition trim_line_ends :: "string \<Rightarrow> string" where
  "trim_line_ends s = rev (dropWhile (\<lambda>c. c = CHR 0x0D \<or> c = CHR 0x0A) (rev s))"

definition discover_git_root :: "git_host \<Rightarrow> fs \<Rightarrow> path \<Rightarrow> (tool_error, path) res" where
  "discover_git_root h f p =
    try_then (io_context (''failed to discover Git root from '' @ p) (gh_git h f p [''rev-parse'', ''--show-toplevel''])) (\<lambda>out.
    if \<not> co_success out
    then Inl (Message (''not a Git worktree from '' @ p @ '': '' @ str_trim (from_utf8_lossy (co_stderr out))))
    else if \<not> utf8_valid (co_stdout out)
    then Inl (Context ''Git root is not valid UTF-8'' (Message ''invalid utf-8 sequence''))
    else let root = trim_line_ends (co_stdout out) in
      if root = [] then Inl (Message ''Git returned an empty worktree root'')
      else io_context (''failed to resolve Git root: '' @ root) (canonicalize f root))"

definition run_git_status :: "git_host \<Rightarrow> fs \<Rightarrow> path \<Rightarrow> (tool_error, string) res" where
  "run_git_status h f root =
    try_then (io_context (''failed to capture Git status in '' @ root) (gh_git h f root GIT_STATUS_ARGS)) (\<lambda>out.
    if \<not> co_success out
    then Inl (Message (''git status failed in '' @ root @ '': '' @ str_trim (from_utf8_lossy (co_stderr out))))
    else Inr (co_stdout out))"

text \<open>
  A file that cannot be opened or read has no fingerprint. Reading in blocks of 64 KiB and hashing
  them one after the other is hashing the contents.
\<close>

definition fingerprint_worktree_path :: "git_host \<Rightarrow> fs \<Rightarrow> path \<Rightarrow> string \<Rightarrow> (string \<times> nat) option" where
  "fingerprint_worktree_path h f root relative = (case fs_read f (path_join root relative) of
      Inl _ \<Rightarrow> None
    | Inr c \<Rightarrow> Some (''blake3:'' @ dec_of_nat (min (length c) u64_max) @ '':'' @ gh_blake3 h c, min (length c) u64_max))"

definition fingerprint_change :: "git_host \<Rightarrow> fs \<Rightarrow> path \<Rightarrow> git_change \<Rightarrow> git_change" where
  "fingerprint_change h f root c = (case fingerprint_worktree_path h f root (gc_path c) of
      None \<Rightarrow> c
    | Some (v, _) \<Rightarrow> c\<lparr>gc_content_fingerprint := Some v\<rparr>)"

definition fingerprint_sizes :: "git_host \<Rightarrow> fs \<Rightarrow> path \<Rightarrow> git_change list \<Rightarrow> nat list" where
  "fingerprint_sizes h f root cs =
    List.map_filter (\<lambda>c. map_option snd (fingerprint_worktree_path h f root (gc_path c))) cs"

definition change_key :: "git_change \<Rightarrow> string \<times> string option" where
  "change_key c = (gc_path c, gc_original_path c)"

definition capture_git_state :: "git_host \<Rightarrow> nat \<Rightarrow> fs \<Rightarrow> path \<Rightarrow> (tool_error, git_snapshot) res" where
  "capture_git_state h elapsed_us f p =
    try_then (discover_git_root h f p) (\<lambda>root.
    try_then (run_git_status h f root) (\<lambda>out.
    try_then (parse_porcelain_v1_z out) (\<lambda>changes.
    let sizes = fingerprint_sizes h f root changes in
    Inr \<lparr>gs_schema_version = 1, gs_root = root,
         gs_changes = sort_key change_key (map (fingerprint_change h f root) changes),
         gs_metrics = \<lparr>gm_duration_us = min elapsed_us u64_max, gm_status_entries = length changes,
           gm_fingerprinted_files = length sizes, gm_fingerprinted_bytes = foldl sat_add 0 sizes\<rparr>\<rparr>)))"

section \<open>Comparing two snapshots\<close>

definition normalize_comparison_path :: "string \<Rightarrow> string" where
  "normalize_comparison_path p = replace_char (CHR 0x5C) (CHR ''/'') p"

definition affected_paths :: "git_change \<Rightarrow> string set" where
  "affected_paths c = insert (normalize_comparison_path (gc_path c))
    (case gc_original_path c of None \<Rightarrow> {} | Some original \<Rightarrow> {normalize_comparison_path original})"

definition changes_overlap :: "git_change \<Rightarrow> git_change \<Rightarrow> bool" where
  "changes_overlap left right = (affected_paths left \<inter> affected_paths right \<noteq> {})"

definition generated_files :: "string list" where
  "generated_files = [''dependency-reduced-pom.xml'', ''.flattened-pom.xml'', ''pom.xml.versionsbackup'',
     ''pom.xml.releasebackup'', ''release.properties'', ''buildnumber.properties'']"

definition generated_directories :: "string list" where
  "generated_directories = [''target'', ''build'', ''out'', ''.gradle'', ''generated-sources'',
     ''generated-test-sources'', ''surefire-reports'', ''test-results'', ''reports'']"

definition is_expected_build_generated_path :: "string \<Rightarrow> bool" where
  "is_expected_build_generated_path p =
    (let names = split_on (CHR ''/'') (to_ascii_lowercase (replace_char (CHR 0x5C) (CHR ''/'') p)) in
     last names \<in> set generated_files \<or> list_ex (\<lambda>n. n \<in> set generated_directories) names)"

definition classify_origin :: "git_change \<Rightarrow> bool \<Rightarrow> bool \<Rightarrow> git_change_origin" where
  "classify_origin c existed_before changed_during_build =
    (if existed_before \<and> \<not> changed_during_build then PreExisting
     else if gc_kind c = GitUnknown \<or> gc_kind c = GitUnmerged then UnknownOrigin
     else if gc_kind c = GitUntracked then UntrackedGenerated
     else if is_expected_build_generated_path (gc_path c) then BuildGenerated
     else if is_tracked c then TrackedChanged
     else UnknownOrigin)"

definition strict_candidate :: "classified_change \<Rightarrow> bool" where
  "strict_candidate c = (cc_changed_during_build c \<and> is_tracked (cc_change c))"

text \<open>The first unmatched change of the state before that touches a path of the given one.\<close>

definition find_before :: "git_change list \<Rightarrow> nat set \<Rightarrow> git_change \<Rightarrow> (nat \<times> git_change) option" where
  "find_before before matched after =
    find (\<lambda>(i, b). i \<notin> matched \<and> changes_overlap b after) (List.enumerate 0 before)"

definition classify_change :: "git_change option \<Rightarrow> git_change \<Rightarrow> classified_change" where
  "classify_change previous after =
    (let existed = previous \<noteq> None; changed = (previous \<noteq> Some after) in
     \<lparr>cc_change = after, cc_before = previous, cc_origin = classify_origin after existed changed,
      cc_existed_before = existed, cc_changed_during_build = changed,
      cc_tracked_was_clean_before = (\<not> existed \<and> is_tracked after)\<rparr>)"

fun match_changes ::
  "git_change list \<Rightarrow> nat set \<Rightarrow> git_change list \<Rightarrow> classified_change list \<times> nat set" where
  "match_changes before matched [] = ([], matched)"
| "match_changes before matched (a # as) =
    (let found = find_before before matched a;
         matched' = (case found of None \<Rightarrow> matched | Some (i, _) \<Rightarrow> insert i matched);
         (rest, final) = match_changes before matched' as
     in (classify_change (map_option snd found) a # rest, final))"

definition unmatched :: "git_change list \<Rightarrow> nat set \<Rightarrow> git_change list" where
  "unmatched before matched = nths before (- matched)"

definition count_origin :: "git_change_origin \<Rightarrow> classified_change list \<Rightarrow> nat" where
  "count_origin x cs = length (filter (\<lambda>c. cc_origin c = x) cs)"

definition count_diff ::
  "git_snapshot \<Rightarrow> git_snapshot \<Rightarrow> classified_change list \<Rightarrow> git_change list \<Rightarrow> diff_counts" where
  "count_diff before after cs resolved =
    \<lparr>dc_before = length (gs_changes before), dc_after = length (gs_changes after),
     dc_pre_existing = count_origin PreExisting cs, dc_build_generated = count_origin BuildGenerated cs,
     dc_tracked_changed = count_origin TrackedChanged cs,
     dc_untracked_generated = count_origin UntrackedGenerated cs, dc_unknown = count_origin UnknownOrigin cs,
     dc_changed_during_build = sat_add (length (filter cc_changed_during_build cs)) (length resolved),
     dc_resolved_pre_existing = length resolved,
     dc_strict_candidates = sat_add (length (filter strict_candidate cs)) (length (filter is_tracked resolved))\<rparr>"

definition compare_git_states :: "git_snapshot \<Rightarrow> git_snapshot \<Rightarrow> (tool_error, git_diff) res" where
  "compare_git_states before after =
    (if \<not> path_eq (gs_root before) (gs_root after)
     then Inl (Message (''Git root changed during build: '' @ gs_root before @ '' -> '' @ gs_root after))
     else let (changes_after, matched) = match_changes (gs_changes before) {} (gs_changes after);
              resolved = unmatched (gs_changes before) matched
       in Inr \<lparr>gd_changes_after = changes_after, gd_resolved_pre_existing = resolved,
               gd_counts = count_diff before after changes_after resolved\<rparr>)"

section \<open>The strict policy\<close>

definition candidate_reason :: "classified_change \<Rightarrow> string" where
  "candidate_reason c =
    (if cc_tracked_was_clean_before c then ''tracked file was clean before build and changed: ''
     else ''tracked file changed again during build: '')
    @ git_kind_str (gc_kind (cc_change c)) @ '' '' @ display_path (cc_change c)
    @ '' (origin='' @ git_origin_str (cc_origin c) @ '')''"

definition resolved_reason :: "git_change \<Rightarrow> string" where
  "resolved_reason c = ''tracked pre-existing change was removed or restored during build: ''
    @ git_kind_str (gc_kind c) @ '' '' @ display_path c"

definition strict_reasons :: "git_diff \<Rightarrow> string list" where
  "strict_reasons d = map candidate_reason (filter strict_candidate (gd_changes_after d))
    @ map resolved_reason (filter is_tracked (gd_resolved_pre_existing d))"

definition policy_of :: "bool \<Rightarrow> string list \<Rightarrow> strict_policy" where
  "policy_of strict reasons = \<lparr>sp_enabled = strict, sp_passed = (reasons = []), sp_reasons = reasons\<rparr>"

definition from_snapshots :: "git_snapshot \<Rightarrow> git_snapshot \<Rightarrow> bool \<Rightarrow> (tool_error, build_git_report) res" where
  "from_snapshots before after strict =
    try_then (compare_git_states before after) (\<lambda>diff.
    Inr \<lparr>br_schema_version = 1, br_status = Captured, br_message = None, br_before = Some before,
         br_after = Some after, br_diff = Some diff,
         br_strict_policy = policy_of strict (if strict then strict_reasons diff else [])\<rparr>)"

definition unavailable :: "string \<Rightarrow> bool \<Rightarrow> build_git_report" where
  "unavailable message strict =
    \<lparr>br_schema_version = 1, br_status = Unavailable, br_message = Some message, br_before = None,
     br_after = None, br_diff = None,
     br_strict_policy = policy_of strict
       (if strict then [''strict Git guard could not verify the worktree: '' @ message] else [])\<rparr>"

definition from_capture_results ::
  "(tool_error, git_snapshot) res \<Rightarrow> (tool_error, git_snapshot) res \<Rightarrow> bool \<Rightarrow> build_git_report" where
  "from_capture_results before after strict = (case (before, after) of
      (Inr b, Inr a) \<Rightarrow>
        (case from_snapshots b a strict of Inr r \<Rightarrow> r | Inl e \<Rightarrow> unavailable (display_text e) strict)
    | _ \<Rightarrow> unavailable (join_text ''; ''
        ((case before of Inl e \<Rightarrow> [''before build: '' @ alternate_text e] | Inr _ \<Rightarrow> [])
         @ (case after of Inl e \<Rightarrow> [''after build: '' @ alternate_text e] | Inr _ \<Rightarrow> []))) strict)"

definition strict_violation :: "build_git_report \<Rightarrow> bool" where
  "strict_violation r = (sp_enabled (br_strict_policy r) \<and> \<not> sp_passed (br_strict_policy r))"

section \<open>The language of the parser\<close>

text \<open>
  The documented format as a printer, and the changes it can print. The parser accepts exactly the
  printed lists of such changes and returns them.
\<close>

definition porcelain_entry :: "git_change \<Rightarrow> string" where
  "porcelain_entry c = [gc_index_status c, gc_worktree_status c, CHR '' ''] @ gc_path c @ [nul]
    @ (case gc_original_path c of None \<Rightarrow> [] | Some original \<Rightarrow> original @ [nul])"

definition porcelain_path :: "string \<Rightarrow> bool" where
  "porcelain_path p \<longleftrightarrow> p \<noteq> [] \<and> nul \<notin> set p \<and> utf8_valid p"

definition porcelain_change :: "git_change \<Rightarrow> bool" where
  "porcelain_change c \<longleftrightarrow>
    is_ascii_byte (gc_index_status c) \<and> is_ascii_byte (gc_worktree_status c)
    \<and> gc_index_status c \<noteq> nul \<and> gc_worktree_status c \<noteq> nul
    \<and> gc_kind c = classify_kind (gc_index_status c) (gc_worktree_status c)
    \<and> porcelain_path (gc_path c) \<and> gc_content_fingerprint c = None
    \<and> (case gc_original_path c of
         None \<Rightarrow> gc_kind c \<noteq> GitRenamed \<and> gc_kind c \<noteq> GitCopied
       | Some original \<Rightarrow> (gc_kind c = GitRenamed \<or> gc_kind c = GitCopied) \<and> porcelain_path original)"

lemma split_once_iff: "split_once d s = Some (a, b) \<longleftrightarrow> s = a @ d # b \<and> d \<notin> set a"
proof (induction s arbitrary: a)
  case (Cons c s)
  show ?case
    by (cases a) (auto simp: Cons.IH)
qed simp

lemma read_nul_field_iff:
  "read_nul_field s label = Inr (field, rest) \<longleftrightarrow> s = field @ nul # rest \<and> nul \<notin> set field"
proof -
  have "read_nul_field s label = Inr (field, rest) \<longleftrightarrow> split_once nul s = Some (field, rest)"
    by (auto simp: read_nul_field_def split: option.splits)
  then show ?thesis
    by (simp add: split_once_iff)
qed

lemma decode_path_iff: "decode_path b label = Inr p \<longleftrightarrow> p = b \<and> b \<noteq> [] \<and> utf8_valid b"
  by (auto simp: decode_path_def)

lemma nul_not_space [simp]: "nul \<noteq> CHR '' ''" "CHR '' '' \<noteq> nul"
  by (simp_all add: nul_def)

lemma status_field:
  assumes "4 \<le> length field" "field ! 2 = CHR '' ''"
  shows "field = [field ! 0, field ! 1, CHR '' ''] @ drop 3 field \<and> drop 3 field \<noteq> []"
  using assms by (cases field; cases "tl field"; cases "tl (tl field)") auto

lemma parse_entry_iff:
  "parse_entry s = Inr (c, rest) \<longleftrightarrow> porcelain_change c \<and> s = porcelain_entry c @ rest"
  (is "?lhs \<longleftrightarrow> ?rhs")
proof
  assume ?lhs
  then obtain field rest1 where f: "s = field @ nul # rest1" "nul \<notin> set field" "4 \<le> length field" "field ! 2 = CHR '' ''"
      "is_ascii_byte (field ! 0)" "is_ascii_byte (field ! 1)" "utf8_valid (drop 3 field)"
      and k: "(if classify_kind (field ! 0) (field ! 1) = GitRenamed \<or> classify_kind (field ! 0) (field ! 1) = GitCopied
        then \<exists>original. rest1 = original @ nul # rest \<and> nul \<notin> set original \<and> original \<noteq> [] \<and> utf8_valid original
          \<and> c = \<lparr>gc_index_status = field ! 0, gc_worktree_status = field ! 1,
              gc_kind = classify_kind (field ! 0) (field ! 1), gc_path = drop 3 field,
              gc_original_path = Some original, gc_content_fingerprint = None\<rparr>
        else rest1 = rest \<and> c = \<lparr>gc_index_status = field ! 0, gc_worktree_status = field ! 1,
              gc_kind = classify_kind (field ! 0) (field ! 1), gc_path = drop 3 field,
              gc_original_path = None, gc_content_fingerprint = None\<rparr>)"
    by (auto simp: parse_entry_def res_simps read_nul_field_iff decode_path_iff Let_def split: if_splits)
  have p: "field = [field ! 0, field ! 1, CHR '' ''] @ drop 3 field" "drop 3 field \<noteq> []"
    using status_field [OF f(3,4)] by auto
  have mem: "field ! 0 \<in> set field" "field ! 1 \<in> set field" "set (drop 3 field) \<subseteq> set field"
    by (rule nth_mem, use f(3) in linarith)+ (rule set_drop_subset)
  then have clean: "field ! 0 \<noteq> nul" "field ! 1 \<noteq> nul" "nul \<notin> set (drop 3 field)"
    using f(2) by auto
  show ?rhs
    using k f p clean by (auto simp: porcelain_change_def porcelain_entry_def porcelain_path_def split: if_splits)
next
  assume r: ?rhs
  obtain i w k p original fp where c: "c = \<lparr>gc_index_status = i, gc_worktree_status = w, gc_kind = k, gc_path = p,
      gc_original_path = original, gc_content_fingerprint = fp\<rparr>"
    by (cases c)
  let ?field = "[i, w, CHR '' ''] @ p"
  let ?rest = "(case original of None \<Rightarrow> [] | Some o' \<Rightarrow> o' @ [nul]) @ rest"
  have "read_nul_field s ''status entry'' = Inr (?field, ?rest)"
    using r c by (auto simp: read_nul_field_iff porcelain_change_def porcelain_entry_def porcelain_path_def
        split: option.splits)
  moreover have "decode_path p ''path'' = Inr p" "\<not> length ?field < 4"
    using r c by (auto simp: decode_path_iff porcelain_change_def porcelain_path_def Suc_le_eq)
  moreover have "read_nul_field ?rest ''rename/copy source path'' = Inr (q, rest)"
      "decode_path q ''rename/copy source path'' = Inr q" if "original = Some q" for q
    using that r c by (auto simp: read_nul_field_iff decode_path_iff porcelain_change_def porcelain_path_def)
  moreover have "is_ascii_byte i" "is_ascii_byte w" "k = classify_kind i w" "fp = None"
      "original = None \<longleftrightarrow> \<not> (k = GitRenamed \<or> k = GitCopied)"
    using r c by (auto simp: porcelain_change_def split: option.splits)
  ultimately show ?lhs
    using c by (cases original) (auto simp: parse_entry_def Let_def)
qed

lemma parse_porcelain_iff:
  "parse_porcelain_v1_z s = Inr cs \<longleftrightarrow> list_all porcelain_change cs \<and> s = concat (map porcelain_entry cs)"
proof (induction s arbitrary: cs rule: parse_porcelain_v1_z.induct)
  case (1 s)
  show ?case
  proof (cases "s = []")
    case True
    then show ?thesis
      by (cases cs) (auto simp: parse_porcelain_v1_z.simps porcelain_entry_def)
  next
    case False
    show ?thesis
    proof (cases cs)
      case Nil
      then show ?thesis
        using False by (auto simp: parse_porcelain_v1_z.simps [of s] res_simps split: sum.splits)
    next
      case (Cons c cs')
      have "parse_porcelain_v1_z s = Inr cs \<longleftrightarrow>
          (\<exists>rest. parse_entry s = Inr (c, rest) \<and> parse_porcelain_v1_z rest = Inr cs')"
        using False Cons by (auto simp: parse_porcelain_v1_z.simps [of s] res_simps split: sum.splits)
      also have "\<dots> \<longleftrightarrow> (\<exists>rest. parse_entry s = Inr (c, rest) \<and> list_all porcelain_change cs'
          \<and> rest = concat (map porcelain_entry cs'))"
        using "1.IH" [OF False] by (metis (no_types, lifting))
      also have "\<dots> \<longleftrightarrow> list_all porcelain_change cs \<and> s = concat (map porcelain_entry cs)"
        using Cons by (auto simp: parse_entry_iff)
      finally show ?thesis .
    qed
  qed
qed

section \<open>What a comparison accounts for\<close>

lemma find_before_Some:
  assumes "find_before before matched a = Some (i, b)"
  shows "i < length before" "before ! i = b" "i \<notin> matched" "changes_overlap b a"
  using assms by (auto simp: find_before_def find_Some_iff nth_enumerate_eq)

text \<open>
  Matching pairs every change after with at most one change before, never the same one twice; the
  invariant relates the indices matched on the way to the changes of the state before.
\<close>

lemma match_changes_spec:
  assumes "match_changes before matched as = (cs, final)"
  shows "map cc_change cs = as"
    "matched \<subseteq> final" "finite matched \<Longrightarrow> finite final"
    "\<forall>c \<in> set cs. c = classify_change (cc_before c) (cc_change c)"
    "\<forall>c \<in> set cs. \<forall>b. cc_before c = Some b \<longrightarrow> b \<in> set before \<and> changes_overlap b (cc_change c)"
    "\<forall>i \<in> final - matched. i < length before
       \<and> (\<exists>c \<in> set cs. cc_before c = Some (before ! i) \<and> changes_overlap (before ! i) (cc_change c))"
    "finite matched \<Longrightarrow> card final = card matched + length (filter cc_existed_before cs)"
proof -
  have "map cc_change cs = as \<and> matched \<subseteq> final \<and> (finite matched \<longrightarrow> finite final)
    \<and> (\<forall>c \<in> set cs. c = classify_change (cc_before c) (cc_change c))
    \<and> (\<forall>c \<in> set cs. \<forall>b. cc_before c = Some b \<longrightarrow> b \<in> set before \<and> changes_overlap b (cc_change c))
    \<and> (\<forall>i \<in> final - matched. i < length before
       \<and> (\<exists>c \<in> set cs. cc_before c = Some (before ! i) \<and> changes_overlap (before ! i) (cc_change c)))
    \<and> (finite matched \<longrightarrow> card final = card matched + length (filter cc_existed_before cs))"
    using assms
  proof (induction as arbitrary: matched cs)
    case (Cons a as)
    define found where "found = find_before before matched a"
    define matched' where "matched' = (case found of None \<Rightarrow> matched | Some (i, _) \<Rightarrow> insert i matched)"
    obtain rest where r: "match_changes before matched' as = (rest, final)"
        "cs = classify_change (map_option snd found) a # rest"
      using Cons.prems by (auto simp: found_def matched'_def Let_def split: prod.splits)
    show ?case
    proof (cases found)
      case None
      then have "matched' = matched"
        by (simp add: matched'_def)
      then show ?thesis
        using Cons.IH [OF r(1)] r(2) None by (simp add: classify_change_def Let_def)
    next
      case (Some ib)
      then obtain i b where ib: "found = Some (i, b)"
        by (cases ib) auto
      then have b: "i < length before" "before ! i = b" "i \<notin> matched" "changes_overlap b a"
        using find_before_Some found_def by metis+
      have m: "matched' = insert i matched"
        using ib by (simp add: matched'_def)
      let ?c = "classify_change (Some b) a"
      have cs: "cs = ?c # rest"
        using r(2) ib by simp
      have c: "cc_change ?c = a" "cc_before ?c = Some b" "cc_existed_before ?c"
        by (simp_all add: classify_change_def Let_def)
      note IH = Cons.IH [OF r(1)]
      have "b \<in> set before"
        using b(1,2) by auto
      moreover have "\<forall>j \<in> final - matched. j < length before
          \<and> (\<exists>c \<in> set cs. cc_before c = Some (before ! j) \<and> changes_overlap (before ! j) (cc_change c))"
      proof
        fix j
        assume j: "j \<in> final - matched"
        show "j < length before \<and> (\<exists>c \<in> set cs. cc_before c = Some (before ! j)
            \<and> changes_overlap (before ! j) (cc_change c))"
          using IH j m b c cs by (cases "j = i") auto
      qed
      moreover have "finite matched \<Longrightarrow> card final = card matched + length (filter cc_existed_before cs)"
        using IH b(3) m c cs by simp
      ultimately show ?thesis
        using IH cs c b(4) m by simp
    qed
  qed simp
  then show "map cc_change cs = as"
    "matched \<subseteq> final" "finite matched \<Longrightarrow> finite final"
    "\<forall>c \<in> set cs. c = classify_change (cc_before c) (cc_change c)"
    "\<forall>c \<in> set cs. \<forall>b. cc_before c = Some b \<longrightarrow> b \<in> set before \<and> changes_overlap b (cc_change c)"
    "\<forall>i \<in> final - matched. i < length before
       \<and> (\<exists>c \<in> set cs. cc_before c = Some (before ! i) \<and> changes_overlap (before ! i) (cc_change c))"
    "finite matched \<Longrightarrow> card final = card matched + length (filter cc_existed_before cs)"
    by simp_all
qed

lemma unmatched_mem: "b \<in> set (unmatched before m) \<longleftrightarrow> (\<exists>i < length before. i \<notin> m \<and> before ! i = b)"
  by (auto simp: unmatched_def set_nths)

lemma length_unmatched:
  assumes "m \<subseteq> {..<length before}"
  shows "length (unmatched before m) + card m = length before"
proof -
  have "length (unmatched before m) = card ({..<length before} - m)"
    by (auto simp: unmatched_def length_nths intro!: arg_cong [where f = card])
  also have "\<dots> = length before - card m"
    using assms by (simp add: card_Diff_subset finite_subset)
  finally show ?thesis
    using card_mono [OF _ assms] by simp
qed

lemma count_origin_sum:
  "count_origin PreExisting cs + count_origin BuildGenerated cs + count_origin TrackedChanged cs
    + count_origin UntrackedGenerated cs + count_origin UnknownOrigin cs = length cs"
proof (induction cs)
  case (Cons c cs)
  then show ?case
    by (cases "cc_origin c") (simp_all add: count_origin_def)
qed (simp add: count_origin_def)

lemma compare_git_states_Inr:
  assumes "compare_git_states before after = Inr d"
  obtains matched where
    "path_eq (gs_root before) (gs_root after)"
    "match_changes (gs_changes before) {} (gs_changes after) = (gd_changes_after d, matched)"
    "gd_resolved_pre_existing d = unmatched (gs_changes before) matched"
    "gd_counts d = count_diff before after (gd_changes_after d) (gd_resolved_pre_existing d)"
  using assms by (auto simp: compare_git_states_def Let_def split: if_splits prod.splits)

end
