(* ===== verification/GitProperties.thy ===== *)
theory GitProperties
  imports GitState "HOL-Library.Code_Target_Nat"
begin

text \<open>The properties of Git snapshots and of the build guard.\<close>

text \<open>
  C15. The parser of the status output and the documented format agree in both directions: the parser
  accepts exactly the byte strings that are a sequence of printed entries and returns these entries.
\<close>

theorem porcelain_round_trip:
  "parse_porcelain_v1_z s = Inr cs \<longleftrightarrow> list_all porcelain_change cs \<and> s = concat (map porcelain_entry cs)"
  by (rule parse_porcelain_iff)

text \<open>
  C16. A comparison accounts for every change: it lists the changes after in their order, pairs each
  with at most one change before that touches one of its paths, its origin counters add up to the
  number of changes after, and the matched and the resolved changes before add up to all of them.
\<close>

theorem comparison_accounts_for_every_change:
  assumes "compare_git_states before after = Inr d"
  shows "map cc_change (gd_changes_after d) = gs_changes after
    \<and> (\<forall>c b. c \<in> set (gd_changes_after d) \<longrightarrow> cc_before c = Some b \<longrightarrow>
         b \<in> set (gs_changes before) \<and> changes_overlap b (cc_change c))
    \<and> dc_pre_existing (gd_counts d) + dc_build_generated (gd_counts d) + dc_tracked_changed (gd_counts d)
        + dc_untracked_generated (gd_counts d) + dc_unknown (gd_counts d) = length (gs_changes after)
    \<and> length (filter cc_existed_before (gd_changes_after d)) + length (gd_resolved_pre_existing d)
        = length (gs_changes before)"
proof -
  obtain matched where m: "match_changes (gs_changes before) {} (gs_changes after) = (gd_changes_after d, matched)"
      and r: "gd_resolved_pre_existing d = unmatched (gs_changes before) matched"
      and c: "gd_counts d = count_diff before after (gd_changes_after d) (gd_resolved_pre_existing d)"
    using compare_git_states_Inr [OF assms] by metis
  note spec = match_changes_spec [OF m]
  have "matched \<subseteq> {..<length (gs_changes before)}"
    using spec(6) by auto
  then have "length (unmatched (gs_changes before) matched) + card matched = length (gs_changes before)"
    by (rule length_unmatched)
  moreover have "card matched = length (filter cc_existed_before (gd_changes_after d))"
    using spec(7) by simp
  moreover have "length (gd_changes_after d) = length (gs_changes after)"
    using spec(1) length_map [of cc_change "gd_changes_after d"] by simp
  ultimately show ?thesis
    using spec(1,5) r c count_origin_sum [of "gd_changes_after d"] by (simp add: count_diff_def)
qed

definition git_demo_change :: "string \<Rightarrow> string \<Rightarrow> git_change" where
  "git_demo_change xy p = \<lparr>gc_index_status = xy ! 0, gc_worktree_status = xy ! 1,
     gc_kind = classify_kind (xy ! 0) (xy ! 1), gc_path = p, gc_original_path = None, gc_content_fingerprint = None\<rparr>"

definition git_demo :: "git_change list \<Rightarrow> git_snapshot" where
  "git_demo cs = \<lparr>gs_schema_version = 1, gs_root = ''/w'', gs_changes = cs,
     gs_metrics = \<lparr>gm_duration_us = 0, gm_status_entries = length cs, gm_fingerprinted_files = 0,
       gm_fingerprinted_bytes = 0\<rparr>\<rparr>"

abbreviation git_demo_before :: git_snapshot where
  "git_demo_before \<equiv> git_demo [git_demo_change '' M'' ''A.java'', git_demo_change ''A '' ''B.java'']"

abbreviation git_demo_after :: git_snapshot where
  "git_demo_after \<equiv> git_demo [git_demo_change '' M'' ''A.java'', git_demo_change ''??'' ''target/x'']"

theorem comparison_accounts_for_every_change_witness:
  "\<exists>d. compare_git_states git_demo_before git_demo_after = Inr d \<and> length (gd_changes_after d) = 2
    \<and> length (filter cc_existed_before (gd_changes_after d)) + length (gd_resolved_pre_existing d) = 2"
proof -
  have "is_ok (compare_git_states git_demo_before git_demo_after)"
    by code_simp
  then obtain d where d: "compare_git_states git_demo_before git_demo_after = Inr d"
    by (auto simp: res_simps)
  note c = comparison_accounts_for_every_change [OF d]
  have "length (gd_changes_after d) = length (gs_changes git_demo_after)"
    using c length_map [of cc_change "gd_changes_after d"] by simp
  then show ?thesis
    using c d by (simp add: git_demo_def)
qed

text \<open>
  C17. The strict guard fails closed: it reports no violation only when both snapshots were captured
  with the same root, every tracked change after the build was there unchanged before it, and every
  tracked change before is still there, unless an untracked or ignored entry now covers its path.
\<close>

theorem strict_guard_sound:
  assumes "\<not> strict_violation (from_capture_results before after True)"
  shows "\<exists>b a. before = Inr b \<and> after = Inr a \<and> path_eq (gs_root b) (gs_root a)
    \<and> (\<forall>c. c \<in> set (gs_changes a) \<longrightarrow> is_tracked c \<longrightarrow> c \<in> set (gs_changes b))
    \<and> (\<forall>c. c \<in> set (gs_changes b) \<longrightarrow> is_tracked c \<longrightarrow> c \<in> set (gs_changes a)
         \<or> (\<exists>u. u \<in> set (gs_changes a) \<and> \<not> is_tracked u \<and> changes_overlap c u))"
proof -
  have closed: "strict_violation (unavailable m True)" for m
    by (simp add: strict_violation_def unavailable_def policy_of_def)
  obtain b a where ba: "before = Inr b" "after = Inr a"
    using assms closed by (auto simp: from_capture_results_def split: sum.splits)
  obtain d where d: "compare_git_states b a = Inr d" and none: "strict_reasons d = []"
    using assms closed ba
    by (cases "compare_git_states b a")
      (auto simp: from_capture_results_def from_snapshots_def strict_violation_def policy_of_def split: sum.splits)
  obtain matched where root: "path_eq (gs_root b) (gs_root a)"
      and m: "match_changes (gs_changes b) {} (gs_changes a) = (gd_changes_after d, matched)"
      and r: "gd_resolved_pre_existing d = unmatched (gs_changes b) matched"
    using compare_git_states_Inr [OF d] by metis
  note spec = match_changes_spec [OF m]
  have same: "cc_before c = Some (cc_change c)" if "c \<in> set (gd_changes_after d)" "is_tracked (cc_change c)" for c
  proof -
    have "c = classify_change (cc_before c) (cc_change c)"
      using spec(4) that(1) by blast
    then have "cc_changed_during_build c = (cc_before c \<noteq> Some (cc_change c))"
      by (metis classify_change_def classified_change.select_convs(5))
    then show ?thesis
      using none that by (auto simp: strict_reasons_def filter_empty_conv strict_candidate_def)
  qed
  have "x \<in> set (gs_changes b)" if x: "x \<in> set (gs_changes a)" "is_tracked x" for x
  proof -
    obtain c where "c \<in> set (gd_changes_after d)" "cc_change c = x"
      using x(1) spec(1) by (metis imageE list.set_map)
    then show ?thesis
      using same spec(5) x(2) by blast
  qed
  moreover have "x \<in> set (gs_changes a) \<or> (\<exists>u. u \<in> set (gs_changes a) \<and> \<not> is_tracked u \<and> changes_overlap x u)"
    if x: "x \<in> set (gs_changes b)" "is_tracked x" for x
  proof -
    have "x \<notin> set (unmatched (gs_changes b) matched)"
      using none r x(2) by (auto simp: strict_reasons_def filter_empty_conv)
    then obtain i where i: "i < length (gs_changes b)" "gs_changes b ! i = x" "i \<in> matched"
      using x(1) unmatched_mem by (metis in_set_conv_nth)
    then obtain c where c: "c \<in> set (gd_changes_after d)" "cc_before c = Some x" "changes_overlap x (cc_change c)"
      using spec(6) by auto
    have mem: "cc_change c \<in> set (gs_changes a)"
      using c(1) spec(1) by (metis image_eqI list.set_map)
    show ?thesis
    proof (cases "is_tracked (cc_change c)")
      case True
      then show ?thesis
        using same [OF c(1)] c(2) mem by simp
    qed (use mem c(3) in blast)
  qed
  ultimately show ?thesis
    using ba root by blast
qed

theorem strict_guard_sound_witness:
  "\<not> strict_violation (from_capture_results (Inr (git_demo [git_demo_change '' M'' ''A.java'']))
       (Inr git_demo_after) True)
    \<and> git_demo_change '' M'' ''A.java'' \<in> set (gs_changes git_demo_after)"
proof -
  have v: "\<not> strict_violation (from_capture_results (Inr (git_demo [git_demo_change '' M'' ''A.java'']))
       (Inr git_demo_after) True)"
    by code_simp
  have t: "is_tracked (git_demo_change '' M'' ''A.java'')" "git_demo_change '' M'' ''A.java'' \<in> set (gs_changes (git_demo [git_demo_change '' M'' ''A.java'']))"
      "\<not> changes_overlap (git_demo_change '' M'' ''A.java'') (git_demo_change ''??'' ''target/x'')"
    by code_simp+
  show ?thesis
    using strict_guard_sound [OF v] t v by (auto simp: git_demo_def)
qed


end
