(* ===== verification/TxModel.thy ===== *)
theory TxModel
  imports GitState
begin

text \<open>
  The data of an apply transaction (\<open>opticcode-tools/src/apply_transaction.rs\<close>): requests, the manifest,
  the journal events, results, and the world a transaction runs in. JSON encoding, the lock of the
  operating system, and what happens at the fault points of the code are parameters.
\<close>

definition APPLY_TRANSACTION_SCHEMA_VERSION :: nat where "APPLY_TRANSACTION_SCHEMA_VERSION = 1"
definition MANIFEST_FILE :: string where "MANIFEST_FILE = ''manifest.json''"
definition PATCH_FILE :: string where "PATCH_FILE = ''patch.diff''"
definition EVENTS_DIR :: string where "EVENTS_DIR = ''events''"
definition BACKUPS_DIR :: string where "BACKUPS_DIR = ''backups''"
definition WORKSPACE_LOCK_FILE :: string where "WORKSPACE_LOCK_FILE = ''apply.lock''"
definition OPTICCODE_DIR :: string where "OPTICCODE_DIR = ''.opticcode''"

datatype tx_state = Prepared | Applying | Applied | Finalizing | Committed | RollbackStarted | RolledBack
  | RollbackFailed

fun tx_state_str :: "tx_state \<Rightarrow> string" where
  "tx_state_str Prepared = ''prepared''"
| "tx_state_str Applying = ''applying''"
| "tx_state_str Applied = ''applied''"
| "tx_state_str Finalizing = ''finalizing''"
| "tx_state_str Committed = ''committed''"
| "tx_state_str RollbackStarted = ''rollback_started''"
| "tx_state_str RolledBack = ''rolled_back''"
| "tx_state_str RollbackFailed = ''rollback_failed''"

definition tx_is_terminal :: "tx_state \<Rightarrow> bool" where
  "tx_is_terminal s = (s = Committed \<or> s = RolledBack)"

datatype git_policy = RequireClean | AllowDirty | OptionalGit

record file_mutation =
  fm_path :: path
  fm_expected_before :: "string option"
  fm_desired_after :: "string option"

definition mutation_replace :: "path \<Rightarrow> string \<Rightarrow> string \<Rightarrow> file_mutation" where
  "mutation_replace p before after = \<lparr>fm_path = p, fm_expected_before = Some before, fm_desired_after = Some after\<rparr>"

definition mutation_create :: "path \<Rightarrow> string \<Rightarrow> file_mutation" where
  "mutation_create p after = \<lparr>fm_path = p, fm_expected_before = None, fm_desired_after = Some after\<rparr>"

definition mutation_delete :: "path \<Rightarrow> string \<Rightarrow> file_mutation" where
  "mutation_delete p before = \<lparr>fm_path = p, fm_expected_before = Some before, fm_desired_after = None\<rparr>"

record tx_request =
  tr_workspace :: path
  tr_patch :: string
  tr_mutations :: "file_mutation list"
  tr_git_policy :: git_policy
  tr_copied_from :: "path option"
  tr_requested_id :: "string option"

definition tx_request_new :: "path \<Rightarrow> string \<Rightarrow> file_mutation list \<Rightarrow> tx_request" where
  "tx_request_new workspace patch mutations = \<lparr>tr_workspace = workspace, tr_patch = patch,
     tr_mutations = mutations, tr_git_policy = RequireClean, tr_copied_from = None, tr_requested_id = None\<rparr>"

definition with_git_policy :: "git_policy \<Rightarrow> tx_request \<Rightarrow> tx_request" where
  "with_git_policy p r = r\<lparr>tr_git_policy := p\<rparr>"

definition with_copied_from :: "path \<Rightarrow> tx_request \<Rightarrow> tx_request" where
  "with_copied_from p r = r\<lparr>tr_copied_from := Some p\<rparr>"

definition with_transaction_id :: "string \<Rightarrow> tx_request \<Rightarrow> tx_request" where
  "with_transaction_id i r = r\<lparr>tr_requested_id := Some i\<rparr>"

record tx_validation =
  tv_git_policy :: git_policy
  tv_git_captured :: bool
  tv_git_clean :: bool
  tv_pre_existing_changes :: nat
  tv_expected_contents_verified :: bool

record tx_file =
  tf_path :: string
  tf_existed_before :: bool
  tf_before_hash :: "string option"
  tf_before_bytes :: nat
  tf_after_hash :: "string option"
  tf_after_bytes :: nat
  tf_backup_path :: "string option"
  tf_readonly :: "bool option"
  tf_unix_mode :: "32 word option"

record tx_manifest =
  tm_schema_version :: nat
  tm_transaction_id :: string
  tm_workspace :: string
  tm_copied_from :: "string option"
  tm_created_at_unix_ms :: nat
  tm_patch_hash :: string
  tm_patch_path :: string
  tm_files :: "tx_file list"
  tm_validation :: tx_validation
  tm_git_before :: "git_snapshot option"

record tx_event =
  te_schema_version :: nat
  te_transaction_id :: string
  te_sequence :: nat
  te_recorded_at_unix_ms :: nat
  te_state :: tx_state
  te_message :: string
  te_files :: "string list"
  te_errors :: "string list"
  te_elapsed_ms :: nat
  te_git_snapshot :: "git_snapshot option"

record tx_result =
  xr_schema_version :: nat
  xr_transaction_id :: string
  xr_workspace :: string
  xr_operation_success :: bool
  xr_final_state :: tx_state
  xr_rollback_attempted :: bool
  xr_rollback_success :: "bool option"
  xr_planned_files :: "string list"
  xr_modified_files :: "string list"
  xr_restored_files :: "string list"
  xr_errors :: "string list"
  xr_warnings :: "string list"
  xr_duration_ms :: nat
  xr_git_restored :: "bool option"
  xr_transaction_dir :: string

definition tx_committed :: "tx_result \<Rightarrow> bool" where
  "tx_committed r = (xr_operation_success r \<and> xr_final_state r = Committed)"

definition tx_rolled_back :: "tx_result \<Rightarrow> bool" where
  "tx_rolled_back r = (xr_final_state r = RolledBack \<and> xr_rollback_success r = Some True)"

definition tx_rollback_failed :: "tx_result \<Rightarrow> bool" where
  "tx_rollback_failed r = (xr_final_state r = RollbackFailed)"

record tx_inspection =
  ti_schema_version :: nat
  ti_transaction_id :: string
  ti_valid :: bool
  ti_legacy :: bool
  ti_manifest :: "tx_manifest option"
  ti_events :: "tx_event list"
  ti_final_state :: "tx_state option"
  ti_recoverable :: bool
  ti_recovery_reasons :: "string list"
  ti_errors :: "string list"

datatype fault_point = AfterFirstBackup | AfterPrepared | BeforeFirstTargetWrite | AfterTargetStaged
  | AfterFirstTargetWrite | AfterAllTargetWrites | BeforeFinalization | DuringFinalization
  | AtRollbackStarted | AfterFirstRestore

section \<open>The world of a transaction\<close>

text \<open>
  \<open>x_now_ns\<close> is the system time in nanoseconds since the epoch, negative before it, \<open>x_instant_ns\<close> the
  monotonic clock, \<open>x_unique\<close> the process-wide counter (a \<open>u64\<close>). Time passes between calls only.
\<close>

record tx_world =
  x_fs :: fs
  x_now_ns :: int
  x_instant_ns :: nat
  x_pid :: nat
  x_unique :: nat
  x_meta :: meta

type_synonym 'a tx = "(tx_world, tool_error, 'a) action"

datatype lock_answer = LockTaken | WouldBlock | LockError io_error

record tx_host =
  th_git :: git_host
  th_try_lock :: "path \<Rightarrow> lock_answer"
  th_manifest_json :: "tx_manifest \<Rightarrow> string"
  th_parse_manifest :: "string \<Rightarrow> tx_manifest option"
  th_event_json :: "tx_event \<Rightarrow> string"
  th_parse_event :: "string \<Rightarrow> tx_event option"

text \<open>
  The hook of the fault points: the code's trait object, which the production build instantiates by
  \<open>no_faults\<close>. It may fail, and it may change the world as a concurrent process would.
\<close>

type_synonym hooks = "fault_point \<Rightarrow> unit tx"

definition no_faults :: hooks where
  "no_faults p = act_return ()"

definition see :: "(fs \<Rightarrow> (tool_error, 'a) res) \<Rightarrow> 'a tx" where
  "see g w = (g (x_fs w), w)"

definition alter :: "(meta \<Rightarrow> fs \<Rightarrow> (tool_error, fs) res) \<Rightarrow> unit tx" where
  "alter g w = (case g (x_meta w) (x_fs w) of Inl e \<Rightarrow> (Inl e, w) | Inr f \<Rightarrow> (Inr (), w\<lparr>x_fs := f\<rparr>))"

definition with_context :: "string \<Rightarrow> ('s, tool_error, 'a) action \<Rightarrow> ('s, tool_error, 'a) action" where
  "with_context c m w = (case m w of (Inl e, w') \<Rightarrow> (Inl (Context c e), w') | (Inr a, w') \<Rightarrow> (Inr a, w'))"

definition tx_fail :: "apply_error_kind \<Rightarrow> string \<Rightarrow> ('s, tool_error, 'a) action" where
  "tx_fail k m = act_fail (Typed k m)"

lemma tx_act_simps [act_simps]:
  "see g w = (r, w') \<longleftrightarrow> r = g (x_fs w) \<and> w' = w"
  "alter k w = (Inr u, w') \<longleftrightarrow> (\<exists>f. k (x_meta w) (x_fs w) = Inr f \<and> w' = w\<lparr>x_fs := f\<rparr>)"
  "with_context c m w = (Inr a, w') \<longleftrightarrow> m w = (Inr a, w')"
  "tx_fail kd msg w = (r, w') \<longleftrightarrow> r = Inl (Typed kd msg) \<and> w' = w"
  by (auto simp: see_def alter_def with_context_def tx_fail_def act_fail_def split: sum.splits prod.splits)

definition next_unique :: "nat tx" where
  "next_unique w = (Inr (x_unique w), w\<lparr>x_unique := (x_unique w + 1) mod 2 ^ 64\<rparr>)"

definition before_epoch :: tool_error where
  "before_epoch = Context ''system time should be after Unix epoch'' (Message ''second time provided was later than self'')"

definition unix_time_ms :: "nat tx" where
  "unix_time_ms w = (if x_now_ns w < 0 then (Inl before_epoch, w)
     else let ms = nat (x_now_ns w) div 1000000 in
       if ms > u64_max then (Inl (Context ''system timestamp does not fit in u64''
         (Message ''out of range integral type conversion attempted'')), w)
       else (Inr ms, w))"

definition unix_time_nanos :: "nat tx" where
  "unix_time_nanos w = (if x_now_ns w < 0 then (Inl before_epoch, w) else (Inr (nat (x_now_ns w)), w))"

definition elapsed_ms :: "nat \<Rightarrow> tx_world \<Rightarrow> nat" where
  "elapsed_ms started w = min ((x_instant_ns w - started) div 1000000) u64_max"

definition fingerprint_bytes :: "tx_host \<Rightarrow> string \<Rightarrow> string" where
  "fingerprint_bytes h b = ''blake3:'' @ dec_of_nat (length b) @ '':'' @ gh_blake3 (th_git h) b"

end
