(* ===== verification/TxFiles.thy ===== *)
theory TxFiles
  imports TxModel
begin

text \<open>
  How a transaction names, reads and replaces files (\<open>apply_transaction.rs\<close>): relative paths, the
  location check of a target, checked atomic replacement through a temporary file, permissions, and the
  artifacts of the transaction directory.
\<close>

unbundle bit_operations_syntax

section \<open>More of the file system\<close>

text \<open>Opening a directory and flushing it; the two calls fail alike.\<close>

definition fs_sync_dir :: "fs \<Rightarrow> path \<Rightarrow> (io_error, unit) res" where
  "fs_sync_dir f p = try_then (resolve f p True) (\<lambda>l. try_then (lookup f l) (\<lambda>_.
     case fs_sfault f l of Some e \<Rightarrow> Inl e | None \<Rightarrow> Inr ()))"

definition set_node_mode :: "32 word \<Rightarrow> node \<Rightarrow> node" where
  "set_node_mode mode n = (case n of
      FileNode m c \<Rightarrow> FileNode (m\<lparr>m_mode := mode\<rparr>) c
    | DirNode m \<Rightarrow> DirNode (m\<lparr>m_mode := mode\<rparr>)
    | LinkNode m t \<Rightarrow> LinkNode (m\<lparr>m_mode := mode\<rparr>) t
    | SpecialNode m \<Rightarrow> SpecialNode (m\<lparr>m_mode := mode\<rparr>))"

text \<open>\<open>chmod\<close> takes the permission bits of its argument and keeps the type bits of the file.\<close>

definition chmod_bits :: "32 word \<Rightarrow> 32 word \<Rightarrow> 32 word" where
  "chmod_bits old new = (old AND NOT 0xFFF) OR (new AND 0xFFF)"

definition set_permissions :: "fs \<Rightarrow> path \<Rightarrow> 32 word \<Rightarrow> (io_error, fs) res" where
  "set_permissions f p mode =
    try_then (resolve f p True) (\<lambda>l. try_then (lookup f l) (\<lambda>n. try_then (write_guard f l) (\<lambda>_.
    Inr (fs_put l (set_node_mode (chmod_bits (m_mode (node_meta n)) mode) n) f))))"

definition node_readonly :: "node \<Rightarrow> bool" where
  "node_readonly n = (m_mode (node_meta n) AND 0x92 = 0)"

definition set_readonly :: "bool \<Rightarrow> 32 word \<Rightarrow> 32 word" where
  "set_readonly readonly mode = (if readonly then mode AND NOT 0x92 else mode OR 0x92)"

text \<open>\<open>OpenOptions\<close> with \<open>create\<close> and \<open>append\<close>, and writing.\<close>

definition open_append :: "fs \<Rightarrow> path \<Rightarrow> meta \<Rightarrow> string \<Rightarrow> (io_error, fs) res" where
  "open_append f p m bytes = (case resolve f p True of
      Inr l \<Rightarrow> try_then (lookup f l) (\<lambda>n. case n of
          FileNode m' c \<Rightarrow> try_then (write_guard f l) (\<lambda>_. Inr (fs_put l (FileNode m' (c @ bytes)) f))
        | DirNode _ \<Rightarrow> Inl IsADirectory
        | _ \<Rightarrow> Inl OtherIo)
    | Inl e \<Rightarrow> if e = NotFound then create_new f p m bytes else Inl e)"

section \<open>Paths\<close>

definition is_link_or_reparse :: "node \<Rightarrow> bool" where
  "is_link_or_reparse n = is_link_node n"

definition escaping :: "component \<Rightarrow> bool" where
  "escaping c = (c = ParentDir \<or> c = RootDir)"

definition validate_relative_path :: "path \<Rightarrow> (tool_error, path) res" where
  "validate_relative_path p =
    (if p = [] \<or> is_absolute p
     then Inl (Typed Precondition (''transaction path must be a non-empty relative path: '' @ p))
     else if list_ex escaping (components p)
     then Inl (Typed Precondition (''transaction path escapes its workspace: '' @ p))
     else let normalized = path_of (filter is_normal (components p)) in
       if normalized = [] \<or> list_ex (\<lambda>c. component_str c = OPTICCODE_DIR) (components normalized)
       then Inl (Typed Precondition (''transaction path is reserved or empty: '' @ p))
       else if \<not> utf8_valid normalized
       then Inl (Typed Precondition (''transaction path is not valid Unicode: '' @ p))
       else Inr normalized)"

definition path_to_portable_string :: "path \<Rightarrow> (tool_error, string) res" where
  "path_to_portable_string p =
    (if utf8_valid p then Inr (replace_char (CHR 0x5C) (CHR ''/'') p)
     else Inl (Typed Precondition (''path is not valid Unicode: '' @ p)))"

definition parent_missing :: "path \<Rightarrow> tool_error" where
  "parent_missing p = Typed Precondition (''transaction target parent must already exist: '' @ p)"

text \<open>The loop over the components of the relative path.\<close>

fun validate_components :: "fs \<Rightarrow> path \<Rightarrow> component list \<Rightarrow> (tool_error, unit) res" where
  "validate_components f current [] = Inr ()"
| "validate_components f current (c # cs) =
    (let current = path_join current (component_str c); is_target = (cs = []) in
     case symlink_metadata f current of
       Inr n \<Rightarrow>
         if is_link_or_reparse n
         then Inl (Typed Precondition (''transaction path contains a symlink or reparse point: '' @ current))
         else if (\<not> is_target \<and> \<not> is_dir_node n) \<or> (is_target \<and> \<not> is_file_node n)
         then Inl (Typed Precondition (''transaction path component has an invalid type: '' @ current))
         else validate_components f current cs
     | Inl e \<Rightarrow>
         if e = NotFound \<and> is_target then validate_components f current cs
         else if e = NotFound then Inl (parent_missing current)
         else Inl (Context (''failed to inspect transaction path: '' @ current) (IoCause e)))"

definition validate_target_location :: "fs \<Rightarrow> path \<Rightarrow> path \<Rightarrow> (tool_error, unit) res" where
  "validate_target_location f workspace relative =
    try_then (validate_relative_path relative) (\<lambda>relative.
    let target = path_join workspace relative in
    try_then (validate_components f workspace (components relative)) (\<lambda>_.
    try_then (ok_or (Typed Precondition (''transaction target has no parent: '' @ target)) (path_parent target)) (\<lambda>parent.
    if \<not> path_is_dir f parent then Inl (parent_missing parent)
    else try_then (map_err (\<lambda>e. Typed Precondition (''failed to resolve target parent '' @ parent @ '': '' @ io_text e))
        (canonicalize f parent)) (\<lambda>canonical_parent.
      ensure (path_starts_with canonical_parent workspace)
        (Typed Precondition (''transaction target escapes workspace: '' @ target))))))"

definition read_optional_regular_file :: "fs \<Rightarrow> path \<Rightarrow> (tool_error, string option) res" where
  "read_optional_regular_file f p = (case symlink_metadata f p of
      Inr n \<Rightarrow>
        if is_link_or_reparse n \<or> \<not> is_file_node n
        then Inl (Typed Precondition (''transaction path is not a regular file: '' @ p))
        else try_then (io_context (''failed to read transaction file: '' @ p) (fs_read f p)) (\<lambda>c. Inr (Some c))
    | Inl e \<Rightarrow>
        if e = NotFound then Inr None
        else Inl (Context (''failed to inspect transaction file: '' @ p) (IoCause e)))"

definition read_validated_target :: "fs \<Rightarrow> path \<Rightarrow> path \<Rightarrow> (tool_error, string option) res" where
  "read_validated_target f workspace relative =
    try_then (validate_target_location f workspace relative) (\<lambda>_.
    read_optional_regular_file f (path_join workspace relative))"

definition validate_transaction_id :: "string \<Rightarrow> (tool_error, unit) res" where
  "validate_transaction_id i =
    (if i = [] then Inl (Typed InvalidTransaction ''transaction id is empty'')
     else if length i > 160 then Inl (Typed InvalidTransaction ''transaction id is too long'')
     else ensure (list_all (\<lambda>c. is_ascii_alphanumeric c \<or> c = CHR ''-'' \<or> c = CHR ''_'') i)
       (Typed InvalidTransaction (''transaction id contains invalid characters: '' @ i)))"

definition transaction_run_dir :: "path \<Rightarrow> string \<Rightarrow> path" where
  "transaction_run_dir workspace i = path_join (path_join (path_join workspace OPTICCODE_DIR) ''runs'') i"

definition relative_transaction_dir :: "path \<Rightarrow> path \<Rightarrow> string" where
  "relative_transaction_dir workspace run_dir =
    (case strip_prefix run_dir workspace of Some p \<Rightarrow> p | None \<Rightarrow> run_dir)"

text \<open>One pass over the mutations, with the portable paths seen so far.\<close>

fun normalize_mutations ::
  "fs \<Rightarrow> path \<Rightarrow> string list \<Rightarrow> file_mutation list \<Rightarrow> (tool_error, file_mutation list) res" where
  "normalize_mutations f workspace seen [] = Inr []"
| "normalize_mutations f workspace seen (m # ms) =
    try_then (validate_relative_path (fm_path m)) (\<lambda>p.
    try_then (validate_target_location f workspace p) (\<lambda>_.
    try_then (path_to_portable_string p) (\<lambda>portable.
    if portable \<in> set seen then Inl (Typed Precondition (''duplicate transaction file: '' @ portable))
    else if fm_expected_before m = fm_desired_after m
    then Inl (Typed Precondition (''transaction mutation has no content change: '' @ portable))
    else try_then (normalize_mutations f workspace (portable # seen) ms) (\<lambda>rest.
      Inr (m\<lparr>fm_path := p\<rparr> # rest)))))"

definition validate_and_sort_mutations ::
  "fs \<Rightarrow> path \<Rightarrow> file_mutation list \<Rightarrow> (tool_error, file_mutation list) res" where
  "validate_and_sort_mutations f workspace ms =
    try_then (normalize_mutations f workspace [] ms) (\<lambda>ms. Inr (sort_key (\<lambda>m. components (fm_path m)) ms))"

section \<open>Writing\<close>

definition sync_directory :: "path \<Rightarrow> unit tx" where
  "sync_directory p = see (\<lambda>f. io_context (''failed to sync directory: '' @ p) (fs_sync_dir f p))"

definition sync_parent_directory :: "path \<Rightarrow> unit tx" where
  "sync_parent_directory p = (case path_parent p of None \<Rightarrow> act_return () | Some q \<Rightarrow> sync_directory q)"

definition write_synced_file :: "path \<Rightarrow> string \<Rightarrow> unit tx" where
  "write_synced_file p bytes =
    act_then (alter (\<lambda>m f. io_context (''failed to create temporary file: '' @ p) (create_new f p m bytes))) (\<lambda>_.
    see (\<lambda>f. io_context (''failed to sync temporary file: '' @ p) (sync_all f p)))"

definition unique_temp_path :: "path \<Rightarrow> string \<Rightarrow> path tx" where
  "unique_temp_path parent label w =
    act_then next_unique (\<lambda>counter.
      act_return (path_join parent (''.opticcode-'' @ label @ ''-'' @ dec_of_nat (x_pid w) @ ''-''
        @ dec_of_nat counter @ ''.tmp''))) w"

text \<open>\<open>let _ = fs::remove_file(..)\<close>: the result is ignored.\<close>

definition remove_quietly :: "path \<Rightarrow> unit tx" where
  "remove_quietly p w = (Inr (), (case remove_file (x_fs w) p of Inl _ \<Rightarrow> w | Inr f \<Rightarrow> w\<lparr>x_fs := f\<rparr>))"

text \<open>Publishing a temporary file: on failure it is removed and the error gets a context.\<close>

definition publish :: "path \<Rightarrow> path \<Rightarrow> string \<Rightarrow> unit tx" where
  "publish temp p ctx = act_try (alter (\<lambda>m f. map_err IoCause (rename_file f temp p))) (\<lambda>r. case r of
      Inr _ \<Rightarrow> act_return ()
    | Inl e \<Rightarrow> act_then (remove_quietly temp) (\<lambda>_. act_fail (Context ctx e)))"

definition write_new_atomic :: "path \<Rightarrow> string \<Rightarrow> unit tx" where
  "write_new_atomic p bytes =
    act_then (see (\<lambda>f. ensure (\<not> path_exists f p)
      (Typed Collision (''refusing to overwrite existing transaction artifact: '' @ p)))) (\<lambda>_.
    act_then (act_res (ok_or (Typed IoKind (''transaction artifact has no parent: '' @ p)) (path_parent p))) (\<lambda>parent.
    act_then (unique_temp_path parent (case file_name p of Some n \<Rightarrow> n | None \<Rightarrow> ''artifact'')) (\<lambda>temp.
    act_then (write_synced_file temp bytes) (\<lambda>_.
    act_then (publish temp p (''failed to publish transaction artifact '' @ p)) (\<lambda>_.
    sync_directory parent)))))"

definition staged_check :: "hooks option \<Rightarrow> path \<Rightarrow> unit tx" where
  "staged_check faults temp = (case faults of
      None \<Rightarrow> act_return ()
    | Some hook \<Rightarrow> act_try (hook AfterTargetStaged) (\<lambda>r. case r of
        Inr _ \<Rightarrow> act_return ()
      | Inl e \<Rightarrow> act_then (remove_quietly temp) (\<lambda>_. act_fail e)))"

text \<open>The last look at the target and the rename over it.\<close>

definition swap_target :: "path \<Rightarrow> path \<Rightarrow> path \<Rightarrow> path \<Rightarrow> string option \<Rightarrow> unit tx" where
  "swap_target workspace relative temp parent expected_current =
    (let p = path_join workspace relative in
     act_try (see (\<lambda>f. read_validated_target f workspace relative)) (\<lambda>r. case r of
      Inl e \<Rightarrow> act_then (remove_quietly temp) (\<lambda>_. act_fail e)
    | Inr current \<Rightarrow>
        if current \<noteq> expected_current
        then act_then (remove_quietly temp) (\<lambda>_.
          tx_fail Precondition (''concurrent file change detected after staging temporary content: '' @ relative))
        else
          act_then (publish temp p (''failed to replace '' @ p)) (\<lambda>_.
          sync_directory parent)))"

definition atomic_replace_bytes_checked ::
  "path \<Rightarrow> path \<Rightarrow> string \<Rightarrow> string option \<Rightarrow> hooks option \<Rightarrow> unit tx" where
  "atomic_replace_bytes_checked workspace relative bytes expected_current staged_faults =
    act_then (see (\<lambda>f. validate_target_location f workspace relative)) (\<lambda>_.
    let p = path_join workspace relative in
    act_then (act_res (ok_or (Typed IoKind (''target file has no parent: '' @ p)) (path_parent p))) (\<lambda>parent.
    act_then (unique_temp_path parent ''target'') (\<lambda>temp.
    act_then (write_synced_file temp bytes) (\<lambda>_.
    act_then (staged_check staged_faults temp) (\<lambda>_.
    swap_target workspace relative temp parent expected_current)))))"

definition restore_permissions :: "path \<Rightarrow> path \<Rightarrow> tx_file \<Rightarrow> unit tx" where
  "restore_permissions workspace relative rcd = (case tf_readonly rcd of
      None \<Rightarrow> act_return ()
    | Some readonly \<Rightarrow>
        act_then (see (\<lambda>f. validate_target_location f workspace relative)) (\<lambda>_.
        let p = path_join workspace relative in
        act_then (see (\<lambda>f. map_err IoCause (metadata f p))) (\<lambda>n.
        let mode = (case tf_unix_mode rcd of
            Some mode \<Rightarrow> mode | None \<Rightarrow> set_readonly readonly (m_mode (node_meta n))) in
        alter (\<lambda>_ f. io_context (''failed to restore permissions: '' @ p) (set_permissions f p mode)))))"

text \<open>Removing a target and flushing its directory.\<close>

definition remove_target :: "path \<Rightarrow> string \<Rightarrow> unit tx" where
  "remove_target p ctx =
    act_then (alter (\<lambda>_ f. io_context ctx (remove_file f p))) (\<lambda>_. sync_parent_directory p)"

section \<open>Applying and restoring one file\<close>

definition apply_mutation :: "hooks \<Rightarrow> path \<Rightarrow> file_mutation \<Rightarrow> tx_file \<Rightarrow> unit tx" where
  "apply_mutation hook workspace m rcd =
    (let target = path_join workspace (fm_path m) in
     act_then (see (\<lambda>f. read_validated_target f workspace (fm_path m))) (\<lambda>current.
     if current \<noteq> fm_expected_before m
     then tx_fail Precondition (''concurrent file change detected immediately before apply: '' @ fm_path m)
     else (case fm_desired_after m of
       Some bytes \<Rightarrow>
         act_then (with_context (''failed to atomically write target file: '' @ target)
           (atomic_replace_bytes_checked workspace (fm_path m) bytes (fm_expected_before m) (Some hook))) (\<lambda>_.
         act_then (restore_permissions workspace (fm_path m) rcd) (\<lambda>_.
         act_then (see (\<lambda>f. read_validated_target f workspace (fm_path m))) (\<lambda>actual.
         act_if (actual = Some bytes) (Typed IoKind (''target verification failed after write: '' @ target)))))
     | None \<Rightarrow>
         act_then (see (\<lambda>f. read_validated_target f workspace (fm_path m))) (\<lambda>latest.
         if latest \<noteq> fm_expected_before m
         then tx_fail Precondition (''concurrent file change detected immediately before delete: '' @ fm_path m)
         else
           act_then (remove_target target (''failed to delete target file: '' @ target)) (\<lambda>_.
           act_then (see (\<lambda>f. read_validated_target f workspace (fm_path m))) (\<lambda>left.
           act_if (left = None) (Typed IoKind (''delete target still exists: '' @ target))))))))"

text \<open>The bytes of the backup, checked against the recorded hash.\<close>

definition read_backup :: "tx_host \<Rightarrow> fs \<Rightarrow> path \<Rightarrow> tx_file \<Rightarrow> (tool_error, string \<times> string) res" where
  "read_backup h f run_dir rcd =
    try_then (ok_or (Typed InvalidTransaction (''backup path is missing for '' @ tf_path rcd)) (tf_backup_path rcd)) (\<lambda>b.
    try_then (validate_relative_path b) (\<lambda>b.
    let backup_path = path_join run_dir b in
    if \<not> path_starts_with backup_path run_dir
    then Inl (Typed InvalidTransaction (''backup escapes transaction directory: '' @ tf_path rcd))
    else
    try_then (io_context (''failed to read backup: '' @ backup_path) (fs_read f backup_path)) (\<lambda>bytes.
    try_then (ok_or (Typed InvalidTransaction (''backup hash is missing for '' @ tf_path rcd)) (tf_before_hash rcd)) (\<lambda>expected.
    if fingerprint_bytes h bytes \<noteq> expected
    then Inl (Typed InvalidTransaction (''backup hash mismatch for '' @ tf_path rcd))
    else Inr (bytes, expected)))))"

definition restore_transaction_file :: "tx_host \<Rightarrow> path \<Rightarrow> path \<Rightarrow> tx_file \<Rightarrow> unit tx" where
  "restore_transaction_file h workspace run_dir rcd =
    act_then (act_res (validate_relative_path (tf_path rcd))) (\<lambda>relative.
    let target = path_join workspace relative in
    act_then (see (\<lambda>f. read_validated_target f workspace relative)) (\<lambda>current.
    let current_hash = map_option (fingerprint_bytes h) current in
    if current_hash = tf_before_hash rcd
    then (if tf_existed_before rcd then restore_permissions workspace relative rcd else act_return ())
    else if current_hash \<noteq> tf_after_hash rcd
    then tx_fail Precondition (''refusing to overwrite a file changed outside the transaction: '' @ tf_path rcd)
    else if tf_existed_before rcd then
      act_then (see (\<lambda>f. read_backup h f run_dir rcd)) (\<lambda>(bytes, expected).
      act_then (with_context (''failed to restore target: '' @ target)
        (atomic_replace_bytes_checked workspace relative bytes current None)) (\<lambda>_.
      act_then (restore_permissions workspace relative rcd) (\<lambda>_.
      act_then (see (\<lambda>f. read_validated_target f workspace relative)) (\<lambda>restored.
      act_if (map_option (fingerprint_bytes h) restored = Some expected)
        (Typed IoKind (''restored file hash mismatch for '' @ tf_path rcd))))))
    else if current \<noteq> None then
      act_then (see (\<lambda>f. read_validated_target f workspace relative)) (\<lambda>latest.
      if latest \<noteq> current
      then tx_fail Precondition (''refusing to remove a transaction-created file changed concurrently: '' @ tf_path rcd)
      else remove_target target (''failed to remove transaction-created file: '' @ target))
    else act_return ()))"

end
