(* ===== verification/FsRegion.thy ===== *)
theory FsRegion
  imports TxFiles
begin

text \<open>
  Reasoning about code that changes files. \<open>moves S A f f'\<close> relates two file systems: directories stay
  directories, faults stay the same, well-formedness is kept, and each location keeps its node unless it is in
  the region \<open>S\<close> or stays a regular file (or absent) whose contents are the old ones or one of \<open>A\<close>.
  \<open>stays v D S A m\<close> says that the action \<open>m\<close> moves like that, whatever its result, from every state whose file system is
  well formed and has the directories \<open>D\<close>; the function \<open>v\<close> reads the file system out of the state.
\<close>

section \<open>Names and absolute paths\<close>

lemma path_of_snoc: "path_of (cs @ [c]) = path_join (path_of cs) (component_str c)"
  by (simp add: path_of_def)

lemma path_of_normals:
  assumes "\<forall>n \<in> set ns. valid_name n"
  shows "path_of (map Normal ns) = join_with sep ns"
  using assms
proof (induction ns rule: rev_induct)
  case (snoc n ns)
  have IH: "path_of (map Normal ns) = join_with sep ns"
    using snoc by simp
  have n: "\<not> is_absolute n" "n \<noteq> []"
    using snoc.prems by (auto simp: valid_name_relative valid_name_nonempty)
  show ?case
  proof (cases "ns = []")
    case True
    then show ?thesis
      using n by (simp add: path_of_def component_str_def path_join_def)
  next
    case False
    then have l: "valid_name (last ns)"
      using snoc.prems by simp
    then have "join_with sep ns \<noteq> []" "last (join_with sep ns) \<noteq> sep"
      using last_join_with [of ns sep] False valid_name_no_sep [OF l] valid_name_nonempty [OF l]
      by (auto dest: last_in_set)
    then show ?thesis
      using IH n False
      by (simp add: path_of_snoc component_str_def path_join_def join_with_snoc)
  qed
qed (simp add: path_of_def)

lemma path_of_abs:
  assumes "\<forall>n \<in> set ns. valid_name n"
  shows "path_of (RootDir # map Normal ns) = abs_path ns"
  using assms
proof (induction ns rule: rev_induct)
  case (snoc n ns)
  then show ?case
    using path_of_snoc [of "RootDir # map Normal ns" "Normal n"] path_join_abs_path [of ns n]
    by (simp add: component_str_def)
qed (simp add: path_of_def component_str_def path_join_def abs_path_def is_absolute_def sep_def)

lemma path_parent_abs_path:
  assumes "\<forall>n \<in> set ns. valid_name n" "valid_name n"
  shows "path_parent (abs_path (ns @ [n])) = Some (abs_path ns)"
  using components_abs_path [of "ns @ [n]"] assms path_of_abs [OF assms(1)]
  by (simp add: path_parent_def rev_map)

lemma path_join_names:
  assumes "\<forall>n \<in> set (l @ ns). valid_name n" "ns \<noteq> []"
  shows "path_join (abs_path l) (join_with sep ns) = abs_path (l @ ns)"
proof -
  have h: "\<not> is_absolute (join_with sep ns)"
  proof -
    have "valid_name (hd ns)"
      using assms by (cases ns) auto
    then have "hd ns \<noteq> []" "sep \<notin> set (hd ns)"
      by (auto simp: valid_name_nonempty valid_name_no_sep)
    then show ?thesis
      using assms(2) by (cases ns rule: list.exhaust; cases "hd ns"; cases "tl ns") (auto simp: is_absolute_iff)
  qed
  have "join_with sep (l @ ns) = join_with sep l @ sep # join_with sep ns" if "l \<noteq> []"
    using that assms(2)
  proof (induction l)
    case (Cons a l)
    then show ?case
      by (cases "l = []") (auto simp: join_with_Cons)
  qed simp
  then show ?thesis
    using h assms last_abs_path [of l]
    by (cases "l = []") (auto simp: path_join_def abs_path_def)
qed

lemma file_name_abs_path:
  assumes "\<forall>n \<in> set ns. valid_name n" "valid_name n"
  shows "file_name (abs_path (ns @ [n])) = Some n"
  using components_abs_path [of "ns @ [n]"] assms by (simp add: file_name_def rev_map)

text \<open>A relative path spelled by its names.\<close>

definition spells :: "path \<Rightarrow> string list \<Rightarrow> bool" where
  "spells p ns \<longleftrightarrow> ns \<noteq> [] \<and> (\<forall>n \<in> set ns. valid_name n) \<and> p = join_with sep ns"

lemma spellsD:
  assumes "spells p ns"
  shows "ns \<noteq> []" "\<forall>n \<in> set ns. valid_name n" "components p = map Normal ns"
    "\<forall>n \<in> set l. valid_name n \<Longrightarrow> path_join (abs_path l) p = abs_path (l @ ns)"
proof -
  show s: "ns \<noteq> []" "\<forall>n \<in> set ns. valid_name n"
    using assms by (auto simp: spells_def)
  have t: "tokens p = ns"
    using assms by (auto simp: spells_def tokens_join valid_name_no_sep)
  have "hd ns \<noteq> ''.''" "hd ns \<noteq> []"
    using s by (cases ns; auto simp: valid_name_def junk_def)+
  moreover have "\<not> is_absolute p"
    using t \<open>hd ns \<noteq> []\<close> by (auto simp: is_absolute_iff tokens_def)
  ultimately show "components p = map Normal ns"
    using t s by (simp add: components_def body_valid)
  show "path_join (abs_path l) p = abs_path (l @ ns)" if "\<forall>n \<in> set l. valid_name n"
    using assms that path_join_names [of l ns] by (auto simp: spells_def)
qed

lemma spells_inj: "spells p ns \<Longrightarrow> spells p ms \<Longrightarrow> ns = ms"
  using spellsD(3) by (metis component.inject injI map_injective)

text \<open>The names a path goes through, and the location it names below \<open>l\<close>.\<close>

definition names_of :: "path \<Rightarrow> string list" where
  "names_of p = map normal_name (filter is_normal (components p))"

definition located :: "location \<Rightarrow> path \<Rightarrow> location" where
  "located l p = l @ names_of p"

lemma names_of_spells: "spells p ns \<Longrightarrow> names_of p = ns"
  using spellsD(3) [of p ns] by (simp add: names_of_def is_normal_def comp_def filter_map)

lemma validate_relative_path_names:
  assumes "validate_relative_path p = Inr q"
  shows "spells q (names_of p)" "OPTICCODE_DIR \<notin> set (names_of p)" "utf8_valid q"
proof -
  let ?cs = "filter is_normal (components p)"
  have q: "q = path_of ?cs" "q \<noteq> []" "\<not> list_ex (\<lambda>c. component_str c = OPTICCODE_DIR) (components q)" "utf8_valid q"
    using assms by (auto simp: validate_relative_path_def Let_def split: if_splits)
  define ns where "ns = names_of p"
  have norm: "c = Normal (normal_name c) \<and> valid_name (normal_name c)" if "c \<in> set ?cs" for c
  proof -
    have "is_normal c" "c \<in> set (components p)"
      using that by auto
    then obtain t where t: "t \<in> set (tokens p)" "\<not> junk t" "c = component_of t"
      by (auto simp: components_def is_normal_def dest!: body_mem split: if_splits component.splits)
    then show ?thesis
      using \<open>is_normal c\<close> tokens_no_sep [OF t(1)]
      by (auto simp: component_of_def is_normal_def valid_name_def split: if_splits)
  qed
  then have cs: "?cs = map Normal ns"
    unfolding ns_def names_of_def map_map comp_def by (intro map_idI [symmetric]) metis
  have v: "\<forall>n \<in> set ns. valid_name n"
    using norm by (auto simp: ns_def names_of_def)
  have "ns \<noteq> []"
    using q(1,2) cs by (auto simp: path_of_def)
  then have s: "spells q ns"
    using q(1) cs path_of_normals [OF v] v by (simp add: spells_def)
  moreover have "OPTICCODE_DIR \<notin> set ns"
    using q(3) spellsD(3) [OF s] by (auto simp: list_ex_iff component_str_def)
  ultimately show "spells q (names_of p)" "OPTICCODE_DIR \<notin> set (names_of p)" "utf8_valid q"
    using q(4) by (simp_all add: ns_def)
qed

lemma validate_relative_path_spells:
  assumes "spells q ns" "OPTICCODE_DIR \<notin> set ns" "utf8_valid q"
  shows "validate_relative_path q = Inr q"
proof -
  note s = spellsD [OF assms(1)]
  have "\<not> is_absolute q" "q \<noteq> []"
    using s(1,3) by (auto simp: components_def body_Cons split: if_splits)
  moreover have "filter is_normal (components q) = components q" "\<not> list_ex escaping (components q)"
    using s(3) by (auto simp: is_normal_def escaping_def list_ex_iff intro!: filter_True)
  moreover have "path_of (components q) = q"
    using assms(1) s path_of_normals by (simp add: spells_def)
  ultimately show ?thesis
    using assms(2,3) s(3) by (auto simp: validate_relative_path_def Let_def list_ex_iff component_str_def)
qed

section \<open>Moving between file systems\<close>

definition regular_at :: "fs \<Rightarrow> location \<Rightarrow> bool" where
  "regular_at f l = (case fs_nodes f l of None \<Rightarrow> True | Some n \<Rightarrow> is_file_node n)"

definition content_at :: "fs \<Rightarrow> location \<Rightarrow> string option" where
  "content_at f l = (case fs_nodes f l of Some (FileNode _ c) \<Rightarrow> Some c | _ \<Rightarrow> None)"

text \<open>A fault is a failure of the device or of permissions, not a file reported missing.\<close>

definition honest_faults :: "fs \<Rightarrow> bool" where
  "honest_faults f \<longleftrightarrow> (\<forall>l. fs_fault f l \<noteq> Some NotFound)"

definition ready :: "location set \<Rightarrow> fs \<Rightarrow> bool" where
  "ready D f \<longleftrightarrow> wf_fs f \<and> honest_faults f \<and> (\<forall>d \<in> D. is_dir_at f d)"

definition moves :: "location set \<Rightarrow> (location \<Rightarrow> string option set) \<Rightarrow> fs \<Rightarrow> fs \<Rightarrow> bool" where
  "moves S A f f' \<longleftrightarrow>
    fs_fault f' = fs_fault f \<and> (wf_fs f \<longrightarrow> wf_fs f') \<and> (\<forall>d. is_dir_at f d \<longrightarrow> is_dir_at f' d)
    \<and> (\<forall>l. l \<in> S \<or> fs_nodes f' l = fs_nodes f l
         \<or> (regular_at f l \<and> regular_at f' l \<and> content_at f' l \<in> insert (content_at f l) (A l)))"

definition stays :: "('s \<Rightarrow> fs) \<Rightarrow> location set \<Rightarrow> location set \<Rightarrow> (location \<Rightarrow> string option set) \<Rightarrow>
   ('s, 'e, 'a) action \<Rightarrow> bool" where
  "stays v D S A m \<longleftrightarrow> (\<forall>s. ready D (v s) \<longrightarrow> moves S A (v s) (v (snd (m s))))"

lemma moves_refl [simp]: "moves S A f f"
  by (simp add: moves_def)

lemma content_at_nodes: "fs_nodes f' l = fs_nodes f l \<Longrightarrow> content_at f' l = content_at f l"
  by (simp add: content_at_def)

lemma regular_at_nodes: "fs_nodes f' l = fs_nodes f l \<Longrightarrow> regular_at f' l = regular_at f l"
  by (simp add: regular_at_def)

lemma moves_trans:
  assumes "moves S A f f'" "moves S A f' f''"
  shows "moves S A f f''"
proof -
  have "l \<in> S \<or> fs_nodes f'' l = fs_nodes f l
      \<or> (regular_at f l \<and> regular_at f'' l \<and> content_at f'' l \<in> insert (content_at f l) (A l))" for l
  proof -
    have a: "l \<in> S \<or> fs_nodes f' l = fs_nodes f l
        \<or> (regular_at f l \<and> regular_at f' l \<and> content_at f' l \<in> insert (content_at f l) (A l))"
      using assms(1) by (simp add: moves_def)
    have b: "l \<in> S \<or> fs_nodes f'' l = fs_nodes f' l
        \<or> (regular_at f' l \<and> regular_at f'' l \<and> content_at f'' l \<in> insert (content_at f' l) (A l))"
      using assms(2) by (simp add: moves_def)
    show ?thesis
      using a b content_at_nodes [of f' l f] content_at_nodes [of f'' l f'] regular_at_nodes [of f' l f]
        regular_at_nodes [of f'' l f'] by auto
  qed
  then show ?thesis
    using assms by (simp add: moves_def)
qed

lemma moves_mono: "moves S A f f' \<Longrightarrow> S \<subseteq> S' \<Longrightarrow> (\<And>l. A l \<subseteq> A' l) \<Longrightarrow> moves S' A' f f'"
  unfolding moves_def by (meson insert_mono subsetD)

lemma moves_content:
  assumes "moves S A f f'" "l \<notin> S"
  shows "content_at f' l \<in> insert (content_at f l) (A l)" "regular_at f l \<Longrightarrow> regular_at f' l"
  using assms content_at_nodes [of f' l f] regular_at_nodes [of f' l f] unfolding moves_def by auto

lemma ready_moves: "ready D f \<Longrightarrow> moves S A f f' \<Longrightarrow> ready D f'"
  by (auto simp: ready_def moves_def honest_faults_def)

lemma ready_mono: "ready D f \<Longrightarrow> D' \<subseteq> D \<Longrightarrow> ready D' f"
  by (auto simp: ready_def)

lemma staysD: "stays v D S A m \<Longrightarrow> ready D (v s) \<Longrightarrow> m s = (r, s') \<Longrightarrow> moves S A (v s) (v s')"
  unfolding stays_def by (metis snd_conv)

text \<open>
  The rules of the combinators hold for every preorder on states that keeps a precondition: the locale
  states that contract once, and the file-system relation is an instance of it.
\<close>

locale kept_relation =
  fixes P :: "'s \<Rightarrow> bool" and R :: "'s \<Rightarrow> 's \<Rightarrow> bool"
  assumes R_refl: "R s s"
    and R_trans: "R s t \<Longrightarrow> R t u \<Longrightarrow> R s u"
    and P_kept: "P s \<Longrightarrow> R s t \<Longrightarrow> P t"
begin

lemma rel_then:
  assumes "\<forall>s. P s \<longrightarrow> R s (snd (m s))"
    and "\<And>s a t. P s \<Longrightarrow> m s = (Inr a, t) \<Longrightarrow> P t \<Longrightarrow> R t (snd (k a t))"
    and "P s"
  shows "R s (snd (act_then m k s))"
proof -
  obtain r t where m: "m s = (r, t)"
    by (cases "m s")
  then have t: "R s t" "P t"
    using assms(1,3) P_kept by (metis snd_conv)+
  show ?thesis
  proof (cases r)
    case (Inl e)
    then show ?thesis
      using m t by (simp add: act_then_def)
  next
    case (Inr a)
    then have "R t (snd (k a t))"
      using assms(2) [OF assms(3)] m t by simp
    then show ?thesis
      using m R_trans [OF t(1)] Inr by (simp add: act_then_def)
  qed
qed

lemma rel_try:
  assumes "\<forall>s. P s \<longrightarrow> R s (snd (m s))"
    and "\<And>s r t. P s \<Longrightarrow> m s = (r, t) \<Longrightarrow> P t \<Longrightarrow> R t (snd (k r t))"
    and "P s"
  shows "R s (snd (act_try m k s))"
proof -
  obtain r t where m: "m s = (r, t)"
    by (cases "m s")
  then have t: "R s t" "P t"
    using assms(1,3) P_kept by (metis snd_conv)+
  then have "R t (snd (k r t))"
    using assms(2) [OF assms(3)] m by simp
  then show ?thesis
    using m R_trans [OF t(1)] by (simp add: act_try_def)
qed

end

interpretation region: kept_relation "\<lambda>s. ready D (v s)" "\<lambda>s t. moves S A (v s) (v t)" for v D S A
  by unfold_locales (auto intro: moves_trans ready_moves)

lemma stays_then_post:
  assumes "stays v D S A m" "\<And>s a t. ready D (v s) \<Longrightarrow> m s = (Inr a, t) \<Longrightarrow> ready D (v t) \<Longrightarrow>
      moves S A (v t) (v (snd (k a t)))"
  shows "stays v D S A (act_then m k)"
  using assms region.rel_then [where D = D and v = v and S = S and A = A and m = m and k = k]
  unfolding stays_def by blast

lemma stays_then:
  assumes "stays v D S A m" "\<And>a. stays v D S A (k a)"
  shows "stays v D S A (act_then m k)"
  using assms stays_then_post unfolding stays_def by blast

lemma stays_try:
  assumes "stays v D S A m" "\<And>r. stays v D S A (k r)"
  shows "stays v D S A (act_try m k)"
  using assms region.rel_try [where D = D and v = v and S = S and A = A and m = m and k = k]
  unfolding stays_def by blast

lemma stays_pure [simp]:
  "stays v D S A (act_return a)" "stays v D S A (act_fail e)" "stays v D S A (act_if ok e)"
  "stays v D S A (act_res x)" "stays x_fs D S A (see g)" "stays v D S A (tx_fail k msg)"
  "stays x_fs D S A next_unique" "stays x_fs D S A unix_time_ms" "stays x_fs D S A unix_time_nanos"
  by (auto simp: stays_def act_return_def act_fail_def act_if_def act_res_def see_def tx_fail_def
      next_unique_def unix_time_ms_def unix_time_nanos_def Let_def)

lemma stays_with_context [simp]: "stays v D S A (with_context c m) = stays v D S A m"
proof -
  have "snd (with_context c m s) = snd (m s)" for s
    by (auto simp: with_context_def split: prod.splits sum.splits)
  then show ?thesis
    by (simp add: stays_def)
qed

lemma stays_alter:
  assumes "\<And>m f f'. ready D f \<Longrightarrow> g m f = Inr f' \<Longrightarrow> moves S A f f'"
  shows "stays x_fs D S A (alter g)"
  using assms by (auto simp: stays_def alter_def split: sum.splits)

lemma stays_mono:
  assumes "stays v D S A m" "D \<subseteq> D'" "S \<subseteq> S'" "\<And>l. A l \<subseteq> A' l"
  shows "stays v D' S' A' m"
  using assms ready_mono [of D' _ D] moves_mono [of S A _ _ S' A'] unfolding stays_def by blast

section \<open>What the calls of the standard library change\<close>

lemma entry_at_Inr:
  assumes "entry_at f p = Inr l"
  obtains d n where "l = d @ [n]" "is_dir_at f d" "valid_name n"
  using assms by (auto simp: entry_at_def res_simps split: if_splits)

lemma moves_put:
  assumes "is_dir_at f d" "valid_name n" "\<not> is_dir_at f (d @ [n]) \<or> is_dir_node x"
    and "d @ [n] \<in> S \<or> (\<exists>m c. x = FileNode m c \<and> regular_at f (d @ [n]) \<and> Some c \<in> insert (content_at f (d @ [n])) (A (d @ [n])))"
  shows "moves S A f (fs_put (d @ [n]) x f)"
proof -
  have "is_dir_at (fs_put (d @ [n]) x f) k" if "is_dir_at f k" for k
    using that assms(3) by (cases x) (auto simp: is_dir_at_iff)
  moreover have "regular_at (fs_put (d @ [n]) x f) (d @ [n]) \<and> content_at (fs_put (d @ [n]) x f) (d @ [n]) = Some c"
    if "x = FileNode m c" for m c
    using that by (simp add: regular_at_def content_at_def)
  ultimately show ?thesis
    using assms wf_fs_put [of f d n x] by (auto simp: moves_def)
qed

lemma moves_del:
  assumes "\<not> is_dir_at f l"
    and "l \<in> S \<or> (regular_at f l \<and> None \<in> insert (content_at f l) (A l))"
  shows "moves S A f (fs_del l f)"
proof -
  have "is_dir_at (fs_del l f) k" if "is_dir_at f k" for k
    using that assms(1) by (auto simp: is_dir_at_iff)
  moreover have "regular_at (fs_del l f) l" "content_at (fs_del l f) l = None"
    by (simp_all add: regular_at_def content_at_def)
  ultimately show ?thesis
    using assms wf_fs_del [of f l] by (auto simp: moves_def)
qed

lemma not_dir_node: "fs_nodes f l = Some n \<Longrightarrow> \<not> is_dir_node n \<Longrightarrow> \<not> is_dir_at f l"
  by (cases n) (auto simp: is_dir_at_iff)

lemma create_new_moves:
  assumes "create_new f p m c = Inr f'" "entry_at f p = Inr l" "l \<in> S"
  shows "moves S A f f'"
proof -
  have f': "f' = fs_put l (FileNode m c) f" "fs_nodes f l = None"
    using assms(1,2) by (auto simp: create_new_def res_simps split: if_splits)
  obtain d n where "l = d @ [n]" "is_dir_at f d" "valid_name n"
    using entry_at_Inr [OF assms(2)] by metis
  then show ?thesis
    using f' assms(3) moves_put [of f d n "FileNode m c" S A] by (auto simp: is_dir_at_def)
qed

lemma create_dir_moves:
  assumes "create_dir f p m = Inr f'" "entry_at f p = Inr l" "l \<in> S"
  shows "moves S A f f'" "is_dir_at f' l"
proof -
  have f': "f' = fs_put l (DirNode m) f" "fs_nodes f l = None"
    using assms(1,2) by (auto simp: create_dir_def res_simps split: if_splits)
  obtain d n where "l = d @ [n]" "is_dir_at f d" "valid_name n"
    using entry_at_Inr [OF assms(2)] by metis
  then show "moves S A f f'" "is_dir_at f' l"
    using f' assms(3) moves_put [of f d n "DirNode m" S A] by (auto simp: is_dir_at_iff)
qed

lemma remove_file_moves:
  assumes "remove_file f p = Inr f'" "entry_at f p = Inr l"
    and "l \<in> S \<or> (regular_at f l \<and> None \<in> insert (content_at f l) (A l))"
  shows "moves S A f f'" "fs_nodes f' l = None"
proof -
  have "f' = fs_del l f" "\<not> is_dir_at f l"
    using assms(1,2) not_dir_node by (auto simp: remove_file_def res_simps split: option.splits if_splits)
  then show "moves S A f f'" "fs_nodes f' l = None"
    using moves_del [of f l S A] assms(3) by simp_all
qed

lemma rename_file_moves:
  assumes "rename_file f p q = Inr f'" "entry_at f p = Inr a" "entry_at f q = Inr b" "a \<in> S"
    and "fs_nodes f a = Some (FileNode m c)"
    and "b \<in> S \<or> (regular_at f b \<and> Some c \<in> insert (content_at f b) (A b))"
  shows "moves S A f f'"
proof (cases "a = b")
  case True
  then show ?thesis
    using assms(1-3) by (auto simp: rename_file_def res_simps split: option.splits if_splits)
next
  case False
  have f': "f' = fs_put b (FileNode m c) (fs_del a f)" "\<not> is_dir_at f b"
    using assms(1-3,5) False by (auto simp: rename_file_def res_simps split: option.splits if_splits)
  have a: "\<not> is_dir_at f a"
    using assms(5) by (simp add: is_dir_at_def)
  obtain d n where b: "b = d @ [n]" "is_dir_at f d" "valid_name n"
    using entry_at_Inr [OF assms(3)] by metis
  have "moves S A f (fs_del a f)"
    by (rule moves_del) (use a assms(4) in auto)
  moreover have "moves S A (fs_del a f) f'"
    unfolding f'(1) b(1)
  proof (rule moves_put)
    show "is_dir_at (fs_del a f) d"
      using a b(2) by (auto simp: is_dir_at_iff)
    show "\<not> is_dir_at (fs_del a f) (d @ [n]) \<or> is_dir_node (FileNode m c)"
      using f'(2) b(1) by (auto simp: is_dir_at_iff)
    show "d @ [n] \<in> S \<or> (\<exists>m' c'. FileNode m c = FileNode m' c' \<and> regular_at (fs_del a f) (d @ [n])
        \<and> Some c' \<in> insert (content_at (fs_del a f) (d @ [n])) (A (d @ [n])))"
      using assms(6) b(1) False by (auto simp: regular_at_def content_at_def)
  qed (use b in auto)
  ultimately show ?thesis
    by (rule moves_trans)
qed

lemma set_permissions_moves:
  assumes "set_permissions f p mode = Inr f'" "resolve f p True = Inr l" "wf_fs f" "regular_at f l"
  shows "moves S A f f'"
proof -
  obtain n where n: "fs_nodes f l = Some n" "f' = fs_put l (set_node_mode (chmod_bits (m_mode (node_meta n)) mode) n) f"
    using assms(1,2) by (auto simp: set_permissions_def res_simps lookup_Inr)
  then obtain m c where c: "n = FileNode m c"
    using assms(4) by (cases n) (auto simp: regular_at_def)
  have nl: "l \<noteq> []"
    using assms(3) n(1) c by (auto simp: wf_fs_def is_dir_at_def)
  then obtain d k where l: "l = d @ [k]"
    by (cases l rule: rev_cases) auto
  then show ?thesis
    using n c assms(3,4) moves_put [of f d k "set_node_mode (chmod_bits (m_mode (node_meta n)) mode) n" S A]
    by (auto simp: wf_fs_def set_node_mode_def content_at_def is_dir_at_def)
qed

section \<open>Where a spelled path leads\<close>

lemma dir_names: "wf_fs f \<Longrightarrow> is_dir_at f d \<Longrightarrow> \<forall>n \<in> set d. valid_name n"
  by (auto simp: is_dir_at_iff dest: wf_fs_names)

lemma dir_prefix:
  assumes "wf_fs f" "is_dir_at f d" "d = a @ b"
  shows "is_dir_at f a"
  using assms wf_fs_ancestor [of f a b] by (cases "b = []") (auto simp: is_dir_at_iff)

text \<open>Walking down directories stays on the way, or stops at a fault.\<close>

lemma walk_down:
  assumes "\<forall>n \<in> set ns. valid_name n" "\<forall>k \<le> length ns. is_dir_at f (cur @ take k ns)"
  shows "(\<forall>ts follow. walk fuel f cur (ns @ ts) follow = walk fuel f (cur @ ns) ts follow)
    \<or> (\<exists>l e. fs_fault f l = Some e \<and> (\<forall>ts follow. walk fuel f cur (ns @ ts) follow = Inl e))"
  using assms
proof (induction ns arbitrary: cur)
  case (Cons n ns)
  have here: "is_dir_at f cur" "is_dir_at f (cur @ [n])"
    using Cons.prems(2) by (auto dest: spec [of _ 0] spec [of _ 1])
  show ?case
  proof (cases "fs_fault f (cur @ [n])")
    case (Some e)
    then have "walk fuel f cur ((n # ns) @ ts) follow = Inl e" for ts follow
      using here Cons.prems(1) by (simp add: walk.simps(2) lookup_def valid_name_def)
    then show ?thesis
      using Some by blast
  next
    case None
    then obtain m where "lookup f (cur @ [n]) = Inr (DirNode m)"
      using here(2) by (auto simp: is_dir_at_iff lookup_Inr)
    then have "walk fuel f cur ((n # ns) @ ts) follow = walk fuel f (cur @ [n]) (ns @ ts) follow" for ts follow
      using here(1) Cons.prems(1) by (simp add: walk.simps(2) valid_name_def)
    moreover have "\<forall>k \<le> length ns. is_dir_at f ((cur @ [n]) @ take k ns)"
      using Cons.prems(2) by (auto dest: spec [of _ "Suc _"])
    ultimately show ?thesis
      using Cons.IH [of "cur @ [n]"] Cons.prems(1) by simp
  qed
qed simp

lemma walk_dir_uniform:
  assumes "wf_fs f" "is_dir_at f d"
  shows "(\<forall>ts follow. walk fuel f [] (d @ ts) follow = walk fuel f d ts follow)
    \<or> (\<exists>l e. fs_fault f l = Some e \<and> (\<forall>ts follow. walk fuel f [] (d @ ts) follow = Inl e))"
proof -
  have "is_dir_at f (take k d)" for k
    using dir_prefix [OF assms, of "take k d" "drop k d"] by simp
  then show ?thesis
    using walk_down [OF dir_names [OF assms], of f "[]" fuel] by simp
qed

lemma walk_dir:
  assumes "wf_fs f" "is_dir_at f d"
  shows "walk fuel f [] (d @ ts) follow = walk fuel f d ts follow
    \<or> (\<exists>l e. fs_fault f l = Some e \<and> walk fuel f [] (d @ ts) follow = Inl e)"
  using walk_dir_uniform [OF assms, of fuel] by metis

lemma entry_at_dir:
  assumes "wf_fs f" "is_dir_at f d" "valid_name n" "entry_at f (abs_path (d @ [n])) = Inr l"
  shows "l = d @ [n]"
proof -
  have t: "tokens (abs_path (d @ [n])) = [] # d @ [n]"
    using tokens_abs_path [of "d @ [n]"] dir_names [OF assms(1,2)] assms(3) by (auto simp: valid_name_no_sep)
  have root: "is_dir_at f []"
    using assms(1) by (simp add: wf_fs_def)
  obtain k where k: "walk max_links f [] ([] # d) True = Inr k" "l = k @ [n]"
    using assms(3,4) t by (auto simp: entry_at_def res_simps split: if_splits)
  then have "walk max_links f [] (d @ []) True = Inr k"
    using root by (simp add: walk.simps)
  then have "k = d"
    using walk_dir [OF assms(1,2), of max_links "[]" True] by (auto simp: walk.simps)
  then show ?thesis
    using k by simp
qed

lemma resolve_dir_entry:
  assumes "wf_fs f" "is_dir_at f d" "valid_name n" "\<forall>m t. fs_nodes f (d @ [n]) \<noteq> Some (LinkNode m t)"
    and "resolve f (abs_path (d @ [n])) True = Inr l"
  shows "l = d @ [n]"
  using resolve_spelled [OF assms(1,5) dir_names [OF assms(1,2)] assms(3,2)] assms(4) by blast

lemma resolve_dir:
  assumes "wf_fs f" "is_dir_at f d" "resolve f (abs_path d) True = Inr l"
  shows "l = d"
  using walk_dir [OF assms(1,2), of max_links "[]" True] assms resolve_abs_path [OF dir_names [OF assms(1,2)], of f True]
  by (auto simp: wf_fs_def walk.simps)

lemma symlink_metadata_absent:
  assumes "ready {d} f" "valid_name n" "symlink_metadata f (abs_path (d @ [n])) = Inl NotFound"
  shows "fs_nodes f (d @ [n]) = None"
proof -
  have f: "wf_fs f" "is_dir_at f d" "honest_faults f"
    using assms(1) by (auto simp: ready_def)
  have "walk max_links f [] (d @ [n]) False = walk max_links f d [n] False
    \<or> (\<exists>l e. fs_fault f l = Some e \<and> walk max_links f [] (d @ [n]) False = Inl e)"
    by (rule walk_dir [OF f(1,2)])
  moreover have "resolve f (abs_path (d @ [n])) False = walk max_links f [] (d @ [n]) False"
    using resolve_abs_path [of "d @ [n]" f False] dir_names [OF f(1,2)] assms(2) f(1) by (auto simp: wf_fs_def)
  ultimately show ?thesis
    using assms(2,3) f
    by (auto simp: symlink_metadata_def res_simps walk.simps valid_name_def honest_faults_def lookup_def
        split: option.splits node.splits if_splits)
qed

text \<open>
  An entry that does not show as a link is opened where it is spelled; one that cannot be inspected
  cannot be opened either.
\<close>

lemma resolve_unlinked:
  assumes "ready {d} f" "valid_name n" "\<forall>x. symlink_metadata f (abs_path (d @ [n])) = Inr x \<longrightarrow> \<not> is_link_node x"
    and "resolve f (abs_path (d @ [n])) True = Inr l"
  shows "l = d @ [n]"
proof -
  have f: "wf_fs f" "is_dir_at f d"
    using assms(1) by (auto simp: ready_def)
  have r: "resolve f (abs_path (d @ [n])) b = walk max_links f [] (d @ [n]) b" for b
    using resolve_abs_path [of "d @ [n]" f b] dir_names [OF f] assms(2) f(1) by (auto simp: wf_fs_def)
  then have step: "walk max_links f [] (d @ [n]) b = walk max_links f d [n] b" for b
    using walk_dir_uniform [OF f, of max_links] assms(4) by force
  have "fs_nodes f (d @ [n]) \<noteq> Some (LinkNode m t)" for m t
  proof
    assume node: "fs_nodes f (d @ [n]) = Some (LinkNode m t)"
    have "fs_fault f (d @ [n]) = None"
      using assms(2,4) r [of True] step [of True] f(2)
      by (auto simp: walk.simps lookup_def valid_name_def split: option.splits)
    then have "symlink_metadata f (abs_path (d @ [n])) = Inr (LinkNode m t)"
      using r [of False] step [of False] f(2) node assms(2)
      by (simp add: symlink_metadata_def walk.simps lookup_def valid_name_def res_simps)
    then show False
      using assms(3) by auto
  qed
  then show ?thesis
    using resolve_dir_entry [OF f assms(2)] assms(4) by blast
qed

lemma open_append_moves:
  assumes "ready {d} f" "valid_name n" "\<forall>x. symlink_metadata f (abs_path (d @ [n])) = Inr x \<longrightarrow> \<not> is_link_node x"
    and "d @ [n] \<in> S" "open_append f (abs_path (d @ [n])) m b = Inr f'"
  shows "moves S A f f'"
proof (cases "resolve f (abs_path (d @ [n])) True")
  case (Inl e)
  then have c: "create_new f (abs_path (d @ [n])) m b = Inr f'"
    using assms(5) by (auto simp: open_append_def split: if_splits)
  then obtain k where k: "entry_at f (abs_path (d @ [n])) = Inr k"
    by (auto simp: create_new_def res_simps)
  then have "k = d @ [n]"
    using entry_at_dir assms(1,2) by (auto simp: ready_def)
  then show ?thesis
    using create_new_moves [OF c k] assms(4) by simp
next
  case (Inr k)
  then have k: "k = d @ [n]"
    using resolve_unlinked [OF assms(1-3)] by blast
  obtain x where x: "fs_nodes f k = Some x"
    using assms(5) Inr by (auto simp: open_append_def res_simps lookup_Inr)
  obtain m' c where "x = FileNode m' c" "f' = fs_put k (FileNode m' (c @ b)) f"
    using assms(5) Inr x by (cases x) (auto simp: open_append_def res_simps lookup_Inr)
  then show ?thesis
    using moves_put [of f d n "FileNode m' (c @ b)" S A] assms(1,2,4) k x by (auto simp: ready_def is_dir_at_def)
qed

end
