(* ===== verification/TxSafety.thy ===== *)
theory TxSafety
  imports FsRegion
begin

text \<open>
  What the operations on one target change. \<open>scratch l\<close> are the locations a transaction in the workspace
  \<open>l\<close> uses for itself: its metadata directory and temporary files.
\<close>

definition scratch :: "location \<Rightarrow> location set" where
  "scratch l = {k. prefix (l @ [OPTICCODE_DIR]) k} \<union> {k. k \<noteq> [] \<and> starts_with (last k) ''.opticcode-''}"

definition plain :: "string list \<Rightarrow> bool" where
  "plain ns \<longleftrightarrow> ns \<noteq> [] \<and> OPTICCODE_DIR \<notin> set ns \<and> \<not> starts_with (last ns) ''.opticcode-''"

lemma plain_not_scratch: "plain ns \<Longrightarrow> l @ ns \<notin> scratch l"
  by (cases ns) (auto simp: plain_def scratch_def prefix_def)

lemma moves_act_then:
  assumes "moves S A (v s) (v (snd (m s)))"
    and "\<And>a t. m s = (Inr a, t) \<Longrightarrow> moves S A (v t) (v (snd (k a t)))"
  shows "moves S A (v s) (v (snd (act_then m k s)))"
proof (cases "m s")
  case (Pair r t)
  then show ?thesis
    using assms moves_trans [of S A "v s" "v t"] by (cases r) (auto simp: act_then_def)
qed

lemma moves_act_try:
  assumes "moves S A (v s) (v (snd (m s)))"
    and "\<And>r t. m s = (r, t) \<Longrightarrow> moves S A (v t) (v (snd (k r t)))"
  shows "moves S A (v s) (v (snd (act_try m k s)))"
proof (cases "m s")
  case (Pair r t)
  then show ?thesis
    using assms moves_trans [of S A "v s" "v t"] by (auto simp: act_try_def)
qed

lemma moves_see [simp]: "moves S A (x_fs w) (x_fs (snd (see g w)))"
  by (simp add: see_def)

lemma moves_pure [simp]:
  "moves S A (v w) (v (snd (act_return a w)))" "moves S A (v w) (v (snd (act_fail e w)))"
  "moves S A (v w) (v (snd (act_if ok e w)))" "moves S A (v w) (v (snd (act_res x w)))"
  "moves S A (v w) (v (snd (tx_fail k msg w)))"
  by (simp_all add: act_return_def act_fail_def act_if_def act_res_def tx_fail_def)

lemma moves_alter:
  assumes "\<And>f'. g (x_meta w) (x_fs w) = Inr f' \<Longrightarrow> moves S A (x_fs w) f'"
  shows "moves S A (x_fs w) (x_fs (snd (alter g w)))"
  using assms by (auto simp: alter_def split: sum.splits)

lemma snd_with_context [simp]: "snd (with_context c m w) = snd (m w)"
  by (auto simp: with_context_def split: prod.splits sum.splits)

section \<open>Reading a target\<close>

lemma validate_components_Inr:
  assumes "ready {l} f" "\<forall>n \<in> set ns. valid_name n" "ns \<noteq> []"
    and "validate_components f (abs_path l) (map Normal ns) = Inr u"
  shows "is_dir_at f (l @ butlast ns) \<and> regular_at f (l @ ns)"
  using assms
proof (induction ns arbitrary: l)
  case (Cons n ns)
  have f: "wf_fs f" "is_dir_at f l"
    using Cons.prems(1) by (auto simp: ready_def)
  note names = dir_names [OF f]
  have join: "path_join (abs_path l) (component_str (Normal n)) = abs_path (l @ [n])"
    using Cons.prems(2) names by (simp add: component_str_def path_join_abs_path)
  note step = Cons.prems(4) [unfolded list.map validate_components.simps join Let_def]
  show ?case
  proof (cases "symlink_metadata f (abs_path (l @ [n]))")
    case (Inl e)
    then have "ns = []" "e = NotFound"
      using step by (auto split: if_splits)
    then show ?thesis
      using symlink_metadata_absent [OF Cons.prems(1)] Inl Cons.prems(2) f by (simp add: regular_at_def)
  next
    case (Inr x)
    then have x: "fs_nodes f (l @ [n]) = Some x"
      using symlink_metadata_spelled [OF f(1) names _ f(2)] Cons.prems(2) by simp
    show ?thesis
    proof (cases "ns = []")
      case True
      then show ?thesis
        using step Inr x f by (auto simp: regular_at_def split: if_splits)
    next
      case False
      then have dir: "is_dir_at f (l @ [n])"
          and rec: "validate_components f (abs_path (l @ [n])) (map Normal ns) = Inr u"
        using step Inr x by (auto simp: is_dir_at_def is_dir_node_def split: if_splits node.splits)
      have "ready {l @ [n]} f"
        using Cons.prems(1) dir by (simp add: ready_def)
      then show ?thesis
        using Cons.IH [of "l @ [n]"] Cons.prems(2) rec False by simp
    qed
  qed
qed simp

lemma validate_relative_path_same:
  assumes "spells q ns" "validate_relative_path q = Inr p"
  shows "p = q"
proof -
  note s = spellsD [OF assms(1)]
  have "filter is_normal (components q) = components q"
    using s(3) by (auto simp: is_normal_def intro!: filter_True)
  then show ?thesis
    using assms s path_of_normals [OF s(2)]
    by (auto simp: validate_relative_path_def Let_def spells_def split: if_splits)
qed

lemma validate_target_location_Inr:
  assumes "ready {l} f" "spells q ns" "validate_target_location f (abs_path l) q = Inr u"
  shows "is_dir_at f (l @ butlast ns)" "regular_at f (l @ ns)"
proof -
  note s = spellsD [OF assms(2)]
  obtain p where "validate_relative_path q = Inr p" "validate_components f (abs_path l) (components p) = Inr ()"
    using assms(3) by (auto simp: validate_target_location_def Let_def res_simps)
  then have "validate_components f (abs_path l) (map Normal ns) = Inr ()"
    using validate_relative_path_same [OF assms(2)] s(3) by simp
  then show "is_dir_at f (l @ butlast ns)" "regular_at f (l @ ns)"
    using validate_components_Inr [OF assms(1) s(2,1)] by auto
qed

text \<open>The parent and the last name of a target.\<close>

lemma target_split:
  assumes "ready {l} f" "spells q ns"
  shows "l @ ns = (l @ butlast ns) @ [last ns]" "valid_name (last ns)"
    "path_join (abs_path l) q = abs_path ((l @ butlast ns) @ [last ns])"
    "\<forall>n \<in> set (l @ butlast ns). valid_name n"
    "path_parent (path_join (abs_path l) q) = Some (abs_path (l @ butlast ns))"
proof -
  note s = spellsD [OF assms(2)]
  have f: "wf_fs f" "is_dir_at f l"
    using assms(1) by (auto simp: ready_def)
  show e: "l @ ns = (l @ butlast ns) @ [last ns]"
    using s(1) by simp
  show v: "valid_name (last ns)"
    using s(1,2) by simp
  show j: "path_join (abs_path l) q = abs_path ((l @ butlast ns) @ [last ns])"
    using s(4) [OF dir_names [OF f]] e by simp
  show n: "\<forall>n \<in> set (l @ butlast ns). valid_name n"
    using dir_names [OF f] s(2) by (auto dest: in_set_butlastD)
  show "path_parent (path_join (abs_path l) q) = Some (abs_path (l @ butlast ns))"
    using path_parent_abs_path [OF n v] j by simp
qed

lemma read_optional_Inr:
  assumes "ready {d} f" "valid_name n" "read_optional_regular_file f (abs_path (d @ [n])) = Inr c"
  shows "regular_at f (d @ [n])" "content_at f (d @ [n]) = c"
proof -
  have f: "wf_fs f" "is_dir_at f d"
    using assms(1) by (auto simp: ready_def)
  have "regular_at f (d @ [n]) \<and> content_at f (d @ [n]) = c"
  proof (cases "symlink_metadata f (abs_path (d @ [n]))")
    case (Inl e)
    then have "e = NotFound" "c = None"
      using assms(3) by (auto simp: read_optional_regular_file_def split: if_splits)
    then show ?thesis
      using symlink_metadata_absent [OF assms(1,2)] Inl by (simp add: regular_at_def content_at_def)
  next
    case (Inr x)
    then have x: "fs_nodes f (d @ [n]) = Some x"
      using symlink_metadata_spelled [OF f(1) dir_names [OF f] assms(2) f(2)] by simp
    have reg: "is_file_node x" and r: "\<exists>b. fs_read f (abs_path (d @ [n])) = Inr b \<and> c = Some b"
      using assms(3) Inr by (auto simp: read_optional_regular_file_def io_context_def res_simps split: if_splits)
    then obtain m b where mb: "x = FileNode m b"
      by (cases x) auto
    have "\<forall>m t. fs_nodes f (d @ [n]) \<noteq> Some (LinkNode m t)"
      using x mb by simp
    then have "fs_read f (abs_path (d @ [n])) = Inr b' \<Longrightarrow> b' = b" for b'
      using resolve_dir_entry [OF f assms(2)] x mb
      by (fastforce simp: fs_read_def metadata_def res_simps lookup_Inr)
    then show ?thesis
      using r x mb by (auto simp: regular_at_def content_at_def)
  qed
  then show "regular_at f (d @ [n])" "content_at f (d @ [n]) = c"
    by auto
qed

lemma read_validated_target_Inr:
  assumes "ready {l} f" "spells q ns" "read_validated_target f (abs_path l) q = Inr c"
  shows "is_dir_at f (l @ butlast ns)" "regular_at f (l @ ns)" "content_at f (l @ ns) = c"
proof -
  have v: "validate_target_location f (abs_path l) q = Inr ()"
      and r: "read_optional_regular_file f (path_join (abs_path l) q) = Inr c"
    using assms(3) by (auto simp: read_validated_target_def res_simps)
  show d: "is_dir_at f (l @ butlast ns)" and "regular_at f (l @ ns)"
    using validate_target_location_Inr [OF assms(1,2) v] by auto
  note t = target_split [OF assms(1,2)]
  have "ready {l @ butlast ns} f"
    using assms(1) d by (simp add: ready_def)
  then show "content_at f (l @ ns) = c"
    using read_optional_Inr(2) [of "l @ butlast ns" f "last ns" c] r t by simp
qed

section \<open>Temporary files\<close>

lemma valid_nameI:
  assumes "starts_with n ''.opticcode-''" "sep \<notin> set n"
  shows "valid_name n"
proof -
  obtain s where "n = ''.opticcode-'' @ s"
    using assms(1) by (auto simp: starts_with_iff_prefix prefix_def)
  then show ?thesis
    using assms(2) by (simp add: valid_name_def junk_def)
qed

lemma dec_of_nat_no_sep: "sep \<notin> set (dec_of_nat n)"
  using dec_of_nat_digits [of sep n] by (auto simp: sep_def is_ascii_digit_def)

lemma unique_temp_path_ok:
  assumes "\<forall>n \<in> set d. valid_name n" "sep \<notin> set label"
    and "unique_temp_path (abs_path d) label w = (Inr temp, w')"
  obtains n where "temp = abs_path (d @ [n])" "valid_name n" "starts_with n ''.opticcode-''"
    "d @ [n] \<in> scratch l" "x_fs w' = x_fs w"
proof -
  let ?n = "''.opticcode-'' @ label @ ''-'' @ dec_of_nat (x_pid w) @ ''-'' @ dec_of_nat (x_unique w) @ ''.tmp''"
  have n: "starts_with ?n ''.opticcode-''" "sep \<notin> set ?n"
    using assms(2) dec_of_nat_no_sep by (simp_all add: starts_with_iff_prefix) (auto simp: sep_def)
  then have v: "valid_name ?n"
    by (rule valid_nameI)
  have "temp = abs_path (d @ [?n])" "x_fs w' = x_fs w"
    using assms(3) path_join_abs_path [OF assms(1) v]
    by (auto simp: unique_temp_path_def act_simps next_unique_def)
  then show thesis
    using that v n(1) by (simp add: scratch_def)
qed

lemma unique_temp_path_moves [simp]: "moves S A (x_fs w) (x_fs (snd (unique_temp_path d label w)))"
  by (simp add: unique_temp_path_def act_then_def next_unique_def act_return_def)

lemma write_synced_file_moves:
  assumes "ready {d} (x_fs w)" "valid_name n" "d @ [n] \<in> S"
  shows "moves S A (x_fs w) (x_fs (snd (write_synced_file (abs_path (d @ [n])) b w)))"
  unfolding write_synced_file_def
proof (rule moves_act_then)
  show "moves S A (x_fs w) (x_fs (snd (alter (\<lambda>m f. io_context
      (''failed to create temporary file: '' @ abs_path (d @ [n])) (create_new f (abs_path (d @ [n])) m b)) w)))"
  proof (rule moves_alter)
    fix f'
    assume "io_context (''failed to create temporary file: '' @ abs_path (d @ [n]))
        (create_new (x_fs w) (abs_path (d @ [n])) (x_meta w) b) = Inr f'"
    then have c: "create_new (x_fs w) (abs_path (d @ [n])) (x_meta w) b = Inr f'"
      by (simp add: io_context_def res_simps)
    then obtain k where k: "entry_at (x_fs w) (abs_path (d @ [n])) = Inr k"
      by (auto simp: create_new_def res_simps)
    then have "k = d @ [n]"
      using entry_at_dir [of "x_fs w" d n k] assms by (auto simp: ready_def)
    then show "moves S A (x_fs w) f'"
      using create_new_moves [OF c k] assms(3) by simp
  qed
qed simp

lemma write_synced_file_Inr:
  assumes "ready {d} (x_fs w)" "valid_name n" "write_synced_file (abs_path (d @ [n])) b w = (Inr u, w')"
  shows "fs_nodes (x_fs w') (d @ [n]) = Some (FileNode (x_meta w) b)" "fs_nodes (x_fs w) (d @ [n]) = None"
    "\<And>k. k \<noteq> d @ [n] \<Longrightarrow> fs_nodes (x_fs w') k = fs_nodes (x_fs w) k"
proof -
  obtain f' where c: "create_new (x_fs w) (abs_path (d @ [n])) (x_meta w) b = Inr f'" and w': "x_fs w' = f'"
    using assms(3) by (auto simp: write_synced_file_def act_simps io_context_def res_simps)
  then obtain k where k: "entry_at (x_fs w) (abs_path (d @ [n])) = Inr k"
    by (auto simp: create_new_def res_simps)
  then have "k = d @ [n]"
    using entry_at_dir [of "x_fs w" d n k] assms by (auto simp: ready_def)
  then have "f' = fs_put (d @ [n]) (FileNode (x_meta w) b) (x_fs w)" "fs_nodes (x_fs w) (d @ [n]) = None"
    using c k by (auto simp: create_new_def res_simps split: if_splits)
  then show "fs_nodes (x_fs w') (d @ [n]) = Some (FileNode (x_meta w) b)" "fs_nodes (x_fs w) (d @ [n]) = None"
    "\<And>k. k \<noteq> d @ [n] \<Longrightarrow> fs_nodes (x_fs w') k = fs_nodes (x_fs w) k"
    using w' by auto
qed

lemma remove_quietly_moves:
  assumes "ready {d} (x_fs w)" "valid_name n" "d @ [n] \<in> S"
  shows "moves S A (x_fs w) (x_fs (snd (remove_quietly (abs_path (d @ [n])) w)))"
proof (cases "remove_file (x_fs w) (abs_path (d @ [n]))")
  case (Inr f')
  then obtain k where k: "entry_at (x_fs w) (abs_path (d @ [n])) = Inr k"
    by (auto simp: remove_file_def res_simps)
  then have "k = d @ [n]"
    using entry_at_dir [of "x_fs w" d n k] assms by (auto simp: ready_def)
  then show ?thesis
    using remove_file_moves(1) [OF Inr k] assms(3) Inr by (simp add: remove_quietly_def)
qed (simp add: remove_quietly_def)

lemma remove_then_fail_moves:
  assumes "ready {d} (x_fs w)" "valid_name n" "d @ [n] \<in> S"
  shows "moves S A (x_fs w) (x_fs (snd (act_then (remove_quietly (abs_path (d @ [n]))) (\<lambda>_. act_fail e) w)))"
  by (rule moves_act_then, rule remove_quietly_moves [OF assms]) simp

lemma publish_moves:
  assumes "ready {d, e} (x_fs w)" "valid_name n" "valid_name k" "d @ [n] \<in> S"
    and "fs_nodes (x_fs w) (d @ [n]) = Some (FileNode m c)"
    and "e @ [k] \<in> S \<or> (regular_at (x_fs w) (e @ [k]) \<and> Some c \<in> insert (content_at (x_fs w) (e @ [k])) (A (e @ [k])))"
  shows "moves S A (x_fs w) (x_fs (snd (publish (abs_path (d @ [n])) (abs_path (e @ [k])) ctx w)))"
  unfolding publish_def
proof (rule moves_act_try)
  have f: "wf_fs (x_fs w)" "is_dir_at (x_fs w) d" "is_dir_at (x_fs w) e"
    using assms(1) by (auto simp: ready_def)
  show "moves S A (x_fs w) (x_fs (snd (alter (\<lambda>m f. map_err IoCause
      (rename_file f (abs_path (d @ [n])) (abs_path (e @ [k])))) w)))"
  proof (rule moves_alter)
    fix f'
    assume "map_err IoCause (rename_file (x_fs w) (abs_path (d @ [n])) (abs_path (e @ [k]))) = Inr f'"
    then have r: "rename_file (x_fs w) (abs_path (d @ [n])) (abs_path (e @ [k])) = Inr f'"
      by (simp add: res_simps)
    then obtain a b where ab: "entry_at (x_fs w) (abs_path (d @ [n])) = Inr a" "entry_at (x_fs w) (abs_path (e @ [k])) = Inr b"
      by (auto simp: rename_file_def res_simps)
    then have "a = d @ [n]" "b = e @ [k]"
      using entry_at_dir [OF f(1,2) assms(2)] entry_at_dir [OF f(1,3) assms(3)] by auto
    then show "moves S A (x_fs w) f'"
      using rename_file_moves [OF r ab] assms(4-6) by simp
  qed
next
  fix r t
  assume t: "alter (\<lambda>m f. map_err IoCause (rename_file f (abs_path (d @ [n])) (abs_path (e @ [k])))) w = (r, t)"
  show "moves S A (x_fs t) (x_fs (snd ((case r of Inl e \<Rightarrow> act_then (remove_quietly (abs_path (d @ [n])))
      (\<lambda>_. act_fail (Context ctx e)) | Inr x \<Rightarrow> act_return ()) t)))"
  proof (cases r)
    case (Inl e)
    then have "t = w"
      using t by (auto simp: alter_def split: sum.splits)
    moreover have "ready {d} (x_fs w)"
      using assms(1) ready_mono by blast
    ultimately show ?thesis
      using Inl remove_then_fail_moves [OF _ assms(2,4)] by simp
  qed simp
qed

lemma sync_moves [simp]:
  "moves S A (x_fs w) (x_fs (snd (sync_directory p w)))" "moves S A (x_fs w) (x_fs (snd (sync_parent_directory p w)))"
  by (simp_all add: sync_directory_def sync_parent_directory_def split: option.splits)

text \<open>Writing an artifact below the metadata directory touches nothing outside it.\<close>

lemma write_new_atomic_moves:
  assumes "ready {d} (x_fs w)" "valid_name n" "prefix (l @ [OPTICCODE_DIR]) d"
  shows "moves (scratch l) A (x_fs w) (x_fs (snd (write_new_atomic (abs_path (d @ [n])) b w)))"
proof -
  have names: "\<forall>n \<in> set d. valid_name n"
    using assms(1) dir_names by (auto simp: ready_def)
  have below: "d @ [k] \<in> scratch l" for k
    using assms(3) by (auto simp: scratch_def prefix_def)
  show ?thesis
    unfolding write_new_atomic_def path_parent_abs_path [OF names assms(2)] file_name_abs_path [OF names assms(2)]
      ok_or_simps option.case
  proof (intro moves_act_then, goal_cases)
    case (4 _ w1 p w2 temp w3)
    obtain k where k: "temp = abs_path (d @ [k])" "valid_name k" "x_fs w3 = x_fs w2"
      using unique_temp_path_ok [OF names valid_name_no_sep [OF assms(2)], of w2 temp w3 l] 4 by (auto simp: act_simps)
    have "ready {d} (x_fs w3)"
      using assms(1) 4 k(3) by (auto simp: act_simps)
    then show ?case
      using write_synced_file_moves [OF _ k(2) below] k(1) by simp
  next
    case (5 _ w1 p w2 temp w3 _ w4)
    obtain k where k: "temp = abs_path (d @ [k])" "valid_name k" "x_fs w3 = x_fs w2"
      using unique_temp_path_ok [OF names valid_name_no_sep [OF assms(2)], of w2 temp w3 l] 5 by (auto simp: act_simps)
    have r3: "ready {d} (x_fs w3)"
      using assms(1) 5 k(3) by (auto simp: act_simps)
    have r4: "ready {d} (x_fs w4)"
      using ready_moves [OF r3 write_synced_file_moves [OF r3 k(2) below, where A = A]] 5 k(1) by (metis snd_conv)
    have "fs_nodes (x_fs w4) (d @ [k]) = Some (FileNode (x_meta w3) b)"
      using write_synced_file_Inr(1) [OF r3 k(2)] 5 k(1) by simp
    then show ?case
      using publish_moves [of d d w4 k n "scratch l"] r4 k assms(2) below by simp
  qed simp_all
qed

section \<open>Replacing a target\<close>

text \<open>
  The environment of a hook: it may move inside a region \<open>E\<close> that holds neither the target nor anything the
  transaction uses for itself.
\<close>

definition unrelated :: "location \<Rightarrow> location set \<Rightarrow> location set \<Rightarrow> bool" where
  "unrelated l T E \<longleftrightarrow> E \<inter> scratch l = {} \<and> E \<inter> T = {}"

abbreviation quiet :: "location \<Rightarrow> location set \<Rightarrow> unit tx \<Rightarrow> bool" where
  "quiet l E m \<equiv> stays x_fs {l} E (\<lambda>_. {}) m"

definition only_at :: "location \<Rightarrow> string option set \<Rightarrow> location \<Rightarrow> string option set" where
  "only_at k C = (\<lambda>j. if j = k then C else {})"

lemma only_at_simps [simp]: "only_at k C k = C" "j \<noteq> k \<Longrightarrow> only_at k C j = {}"
  by (simp_all add: only_at_def)

lemma quiet_node:
  assumes "moves E (\<lambda>_. {}) f f'" "k \<notin> E" "fs_nodes f k = Some (FileNode m c)"
  shows "\<exists>m'. fs_nodes f' k = Some (FileNode m' c)"
proof -
  have "content_at f' k = Some c"
    using moves_content(1) [OF assms(1,2)] assms(3) by (simp add: content_at_def)
  then show ?thesis
    by (auto simp: content_at_def split: option.splits node.splits)
qed

lemma staged_check_moves:
  assumes "ready {l, d} (x_fs w)" "valid_name n" "d @ [n] \<in> scratch l"
    and "\<forall>hook. faults = Some hook \<longrightarrow> quiet l E (hook AfterTargetStaged)"
  shows "moves (scratch l \<union> E) A (x_fs w) (x_fs (snd (staged_check faults (abs_path (d @ [n])) w)))"
    "staged_check faults (abs_path (d @ [n])) w = (Inr u, w') \<Longrightarrow> moves E (\<lambda>_. {}) (x_fs w) (x_fs w')"
proof -
  show "moves (scratch l \<union> E) A (x_fs w) (x_fs (snd (staged_check faults (abs_path (d @ [n])) w)))"
  proof (cases faults)
    case (Some hook)
    obtain r t where h: "hook AfterTargetStaged w = (r, t)"
      by (cases "hook AfterTargetStaged w")
    have m: "moves E (\<lambda>_. {}) (x_fs w) (x_fs t)"
      using staysD [OF assms(4) [rule_format, OF Some] _ h] assms(1) ready_mono by blast
    have t: "ready {d} (x_fs t)"
      using ready_moves [OF assms(1) m] ready_mono by blast
    have "moves (scratch l \<union> E) A (x_fs w) (x_fs t)"
      using moves_mono [OF m, of "scratch l \<union> E" A] by simp
    moreover have "moves (scratch l \<union> E) A (x_fs t) (x_fs (snd ((case r of Inl e \<Rightarrow> act_then (remove_quietly (abs_path (d @ [n])))
        (\<lambda>_. act_fail e) | Inr x \<Rightarrow> act_return ()) t)))"
      using remove_then_fail_moves [OF t assms(2), of "scratch l \<union> E"] assms(3) by (cases r) auto
    ultimately show ?thesis
      using Some h moves_trans [of "scratch l \<union> E" A "x_fs w" "x_fs t"] by (cases r) (auto simp: staged_check_def act_try_def)
  qed (simp add: staged_check_def)
  show "moves E (\<lambda>_. {}) (x_fs w) (x_fs w')" if "staged_check faults (abs_path (d @ [n])) w = (Inr u, w')"
  proof (cases faults)
    case (Some hook)
    then have "hook AfterTargetStaged w = (Inr (), w')"
      using that by (auto simp: staged_check_def act_try_def act_simps split: prod.splits sum.splits)
    then show ?thesis
      using staysD [OF assms(4) [rule_format, OF Some]] assms(1) ready_mono by blast
  qed (use that in \<open>simp add: staged_check_def act_simps\<close>)
qed

text \<open>
  Checked replacement, whatever its result: the target has its old contents or the new ones, and
  nothing else changes outside the transaction's own files.
\<close>

lemma swap_target_moves:
  assumes ready: "ready {l, d} (x_fs w)" and spells: "spells q ns"
    and d: "l @ ns = d @ [k]" "valid_name k" "path_join (abs_path l) q = abs_path (d @ [k])"
    and n: "valid_name n" "d @ [n] \<in> S" "fs_nodes (x_fs w) (d @ [n]) = Some (FileNode m bytes)"
  shows "moves S (only_at (l @ ns) {Some bytes}) (x_fs w)
    (x_fs (snd (swap_target (abs_path l) q (abs_path (d @ [n])) parent expected w)))"
  unfolding swap_target_def Let_def
proof (rule moves_act_try)
  let ?A = "only_at (l @ ns) {Some bytes}" and ?temp = "abs_path (d @ [n])"
  fix r w'
  assume see: "see (\<lambda>f. read_validated_target f (abs_path l) q) w = (r, w')"
  then have w': "w' = w"
    by (simp add: see_def)
  have rd: "ready {d} (x_fs w)" "ready {l} (x_fs w)"
    using ready ready_mono by blast+
  note fail = remove_then_fail_moves [OF rd(1) n(1,2), of ?A]
  have pub: "moves S ?A (x_fs w) (x_fs (snd (act_then (publish ?temp (abs_path (d @ [k])) ctx) (\<lambda>_. sync_directory parent) w)))"
    if "r = Inr c" for c ctx
  proof (rule moves_act_then)
    have "regular_at (x_fs w) (d @ [k])"
      using read_validated_target_Inr(2) [OF rd(2) spells] see that d(1) by (auto simp: see_def)
    then show "moves S ?A (x_fs w) (x_fs (snd (publish ?temp (abs_path (d @ [k])) ctx w)))"
      using publish_moves [of d d w n k S m bytes ?A] rd(1) n d by (simp add: only_at_def)
  qed simp
  show "moves S ?A (x_fs w') (x_fs (snd ((case r of
       Inl e \<Rightarrow> act_then (remove_quietly ?temp) (\<lambda>_. act_fail e)
     | Inr current \<Rightarrow>
         if current \<noteq> expected
         then act_then (remove_quietly ?temp) (\<lambda>_.
           tx_fail Precondition (''concurrent file change detected after staging temporary content: '' @ q))
         else
           act_then (publish ?temp (path_join (abs_path l) q) (''failed to replace '' @ path_join (abs_path l) q))
            (\<lambda>_. sync_directory parent)) w')))"
    using fail pub w' d(3) by (cases r) (auto simp: tx_fail_def)
qed simp

lemma stage_and_swap_moves:
  assumes ready: "ready {l, d} (x_fs w)" and spells: "spells q ns"
    and d: "l @ ns = d @ [k]" "valid_name k" "path_join (abs_path l) q = abs_path (d @ [k])"
    and n: "valid_name n" "d @ [n] \<in> scratch l"
    and hooks: "\<forall>hook. faults = Some hook \<longrightarrow> quiet l E (hook AfterTargetStaged)"
    and E: "unrelated l {l @ ns} E"
  shows "moves (scratch l \<union> E) (only_at (l @ ns) {Some bytes}) (x_fs w)
    (x_fs (snd (act_then (write_synced_file (abs_path (d @ [n])) bytes) (\<lambda>_.
       act_then (staged_check faults (abs_path (d @ [n]))) (\<lambda>_.
       swap_target (abs_path l) q (abs_path (d @ [n])) parent expected)) w)))"
proof (rule moves_act_then)
  let ?S = "scratch l \<union> E"
  have rd: "ready {d} (x_fs w)"
    using ready ready_mono by blast
  show "moves ?S (only_at (l @ ns) {Some bytes}) (x_fs w) (x_fs (snd (write_synced_file (abs_path (d @ [n])) bytes w)))"
    by (rule write_synced_file_moves [OF rd n(1)]) (use n in simp)
  fix u w1
  assume w1: "write_synced_file (abs_path (d @ [n])) bytes w = (Inr u, w1)"
  have "moves (scratch l) (\<lambda>_. {}) (x_fs w) (x_fs w1)"
    using write_synced_file_moves [OF rd n, of "\<lambda>_. {}" bytes] w1 by simp
  then have r1: "ready {l, d} (x_fs w1)"
    using ready_moves ready by blast
  note node = write_synced_file_Inr(1) [OF rd n(1) w1]
  note staged = staged_check_moves [OF r1 n hooks]
  show "moves ?S (only_at (l @ ns) {Some bytes}) (x_fs w1) (x_fs (snd (act_then (staged_check faults (abs_path (d @ [n])))
      (\<lambda>_. swap_target (abs_path l) q (abs_path (d @ [n])) parent expected) w1)))"
  proof (rule moves_act_then)
    fix u w2
    assume "staged_check faults (abs_path (d @ [n])) w1 = (Inr u, w2)"
    then have m: "moves E (\<lambda>_. {}) (x_fs w1) (x_fs w2)"
      using staged(2) by blast
    obtain m' where "fs_nodes (x_fs w2) (d @ [n]) = Some (FileNode m' bytes)"
      using quiet_node [OF m _ node] n(2) E by (auto simp: unrelated_def)
    then show "moves ?S (only_at (l @ ns) {Some bytes}) (x_fs w2)
        (x_fs (snd (swap_target (abs_path l) q (abs_path (d @ [n])) parent expected w2)))"
      using swap_target_moves [OF ready_moves [OF r1 m] spells d n(1)] n(2) by simp
  qed (rule staged(1))
qed

lemma atomic_replace_moves:
  assumes ready: "ready {l} (x_fs w)" and spells: "spells q ns"
    and hooks: "\<forall>hook. faults = Some hook \<longrightarrow> quiet l E (hook AfterTargetStaged)"
    and E: "unrelated l {l @ ns} E"
  shows "moves (scratch l \<union> E) (only_at (l @ ns) {Some bytes}) (x_fs w)
    (x_fs (snd (atomic_replace_bytes_checked (abs_path l) q bytes expected faults w)))"
proof -
  define d where "d = l @ butlast ns"
  note t = target_split [OF ready spells, folded d_def]
  show ?thesis
    unfolding atomic_replace_bytes_checked_def Let_def t(5) ok_or_simps
  proof (rule moves_act_then)
    fix u w1
    assume v: "see (\<lambda>f. validate_target_location f (abs_path l) q) w = (Inr u, w1)"
    then have w: "x_fs w1 = x_fs w" "is_dir_at (x_fs w) d"
      using validate_target_location_Inr(1) [OF ready spells] by (auto simp: act_simps d_def)
    show "moves (scratch l \<union> E) (only_at (l @ ns) {Some bytes}) (x_fs w1)
      (x_fs (snd (act_then (act_res (Inr (abs_path d))) (\<lambda>parent. act_then (unique_temp_path parent ''target'')
         (\<lambda>temp. act_then (write_synced_file temp bytes) (\<lambda>_. act_then (staged_check faults temp)
         (\<lambda>_. swap_target (abs_path l) q temp parent expected)))) w1)))"
      unfolding act_then_def [of "act_res _"] act_res_def prod.case sum.case
    proof (rule moves_act_then)
      fix temp w2
      assume "unique_temp_path (abs_path d) ''target'' w1 = (Inr temp, w2)"
      then obtain k where k: "temp = abs_path (d @ [k])" "valid_name k" "d @ [k] \<in> scratch l" "x_fs w2 = x_fs w1"
        using unique_temp_path_ok [OF t(4), of "''target''" w1 temp w2 l] by (auto simp: sep_def)
      have "ready {l, d} (x_fs w2)"
        using ready w k(4) by (auto simp: ready_def)
      then show "moves (scratch l \<union> E) (only_at (l @ ns) {Some bytes}) (x_fs w2)
        (x_fs (snd (act_then (write_synced_file temp bytes) (\<lambda>_. act_then (staged_check faults temp)
           (\<lambda>_. swap_target (abs_path l) q temp (abs_path d) expected)) w2)))"
        unfolding k(1) by (rule stage_and_swap_moves [OF _ spells t(1-3) k(2,3) hooks E])
    qed simp
  qed simp
qed

end
