(* ===== verification/TxTargets.thy ===== *)
theory TxTargets
  imports TxSafety
begin

text \<open>
  Applying one mutation and restoring one file: what they change whatever their result, and what
  their success establishes about the target.
\<close>

lemmas x_then = moves_act_then [where v = x_fs]

lemmas x_try = moves_act_try [where v = x_fs]

section \<open>Permissions and removal\<close>

lemma restore_permissions_moves:
  assumes "ready {l} (x_fs w)" "spells q ns"
  shows "moves S A (x_fs w) (x_fs (snd (restore_permissions (abs_path l) q rcd w)))"
proof (cases "tf_readonly rcd")
  case (Some readonly)
  note t = target_split [OF assms]
  show ?thesis
    unfolding restore_permissions_def Some option.case Let_def
  proof (rule moves_act_then)
    fix u w1
    assume "see (\<lambda>f. validate_target_location f (abs_path l) q) w = (Inr u, w1)"
    then have w: "w1 = w" "is_dir_at (x_fs w) (l @ butlast ns)" "regular_at (x_fs w) (l @ ns)"
      using validate_target_location_Inr [OF assms] by (auto simp: act_simps)
    show "moves S A (x_fs w1) (x_fs (snd (act_then (see (\<lambda>f. map_err IoCause (metadata f (path_join (abs_path l) q))))
        (\<lambda>n. alter (\<lambda>_ f. io_context (''failed to restore permissions: '' @ path_join (abs_path l) q)
          (set_permissions f (path_join (abs_path l) q) (case tf_unix_mode rcd of None \<Rightarrow> set_readonly readonly (m_mode (node_meta n))
             | Some mode \<Rightarrow> mode)))) w1)))"
    proof (rule moves_act_then)
      fix n w2
      assume "see (\<lambda>f. map_err IoCause (metadata f (path_join (abs_path l) q))) w1 = (Inr n, w2)"
      then have w2: "w2 = w"
        using w by (simp add: act_simps)
      have "moves S A (x_fs w) f'" if p: "set_permissions (x_fs w) (path_join (abs_path l) q) mode = Inr f'" for mode f'
      proof -
        obtain k where k: "resolve (x_fs w) (path_join (abs_path l) q) True = Inr k"
          using p by (auto simp: set_permissions_def res_simps)
        have "\<forall>m t. fs_nodes (x_fs w) ((l @ butlast ns) @ [last ns]) \<noteq> Some (LinkNode m t)"
          using w(3) t(1) by (auto simp: regular_at_def)
        then have "k = l @ ns"
          using resolve_dir_entry [OF _ w(2) t(2)] k t(1,3) assms(1) by (auto simp: ready_def)
        then show ?thesis
          using set_permissions_moves [OF p k] w(3) assms(1) by (simp add: ready_def)
      qed
      then show "moves S A (x_fs w2) (x_fs (snd (alter (\<lambda>_ f. io_context (''failed to restore permissions: '' @ path_join (abs_path l) q)
          (set_permissions f (path_join (abs_path l) q) (case tf_unix_mode rcd of None \<Rightarrow> set_readonly readonly (m_mode (node_meta n))
             | Some mode \<Rightarrow> mode))) w2)))"
        unfolding w2 by (intro moves_alter) (auto simp: io_context_def res_simps)
    qed simp
  qed simp
qed (simp add: restore_permissions_def)

lemma remove_target_moves:
  assumes "ready {l} (x_fs w)" "spells q ns" "is_dir_at (x_fs w) (l @ butlast ns)" "regular_at (x_fs w) (l @ ns)"
  shows "moves S (only_at (l @ ns) {None}) (x_fs w) (x_fs (snd (remove_target (path_join (abs_path l) q) ctx w)))"
    "remove_target (path_join (abs_path l) q) ctx w = (Inr u, w') \<Longrightarrow> content_at (x_fs w') (l @ ns) = None"
proof -
  note t = target_split [OF assms(1,2)]
  have rm: "moves S (only_at (l @ ns) {None}) (x_fs w) f' \<and> fs_nodes f' (l @ ns) = None"
    if r: "remove_file (x_fs w) (path_join (abs_path l) q) = Inr f'" for f'
  proof -
    obtain k where k: "entry_at (x_fs w) (path_join (abs_path l) q) = Inr k"
      using r by (auto simp: remove_file_def res_simps)
    then have "k = l @ ns"
      using entry_at_dir [OF _ assms(3) t(2)] t(1,3) assms(1) by (auto simp: ready_def)
    then show ?thesis
      using remove_file_moves [OF r k, of S "only_at (l @ ns) {None}"] assms(4) by simp
  qed
  show "moves S (only_at (l @ ns) {None}) (x_fs w) (x_fs (snd (remove_target (path_join (abs_path l) q) ctx w)))"
    unfolding remove_target_def
    by (rule moves_act_then, rule moves_alter) (use rm in \<open>auto simp: io_context_def res_simps\<close>)
  show "content_at (x_fs w') (l @ ns) = None" if r: "remove_target (path_join (abs_path l) q) ctx w = (Inr u, w')"
  proof -
    obtain f' w1 where f': "remove_file (x_fs w) (path_join (abs_path l) q) = Inr f'" "w1 = w\<lparr>x_fs := f'\<rparr>"
        "sync_parent_directory (path_join (abs_path l) q) w1 = (Inr u, w')"
      using r by (auto simp: remove_target_def act_simps io_context_def res_simps)
    then have "x_fs w' = f'"
      by (auto simp: sync_parent_directory_def sync_directory_def act_simps split: option.splits)
    then show ?thesis
      using rm [OF f'(1)] by (simp add: content_at_def)
  qed
qed

section \<open>Applying\<close>

lemma stays_moves: "stays v D S A m \<Longrightarrow> ready D (v s) \<Longrightarrow> moves S A (v s) (v (snd (m s)))"
  by (simp add: stays_def)

lemma apply_mutation_moves:
  assumes ready: "ready {l} (x_fs w)" and spells: "spells (fm_path m) ns"
    and hook: "quiet l E (hook AfterTargetStaged)" and E: "unrelated l {l @ ns} E"
  shows "moves (scratch l \<union> E) (only_at (l @ ns) {fm_desired_after m}) (x_fs w)
      (x_fs (snd (apply_mutation hook (abs_path l) m rcd w)))"
proof (cases "fm_desired_after m")
  case None
  show ?thesis
    unfolding apply_mutation_def Let_def None option.case
  proof (rule moves_act_then)
    let ?S = "scratch l \<union> E" and ?A = "only_at (l @ ns) {None}" and ?t = "path_join (abs_path l) (fm_path m)"
    fix c w1
    assume "see (\<lambda>f. read_validated_target f (abs_path l) (fm_path m)) w = (Inr c, w1)"
    then have c: "read_validated_target (x_fs w) (abs_path l) (fm_path m) = Inr c" "w1 = w"
      by (auto simp: act_simps)
    note at = read_validated_target_Inr [OF ready spells c(1)]
    have rm: "moves ?S ?A (x_fs w) (x_fs (snd (act_then (remove_target ?t ctx) (\<lambda>_.
        act_then (see (\<lambda>f. read_validated_target f (abs_path l) (fm_path m))) (\<lambda>left. act_if (left = None) e)) w)))" for ctx e
      by (rule moves_act_then, rule remove_target_moves(1) [OF ready spells at(1,2)], rule moves_act_then) simp_all
    show "moves ?S ?A (x_fs w1) (x_fs (snd ((if c \<noteq> fm_expected_before m
          then tx_fail Precondition (''concurrent file change detected immediately before apply: '' @ fm_path m)
          else act_then (see (\<lambda>f. read_validated_target f (abs_path l) (fm_path m))) (\<lambda>latest.
            if latest \<noteq> fm_expected_before m
            then tx_fail Precondition (''concurrent file change detected immediately before delete: '' @ fm_path m)
            else act_then (remove_target ?t (''failed to delete target file: '' @ ?t)) (\<lambda>_.
              act_then (see (\<lambda>f. read_validated_target f (abs_path l) (fm_path m))) (\<lambda>left.
              act_if (left = None) (Typed IoKind (''delete target still exists: '' @ ?t)))))) w1)))"
      unfolding c(2)
      using rm by (auto intro!: x_then simp: act_simps)
  qed simp
next
  case (Some bytes)
  show ?thesis
    unfolding apply_mutation_def Let_def Some option.case
  proof (rule moves_act_then)
    let ?S = "scratch l \<union> E" and ?A = "only_at (l @ ns) {Some bytes}" and ?t = "path_join (abs_path l) (fm_path m)"
    fix c w1
    assume "see (\<lambda>f. read_validated_target f (abs_path l) (fm_path m)) w = (Inr c, w1)"
    then have w1: "w1 = w"
      by (auto simp: act_simps)
    let ?rep = "with_context (''failed to atomically write target file: '' @ ?t)
         (atomic_replace_bytes_checked (abs_path l) (fm_path m) bytes (fm_expected_before m) (Some hook))"
    have rep: "moves ?S ?A (x_fs w) (x_fs (snd (?rep w)))"
      using atomic_replace_moves [OF ready spells _ E, of "Some hook" bytes] hook by simp
    have "moves ?S ?A (x_fs w) (x_fs (snd (act_then ?rep (\<lambda>_. act_then (restore_permissions (abs_path l) (fm_path m) rcd) (\<lambda>_.
        act_then (see (\<lambda>f. read_validated_target f (abs_path l) (fm_path m))) (\<lambda>actual. act_if (actual = Some bytes) e))) w)))" for e
    proof (rule x_then)
      show "moves ?S ?A (x_fs w) (x_fs (snd (?rep w)))"
        by (rule rep)
      fix u w2
      assume "?rep w = (Inr u, w2)"
      then have "ready {l} (x_fs w2)"
        using ready_moves [OF ready rep] by simp
      then show "moves ?S ?A (x_fs w2) (x_fs (snd (act_then (restore_permissions (abs_path l) (fm_path m) rcd) (\<lambda>_.
          act_then (see (\<lambda>f. read_validated_target f (abs_path l) (fm_path m))) (\<lambda>actual. act_if (actual = Some bytes) e)) w2)))"
        by (intro x_then restore_permissions_moves [OF _ spells]) simp_all
    qed
    then show "moves ?S ?A (x_fs w1) (x_fs (snd ((if c \<noteq> fm_expected_before m
          then tx_fail Precondition (''concurrent file change detected immediately before apply: '' @ fm_path m)
          else act_then ?rep (\<lambda>_. act_then (restore_permissions (abs_path l) (fm_path m) rcd) (\<lambda>_.
            act_then (see (\<lambda>f. read_validated_target f (abs_path l) (fm_path m))) (\<lambda>actual.
            act_if (actual = Some bytes) (Typed IoKind (''target verification failed after write: '' @ ?t)))))) w1)))"
      unfolding w1 by simp
  qed simp
qed

lemma apply_mutation_Inr:
  assumes ready: "ready {l} (x_fs w)" and spells: "spells (fm_path m) ns"
    and hook: "quiet l E (hook AfterTargetStaged)" and E: "unrelated l {l @ ns} E"
    and ok: "apply_mutation hook (abs_path l) m rcd w = (Inr u, w')"
  shows "content_at (x_fs w') (l @ ns) = fm_desired_after m"
proof -
  have "ready {l} (x_fs w')"
    using ready_moves [OF ready apply_mutation_moves [where hook = hook, OF ready spells hook E]] ok by (metis snd_conv)
  moreover have "read_validated_target (x_fs w') (abs_path l) (fm_path m) = Inr (fm_desired_after m)"
    using ok by (cases "fm_desired_after m") (auto simp: apply_mutation_def Let_def act_simps split: if_splits)
  ultimately show ?thesis
    using read_validated_target_Inr(3) [OF _ spells] by blast
qed

section \<open>Restoring\<close>

text \<open>The contents a restored file may have: those with the recorded hash.\<close>

definition original_contents :: "tx_host \<Rightarrow> tx_file \<Rightarrow> string option set" where
  "original_contents h rcd = {c. map_option (fingerprint_bytes h) c = tf_before_hash rcd}"

definition sound_record :: "tx_file \<Rightarrow> bool" where
  "sound_record rcd \<longleftrightarrow> (tf_existed_before rcd \<longleftrightarrow> tf_before_hash rcd \<noteq> None)"

lemma read_backup_Inr:
  assumes "read_backup h f run_dir rcd = Inr (bytes, expected)"
  shows "tf_before_hash rcd = Some expected" "fingerprint_bytes h bytes = expected"
  using assms by (auto simp: read_backup_def res_simps Let_def split: if_splits)

lemma restore_existing_moves:
  assumes ready: "ready {l} (x_fs w)" and spells: "spells q ns"
  shows "moves (scratch l) (only_at (l @ ns) (original_contents h rcd)) (x_fs w) (x_fs (snd (
      act_then (see (\<lambda>f. read_backup h f run_dir rcd)) (\<lambda>(bytes, expected).
      act_then (with_context ctx (atomic_replace_bytes_checked (abs_path l) q bytes current None)) (\<lambda>_.
      act_then (restore_permissions (abs_path l) q rcd) (\<lambda>_.
      act_then (see (\<lambda>f. read_validated_target f (abs_path l) q)) (\<lambda>restored.
      act_if (map_option (fingerprint_bytes h) restored = Some expected) e)))) w)))"
proof (rule x_then)
  let ?A = "only_at (l @ ns) (original_contents h rcd)"
  fix be w1
  assume "see (\<lambda>f. read_backup h f run_dir rcd) w = (Inr be, w1)"
  then obtain bytes expected where b: "be = (bytes, expected)" "read_backup h (x_fs w) run_dir rcd = Inr (bytes, expected)" "w1 = w"
    by (cases be) (auto simp: act_simps)
  have o: "Some bytes \<in> original_contents h rcd"
    using read_backup_Inr [OF b(2)] by (simp add: original_contents_def)
  let ?rep = "with_context ctx (atomic_replace_bytes_checked (abs_path l) q bytes current None)"
  have m: "moves (scratch l) (only_at (l @ ns) {Some bytes}) (x_fs w) (x_fs (snd (?rep w)))"
    using atomic_replace_moves [OF ready spells, of None "{}" bytes] by (simp add: unrelated_def)
  have rep: "moves (scratch l) ?A (x_fs w) (x_fs (snd (?rep w)))"
    using moves_mono [OF m] o by (auto simp: only_at_def)
  have "moves (scratch l) ?A (x_fs w) (x_fs (snd (act_then ?rep (\<lambda>_. act_then (restore_permissions (abs_path l) q rcd) (\<lambda>_.
      act_then (see (\<lambda>f. read_validated_target f (abs_path l) q)) (\<lambda>restored.
      act_if (map_option (fingerprint_bytes h) restored = Some expected) e))) w)))"
  proof (rule x_then)
    show "moves (scratch l) ?A (x_fs w) (x_fs (snd (?rep w)))"
      by (rule rep)
    fix u w2
    assume "?rep w = (Inr u, w2)"
    then have "ready {l} (x_fs w2)"
      using ready_moves [OF ready rep] by simp
    then show "moves (scratch l) ?A (x_fs w2) (x_fs (snd (act_then (restore_permissions (abs_path l) q rcd) (\<lambda>_.
        act_then (see (\<lambda>f. read_validated_target f (abs_path l) q)) (\<lambda>restored.
        act_if (map_option (fingerprint_bytes h) restored = Some expected) e)) w2)))"
      by (intro x_then restore_permissions_moves [OF _ spells]) simp_all
  qed
  then show "moves (scratch l) ?A (x_fs w1) (x_fs (snd ((case be of (bytes, expected) \<Rightarrow>
      act_then (with_context ctx (atomic_replace_bytes_checked (abs_path l) q bytes current None)) (\<lambda>_.
      act_then (restore_permissions (abs_path l) q rcd) (\<lambda>_.
      act_then (see (\<lambda>f. read_validated_target f (abs_path l) q)) (\<lambda>restored.
      act_if (map_option (fingerprint_bytes h) restored = Some expected) e)))) w1)))"
    using b by simp
qed simp

lemma restore_created_moves:
  assumes ready: "ready {l} (x_fs w)" and spells: "spells q ns" and none: "None \<in> C"
    and at: "is_dir_at (x_fs w) (l @ butlast ns)" "regular_at (x_fs w) (l @ ns)"
  shows "moves (scratch l) (only_at (l @ ns) C) (x_fs w) (x_fs (snd (
      act_then (see (\<lambda>f. read_validated_target f (abs_path l) q)) (\<lambda>latest.
      if latest \<noteq> current then act_fail e
      else remove_target (path_join (abs_path l) q) ctx) w)))"
proof (rule x_then)
  fix latest w1
  assume "see (\<lambda>f. read_validated_target f (abs_path l) q) w = (Inr latest, w1)"
  then have w1: "w1 = w"
    by (simp add: act_simps)
  have "moves (scratch l) (only_at (l @ ns) C) (x_fs w) (x_fs (snd (remove_target (path_join (abs_path l) q) ctx w)))"
    using moves_mono [OF remove_target_moves(1) [OF ready spells at, of "scratch l"]] none by (auto simp: only_at_def)
  then show "moves (scratch l) (only_at (l @ ns) C) (x_fs w1) (x_fs (snd ((if latest \<noteq> current then act_fail e
      else remove_target (path_join (abs_path l) q) ctx) w1)))"
    using w1 by simp
qed simp

lemma restore_transaction_file_moves:
  assumes ready: "ready {l} (x_fs w)" and sound: "sound_record rcd"
    and path: "validate_relative_path (tf_path rcd) = Inr q" "spells q ns"
  shows "moves (scratch l) (only_at (l @ ns) (original_contents h rcd)) (x_fs w)
    (x_fs (snd (restore_transaction_file h (abs_path l) run_dir rcd w)))"
  unfolding restore_transaction_file_def Let_def path(1) tx_fail_def
  unfolding act_then_def [of "act_res _"] act_res_def prod.case sum.case
proof (rule x_then)
  let ?A = "only_at (l @ ns) (original_contents h rcd)"
  fix current w1
  assume "see (\<lambda>f. read_validated_target f (abs_path l) q) w = (Inr current, w1)"
  then have c: "read_validated_target (x_fs w) (abs_path l) q = Inr current" and w1: "w1 = w"
    by (auto simp: act_simps)
  note at = read_validated_target_Inr [OF ready path(2) c]
  have none: "None \<in> original_contents h rcd" if "\<not> tf_existed_before rcd"
    using that sound by (simp add: original_contents_def sound_record_def)
  note parts = restore_permissions_moves [OF ready path(2)] restore_existing_moves [OF ready path(2)]
    restore_created_moves [OF ready path(2) none at(1,2)]
  show "moves (scratch l) ?A (x_fs w1) (x_fs (snd ((if map_option (fingerprint_bytes h) current = tf_before_hash rcd
        then if tf_existed_before rcd then restore_permissions (abs_path l) q rcd else act_return ()
        else if map_option (fingerprint_bytes h) current \<noteq> tf_after_hash rcd
        then act_fail (Typed Precondition (''refusing to overwrite a file changed outside the transaction: '' @ tf_path rcd))
        else if tf_existed_before rcd
        then act_then (see (\<lambda>f. read_backup h f run_dir rcd)) (\<lambda>(bytes, expected).
          act_then (with_context (''failed to restore target: '' @ path_join (abs_path l) q)
            (atomic_replace_bytes_checked (abs_path l) q bytes current None)) (\<lambda>_.
          act_then (restore_permissions (abs_path l) q rcd) (\<lambda>_.
          act_then (see (\<lambda>f. read_validated_target f (abs_path l) q)) (\<lambda>restored.
          act_if (map_option (fingerprint_bytes h) restored = Some expected)
            (Typed IoKind (''restored file hash mismatch for '' @ tf_path rcd))))))
        else if current \<noteq> None
        then act_then (see (\<lambda>f. read_validated_target f (abs_path l) q)) (\<lambda>latest.
          if latest \<noteq> current
          then act_fail (Typed Precondition (''refusing to remove a transaction-created file changed concurrently: '' @ tf_path rcd))
          else remove_target (path_join (abs_path l) q) (''failed to remove transaction-created file: '' @ path_join (abs_path l) q))
        else act_return ()) w1)))"
    unfolding w1 by (simp only: parts moves_pure split: if_split) (use parts in simp)
qed simp

lemma restore_transaction_file_Inr:
  assumes ready: "ready {l} (x_fs w)" and sound: "sound_record rcd"
    and path: "validate_relative_path (tf_path rcd) = Inr q" "spells q ns"
    and ok: "restore_transaction_file h (abs_path l) run_dir rcd w = (Inr u, w')"
  shows "content_at (x_fs w') (l @ ns) \<in> original_contents h rcd"
proof -
  note moved = restore_transaction_file_moves [OF ready sound path, of h run_dir]
  have r': "ready {l} (x_fs w')"
    using ready_moves [OF ready moved] ok by simp
  obtain current where c: "read_validated_target (x_fs w) (abs_path l) q = Inr current"
    using ok path(1)
    by (cases "read_validated_target (x_fs w) (abs_path l) q") (auto simp: restore_transaction_file_def act_simps Let_def)
  note at = read_validated_target_Inr [OF ready path(2) c]
  note run = ok [unfolded restore_transaction_file_def Let_def path(1), simplified act_simps c]
  consider (same) "map_option (fingerprint_bytes h) current = tf_before_hash rcd"
    | (backup) "tf_existed_before rcd" "map_option (fingerprint_bytes h) current \<noteq> tf_before_hash rcd"
    | (created) "\<not> tf_existed_before rcd" "map_option (fingerprint_bytes h) current \<noteq> tf_before_hash rcd"
    by blast
  then show ?thesis
  proof cases
    case same
    then have "content_at (x_fs w) (l @ ns) \<in> original_contents h rcd"
      using at(3) by (simp add: original_contents_def)
    moreover have "moves {} (\<lambda>_. {}) (x_fs w) (x_fs w')"
      using run c same restore_permissions_moves [OF ready path(2), of "{}" "\<lambda>_. {}" rcd]
      by (auto simp: act_simps split: if_splits)
    ultimately show ?thesis
      using moves_content(1) [of "{}" "\<lambda>_. {}"] by fastforce
  next
    case backup
    then obtain expected restored where "read_validated_target (x_fs w') (abs_path l) q = Inr restored"
        "map_option (fingerprint_bytes h) restored = Some expected" "tf_before_hash rcd = Some expected"
      using run c by (auto simp: act_simps dest!: sym [of "Inr _"] dest: read_backup_Inr split: if_splits prod.splits)
    then show ?thesis
      using read_validated_target_Inr(3) [OF r' path(2)] by (simp add: original_contents_def)
  next
    case created
    then have none: "tf_before_hash rcd = None"
      using sound by (simp add: sound_record_def)
    then have "current \<noteq> None"
      using created by auto
    then have "remove_target (path_join (abs_path l) q) (''failed to remove transaction-created file: '' @ path_join (abs_path l) q) w = (Inr u, w')"
      using run c created by (auto simp: act_simps split: if_splits)
    then show ?thesis
      using remove_target_moves(2) [OF ready path(2) at(1,2)] none by (simp add: original_contents_def)
  qed
qed

text \<open>A file with foreign contents is refused, and nothing changes.\<close>

lemma restore_refuses_foreign:
  assumes ready: "ready {l} (x_fs w)" and path: "validate_relative_path (tf_path rcd) = Inr q" "spells q ns"
    and foreign: "map_option (fingerprint_bytes h) (content_at (x_fs w) (l @ ns)) \<noteq> tf_before_hash rcd"
      "map_option (fingerprint_bytes h) (content_at (x_fs w) (l @ ns)) \<noteq> tf_after_hash rcd"
  shows "\<exists>e. restore_transaction_file h (abs_path l) run_dir rcd w = (Inl e, w)"
proof (cases "read_validated_target (x_fs w) (abs_path l) q")
  case (Inl e)
  then show ?thesis
    using path(1) by (simp add: restore_transaction_file_def act_then_def act_res_def see_def Let_def)
next
  case (Inr current)
  then have "content_at (x_fs w) (l @ ns) = current"
    using read_validated_target_Inr(3) [OF ready path(2)] by blast
  then show ?thesis
    using Inr foreign path(1)
    by (simp add: restore_transaction_file_def act_then_def act_res_def see_def Let_def tx_fail_def act_fail_def)
qed

end
