(* ===== verification/TxJournal.thy ===== *)
theory TxJournal
  imports TxFiles
begin

text \<open>
  The journal of a transaction (\<open>apply_transaction.rs\<close>): the state machine, appending an event, and the
  inspection of a transaction directory, which decides what a rollback or a recovery may trust.
\<close>

section \<open>The state machine\<close>

definition valid_transition :: "tx_state option \<Rightarrow> tx_state \<Rightarrow> bool" where
  "valid_transition current next = ((current, next) \<in> set
    [(None, Prepared), (Some Prepared, Applying), (Some Prepared, RollbackStarted),
     (Some Applying, Applied), (Some Applying, RollbackStarted), (Some Applied, Finalizing),
     (Some Applied, RollbackStarted), (Some Finalizing, Committed), (Some Finalizing, RollbackStarted),
     (Some Committed, RollbackStarted), (Some RollbackStarted, RolledBack),
     (Some RollbackStarted, RollbackFailed), (Some RollbackFailed, RollbackStarted)])"

definition opt_state_str :: "tx_state option \<Rightarrow> string" where
  "opt_state_str s = (case s of None \<Rightarrow> ''none'' | Some x \<Rightarrow> tx_state_str x)"

section \<open>Appending events\<close>

record journal =
  j_transaction_id :: string
  j_events_dir :: path
  j_started_ns :: nat
  j_current :: "tx_state option"
  j_next_sequence :: nat

definition journal_new :: "string \<Rightarrow> path \<Rightarrow> nat \<Rightarrow> tx_state option \<Rightarrow> nat \<Rightarrow> journal" where
  "journal_new i events_dir started current n = \<lparr>j_transaction_id = i, j_events_dir = events_dir,
     j_started_ns = started, j_current = current, j_next_sequence = n\<rparr>"

text \<open>
  A run carries the journal and the list of files written so far beside the world: both survive an
  error of the code that changes them.
\<close>

record tx_run =
  r_world :: tx_world
  r_journal :: journal
  r_modified :: "string list"

type_synonym 'a running = "(tx_run, tool_error, 'a) action"

definition on_world :: "'a tx \<Rightarrow> 'a running" where
  "on_world m r = (case m (r_world r) of (x, w) \<Rightarrow> (x, r\<lparr>r_world := w\<rparr>))"

definition event_name :: "nat \<Rightarrow> tx_state \<Rightarrow> string" where
  "event_name n s = pad_zero 8 (dec_of_nat n) @ ''-'' @ tx_state_str s @ ''.json''"

definition write_json_new_atomic :: "path \<Rightarrow> string \<Rightarrow> unit tx" where
  "write_json_new_atomic p json = write_new_atomic p (json @ [CHR 0x0A])"

definition u32_max :: nat where "u32_max = 2 ^ 32 - 1"

definition event_of ::
  "journal \<Rightarrow> nat \<Rightarrow> nat \<Rightarrow> tx_state \<Rightarrow> string \<Rightarrow> string list \<Rightarrow> string list \<Rightarrow> git_snapshot option \<Rightarrow> tx_event" where
  "event_of j now elapsed next_state message files errors snapshot =
    \<lparr>te_schema_version = APPLY_TRANSACTION_SCHEMA_VERSION, te_transaction_id = j_transaction_id j,
     te_sequence = j_next_sequence j, te_recorded_at_unix_ms = now, te_state = next_state,
     te_message = message, te_files = files, te_errors = errors, te_elapsed_ms = elapsed,
     te_git_snapshot = snapshot\<rparr>"

definition transition ::
  "tx_host \<Rightarrow> tx_state \<Rightarrow> string \<Rightarrow> string list \<Rightarrow> string list \<Rightarrow> git_snapshot option \<Rightarrow> unit running" where
  "transition h next_state message files errors snapshot r =
    (let j = r_journal r in
     if \<not> valid_transition (j_current j) next_state
     then (Inl (Typed InvalidTransaction (''invalid transaction state transition: '' @ opt_state_str (j_current j)
       @ '' -> '' @ tx_state_str next_state)), r)
     else
     act_then (on_world unix_time_ms) (\<lambda>now.
     let event = event_of j now (elapsed_ms (j_started_ns j) (r_world r)) next_state message files errors snapshot;
         p = path_join (j_events_dir j) (event_name (j_next_sequence j) next_state) in
     act_then (on_world (with_context (''failed to append transaction event: '' @ p)
       (write_json_new_atomic p (th_event_json h event)))) (\<lambda>_ r.
     let r' = r\<lparr>r_journal := j\<lparr>j_current := Some next_state\<rparr>\<rparr> in
     if j_next_sequence j < u32_max
     then (Inr (), r'\<lparr>r_journal := j\<lparr>j_current := Some next_state, j_next_sequence := j_next_sequence j + 1\<rparr>\<rparr>)
     else (Inl (Typed InvalidTransaction ''transaction event sequence overflow''), r'))) r)"

section \<open>Inspection\<close>

definition tx_inspection_of ::
  "string \<Rightarrow> bool \<Rightarrow> tx_manifest option \<Rightarrow> tx_event list \<Rightarrow> tx_state option \<Rightarrow> bool \<Rightarrow> string list \<Rightarrow> string list \<Rightarrow> tx_inspection" where
  "tx_inspection_of i legacy manifest events final recoverable reasons errors =
    \<lparr>ti_schema_version = APPLY_TRANSACTION_SCHEMA_VERSION, ti_transaction_id = i, ti_valid = (errors = []),
     ti_legacy = legacy, ti_manifest = manifest, ti_events = events, ti_final_state = final,
     ti_recoverable = recoverable, ti_recovery_reasons = reasons, ti_errors = errors\<rparr>"

definition invalid_inspection :: "string \<Rightarrow> string \<Rightarrow> tx_inspection" where
  "invalid_inspection i e = tx_inspection_of i False None [] None False [] [e]"

definition is_regular_artifact :: "fs \<Rightarrow> path \<Rightarrow> bool" where
  "is_regular_artifact f p = (case symlink_metadata f p of
      Inl _ \<Rightarrow> False | Inr n \<Rightarrow> \<not> is_link_or_reparse n \<and> is_file_node n)"

definition err_when :: "bool \<Rightarrow> string \<Rightarrow> string list" where
  "err_when b e = (if b then [e] else [])"

definition validate_event_semantics :: "tx_event \<Rightarrow> tx_manifest \<Rightarrow> path \<Rightarrow> string list" where
  "validate_event_semantics event manifest p =
    (let planned = set (map tf_path (tm_files manifest)); event_files = set (te_files event);
         s = te_state event; git_mismatch = ((te_git_snapshot event \<noteq> None) \<noteq> (tm_git_before manifest \<noteq> None)) in
     err_when (card event_files \<noteq> length (te_files event)) (''event contains duplicate file paths: '' @ p)
     @ err_when (\<not> event_files \<subseteq> planned) (''event contains a file outside its manifest: '' @ p)
     @ (if s = Prepared \<or> s = Applying then
          err_when (te_files event \<noteq> []) (''event state '' @ tx_state_str s @ '' must not claim modified files: '' @ p)
        else if s = Applied \<or> s = Finalizing \<or> s = Committed \<or> s = RolledBack then
          err_when (event_files \<noteq> planned) (''event state '' @ tx_state_str s @ '' must contain every planned file: '' @ p)
        else [])
     @ err_when ((s = Committed \<or> s = RolledBack) \<and> te_errors event \<noteq> []) (''successful terminal event contains errors: '' @ p)
     @ err_when (s = RollbackFailed \<and> te_errors event = []) (''rollback_failed event has no recorded error: '' @ p)
     @ err_when (s = Committed \<and> git_mismatch) (''committed event Git snapshot does not match manifest policy: '' @ p)
     @ err_when (s = RolledBack \<and> git_mismatch) (''rolled_back event Git snapshot does not match manifest policy: '' @ p))"

definition backup_name :: "nat \<Rightarrow> string" where
  "backup_name n = BACKUPS_DIR @ ''/'' @ pad_zero 8 (dec_of_nat n) @ ''.bin''"

definition backup_errors :: "tx_host \<Rightarrow> fs \<Rightarrow> path \<Rightarrow> nat \<Rightarrow> tx_file \<Rightarrow> string list" where
  "backup_errors h f run_dir index rcd =
    (if tf_backup_path rcd \<noteq> Some (backup_name index)
     then [''manifest backup path is missing or unexpected for '' @ tf_path rcd]
     else case tf_before_hash rcd of
       None \<Rightarrow> [''manifest backup hash is missing for '' @ tf_path rcd]
     | Some expected \<Rightarrow>
         let backup_path = path_join run_dir (backup_name index) in
         if \<not> is_regular_artifact f backup_path
         then [''manifest backup is a symlink, reparse point, or non-file for '' @ tf_path rcd]
         else (case fs_read f backup_path of
             Inr bytes \<Rightarrow>
               err_when (length bytes \<noteq> tf_before_bytes rcd) (''manifest backup size differs for '' @ tf_path rcd)
               @ err_when (fingerprint_bytes h bytes \<noteq> expected) (''manifest backup BLAKE3 differs for '' @ tf_path rcd)
           | Inl e \<Rightarrow> [''manifest backup cannot be read for '' @ tf_path rcd @ '': '' @ io_text e]))"

text \<open>The loop over the recorded files, with the portable paths seen so far.\<close>

fun manifest_file_errors :: "tx_host \<Rightarrow> fs \<Rightarrow> path \<Rightarrow> string list \<Rightarrow> nat \<Rightarrow> tx_file list \<Rightarrow> string list" where
  "manifest_file_errors h f run_dir seen index [] = []"
| "manifest_file_errors h f run_dir seen index (rcd # rcds) =
    (let (path_errors, seen') = (case validate_relative_path (tf_path rcd) of
            Inr p \<Rightarrow> (let portable = replace_char (CHR 0x5C) (CHR ''/'') p in
              (err_when (portable \<in> set seen) (''duplicate manifest file path: '' @ tf_path rcd), portable # seen))
          | Inl e \<Rightarrow> ([''invalid manifest file path `'' @ tf_path rcd @ ''`: '' @ alternate_text e], seen))
     in path_errors
      @ err_when (tf_after_hash rcd = None \<and> tf_after_bytes rcd \<noteq> 0)
          (''deleted file has inconsistent post-apply size: '' @ tf_path rcd)
      @ (if tf_existed_before rcd then backup_errors h f run_dir index rcd
         else err_when (tf_before_hash rcd \<noteq> None \<or> tf_before_bytes rcd \<noteq> 0 \<or> tf_backup_path rcd \<noteq> None
             \<or> tf_readonly rcd \<noteq> None \<or> tf_unix_mode rcd \<noteq> None)
           (''new file contains inconsistent pre-transaction metadata: '' @ tf_path rcd))
      @ manifest_file_errors h f run_dir seen' (Suc index) rcds)"

definition validate_manifest_artifacts :: "tx_host \<Rightarrow> fs \<Rightarrow> path \<Rightarrow> tx_manifest \<Rightarrow> string list" where
  "validate_manifest_artifacts h f run_dir manifest =
    (let v = tm_validation manifest in
     err_when (tm_files manifest = []) ''transaction manifest has no planned file''
     @ err_when (tv_git_captured v \<noteq> (tm_git_before manifest \<noteq> None)) ''manifest Git capture flag does not match its snapshot''
     @ err_when (\<not> tv_expected_contents_verified v) ''manifest did not verify expected file contents''
     @ err_when (tv_git_clean v \<noteq> (tv_pre_existing_changes v = 0)) ''manifest Git cleanliness metadata is inconsistent''
     @ err_when (tv_git_policy v = RequireClean \<and> (\<not> tv_git_captured v \<or> \<not> tv_git_clean v))
         ''clean-Git transaction manifest contains an invalid Git state''
     @ (case symlink_metadata f (path_join run_dir BACKUPS_DIR) of
          Inr n \<Rightarrow>
            if \<not> is_link_or_reparse n \<and> is_dir_node n
            then manifest_file_errors h f run_dir [] 0 (tm_files manifest)
            else [''transaction backups directory is a symlink, reparse point, or non-directory'']
        | Inl e \<Rightarrow> [''transaction backups directory cannot be inspected: '' @ io_text e]))"

text \<open>
  Reading a JSON file: the error text of the parser is abbreviated.
\<close>

definition read_json :: "(string \<Rightarrow> 'a option) \<Rightarrow> fs \<Rightarrow> path \<Rightarrow> (tool_error, 'a) res" where
  "read_json parse f p =
    try_then (io_context (''failed to read '' @ p) (fs_read f p)) (\<lambda>bytes.
    ok_or (Context (''failed to parse '' @ p) (Message ''invalid JSON'')) (parse bytes))"

text \<open>The checks of one event against the state and the sequence number expected so far.\<close>

definition event_errors ::
  "string \<Rightarrow> tx_manifest option \<Rightarrow> nat \<Rightarrow> tx_state option \<Rightarrow> path \<Rightarrow> tx_event \<Rightarrow> string list" where
  "event_errors i manifest expected_sequence current p event =
    err_when (te_schema_version event \<noteq> APPLY_TRANSACTION_SCHEMA_VERSION)
      (''event '' @ p @ '' has unsupported schema version '' @ dec_of_nat (te_schema_version event))
    @ err_when (te_transaction_id event \<noteq> i) (''event '' @ p @ '' has a mismatched transaction id'')
    @ err_when (te_sequence event \<noteq> expected_sequence)
        (''event sequence mismatch: expected '' @ dec_of_nat expected_sequence @ '', found '' @ dec_of_nat (te_sequence event))
    @ err_when (\<not> valid_transition current (te_state event))
        (''invalid persisted transition: '' @ opt_state_str current @ '' -> '' @ tx_state_str (te_state event))
    @ err_when (file_name p \<noteq> Some (event_name (te_sequence event) (te_state event)))
        (''event filename does not match its sequence/state: '' @ p)
    @ (case manifest of None \<Rightarrow> [] | Some m \<Rightarrow> validate_event_semantics event m p)"

fun inspect_events ::
  "tx_host \<Rightarrow> fs \<Rightarrow> string \<Rightarrow> tx_manifest option \<Rightarrow> nat \<Rightarrow> tx_state option \<Rightarrow> path list \<Rightarrow> tx_event list \<times> string list" where
  "inspect_events h f i manifest expected current [] = ([], [])"
| "inspect_events h f i manifest expected current (p # ps) =
    (if \<not> is_regular_artifact f p then
       (let (events, errors) = inspect_events h f i manifest expected current ps
        in (events, (''transaction event is a symlink, reparse point, or non-file: '' @ p) # errors))
     else case read_json (th_parse_event h) f p of
       Inr event \<Rightarrow>
         (let (events, errors) = inspect_events h f i manifest (min (te_sequence event + 1) u32_max) (Some (te_state event)) ps
          in (event # events, event_errors i manifest expected current p event @ errors))
     | Inl e \<Rightarrow>
         (let (events, errors) = inspect_events h f i manifest expected current ps
          in (events, (''invalid or truncated transaction event '' @ p @ '': '' @ alternate_text e) # errors)))"

definition event_paths :: "fs \<Rightarrow> path \<Rightarrow> (io_error, path list) res" where
  "event_paths f events_dir = try_then (read_dir f events_dir) (\<lambda>names.
     Inr (sort_key components (filter (\<lambda>p. extension p = Some ''json'') (map (path_join events_dir) names))))"

definition inspect_events_dir ::
  "tx_host \<Rightarrow> fs \<Rightarrow> string \<Rightarrow> tx_manifest option \<Rightarrow> path \<Rightarrow> tx_event list \<times> string list" where
  "inspect_events_dir h f i manifest events_dir =
    (if (case symlink_metadata f events_dir of Inl _ \<Rightarrow> False | Inr n \<Rightarrow> \<not> is_link_or_reparse n \<and> is_dir_node n) then
       (let (paths, read_errors) = (case event_paths f events_dir of
              Inr ps \<Rightarrow> (ps, []) | Inl e \<Rightarrow> ([], [''failed to read transaction events: '' @ io_text e]));
            (events, errors) = inspect_events h f i manifest 0 None paths
        in (events, read_errors @ errors @ err_when (events = []) ''transaction has no readable state event''))
     else ([], [''transaction events directory is missing'']))"

definition manifest_errors :: "tx_host \<Rightarrow> fs \<Rightarrow> path \<Rightarrow> string \<Rightarrow> path \<Rightarrow> tx_manifest \<Rightarrow> string list" where
  "manifest_errors h f workspace i run_dir manifest =
    err_when (tm_schema_version manifest \<noteq> APPLY_TRANSACTION_SCHEMA_VERSION)
      (''unsupported transaction schema version: '' @ dec_of_nat (tm_schema_version manifest))
    @ err_when (tm_transaction_id manifest \<noteq> i) ''manifest transaction id does not match its directory''
    @ err_when (\<not> path_eq (tm_workspace manifest) workspace)
        (''manifest workspace does not match inspected workspace: '' @ tm_workspace manifest)
    @ (if tm_patch_path manifest \<noteq> PATCH_FILE
       then [''transaction patch path must be `'' @ PATCH_FILE @ ''`, found `'' @ tm_patch_path manifest @ ''`'']
       else err_when (\<not> is_regular_artifact f (path_join run_dir PATCH_FILE)
           \<or> map_option (fingerprint_bytes h) (ok_of (fs_read f (path_join run_dir PATCH_FILE)))
               \<noteq> Some (tm_patch_hash manifest))
         ''transaction patch is missing or its BLAKE3 hash differs'')
    @ validate_manifest_artifacts h f run_dir manifest"

definition recoverable_state :: "tx_state option \<Rightarrow> bool" where
  "recoverable_state s = (s \<in> set [Some Prepared, Some Applying, Some Applied, Some Finalizing,
     Some RollbackStarted, Some RollbackFailed])"

definition inspect_contents :: "tx_host \<Rightarrow> fs \<Rightarrow> path \<Rightarrow> string \<Rightarrow> path \<Rightarrow> tx_inspection" where
  "inspect_contents h f workspace i run_dir =
    (let (manifest, m_errors) = (case read_json (th_parse_manifest h) f (path_join run_dir MANIFEST_FILE) of
           Inr m \<Rightarrow> (Some m, manifest_errors h f workspace i run_dir m)
         | Inl e \<Rightarrow> (None, [''invalid transaction manifest: '' @ alternate_text e]));
         (events, e_errors) = inspect_events_dir h f i manifest (path_join run_dir EVENTS_DIR);
         errors = m_errors @ e_errors;
         final = (if events = [] then None else Some (te_state (last events)));
         recoverable = (errors = [] \<and> recoverable_state final)
     in tx_inspection_of i False manifest events final recoverable
          (err_when recoverable (''transaction ended in non-terminal state `'' @ opt_state_str final @ ''` and has validated backups''))
          errors)"

definition inspect_run_directory :: "tx_host \<Rightarrow> fs \<Rightarrow> path \<Rightarrow> string \<Rightarrow> path \<Rightarrow> tx_inspection" where
  "inspect_run_directory h f workspace i run_dir = (case symlink_metadata f run_dir of
      Inl e \<Rightarrow> invalid_inspection i (''failed to inspect transaction directory: '' @ io_text e)
    | Inr n \<Rightarrow>
        if is_link_or_reparse n \<or> \<not> is_dir_node n
        then invalid_inspection i ''transaction directory is a symlink, reparse point, or non-directory''
        else (case symlink_metadata f (path_join run_dir MANIFEST_FILE) of
            Inl NotFound \<Rightarrow>
              (let legacy = (is_regular_artifact f (path_join run_dir PATCH_FILE)
                   \<and> \<not> path_exists f (path_join run_dir BACKUPS_DIR) \<and> \<not> path_exists f (path_join run_dir EVENTS_DIR))
               in tx_inspection_of i legacy None [] None False
                    (err_when legacy ''legacy apply run can only use reverse-patch undo'')
                    (err_when (\<not> legacy) ''transaction manifest is missing''))
          | Inl e \<Rightarrow> invalid_inspection i (''failed to inspect transaction manifest: '' @ io_text e)
          | Inr m \<Rightarrow>
              if is_link_or_reparse m \<or> \<not> is_file_node m
              then invalid_inspection i ''transaction manifest is a symlink, reparse point, or non-file''
              else inspect_contents h f workspace i run_dir))"

definition unresolved_workspace :: "io_error \<Rightarrow> tool_error" where
  "unresolved_workspace e = Typed InvalidTransaction (''failed to resolve transaction workspace: '' @ io_text e)"

definition inspect_apply_transaction :: "tx_host \<Rightarrow> fs \<Rightarrow> path \<Rightarrow> string \<Rightarrow> (tool_error, tx_inspection) res" where
  "inspect_apply_transaction h f workspace i =
    try_then (validate_transaction_id i) (\<lambda>_.
    try_then (map_err unresolved_workspace (canonicalize f workspace)) (\<lambda>workspace.
    let run_dir = transaction_run_dir workspace i in
    case symlink_metadata f run_dir of
      Inr _ \<Rightarrow> Inr (inspect_run_directory h f workspace i run_dir)
    | Inl NotFound \<Rightarrow> Inl (Typed InvalidTransaction (''transaction not found: '' @ i))
    | Inl e \<Rightarrow> Inl (Context (''failed to inspect transaction: '' @ run_dir) (IoCause e))))"

text \<open>One entry of the directory of runs: nothing for an entry that is neither a directory nor a link.\<close>

definition inspect_entry :: "tx_host \<Rightarrow> fs \<Rightarrow> path \<Rightarrow> path \<Rightarrow> string \<Rightarrow> (tool_error, tx_inspection list) res" where
  "inspect_entry h f workspace runs_dir name =
    try_then (map_err IoCause (symlink_metadata f (path_join runs_dir name))) (\<lambda>n.
    if \<not> is_dir_node n \<and> \<not> is_link_or_reparse n then Inr []
    else let i = from_utf8_lossy name in
      if \<not> is_ok (validate_transaction_id i)
      then Inr [invalid_inspection i ''transaction directory has an invalid identifier'']
      else Inr [inspect_run_directory h f workspace i (path_join runs_dir name)])"

definition list_apply_transactions :: "tx_host \<Rightarrow> fs \<Rightarrow> path \<Rightarrow> (tool_error, tx_inspection list) res" where
  "list_apply_transactions h f workspace =
    try_then (map_err unresolved_workspace (canonicalize f workspace)) (\<lambda>workspace.
    let runs_dir = path_join (path_join workspace OPTICCODE_DIR) ''runs'' in
    if \<not> path_is_dir f runs_dir then Inr []
    else
    try_then (io_context (''failed to list transactions: '' @ runs_dir) (read_dir f runs_dir)) (\<lambda>names.
    try_then (try_each (inspect_entry h f workspace runs_dir) names) (\<lambda>found.
    Inr (sort_key ti_transaction_id (concat found)))))"

end
