(* ===== verification/TxRun.thy ===== *)
theory TxRun
  imports TxJournal
begin

text \<open>
  Running a transaction (\<open>apply_transaction.rs\<close>): the workspace lock, preparation with backups and the
  manifest, application with verification, and the rollback that the failure of an application, an
  explicit undo and a recovery share.
\<close>

section \<open>Directories and the lock\<close>

definition verify_workspace_directory :: "path \<Rightarrow> path \<Rightarrow> string \<Rightarrow> unit tx" where
  "verify_workspace_directory workspace p label =
    act_then (see (\<lambda>f. io_context (''failed to inspect '' @ label @ '': '' @ p) (symlink_metadata f p))) (\<lambda>n.
    if is_link_or_reparse n \<or> \<not> is_dir_node n
    then tx_fail Precondition (label @ '' is not a regular directory: '' @ p)
    else
    act_then (see (\<lambda>f. io_context (''failed to resolve '' @ label @ '': '' @ p) (canonicalize f p))) (\<lambda>canonical.
    if \<not> path_starts_with canonical workspace
    then tx_fail Precondition (label @ '' escapes workspace: '' @ p)
    else sync_directory p))"

definition create_directory :: "path \<Rightarrow> string \<Rightarrow> unit tx" where
  "create_directory p ctx = alter (\<lambda>m f. io_context ctx (create_dir f p m))"

definition ensure_workspace_directory :: "path \<Rightarrow> path \<Rightarrow> string \<Rightarrow> unit tx" where
  "ensure_workspace_directory workspace p label =
    act_then (act_try (see (\<lambda>f. map_err IoCause (symlink_metadata f p))) (\<lambda>r. case r of
        Inr _ \<Rightarrow> act_return ()
      | Inl (IoCause NotFound) \<Rightarrow>
          act_then (create_directory p (''failed to create '' @ label @ '': '' @ p)) (\<lambda>_.
          sync_parent_directory p)
      | Inl e \<Rightarrow> act_fail (Context (''failed to inspect '' @ label @ '': '' @ p) e))) (\<lambda>_.
    verify_workspace_directory workspace p label)"

definition metadata_root :: "path \<Rightarrow> unit tx" where
  "metadata_root workspace =
    (let d = path_join workspace OPTICCODE_DIR in
     act_try (see (\<lambda>f. map_err IoCause (symlink_metadata f d))) (\<lambda>r. case r of
        Inr n \<Rightarrow>
          if is_link_or_reparse n \<or> \<not> is_dir_node n
          then tx_fail Precondition (''transaction metadata root is not a regular directory: '' @ d)
          else act_return ()
      | Inl (IoCause NotFound) \<Rightarrow>
          act_then (create_directory d (''failed to create transaction metadata root: '' @ d)) (\<lambda>_.
          sync_directory workspace)
      | Inl e \<Rightarrow> act_fail (Context (''failed to inspect transaction metadata root: '' @ d) e)))"

text \<open>
  Acquiring the lock: the lock file is opened with \<open>create\<close> and without truncation. The lock itself is
  state of the operating system that \<open>th_try_lock\<close> answers for; it is released when the call returns.
\<close>

definition acquire_lock :: "tx_host \<Rightarrow> path \<Rightarrow> unit tx" where
  "acquire_lock h workspace =
    (let d = path_join workspace OPTICCODE_DIR; lock_path = path_join d WORKSPACE_LOCK_FILE in
     act_then (metadata_root workspace) (\<lambda>_.
     act_then (see (\<lambda>f. io_context (''failed to resolve transaction metadata root: '' @ d) (canonicalize f d))) (\<lambda>canonical.
     if \<not> path_starts_with canonical workspace
     then tx_fail Precondition (''transaction metadata root escapes workspace: '' @ d)
     else
     act_then (see (\<lambda>f. case symlink_metadata f lock_path of
         Inl _ \<Rightarrow> Inr ()
       | Inr n \<Rightarrow> ensure (\<not> (is_link_or_reparse n \<or> \<not> is_file_node n))
           (Typed Precondition (''transaction lock is not a regular file: '' @ lock_path)))) (\<lambda>_.
     act_then (alter (\<lambda>m f. io_context (''failed to open transaction lock: '' @ lock_path) (open_append f lock_path m []))) (\<lambda>_.
     case th_try_lock h lock_path of
       WouldBlock \<Rightarrow> tx_fail Precondition (''workspace already has an active apply or recovery: '' @ workspace)
     | LockError e \<Rightarrow> tx_fail IoKind (''failed to acquire transaction lock '' @ lock_path @ '': '' @ io_text e)
     | LockTaken \<Rightarrow>
         act_then (see (\<lambda>f. io_context (''failed to sync transaction lock: '' @ lock_path) (sync_all f lock_path))) (\<lambda>_.
         sync_directory d))))))"

definition append_apply_log_index :: "tx_host \<Rightarrow> path \<Rightarrow> string \<Rightarrow> unit tx" where
  "append_apply_log_index h workspace json =
    act_then (see (\<lambda>f. map_err (\<lambda>e. Typed IoKind (''failed to resolve apply-log workspace: '' @ io_text e))
      (canonicalize f workspace))) (\<lambda>workspace.
    act_then (acquire_lock h workspace) (\<lambda>_.
    let log_path = path_join (path_join workspace OPTICCODE_DIR) ''apply-log.jsonl'' in
    act_then (see (\<lambda>f. case symlink_metadata f log_path of
        Inr n \<Rightarrow> ensure (\<not> is_link_or_reparse n \<and> is_file_node n)
          (Typed Precondition (''apply-log index is a symlink, reparse point, or non-file: '' @ log_path))
      | Inl NotFound \<Rightarrow> Inr ()
      | Inl e \<Rightarrow> Inl (Context (''failed to inspect apply-log: '' @ log_path) (IoCause e)))) (\<lambda>_.
    act_then (alter (\<lambda>m f. io_context (''failed to open apply-log: '' @ log_path)
      (open_append f log_path m (json @ [CHR 0x0A])))) (\<lambda>_.
    act_then (see (\<lambda>f. map_err IoCause (sync_all f log_path))) (\<lambda>_.
    sync_parent_directory log_path)))))"

text \<open>Creating the directory of a run under a given identifier: whether it was there already.\<close>

definition claim_run_dir :: "path \<Rightarrow> path \<Rightarrow> path \<Rightarrow> bool tx" where
  "claim_run_dir workspace runs_dir run_dir =
    act_try (alter (\<lambda>m f. map_err IoCause (create_dir f run_dir m))) (\<lambda>r. case r of
        Inr _ \<Rightarrow>
          act_then (sync_directory runs_dir) (\<lambda>_.
          act_then (verify_workspace_directory workspace run_dir ''transaction directory'') (\<lambda>_. act_return True))
      | Inl (IoCause AlreadyExists) \<Rightarrow> act_return False
      | Inl e \<Rightarrow> act_fail (Context ''failed to create transaction directory'' e))"

fun allocate_run_dir :: "nat \<Rightarrow> path \<Rightarrow> path \<Rightarrow> (string \<times> path) tx" where
  "allocate_run_dir 0 workspace runs_dir = tx_fail Collision ''could not allocate a unique transaction identifier''"
| "allocate_run_dir (Suc k) workspace runs_dir =
    act_then next_unique (\<lambda>counter.
    act_then unix_time_nanos (\<lambda>now w.
    let i = ''apply-'' @ dec_of_nat now @ ''-'' @ dec_of_nat (x_pid w) @ ''-'' @ dec_of_nat counter;
        run_dir = path_join runs_dir i in
    act_then (claim_run_dir workspace runs_dir run_dir) (\<lambda>created.
    if created then act_return (i, run_dir) else allocate_run_dir k workspace runs_dir) w))"

definition create_transaction_directory :: "path \<Rightarrow> string option \<Rightarrow> (string \<times> path) tx" where
  "create_transaction_directory workspace requested =
    (let runs_dir = path_join (path_join workspace OPTICCODE_DIR) ''runs'' in
     act_then (ensure_workspace_directory workspace runs_dir ''transaction runs directory'') (\<lambda>_.
     case requested of
       Some i \<Rightarrow>
         act_then (act_res (validate_transaction_id i)) (\<lambda>_.
         act_then (claim_run_dir workspace runs_dir (path_join runs_dir i)) (\<lambda>created.
         if created then act_return (i, path_join runs_dir i)
         else tx_fail Collision (''transaction already exists: '' @ i)))
     | None \<Rightarrow> allocate_run_dir 100 workspace runs_dir))"

section \<open>Git\<close>

definition effective_git_changes :: "git_snapshot \<Rightarrow> git_change list" where
  "effective_git_changes s = filter (\<lambda>c.
     OPTICCODE_DIR \<notin> set (split_on (CHR ''/'') (replace_char (CHR 0x5C) (CHR ''/'') (gc_path c)))) (gs_changes s)"

definition unrelated_git_changes :: "string list \<Rightarrow> git_snapshot \<Rightarrow> git_change list" where
  "unrelated_git_changes managed s =
    (let portable = replace_char (CHR 0x5C) (CHR ''/'') in
     filter (\<lambda>c. portable (gc_path c) \<notin> set managed
       \<and> \<not> (case gc_original_path c of None \<Rightarrow> False | Some p \<Rightarrow> portable p \<in> set managed))
       (effective_git_changes s))"

definition capture_git :: "tx_host \<Rightarrow> path \<Rightarrow> git_snapshot tx" where
  "capture_git h p = see (\<lambda>f. capture_git_state (th_git h) 0 f p)"

definition capture_git_for_policy :: "tx_host \<Rightarrow> path \<Rightarrow> git_policy \<Rightarrow> git_snapshot option tx" where
  "capture_git_for_policy h workspace policy = act_try (capture_git h workspace) (\<lambda>r. case r of
      Inr s \<Rightarrow> act_return (Some s)
    | Inl e \<Rightarrow> if policy = OptionalGit then act_return None
        else tx_fail Precondition (''transaction requires a Git worktree: '' @ alternate_text e))"

definition capture_git_for_manifest :: "tx_host \<Rightarrow> tx_manifest \<Rightarrow> git_snapshot option tx" where
  "capture_git_for_manifest h manifest =
    (if tm_git_before manifest = None then act_return None
     else act_then (capture_git h (tm_workspace manifest)) (\<lambda>s. act_return (Some s)))"

definition verify_git_restored :: "tx_host \<Rightarrow> tx_manifest \<Rightarrow> (bool option \<times> git_snapshot option) tx" where
  "verify_git_restored h manifest = (case tm_git_before manifest of
      None \<Rightarrow> act_return (None, None)
    | Some before \<Rightarrow>
        act_then (capture_git h (tm_workspace manifest)) (\<lambda>after.
        act_return (Some (effective_git_changes before = effective_git_changes after), Some after)))"

definition managed_path :: "path \<Rightarrow> path \<Rightarrow> tx_file \<Rightarrow> (tool_error, string) res" where
  "managed_path workspace root rcd =
    try_then (validate_relative_path (tf_path rcd)) (\<lambda>p.
    let absolute = path_join workspace p in
    try_then (ok_or (Typed Precondition (''managed transaction file is outside the Git root: '' @ absolute))
      (strip_prefix absolute root)) path_to_portable_string)"

definition verify_git_state_for_commit :: "tx_manifest \<Rightarrow> git_snapshot option \<Rightarrow> (tool_error, unit) res" where
  "verify_git_state_for_commit manifest after = (case tm_git_before manifest of
      None \<Rightarrow> Inr ()
    | Some before \<Rightarrow>
        try_then (ok_or (Typed Precondition ''Git state disappeared before transaction commit'') after) (\<lambda>after.
        if \<not> path_eq (gs_root before) (gs_root after)
        then Inl (Typed Precondition (''Git root changed before transaction commit: '' @ gs_root before @ '' -> '' @ gs_root after))
        else
        try_then (try_each (managed_path (tm_workspace manifest) (gs_root before)) (tm_files manifest)) (\<lambda>managed.
        ensure (unrelated_git_changes managed before = unrelated_git_changes managed after)
          (Typed Precondition ''unrelated Git worktree changes appeared or changed during transaction''))))"

section \<open>Preparation\<close>

definition require_clean :: "git_policy \<Rightarrow> git_snapshot option \<Rightarrow> (tool_error, unit) res" where
  "require_clean policy snapshot =
    (let n = (case snapshot of None \<Rightarrow> 0 | Some s \<Rightarrow> length (effective_git_changes s)) in
     ensure (\<not> (policy = RequireClean \<and> n \<noteq> 0))
       (Typed Precondition (''transaction requires a clean Git worktree; found '' @ dec_of_nat n
         @ '' pre-existing change(s) outside .opticcode'')))"

text \<open>The record of one file, after its backup is written.\<close>

definition record_of :: "tx_host \<Rightarrow> nat \<Rightarrow> string \<Rightarrow> file_mutation \<Rightarrow> node option \<Rightarrow> tx_file" where
  "record_of h index portable m meta = (let before = fm_expected_before m in
     \<lparr>tf_path = portable, tf_existed_before = (before \<noteq> None),
      tf_before_hash = map_option (fingerprint_bytes h) before,
      tf_before_bytes = (case before of None \<Rightarrow> 0 | Some b \<Rightarrow> length b),
      tf_after_hash = map_option (fingerprint_bytes h) (fm_desired_after m),
      tf_after_bytes = (case fm_desired_after m of None \<Rightarrow> 0 | Some b \<Rightarrow> length b),
      tf_backup_path = map_option (\<lambda>_. backup_name index) before,
      tf_readonly = map_option node_readonly meta,
      tf_unix_mode = map_option (\<lambda>n. m_mode (node_meta n)) meta\<rparr>)"

definition prepare_file :: "tx_host \<Rightarrow> hooks \<Rightarrow> path \<Rightarrow> path \<Rightarrow> nat \<Rightarrow> file_mutation \<Rightarrow> tx_file tx" where
  "prepare_file h hook workspace run_dir index m =
    (let absolute = path_join workspace (fm_path m) in
     act_then (see (\<lambda>f. read_optional_regular_file f absolute)) (\<lambda>before.
     if before \<noteq> fm_expected_before m
     then tx_fail Precondition (''file changed after patch planning or did not match its expected state: '' @ fm_path m)
     else
     act_then (see (\<lambda>f. Inr (ok_of (metadata f absolute)))) (\<lambda>meta.
     act_then (case before of
         None \<Rightarrow> act_return ()
       | Some bytes \<Rightarrow> with_context (''failed to persist transaction backup for '' @ fm_path m)
           (write_new_atomic (path_join run_dir (backup_name index)) bytes)) (\<lambda>_.
     act_then (act_res (path_to_portable_string (fm_path m))) (\<lambda>portable.
     act_then (if index = 0 then hook AfterFirstBackup else act_return ()) (\<lambda>_.
     act_return (record_of h index portable m meta)))))))"

fun prepare_files :: "tx_host \<Rightarrow> hooks \<Rightarrow> path \<Rightarrow> path \<Rightarrow> nat \<Rightarrow> file_mutation list \<Rightarrow> tx_file list tx" where
  "prepare_files h hook workspace run_dir index [] = act_return []"
| "prepare_files h hook workspace run_dir index (m # ms) =
    act_then (prepare_file h hook workspace run_dir index m) (\<lambda>rcd.
    act_then (prepare_files h hook workspace run_dir (Suc index) ms) (\<lambda>rcds. act_return (rcd # rcds)))"

record prepared =
  pt_workspace :: path
  pt_run_dir :: path
  pt_manifest :: tx_manifest
  pt_mutations :: "file_mutation list"
  pt_journal :: journal
  pt_started_ns :: nat

definition manifest_of ::
  "tx_host \<Rightarrow> tx_request \<Rightarrow> path \<Rightarrow> string \<Rightarrow> nat \<Rightarrow> tx_file list \<Rightarrow> git_snapshot option \<Rightarrow> tx_manifest" where
  "manifest_of h request workspace i now files git_before =
    (let n = (case git_before of None \<Rightarrow> 0 | Some s \<Rightarrow> length (effective_git_changes s)) in
     \<lparr>tm_schema_version = APPLY_TRANSACTION_SCHEMA_VERSION, tm_transaction_id = i, tm_workspace = workspace,
      tm_copied_from = tr_copied_from request, tm_created_at_unix_ms = now,
      tm_patch_hash = fingerprint_bytes h (tr_patch request), tm_patch_path = PATCH_FILE, tm_files = files,
      tm_validation = \<lparr>tv_git_policy = tr_git_policy request, tv_git_captured = (git_before \<noteq> None),
        tv_git_clean = (n = 0), tv_pre_existing_changes = n, tv_expected_contents_verified = True\<rparr>,
      tm_git_before = git_before\<rparr>)"

definition run_in :: "journal \<Rightarrow> 'a running \<Rightarrow> ('a \<times> journal) tx" where
  "run_in j m w = (case m \<lparr>r_world = w, r_journal = j, r_modified = []\<rparr> of
      (Inl e, r) \<Rightarrow> (Inl e, r_world r)
    | (Inr a, r) \<Rightarrow> (Inr (a, r_journal r), r_world r))"

text \<open>The checks before the lock is taken, then everything after it.\<close>

definition preflight :: "tx_host \<Rightarrow> tx_request \<Rightarrow> (path \<times> file_mutation list) tx" where
  "preflight h request =
    act_then (see (\<lambda>f. map_err (\<lambda>e. Typed Precondition (''failed to resolve transaction workspace ''
      @ tr_workspace request @ '': '' @ io_text e)) (canonicalize f (tr_workspace request)))) (\<lambda>workspace.
    act_then (see (\<lambda>f. ensure (path_is_dir f workspace)
      (Typed Precondition (''transaction workspace is not a directory: '' @ workspace)))) (\<lambda>_.
    act_then (act_if (tr_mutations request \<noteq> []) (Typed Precondition ''transaction must contain at least one file mutation'')) (\<lambda>_.
    act_then (see (\<lambda>f. validate_and_sort_mutations f workspace (tr_mutations request))) (\<lambda>mutations.
    act_then (if tr_git_policy request = RequireClean then
        act_then (capture_git_for_policy h workspace RequireClean) (\<lambda>s. act_res (require_clean RequireClean s))
      else act_return ()) (\<lambda>_.
    act_return (workspace, mutations))))))"

definition write_artifacts ::
  "tx_host \<Rightarrow> hooks \<Rightarrow> tx_request \<Rightarrow> path \<Rightarrow> file_mutation list \<Rightarrow> git_snapshot option \<Rightarrow> nat \<Rightarrow> string \<Rightarrow> path \<Rightarrow> prepared tx" where
  "write_artifacts h hook request workspace mutations git_before started i run_dir =
    (let backups_dir = path_join run_dir BACKUPS_DIR; events_dir = path_join run_dir EVENTS_DIR;
         patch_path = path_join run_dir PATCH_FILE in
     act_then (create_directory backups_dir (''failed to create transaction backups: '' @ backups_dir)) (\<lambda>_.
     act_then (create_directory events_dir (''failed to create transaction events: '' @ events_dir)) (\<lambda>_.
     act_then (sync_directory run_dir) (\<lambda>_.
     act_then (with_context (''failed to persist transaction patch: '' @ patch_path)
       (write_new_atomic patch_path (tr_patch request))) (\<lambda>_.
     act_then (prepare_files h hook workspace run_dir 0 mutations) (\<lambda>files.
     act_then unix_time_ms (\<lambda>now.
     let manifest = manifest_of h request workspace i now files git_before in
     act_then (with_context (''failed to persist transaction manifest: '' @ run_dir)
       (write_json_new_atomic (path_join run_dir MANIFEST_FILE) (th_manifest_json h manifest))) (\<lambda>_.
     act_then (run_in (journal_new i events_dir started None 0)
       (transition h Prepared ''patch, manifest and rollback backups durably prepared'' [] [] None)) (\<lambda>(_, j).
     act_return \<lparr>pt_workspace = workspace, pt_run_dir = run_dir, pt_manifest = manifest,
       pt_mutations = mutations, pt_journal = j, pt_started_ns = started\<rparr>)))))))))"

definition prepare_transaction :: "tx_host \<Rightarrow> hooks \<Rightarrow> tx_request \<Rightarrow> prepared tx" where
  "prepare_transaction h hook request w =
    act_then (preflight h request) (\<lambda>(workspace, mutations).
    act_then (acquire_lock h workspace) (\<lambda>_.
    act_then (capture_git_for_policy h workspace (tr_git_policy request)) (\<lambda>git_before.
    act_then (act_res (require_clean (tr_git_policy request) git_before)) (\<lambda>_.
    act_then (create_transaction_directory workspace (tr_requested_id request)) (\<lambda>(i, run_dir).
    write_artifacts h hook request workspace mutations git_before (x_instant_ns w) i run_dir))))) w"

section \<open>Results\<close>

definition result_from_manifest ::
  "tx_manifest \<Rightarrow> path \<Rightarrow> bool \<Rightarrow> tx_state \<Rightarrow> bool \<Rightarrow> bool option \<Rightarrow> string list \<Rightarrow> string list \<Rightarrow> string list \<Rightarrow>
   string list \<Rightarrow> bool option \<Rightarrow> nat \<Rightarrow> tx_result" where
  "result_from_manifest manifest run_dir success final attempted rollback_success modified restored errors warnings git_restored duration =
    \<lparr>xr_schema_version = APPLY_TRANSACTION_SCHEMA_VERSION, xr_transaction_id = tm_transaction_id manifest,
     xr_workspace = tm_workspace manifest, xr_operation_success = success, xr_final_state = final,
     xr_rollback_attempted = attempted, xr_rollback_success = rollback_success,
     xr_planned_files = map tf_path (tm_files manifest), xr_modified_files = modified,
     xr_restored_files = restored, xr_errors = errors, xr_warnings = warnings, xr_duration_ms = duration,
     xr_git_restored = git_restored,
     xr_transaction_dir = relative_transaction_dir (tm_workspace manifest) run_dir\<rparr>"

definition prepared_result :: "prepared \<Rightarrow> string list \<Rightarrow> nat \<Rightarrow> tx_result" where
  "prepared_result c modified duration =
    \<lparr>xr_schema_version = APPLY_TRANSACTION_SCHEMA_VERSION, xr_transaction_id = tm_transaction_id (pt_manifest c),
     xr_workspace = pt_workspace c, xr_operation_success = True, xr_final_state = Committed,
     xr_rollback_attempted = False, xr_rollback_success = None,
     xr_planned_files = map tf_path (tm_files (pt_manifest c)), xr_modified_files = modified,
     xr_restored_files = [], xr_errors = [], xr_warnings = [], xr_duration_ms = duration,
     xr_git_restored = None, xr_transaction_dir = relative_transaction_dir (pt_workspace c) (pt_run_dir c)\<rparr>"

section \<open>Rollback\<close>

text \<open>
  The loop over the recorded files, last first: the restored paths, and the error that stopped it. The
  hook runs after the file with the last index, the first to be restored.
\<close>

fun restore_files ::
  "tx_host \<Rightarrow> hooks \<Rightarrow> path \<Rightarrow> path \<Rightarrow> bool \<Rightarrow> tx_file list \<Rightarrow> tx_world \<Rightarrow> (string list \<times> string list) \<times> tx_world" where
  "restore_files h hook workspace run_dir first [] w = (([], []), w)"
| "restore_files h hook workspace run_dir first (rcd # rcds) w =
    (case restore_transaction_file h workspace run_dir rcd w of
       (Inl e, w1) \<Rightarrow> (([], [''failed to restore '' @ tf_path rcd @ '': '' @ alternate_text e]), w1)
     | (Inr _, w1) \<Rightarrow>
         (case (if first then hook AfterFirstRestore w1 else (Inr (), w1)) of
            (Inl e, w2) \<Rightarrow> (([tf_path rcd], [''rollback restoration interrupted: '' @ alternate_text e]), w2)
          | (Inr _, w2) \<Rightarrow>
              (let ((restored, errors), w3) = restore_files h hook workspace run_dir False rcds w2
               in ((tf_path rcd # restored, errors), w3))))"

definition journal_rollback_start :: "tx_host \<Rightarrow> string list \<Rightarrow> string \<Rightarrow> tx_run \<Rightarrow> string list \<times> tx_run" where
  "journal_rollback_start h modified reason r =
    (if j_current (r_journal r) = Some RollbackStarted then ([], r)
     else case transition h RollbackStarted ''automatic or explicit rollback started'' modified [reason] None r of
       (Inr _, r') \<Rightarrow> ([], r')
     | (Inl e, r') \<Rightarrow> ([''failed to journal rollback start: '' @ alternate_text e], r'))"

definition restore_all ::
  "tx_host \<Rightarrow> hooks \<Rightarrow> path \<Rightarrow> path \<Rightarrow> tx_manifest \<Rightarrow> tx_world \<Rightarrow> (string list \<times> string list) \<times> tx_world" where
  "restore_all h hook workspace run_dir manifest w = (case hook AtRollbackStarted w of
      (Inl e, w') \<Rightarrow> (([], [''rollback start failed: '' @ alternate_text e]), w')
    | (Inr _, w') \<Rightarrow> restore_files h hook workspace run_dir True (rev (tm_files manifest)) w')"

definition git_check_after ::
  "tx_host \<Rightarrow> tx_manifest \<Rightarrow> string list \<Rightarrow> tx_world \<Rightarrow> (bool option \<times> git_snapshot option \<times> string list) \<times> tx_world" where
  "git_check_after h manifest errors w =
    (let (checked, w') = (case verify_git_restored h manifest w of
         (Inr (restored, snapshot), w') \<Rightarrow> ((restored, snapshot, []), w')
       | (Inl e, w') \<Rightarrow> ((Some False, None, [''failed to verify Git state after rollback: '' @ alternate_text e]), w'));
         (restored, snapshot, e1) = checked
     in ((restored, snapshot, e1 @
           (if restored = Some False \<and> \<not> list_ex (\<lambda>e. str_contains e ''Git state'') (errors @ e1)
            then [''Git state after rollback differs from the pre-transaction state''] else [])), w'))"

definition rollback_manifest ::
  "tx_host \<Rightarrow> hooks \<Rightarrow> path \<Rightarrow> path \<Rightarrow> tx_manifest \<Rightarrow> string list \<Rightarrow> string \<Rightarrow> bool \<Rightarrow> nat \<Rightarrow> tx_run \<Rightarrow> tx_result \<times> tx_run" where
  "rollback_manifest h hook workspace run_dir manifest modified reason rollback_operation started r =
    (let (start_errors, r1) = journal_rollback_start h modified reason r;
         ((restored, restore_errors), w2) = restore_all h hook workspace run_dir manifest (r_world r1);
         ((git_restored, snapshot, git_errors), w3) = git_check_after h manifest (start_errors @ restore_errors) w2;
         errors = start_errors @ restore_errors @ git_errors;
         content_ok = (errors = [] \<and> git_restored \<noteq> Some False);
         (journal_errors, r4) = (case transition h (if content_ok then RolledBack else RollbackFailed)
             (if content_ok then ''rollback completed and verified'' else ''rollback did not complete cleanly'')
             restored (if content_ok then [] else errors) snapshot (r1\<lparr>r_world := w3\<rparr>) of
           (Inr _, r4) \<Rightarrow> ([], r4)
         | (Inl e, r4) \<Rightarrow> ([''failed to journal rollback result: '' @ alternate_text e], r4));
         all_errors = errors @ journal_errors;
         rollback_ok = (content_ok \<and> all_errors = [])
     in (result_from_manifest manifest run_dir (rollback_operation \<and> rollback_ok)
           (if rollback_ok then RolledBack else RollbackFailed) True (Some rollback_ok) modified restored
           ((if rollback_operation then [] else [reason]) @ all_errors) [] git_restored
           (elapsed_ms started (r_world r4)), r4))"

section \<open>Application\<close>

definition verify_mutations_applied :: "fs \<Rightarrow> path \<Rightarrow> file_mutation list \<Rightarrow> (tool_error, unit) res" where
  "verify_mutations_applied f workspace ms =
    try_then (try_each (\<lambda>m. try_then (read_validated_target f workspace (fm_path m)) (\<lambda>current.
       ensure (current = fm_desired_after m)
         (Typed Precondition (''transaction target changed before finalization: '' @ fm_path m)))) ms) (\<lambda>_. Inr ())"

definition push_modified :: "string \<Rightarrow> unit running" where
  "push_modified p r = (Inr (), r\<lparr>r_modified := r_modified r @ [p]\<rparr>)"

fun apply_files :: "hooks \<Rightarrow> path \<Rightarrow> bool \<Rightarrow> (file_mutation \<times> tx_file) list \<Rightarrow> unit running" where
  "apply_files hook workspace first [] = act_return ()"
| "apply_files hook workspace first ((m, rcd) # rest) =
    act_then (if first then on_world (hook BeforeFirstTargetWrite) else act_return ()) (\<lambda>_.
    act_then (on_world (apply_mutation hook workspace m rcd)) (\<lambda>_.
    act_then (act_res (path_to_portable_string (fm_path m))) (\<lambda>portable.
    act_then (push_modified portable) (\<lambda>_.
    act_then (if first then on_world (hook AfterFirstTargetWrite) else act_return ()) (\<lambda>_.
    apply_files hook workspace False rest)))))"

definition modified_transition :: "tx_host \<Rightarrow> tx_state \<Rightarrow> string \<Rightarrow> git_snapshot option \<Rightarrow> unit running" where
  "modified_transition h s message snapshot r = transition h s message (r_modified r) [] snapshot r"

definition apply_phase :: "tx_host \<Rightarrow> hooks \<Rightarrow> prepared \<Rightarrow> unit running" where
  "apply_phase h hook c =
    (let workspace = pt_workspace c; manifest = pt_manifest c in
     act_then (on_world (hook AfterPrepared)) (\<lambda>_.
     act_then (transition h Applying ''target file application started'' [] [] None) (\<lambda>_.
     act_then (apply_files hook workspace True (zip (pt_mutations c) (tm_files manifest))) (\<lambda>_.
     act_then (on_world (hook AfterAllTargetWrites)) (\<lambda>_.
     act_then (on_world (see (\<lambda>f. verify_mutations_applied f workspace (pt_mutations c)))) (\<lambda>_.
     act_then (modified_transition h Applied ''all planned target files were applied and verified'' None) (\<lambda>_.
     act_then (on_world (hook BeforeFinalization)) (\<lambda>_.
     act_then (modified_transition h Finalizing ''transaction finalization started'' None) (\<lambda>_.
     act_then (on_world (hook DuringFinalization)) (\<lambda>_.
     act_then (on_world (capture_git_for_manifest h manifest)) (\<lambda>git_after.
     act_then (act_res (verify_git_state_for_commit manifest git_after)) (\<lambda>_.
     act_then (on_world (see (\<lambda>f. verify_mutations_applied f workspace (pt_mutations c)))) (\<lambda>_.
     modified_transition h Committed ''transaction committed'' git_after)))))))))))))"

definition run_prepared :: "tx_host \<Rightarrow> hooks \<Rightarrow> prepared \<Rightarrow> tx_world \<Rightarrow> tx_result \<times> tx_run" where
  "run_prepared h hook c w =
    (case apply_phase h hook c \<lparr>r_world = w, r_journal = pt_journal c, r_modified = []\<rparr> of
       (Inr _, r) \<Rightarrow> (prepared_result c (r_modified r) (elapsed_ms (pt_started_ns c) (r_world r)), r)
     | (Inl e, r) \<Rightarrow> rollback_manifest h hook (pt_workspace c) (pt_run_dir c) (pt_manifest c) (r_modified r)
         (alternate_text e) False (pt_started_ns c) r)"

definition execute_apply_transaction_with_faults :: "tx_host \<Rightarrow> hooks \<Rightarrow> tx_request \<Rightarrow> tx_result tx" where
  "execute_apply_transaction_with_faults h hook request =
    act_then (prepare_transaction h hook request) (\<lambda>c w.
      case run_prepared h hook c w of (res, r) \<Rightarrow> (Inr res, r_world r))"

definition execute_apply_transaction :: "tx_host \<Rightarrow> tx_request \<Rightarrow> tx_result tx" where
  "execute_apply_transaction h = execute_apply_transaction_with_faults h no_faults"

section \<open>Undo and recovery\<close>

fun verify_files_restored :: "tx_host \<Rightarrow> fs \<Rightarrow> path \<Rightarrow> tx_file list \<Rightarrow> (tool_error, bool) res" where
  "verify_files_restored h f workspace [] = Inr True"
| "verify_files_restored h f workspace (rcd # rcds) =
    try_then (validate_relative_path (tf_path rcd)) (\<lambda>relative.
    try_then (read_validated_target f workspace relative) (\<lambda>current.
    if map_option (fingerprint_bytes h) current \<noteq> tf_before_hash rcd then Inr False
    else if tf_existed_before rcd then
      try_then (map_err IoCause (symlink_metadata f (path_join workspace relative))) (\<lambda>n.
      if tf_readonly rcd \<noteq> Some (node_readonly n) \<or> tf_unix_mode rcd \<noteq> Some (m_mode (node_meta n)) then Inr False
      else verify_files_restored h f workspace rcds)
    else verify_files_restored h f workspace rcds))"

definition already_rolled_back :: "tx_host \<Rightarrow> path \<Rightarrow> path \<Rightarrow> tx_manifest \<Rightarrow> tx_result tx" where
  "already_rolled_back h workspace run_dir manifest =
    act_then (see (\<lambda>f. verify_files_restored h f workspace (tm_files manifest))) (\<lambda>intact.
    if \<not> intact then tx_fail Precondition ''transaction was rolled back, but a managed file changed afterwards''
    else
    act_then (verify_git_restored h manifest) (\<lambda>(git_restored, _).
    if git_restored = Some False
    then tx_fail Precondition ''transaction was rolled back, but Git state changed afterwards''
    else act_return (result_from_manifest manifest run_dir True RolledBack False (Some True) []
      (map tf_path (tm_files manifest)) [] [''transaction was already rolled back''] git_restored 0)))"

definition rollback_apply_transaction_with_faults :: "tx_host \<Rightarrow> hooks \<Rightarrow> path \<Rightarrow> string \<Rightarrow> string \<Rightarrow> tx_result tx" where
  "rollback_apply_transaction_with_faults h hook workspace i reason =
    act_then (act_res (validate_transaction_id i)) (\<lambda>_.
    act_then (see (\<lambda>f. map_err unresolved_workspace (canonicalize f workspace))) (\<lambda>workspace.
    act_then (acquire_lock h workspace) (\<lambda>_.
    act_then (see (\<lambda>f. inspect_apply_transaction h f workspace i)) (\<lambda>inspection.
    if ti_legacy inspection then tx_fail InvalidTransaction ''legacy apply run requires reverse-patch undo''
    else if \<not> ti_valid inspection
    then tx_fail InvalidTransaction (''transaction is invalid: '' @ join_text ''; '' (ti_errors inspection))
    else
    act_then (act_res (ok_or (Typed InvalidTransaction ''transaction manifest is unavailable'') (ti_manifest inspection))) (\<lambda>manifest.
    let run_dir = transaction_run_dir workspace i in
    act_then (act_res (ok_or (Typed InvalidTransaction ''transaction has no state event'') (ti_final_state inspection))) (\<lambda>final.
    if final = RolledBack then already_rolled_back h workspace run_dir manifest
    else if final = Committed \<and> str_contains reason ''recovery''
    then tx_fail Precondition ''committed transaction is not incomplete; use explicit apply --undo''
    else if length (ti_events inspection) > u32_max then tx_fail InvalidTransaction ''too many transaction events''
    else (\<lambda>w. let j = journal_new i (path_join run_dir EVENTS_DIR) (x_instant_ns w) (Some final) (length (ti_events inspection));
              (res, r) = rollback_manifest h hook workspace run_dir manifest [] reason True (x_instant_ns w)
                \<lparr>r_world = w, r_journal = j, r_modified = []\<rparr>
          in (Inr res, r_world r))))))))"

definition rollback_apply_transaction :: "tx_host \<Rightarrow> path \<Rightarrow> string \<Rightarrow> tx_result tx" where
  "rollback_apply_transaction h workspace i =
    rollback_apply_transaction_with_faults h no_faults workspace i ''explicit rollback requested''"

definition recover_apply_transaction :: "tx_host \<Rightarrow> path \<Rightarrow> string \<Rightarrow> tx_result tx" where
  "recover_apply_transaction h workspace i =
    rollback_apply_transaction_with_faults h no_faults workspace i ''recovery rollback requested''"

end
