(* ===== verification/TxRestore.thy ===== *)
theory TxRestore
  imports TxTargets TxRun
begin

text \<open>
  The journal and the rollback: a transition writes below the metadata directory only, and a rollback
  that reports success has every recorded file back at contents with the recorded hash.
\<close>

abbreviation run_fs :: "tx_run \<Rightarrow> fs" where
  "run_fs r \<equiv> x_fs (r_world r)"

lemmas r_then = moves_act_then [where v = run_fs]

lemma on_world_moves: "moves S A (run_fs r) (x_fs (snd (m (r_world r)))) \<Longrightarrow> moves S A (run_fs r) (run_fs (snd (on_world m r)))"
  by (auto simp: on_world_def split: prod.splits)

lemma on_world_Inr [act_simps]:
  "on_world m r = (Inr a, r') \<longleftrightarrow> (\<exists>w. m (r_world r) = (Inr a, w) \<and> r' = r\<lparr>r_world := w\<rparr>)"
  by (auto simp: on_world_def split: prod.splits)

lemma snd_on_world: "snd (on_world m r) = r\<lparr>r_world := snd (m (r_world r))\<rparr>"
  by (auto simp: on_world_def split: prod.splits)

section \<open>The journal\<close>

lemma event_name_valid: "valid_name (event_name n s)"
proof -
  have "sep \<notin> set (event_name n s)"
    using dec_of_nat_no_sep [of n] by (cases s) (auto simp: event_name_def pad_zero_def sep_def)
  moreover have "event_name n s \<noteq> '''' \<and> event_name n s \<noteq> ''.'' \<and> event_name n s \<noteq> ''..''"
  proof -
    have "length (event_name n s) > 5"
      by (simp add: event_name_def)
    then show ?thesis
      by auto
  qed
  ultimately show ?thesis
    by (simp add: valid_name_def junk_def)
qed

text \<open>A run whose journal writes into the directory \<open>d\<close> below the metadata directory of the workspace \<open>l\<close>.\<close>

definition journals :: "location \<Rightarrow> location \<Rightarrow> tx_run \<Rightarrow> bool" where
  "journals l d r \<longleftrightarrow> j_events_dir (r_journal r) = abs_path d \<and> prefix (l @ [OPTICCODE_DIR]) d \<and> ready {l, d} (run_fs r)"

lemma journals_ready: "journals l d r \<Longrightarrow> ready {l} (run_fs r)"
  unfolding journals_def using ready_mono by blast

lemma journals_moves:
  assumes "journals l d r" "moves S A (run_fs r) (run_fs r')" "j_events_dir (r_journal r') = j_events_dir (r_journal r)"
  shows "journals l d r'"
  using assms ready_moves unfolding journals_def by metis

lemma transition_moves:
  assumes "journals l d r"
  shows "moves (scratch l) A (run_fs r) (run_fs (snd (transition h s msg fs es g r)))"
proof -
  have j: "j_events_dir (r_journal r) = abs_path d" "prefix (l @ [OPTICCODE_DIR]) d" "ready {d} (run_fs r)"
    using assms ready_mono unfolding journals_def by blast+
  have names: "\<forall>n \<in> set d. valid_name n"
    using j(3) dir_names by (auto simp: ready_def)
  note p = path_join_abs_path [OF names event_name_valid]
  show ?thesis
    unfolding transition_def Let_def j(1) p
    using j by (auto intro!: r_then on_world_moves write_new_atomic_moves event_name_valid
        simp: write_json_new_atomic_def snd_on_world unix_time_ms_def on_world_def Let_def split: if_splits prod.splits)
qed

lemma transition_keeps:
  "j_events_dir (r_journal (snd (transition h s msg fs es g r))) = j_events_dir (r_journal r)"
  "r_modified (snd (transition h s msg fs es g r)) = r_modified r"
  by (auto simp: transition_def Let_def act_then_def on_world_def split: prod.splits sum.splits)

lemma transition_journals: "journals l d r \<Longrightarrow> journals l d (snd (transition h s msg fs es g r))"
  by (rule journals_moves [OF _ transition_moves transition_keeps(1)])

section \<open>Restoring the recorded files\<close>

text \<open>The records of a manifest name distinct files.\<close>

definition separate :: "location \<Rightarrow> tx_file list \<Rightarrow> bool" where
  "separate l rcds \<longleftrightarrow> distinct (map (located l \<circ> tf_path) rcds) \<and> list_all sound_record rcds"

definition originals :: "tx_host \<Rightarrow> location \<Rightarrow> tx_file list \<Rightarrow> location \<Rightarrow> string option set" where
  "originals h l rcds k = (\<Union>rcd \<in> {rcd \<in> set rcds. located l (tf_path rcd) = k}. original_contents h rcd)"

lemma originals_rev: "originals h l (rev rcds) = originals h l rcds"
  by (rule ext) (simp add: originals_def)

lemma originals_single: "originals h l [rcd] = only_at (located l (tf_path rcd)) (original_contents h rcd)"
  by (rule ext) (auto simp: originals_def only_at_def)

lemma restore_one_moves:
  assumes "ready {l} (x_fs w)" "sound_record rcd"
  shows "moves (scratch l) (originals h l [rcd]) (x_fs w) (x_fs (snd (restore_transaction_file h (abs_path l) run_dir rcd w)))"
proof (cases "validate_relative_path (tf_path rcd)")
  case (Inl e)
  then show ?thesis
    by (simp add: restore_transaction_file_def act_then_def act_res_def)
next
  case (Inr q)
  then show ?thesis
    using restore_transaction_file_moves [OF assms Inr validate_relative_path_names(1) [OF Inr], of h run_dir]
    by (simp add: originals_single located_def)
qed

lemma restore_one_Inr:
  assumes "ready {l} (x_fs w)" "sound_record rcd" "restore_transaction_file h (abs_path l) run_dir rcd w = (Inr u, w')"
  shows "content_at (x_fs w') (located l (tf_path rcd)) \<in> original_contents h rcd"
proof -
  obtain q where q: "validate_relative_path (tf_path rcd) = Inr q"
    using assms(3) by (cases "validate_relative_path (tf_path rcd)") (auto simp: restore_transaction_file_def act_simps)
  show ?thesis
    using restore_transaction_file_Inr [OF assms(1,2) q validate_relative_path_names(1) [OF q] assms(3)]
    by (simp add: located_def)
qed

lemma originals_mono: "set rcds \<subseteq> set rcds' \<Longrightarrow> originals h l rcds k \<subseteq> originals h l rcds' k"
  by (auto simp: originals_def)

text \<open>What a quiet environment and the transaction itself leave alone.\<close>

lemma hook_moves:
  assumes "quiet l E m" "ready {l} (x_fs w)"
  shows "moves (S \<union> E) A (x_fs w) (x_fs (snd (m w)))"
  using moves_mono [OF stays_moves [OF assms], of "S \<union> E" A] by simp

lemma restore_files_moves:
  assumes "ready {l} (x_fs w)" "list_all sound_record rcds" "\<forall>p. quiet l E (hook p)"
  shows "moves (scratch l \<union> E) (originals h l rcds) (x_fs w)
    (x_fs (snd (restore_files h hook (abs_path l) run_dir first rcds w)))"
  using assms(1,2)
proof (induction rcds arbitrary: w first)
  case (Cons rcd rcds)
  let ?S = "scratch l \<union> E" and ?A = "originals h l (rcd # rcds)"
  obtain x w1 where one: "restore_transaction_file h (abs_path l) run_dir rcd w = (x, w1)"
    by fastforce
  obtain y w2 where step: "(if first then hook AfterFirstRestore w1 else (Inr (), w1)) = (y, w2)"
    by fastforce
  have m1: "moves ?S ?A (x_fs w) (x_fs w1)"
    using moves_mono [OF restore_one_moves [OF Cons.prems(1), of rcd h run_dir], of ?S ?A] one Cons.prems(2)
      originals_mono [of "[rcd]" "rcd # rcds" h l] by simp
  then have r1: "ready {l} (x_fs w1)"
    using ready_moves Cons.prems(1) by blast
  have m2: "moves ?S ?A (x_fs w1) (x_fs w2)"
    using hook_moves [OF assms(3) [THEN spec, of AfterFirstRestore] r1] step by (auto split: if_splits)
  then have r2: "ready {l} (x_fs w2)"
    using ready_moves r1 by blast
  have m3: "moves ?S ?A (x_fs w2) (x_fs (snd (restore_files h hook (abs_path l) run_dir False rcds w2)))"
    using moves_mono [OF Cons.IH [OF r2, of False], of ?S ?A] originals_mono [of rcds "rcd # rcds" h l] Cons.prems(2) by auto
  note m12 = moves_trans [OF m1 m2]
  show ?case
    using m1 m12 moves_trans [OF m12 m3] one step by (auto split: sum.splits prod.splits)
qed simp

text \<open>A location no record names keeps its contents through the loop.\<close>

lemma originals_other: "k \<notin> (located l \<circ> tf_path) ` set rcds \<Longrightarrow> originals h l rcds k = {}"
  by (auto simp: originals_def)

lemma moves_content_same:
  assumes "moves S A f f'" "k \<notin> S" "A k = {}"
  shows "content_at f' k = content_at f k"
  using moves_content(1) [OF assms(1,2)] assms(3) by simp

lemma restore_files_restores:
  assumes "ready {l} (x_fs w)" "separate l rcds" "\<forall>p. quiet l E (hook p)"
    and "restore_files h hook (abs_path l) run_dir first rcds w = ((restored, []), w')" "rcd \<in> set rcds" "located l (tf_path rcd) \<notin> scratch l \<union> E"
  shows "content_at (x_fs w') (located l (tf_path rcd)) \<in> original_contents h rcd"
  using assms(1,2,4-6)
proof (induction rcds arbitrary: w first restored)
  case (Cons r rcds)
  obtain u w1 where one: "restore_transaction_file h (abs_path l) run_dir r w = (Inr u, w1)"
    using Cons.prems(3) by (auto split: sum.splits prod.splits)
  obtain v w2 where step: "(if first then hook AfterFirstRestore w1 else (Inr (), w1)) = (Inr v, w2)"
    using Cons.prems(3) one by (auto split: sum.splits prod.splits if_splits)
  obtain restored' where rest: "restore_files h hook (abs_path l) run_dir False rcds w2 = ((restored', []), w')"
    using Cons.prems(3) one step by (auto split: prod.splits)
  have sep: "separate l rcds" "sound_record r" "list_all sound_record rcds"
    using Cons.prems(2) by (auto simp: separate_def)
  have r1: "ready {l} (x_fs w1)"
    using ready_moves [OF Cons.prems(1) restore_one_moves [OF Cons.prems(1) sep(2), of h run_dir]] one by simp
  have m2: "moves ({} \<union> E) (\<lambda>_. {}) (x_fs w1) (x_fs w2)"
    using hook_moves [OF assms(3) [THEN spec, of AfterFirstRestore] r1, of "{}" "\<lambda>_. {}"] step by (auto split: if_splits)
  then have r2: "ready {l} (x_fs w2)"
    using ready_moves r1 by blast
  show ?case
  proof (cases "rcd = r")
    case True
    let ?k = "located l (tf_path r)"
    have k: "?k \<notin> scratch l \<union> E" "?k \<notin> (located l \<circ> tf_path) ` set rcds"
      using Cons.prems(2,5) True by (auto simp: separate_def)
    have "content_at (x_fs w2) ?k = content_at (x_fs w1) ?k"
      using moves_content_same [OF m2] k(1) by simp
    moreover have "content_at (x_fs w') ?k = content_at (x_fs w2) ?k"
      using moves_content_same [OF restore_files_moves [OF r2 sep(3) assms(3), of h run_dir False] k(1) originals_other [OF k(2)]] rest
      by simp
    ultimately show ?thesis
      using restore_one_Inr [OF Cons.prems(1) sep(2) one] True by simp
  next
    case False
    then show ?thesis
      using Cons.IH [OF r2 sep(1) rest] Cons.prems(4,5) by simp
  qed
qed simp

text \<open>Contents that are neither the recorded ones nor the transaction's own stay.\<close>

definition foreign_to :: "tx_host \<Rightarrow> tx_file \<Rightarrow> string option \<Rightarrow> bool" where
  "foreign_to h rcd c \<longleftrightarrow> map_option (fingerprint_bytes h) c \<notin> {tf_before_hash rcd, tf_after_hash rcd}"

lemma restore_files_foreign:
  assumes "ready {l} (x_fs w)" "separate l rcds" "\<forall>p. quiet l E (hook p)" "rcd \<in> set rcds"
    and "located l (tf_path rcd) \<notin> scratch l \<union> E" "foreign_to h rcd (content_at (x_fs w) (located l (tf_path rcd)))"
  shows "content_at (x_fs (snd (restore_files h hook (abs_path l) run_dir first rcds w))) (located l (tf_path rcd))
    = content_at (x_fs w) (located l (tf_path rcd))"
  using assms(1,2,4-6)
proof (induction rcds arbitrary: w first)
  case (Cons r rcds)
  let ?k = "located l (tf_path rcd)"
  have sep: "separate l rcds" "sound_record r"
    using Cons.prems(2) by (auto simp: separate_def)
  obtain x w1 where one: "restore_transaction_file h (abs_path l) run_dir r w = (x, w1)"
    by fastforce
  show ?case
  proof (cases "rcd = r")
    case True
    have "\<exists>e. restore_transaction_file h (abs_path l) run_dir rcd w = (Inl e, w)"
    proof (cases "validate_relative_path (tf_path rcd)")
      case (Inl e)
      then show ?thesis
        by (simp add: restore_transaction_file_def act_then_def act_res_def)
    next
      case (Inr q)
      show ?thesis
        using restore_refuses_foreign [OF Cons.prems(1) Inr validate_relative_path_names(1) [OF Inr]] Cons.prems(5)
        by (simp add: foreign_to_def located_def)
    qed
    then show ?thesis
      using True by auto
  next
    case False
    obtain y w2 where step: "(if first then hook AfterFirstRestore w1 else (Inr (), w1)) = (y, w2)"
      by fastforce
    have "?k \<noteq> located l (tf_path r)"
      using Cons.prems(2,3) False unfolding separate_def by (simp add: image_iff) metis
    moreover have m1: "moves (scratch l) (originals h l [r]) (x_fs w) (x_fs w1)"
      using restore_one_moves [OF Cons.prems(1) sep(2), of h run_dir] one by simp
    ultimately have c1: "content_at (x_fs w1) ?k = content_at (x_fs w) ?k"
      using moves_content_same [OF m1] Cons.prems(4) by (simp add: originals_single)
    have r1: "ready {l} (x_fs w1)"
      using ready_moves [OF Cons.prems(1) m1] .
    have m2: "moves ({} \<union> E) (\<lambda>_. {}) (x_fs w1) (x_fs w2)"
      using hook_moves [OF assms(3) [THEN spec, of AfterFirstRestore] r1, of "{}" "\<lambda>_. {}"] step by (auto split: if_splits)
    have c2: "content_at (x_fs w2) ?k = content_at (x_fs w) ?k"
      using moves_content_same [OF m2, of ?k] Cons.prems(4) c1 by simp
    have "content_at (x_fs (snd (restore_files h hook (abs_path l) run_dir False rcds w2))) ?k = content_at (x_fs w2) ?k"
      by (rule Cons.IH) (use ready_moves [OF r1 m2] sep Cons.prems(3-5) False c2 in auto)
    then show ?thesis
      using one step c1 c2 by (auto split: sum.splits prod.splits)
  qed
qed simp

section \<open>Rolling back\<close>

lemma journal_rollback_start_moves:
  assumes "journals l d r"
  shows "moves (scratch l) A (run_fs r) (run_fs (snd (journal_rollback_start h modified reason r)))"
    "journals l d (snd (journal_rollback_start h modified reason r))"
proof -
  let ?t = "transition h RollbackStarted ''automatic or explicit rollback started'' modified [reason] None r"
  have "snd (journal_rollback_start h modified reason r) \<in> {r, snd ?t}"
    by (auto simp: journal_rollback_start_def split: sum.splits prod.splits)
  then show "moves (scratch l) A (run_fs r) (run_fs (snd (journal_rollback_start h modified reason r)))"
    "journals l d (snd (journal_rollback_start h modified reason r))"
    using assms transition_moves [OF assms, of A h RollbackStarted] transition_journals [OF assms, of h RollbackStarted] by auto
qed

lemma restore_all_moves:
  assumes "ready {l} (x_fs w)" "list_all sound_record (tm_files manifest)" "\<forall>p. quiet l E (hook p)"
  shows "moves (scratch l \<union> E) (originals h l (tm_files manifest)) (x_fs w)
    (x_fs (snd (restore_all h hook (abs_path l) run_dir manifest w)))"
proof -
  let ?S = "scratch l \<union> E" and ?A = "originals h l (tm_files manifest)"
  obtain x w1 where x: "hook AtRollbackStarted w = (x, w1)"
    by fastforce
  have m1: "moves ?S ?A (x_fs w) (x_fs w1)"
    using hook_moves [of l E "hook AtRollbackStarted" w] assms(1,3) x by simp
  then have "ready {l} (x_fs w1)"
    using ready_moves assms(1) by blast
  then have "moves ?S ?A (x_fs w1)
      (x_fs (snd (restore_files h hook (abs_path l) run_dir True (rev (tm_files manifest)) w1)))"
    using restore_files_moves [OF _ _ assms(3), of w1 "rev (tm_files manifest)" h run_dir True] assms(2)
    by (simp add: list_all_iff originals_rev)
  then show ?thesis
    using x m1 moves_trans [OF m1] by (auto simp: restore_all_def originals_def split: sum.splits)
qed

lemma restore_all_restores:
  assumes "ready {l} (x_fs w)" "separate l (tm_files manifest)" "\<forall>p. quiet l E (hook p)"
    and "restore_all h hook (abs_path l) run_dir manifest w = ((restored, []), w')" "rcd \<in> set (tm_files manifest)"
    and "located l (tf_path rcd) \<notin> scratch l \<union> E"
  shows "content_at (x_fs w') (located l (tf_path rcd)) \<in> original_contents h rcd"
proof -
  obtain u w1 where x: "hook AtRollbackStarted w = (Inr u, w1)"
    using assms(4) by (auto simp: restore_all_def split: sum.splits prod.splits)
  then have "ready {l} (x_fs w1)"
    using ready_moves [OF assms(1) hook_moves [OF assms(3) [THEN spec, of AtRollbackStarted] assms(1), of "{}" "\<lambda>_. {}"]] by simp
  moreover have "separate l (rev (tm_files manifest))"
    using assms(2) by (simp add: separate_def rev_map [symmetric] list_all_iff)
  ultimately show ?thesis
    using restore_files_restores [OF _ _ assms(3)] x assms(4-6) by (simp add: restore_all_def)
qed

lemma git_check_after_world [simp]: "snd (git_check_after h manifest errors w) = w"
proof -
  have "snd (verify_git_restored h manifest w) = w"
    by (auto simp: verify_git_restored_def act_return_def act_then_def capture_git_def see_def split: option.splits sum.splits)
  then show ?thesis
    by (auto simp: git_check_after_def Let_def split: prod.splits sum.splits)
qed

text \<open>The parts of a rollback, and when it reports success.\<close>

lemma rollback_manifest_parts:
  assumes r1_def: "r1 = snd (journal_rollback_start h modified reason r)"
    and w2_def: "w2 = snd (restore_all h hook workspace run_dir manifest (r_world r1))"
    and "rollback_manifest h hook workspace run_dir manifest modified reason op started r = (res, r')"
  obtains s msg fs es g where "r' = snd (transition h s msg fs es g (r1\<lparr>r_world := w2\<rparr>))"
    "xr_final_state res = RolledBack \<Longrightarrow> \<exists>restored. restore_all h hook workspace run_dir manifest (r_world r1) = ((restored, []), w2)"
    "xr_final_state res \<in> {RolledBack, RollbackFailed}" "xr_rollback_success res = Some (xr_final_state res = RolledBack)"
    "xr_final_state res = RolledBack \<Longrightarrow> s = RolledBack \<and> (\<exists>u. transition h s msg fs es g (r1\<lparr>r_world := w2\<rparr>) = (Inr u, r'))"
    "xr_final_state res = RolledBack \<Longrightarrow> fst (journal_rollback_start h modified reason r) = []"
proof -
  obtain start_errors where a: "journal_rollback_start h modified reason r = (start_errors, r1)"
    unfolding r1_def by (metis prod.collapse)
  obtain restored restore_errors where b: "restore_all h hook workspace run_dir manifest (r_world r1) = ((restored, restore_errors), w2)"
    unfolding w2_def by (metis prod.collapse)
  obtain gr snapshot ge where c: "git_check_after h manifest (start_errors @ restore_errors) w2 = ((gr, snapshot, ge), w2)"
    using git_check_after_world [of h manifest "start_errors @ restore_errors" w2] by (metis prod.collapse)
  let ?ok = "start_errors @ restore_errors @ ge = [] \<and> gr \<noteq> Some False"
  obtain x r4 where d: "transition h (if ?ok then RolledBack else RollbackFailed)
             (if ?ok then ''rollback completed and verified'' else ''rollback did not complete cleanly'')
             restored (if ?ok then [] else start_errors @ restore_errors @ ge) snapshot (r1\<lparr>r_world := w2\<rparr>) = (x, r4)"
    by fastforce
  note run = assms(3) [unfolded rollback_manifest_def a Let_def prod.case b c d, symmetric]
  have r4: "r' = r4"
    using run by (cases x) auto
  show thesis
  proof (rule that)
    show "r' = snd (transition h (if ?ok then RolledBack else RollbackFailed)
             (if ?ok then ''rollback completed and verified'' else ''rollback did not complete cleanly'')
             restored (if ?ok then [] else start_errors @ restore_errors @ ge) snapshot (r1\<lparr>r_world := w2\<rparr>))"
      using d r4 by simp
    show "xr_final_state res \<in> {RolledBack, RollbackFailed}" "xr_rollback_success res = Some (xr_final_state res = RolledBack)"
      using run by (cases x; auto simp: result_from_manifest_def)+
    assume "xr_final_state res = RolledBack"
    then have ok: "?ok" "\<exists>u. x = Inr u"
      using run by (cases x; auto simp: result_from_manifest_def split: if_splits)+
    then show "\<exists>restored. restore_all h hook workspace run_dir manifest (r_world r1) = ((restored, []), w2)"
      "fst (journal_rollback_start h modified reason r) = []"
      "(if ?ok then RolledBack else RollbackFailed) = RolledBack \<and> (\<exists>u. transition h (if ?ok then RolledBack else RollbackFailed)
             (if ?ok then ''rollback completed and verified'' else ''rollback did not complete cleanly'')
             restored (if ?ok then [] else start_errors @ restore_errors @ ge) snapshot (r1\<lparr>r_world := w2\<rparr>) = (Inr u, r'))"
      using a b d r4 by auto
  qed
qed

lemma rollback_manifest_moves:
  assumes j: "journals l d r" and files: "list_all sound_record (tm_files manifest)" and hooks: "\<forall>p. quiet l E (hook p)"
    and run: "rollback_manifest h hook (abs_path l) run_dir manifest modified reason op started r = (res, r')"
  shows "moves (scratch l \<union> E) (originals h l (tm_files manifest)) (run_fs r) (run_fs r')"
    "separate l (tm_files manifest) \<Longrightarrow> xr_final_state res = RolledBack \<Longrightarrow> rcd \<in> set (tm_files manifest) \<Longrightarrow>
      located l (tf_path rcd) \<notin> scratch l \<union> E \<Longrightarrow> content_at (run_fs r') (located l (tf_path rcd)) \<in> original_contents h rcd"
proof -
  let ?S = "scratch l \<union> E" and ?A = "originals h l (tm_files manifest)"
  define r1 where "r1 = snd (journal_rollback_start h modified reason r)"
  define w2 where "w2 = snd (restore_all h hook (abs_path l) run_dir manifest (r_world r1))"
  obtain s msg fs es g where r': "r' = snd (transition h s msg fs es g (r1\<lparr>r_world := w2\<rparr>))"
      and rolled: "xr_final_state res = RolledBack \<Longrightarrow>
        \<exists>restored. restore_all h hook (abs_path l) run_dir manifest (r_world r1) = ((restored, []), w2)"
    using rollback_manifest_parts [OF r1_def w2_def run] by metis
  note start = journal_rollback_start_moves(1) [OF j, of ?A h modified reason, folded r1_def]
    journal_rollback_start_moves(2) [OF j, of h modified reason, folded r1_def]
  have ready1: "ready {l} (run_fs r1)"
    using journals_ready [OF start(2)] .
  have m2: "moves ?S ?A (run_fs r1) (x_fs w2)"
    using restore_all_moves [OF ready1 files hooks, of h run_dir, folded w2_def] .
  have j2: "journals l d (r1\<lparr>r_world := w2\<rparr>)"
    using journals_moves [OF start(2), of ?S ?A "r1\<lparr>r_world := w2\<rparr>"] m2 by simp
  have m3: "moves (scratch l) A (x_fs w2) (run_fs r')" for A
    using transition_moves [OF j2, of A h s msg fs es g] r' by simp
  show "moves ?S ?A (run_fs r) (run_fs r')"
    using moves_trans [OF moves_mono [OF start(1)] moves_trans [OF m2 moves_mono [OF m3]]] by blast
  assume sep: "separate l (tm_files manifest)" and final: "xr_final_state res = RolledBack" and rcd: "rcd \<in> set (tm_files manifest)"
    and k: "located l (tf_path rcd) \<notin> scratch l \<union> E"
  obtain restored where "restore_all h hook (abs_path l) run_dir manifest (r_world r1) = ((restored, []), w2)"
    using rolled [OF final] by blast
  then have "content_at (x_fs w2) (located l (tf_path rcd)) \<in> original_contents h rcd"
    using restore_all_restores [OF ready1 sep hooks _ rcd k] by blast
  moreover have "content_at (run_fs r') (located l (tf_path rcd)) = content_at (x_fs w2) (located l (tf_path rcd))"
    using moves_content_same [OF m3 [of "\<lambda>_. {}"]] k by simp
  ultimately show "content_at (run_fs r') (located l (tf_path rcd)) \<in> original_contents h rcd"
    by simp
qed

end
