(* ===== verification/TxAtomic.thy ===== *)
theory TxAtomic
  imports TxRestore
begin

text \<open>
  The application phase: what it changes on every outcome, and that a run that ends without an error
  has every target at its desired contents.
\<close>

section \<open>Steps of a journalled run\<close>

definition steps :: "location \<Rightarrow> location \<Rightarrow> location set \<Rightarrow> (location \<Rightarrow> string option set) \<Rightarrow> tx_run \<Rightarrow> tx_run \<Rightarrow> bool" where
  "steps l d S A r r' \<longleftrightarrow> moves S A (run_fs r) (run_fs r') \<and> j_events_dir (r_journal r') = j_events_dir (r_journal r)"

interpretation journalled: kept_relation "journals l d" "steps l d S A" for l d S A
proof
  show "steps l d S A r r'' " if "steps l d S A r r'" "steps l d S A r' r''" for r r' r''
    using that moves_trans unfolding steps_def by metis
  show "journals l d r'" if "journals l d r" "steps l d S A r r'" for r r'
    using that journals_moves unfolding steps_def by blast
qed (simp add: steps_def)

definition keeps :: "location \<Rightarrow> location \<Rightarrow> location set \<Rightarrow> (location \<Rightarrow> string option set) \<Rightarrow> 'a running \<Rightarrow> bool" where
  "keeps l d S A m \<longleftrightarrow> (\<forall>r. journals l d r \<longrightarrow> steps l d S A r (snd (m r)))"

definition ensures :: "location \<Rightarrow> location \<Rightarrow> 'a running \<Rightarrow> (fs \<Rightarrow> bool) \<Rightarrow> bool" where
  "ensures l d m Q \<longleftrightarrow> (\<forall>r a r'. journals l d r \<longrightarrow> m r = (Inr a, r') \<longrightarrow> Q (run_fs r'))"

lemma keeps_then: "keeps l d S A m \<Longrightarrow> (\<And>a. keeps l d S A (k a)) \<Longrightarrow> keeps l d S A (act_then m k)"
  using journalled.rel_then [of l d S A m k] unfolding keeps_def by blast

lemma keeps_pure [simp]:
  "keeps l d S A (act_return a)" "keeps l d S A (act_fail e)" "keeps l d S A (act_res x)" "keeps l d S A (push_modified p)"
  by (simp_all add: keeps_def steps_def act_return_def act_fail_def act_res_def push_modified_def)

lemma keeps_on_world: "stays x_fs {l} S A m \<Longrightarrow> keeps l d S A (on_world m)"
  using stays_moves [of x_fs "{l}" S A m] journals_ready by (auto simp: keeps_def steps_def snd_on_world)

lemma keeps_transition: "scratch l \<subseteq> S \<Longrightarrow> keeps l d S A (transition h s msg fs es g)"
  by (auto simp: keeps_def steps_def transition_keeps intro: moves_mono [OF transition_moves])

lemma keeps_modified_transition: "scratch l \<subseteq> S \<Longrightarrow> keeps l d S A (modified_transition h s msg g)"
  using keeps_transition unfolding keeps_def modified_transition_def by blast

lemma ensures_then:
  assumes "keeps l d S A m" "\<And>a. ensures l d (k a) Q"
  shows "ensures l d (act_then m k) Q"
  unfolding ensures_def
proof (intro allI impI)
  fix r b r'
  assume r: "journals l d r" "act_then m k r = (Inr b, r')"
  then obtain a t where t: "m r = (Inr a, t)" "k a t = (Inr b, r')"
    by (auto simp: act_simps)
  then have "journals l d t"
    using assms(1) r(1) journalled.P_kept unfolding keeps_def by (metis snd_conv)
  then show "Q (run_fs r')"
    using assms(2) t(2) unfolding ensures_def by blast
qed

section \<open>Applying the files\<close>

text \<open>A request after normalisation: the targets are spelled out, distinct and outside the transaction's own files.\<close>

definition targets :: "location \<Rightarrow> file_mutation list \<Rightarrow> location set" where
  "targets l ms = (\<lambda>m. located l (fm_path m)) ` set ms"

definition spelled :: "file_mutation \<Rightarrow> bool" where
  "spelled m \<longleftrightarrow> spells (fm_path m) (names_of (fm_path m))"

definition wanted :: "location \<Rightarrow> file_mutation list \<Rightarrow> location \<Rightarrow> string option set" where
  "wanted l ms k = fm_desired_after ` {m \<in> set ms. located l (fm_path m) = k}"

lemma wanted_other: "k \<notin> targets l ms \<Longrightarrow> wanted l ms k = {}"
  by (auto simp: wanted_def targets_def)

lemma apply_one_stays:
  assumes "spelled m" "\<forall>p. quiet l E (hook p)" "unrelated l (targets l ms) E" "m \<in> set ms"
  shows "stays x_fs {l} (scratch l \<union> E) (wanted l ms) (apply_mutation hook (abs_path l) m rcd)"
  unfolding stays_def
proof (intro allI impI)
  fix w :: tx_world
  assume r: "ready {l} (x_fs w)"
  have E: "unrelated l {l @ names_of (fm_path m)} E"
    using assms(3,4) by (auto simp: unrelated_def targets_def located_def)
  have "moves (scratch l \<union> E) (only_at (l @ names_of (fm_path m)) {fm_desired_after m}) (x_fs w)
      (x_fs (snd (apply_mutation hook (abs_path l) m rcd w)))"
    using apply_mutation_moves [where hook = hook, OF r assms(1) [unfolded spelled_def] assms(2) [THEN spec] E] .
  then show "moves (scratch l \<union> E) (wanted l ms) (x_fs w) (x_fs (snd (apply_mutation hook (abs_path l) m rcd w)))"
    by (rule moves_mono) (use assms(4) in \<open>auto simp: only_at_def wanted_def located_def\<close>)
qed

lemma quiet_stays: "quiet l E m \<Longrightarrow> stays x_fs {l} (scratch l \<union> E) A m"
  by (rule stays_mono) auto

lemma apply_files_keeps:
  assumes "list_all spelled ms" "\<forall>p. quiet l E (hook p)" "unrelated l (targets l ms) E"
    and "set (map fst prs) \<subseteq> set ms"
  shows "keeps l d (scratch l \<union> E) (wanted l ms) (apply_files hook (abs_path l) first prs)"
  using assms(4)
proof (induction prs arbitrary: first)
  case (Cons p prs)
  obtain m rcd where p: "p = (m, rcd)"
    by (cases p)
  have "m \<in> set ms"
    using Cons.prems p by simp
  then have one: "stays x_fs {l} (scratch l \<union> E) (wanted l ms) (apply_mutation hook (abs_path l) m rcd)"
    using apply_one_stays [OF _ assms(2,3)] assms(1) by (simp add: list_all_iff)
  have hook: "keeps l d (scratch l \<union> E) (wanted l ms) (if first then on_world (hook q) else act_return ())" for q
    using keeps_on_world [OF quiet_stays [OF assms(2) [THEN spec, of q]]] by simp
  show ?case
    unfolding p apply_files.simps using Cons.IH [of False] Cons.prems one hook
    by (intro keeps_then keeps_on_world keeps_pure) auto
qed simp

lemma verify_mutations_applied_Inr:
  assumes "ready {l} f" "list_all spelled ms" "verify_mutations_applied f (abs_path l) ms = Inr u" "m \<in> set ms"
  shows "content_at f (located l (fm_path m)) = fm_desired_after m"
proof -
  have "read_validated_target f (abs_path l) (fm_path m) = Inr (fm_desired_after m)"
    using assms(3,4) by (auto simp: verify_mutations_applied_def res_simps try_each_Inr list_all2_conv_all_nth in_set_conv_nth)
  then show ?thesis
    using read_validated_target_Inr(3) [OF assms(1)] assms(2,4) by (auto simp: located_def spelled_def list_all_iff)
qed

lemma stays_see [simp]: "stays x_fs D S A (capture_git_for_manifest h manifest)"
  by (auto simp: capture_git_for_manifest_def capture_git_def intro!: stays_then)

lemma apply_phase_keeps:
  assumes "list_all spelled (pt_mutations c)" "\<forall>p. quiet l E (hook p)" "unrelated l (targets l (pt_mutations c)) E"
    and "pt_workspace c = abs_path l"
  shows "keeps l d (scratch l \<union> E) (wanted l (pt_mutations c)) (apply_phase h hook c)"
proof -
  let ?S = "scratch l \<union> E" and ?A = "wanted l (pt_mutations c)"
  have hook: "keeps l d ?S ?A (on_world (hook q))" for q
    using keeps_on_world [OF quiet_stays [OF assms(2) [THEN spec, of q]]] .
  have files: "keeps l d ?S ?A (apply_files hook (abs_path l) True (zip (pt_mutations c) (tm_files (pt_manifest c))))"
    by (rule apply_files_keeps [OF assms(1-3)]) (auto dest: set_zip_leftD)
  show ?thesis
    unfolding apply_phase_def Let_def assms(4)
    by (intro keeps_then hook files keeps_transition keeps_modified_transition keeps_pure keeps_on_world) simp_all
qed

lemma apply_phase_ensures:
  assumes "list_all spelled (pt_mutations c)" "\<forall>p. quiet l E (hook p)" "unrelated l (targets l (pt_mutations c)) E"
    and "pt_workspace c = abs_path l" "targets l (pt_mutations c) \<inter> scratch l = {}"
  shows "ensures l d (apply_phase h hook c)
    (\<lambda>f. \<forall>m \<in> set (pt_mutations c). content_at f (located l (fm_path m)) = fm_desired_after m)"
proof -
  let ?S = "scratch l \<union> E" and ?A = "wanted l (pt_mutations c)"
  have hook: "keeps l d ?S ?A (on_world (hook q))" for q
    using keeps_on_world [OF quiet_stays [OF assms(2) [THEN spec, of q]]] .
  have files: "keeps l d ?S ?A (apply_files hook (abs_path l) True (zip (pt_mutations c) (tm_files (pt_manifest c))))"
    by (rule apply_files_keeps [OF assms(1-3)]) (auto dest: set_zip_leftD)
  have last: "ensures l d (act_then (on_world (see (\<lambda>f. verify_mutations_applied f (abs_path l) (pt_mutations c)))) (\<lambda>_.
      modified_transition h Committed msg g))
    (\<lambda>f. \<forall>m \<in> set (pt_mutations c). content_at f (located l (fm_path m)) = fm_desired_after m)" for msg g
    unfolding ensures_def
  proof (intro allI impI ballI)
    fix r a r' m
    assume j: "journals l d r" and m: "m \<in> set (pt_mutations c)"
      and run: "act_then (on_world (see (\<lambda>f. verify_mutations_applied f (abs_path l) (pt_mutations c)))) (\<lambda>_.
        modified_transition h Committed msg g) r = (Inr a, r')"
    have v: "verify_mutations_applied (run_fs r) (abs_path l) (pt_mutations c) = Inr ()"
        and t: "modified_transition h Committed msg g r = (Inr a, r')"
      using run by (auto simp: act_simps)
    have "moves (scratch l) (\<lambda>_. {}) (run_fs r) (run_fs r')"
      using keeps_modified_transition [of l "scratch l" d "\<lambda>_. {}" h Committed msg g] j t
      unfolding keeps_def steps_def by (metis order_refl snd_conv)
    then have "content_at (run_fs r') (located l (fm_path m)) = content_at (run_fs r) (located l (fm_path m))"
      by (rule moves_content_same) (use assms(5) m in \<open>auto simp: targets_def\<close>)
    then show "content_at (run_fs r') (located l (fm_path m)) = fm_desired_after m"
      using verify_mutations_applied_Inr [OF journals_ready [OF j] assms(1) v m] by simp
  qed
  show ?thesis
    unfolding apply_phase_def Let_def assms(4)
    by (rule ensures_then [where S = ?S and A = ?A]; (intro hook files keeps_transition keeps_modified_transition keeps_pure keeps_on_world last)?;
        simp?)+
qed

end
