(* ===== verification/TxPrepare.thy ===== *)
theory TxPrepare
  imports TxAtomic
begin

text \<open>
  Preparation: it writes below the metadata directory only, and when it succeeds the backups, the
  manifest and the journal stand for the requested mutations, whose expected contents were found.
\<close>

section \<open>Contracts\<close>

text \<open>
  \<open>runs P S m Q\<close>: from a file system with \<open>P\<close> the action changes nothing outside \<open>S\<close>, whatever its result, and a
  result \<open>a\<close> comes with \<open>Q a\<close>.
\<close>

abbreviation kept :: "location set \<Rightarrow> fs \<Rightarrow> fs \<Rightarrow> bool" where
  "kept S \<equiv> moves S (\<lambda>_. {})"

definition runs :: "(fs \<Rightarrow> bool) \<Rightarrow> location set \<Rightarrow> 'a tx \<Rightarrow> ('a \<Rightarrow> fs \<Rightarrow> bool) \<Rightarrow> bool" where
  "runs P S m Q \<longleftrightarrow> (\<forall>w. P (x_fs w) \<longrightarrow>
     kept S (x_fs w) (x_fs (snd (m w))) \<and> (\<forall>a w'. m w = (Inr a, w') \<longrightarrow> Q a (x_fs w')))"

definition stable :: "location set \<Rightarrow> (fs \<Rightarrow> bool) \<Rightarrow> bool" where
  "stable S F \<longleftrightarrow> (\<forall>f f'. kept S f f' \<longrightarrow> F f \<longrightarrow> F f')"

lemma runs_then:
  assumes "runs P S m Q" "\<And>a. runs (Q a) S (k a) R"
  shows "runs P S (act_then m k) R"
  unfolding runs_def
proof (intro allI impI conjI)
  fix w :: tx_world
  assume P: "P (x_fs w)"
  obtain x w1 where m: "m w = (x, w1)"
    by fastforce
  have m1: "kept S (x_fs w) (x_fs w1)" "\<And>a. x = Inr a \<Longrightarrow> Q a (x_fs w1)"
    using assms(1) P m unfolding runs_def by fastforce+
  show "kept S (x_fs w) (x_fs (snd (act_then m k w)))"
    using m1 m assms(2) moves_trans [OF m1(1)] unfolding runs_def by (cases x) (auto simp: act_then_def)
  show "R b (x_fs w')" if "act_then m k w = (Inr b, w')" for b w'
    using that m m1 assms(2) unfolding runs_def by (auto simp: act_simps)
qed

lemma runs_conseq: "runs P S m Q \<Longrightarrow> (\<And>f. P' f \<Longrightarrow> P f) \<Longrightarrow> (\<And>a f. Q a f \<Longrightarrow> Q' a f) \<Longrightarrow> runs P' S m Q'"
  unfolding runs_def by blast

lemma runs_frame:
  assumes "runs P S m Q" "stable S F"
  shows "runs (\<lambda>f. P f \<and> F f) S m (\<lambda>a f. Q a f \<and> F f)"
  using assms unfolding runs_def stable_def by (metis snd_conv)

lemma runs_see: "runs P S (see g) (\<lambda>a f. P f \<and> g f = Inr a)"
  by (simp add: runs_def see_def)

lemma runs_fail [simp]: "runs P S (act_fail e) Q" "runs P S (tx_fail kd msg) Q"
  by (auto simp: runs_def act_fail_def tx_fail_def)

lemma runs_return: "(\<And>f. P f \<Longrightarrow> Q a f) \<Longrightarrow> runs P S (act_return a) Q"
  by (simp add: runs_def act_return_def)

lemma runs_res: "runs P S (act_res x) (\<lambda>a f. P f \<and> x = Inr a)"
  by (auto simp: runs_def act_res_def)

lemma runs_res_then: "(\<And>a. x = Inr a \<Longrightarrow> runs P S (k a) R) \<Longrightarrow> runs P S (act_then (act_res x) k) R"
  by (cases x) (auto simp: runs_def act_then_def act_res_def)

lemma runs_see_then: "(\<And>a. runs P S (k a) R) \<Longrightarrow> runs P S (act_then (see g) k) R"
  by (rule runs_then [OF runs_see], rule runs_conseq [where P = P]) simp_all

lemma runs_fact: "(\<And>f. P f \<Longrightarrow> C) \<Longrightarrow> (C \<Longrightarrow> runs P S m Q) \<Longrightarrow> runs P S m Q"
  unfolding runs_def by blast

lemma runs_context: "runs P S (with_context c m) Q \<longleftrightarrow> runs P S m Q"
  by (simp add: runs_def tx_act_simps(3))

lemma runs_if: "(b \<Longrightarrow> runs P S m Q) \<Longrightarrow> (\<not> b \<Longrightarrow> runs P S m' Q) \<Longrightarrow> runs P S (if b then m else m') Q"
  by simp

lemma runs_time [simp]: "runs P S unix_time_ms (\<lambda>_. P)" "runs P S unix_time_nanos (\<lambda>_. P)" "runs P S next_unique (\<lambda>_. P)"
  by (auto simp: runs_def unix_time_ms_def unix_time_nanos_def next_unique_def Let_def split: if_splits)

lemma stable_ready: "stable S (ready D)"
  using ready_moves by (auto simp: stable_def)

lemma stable_dir: "stable S (\<lambda>f. is_dir_at f d)"
  by (auto simp: stable_def moves_def)

lemma stable_content: "k \<notin> S \<Longrightarrow> stable S (\<lambda>f. content_at f k = c)"
  using moves_content_same by (auto simp: stable_def)

lemma stable_conj: "stable S F \<Longrightarrow> stable S G \<Longrightarrow> stable S (\<lambda>f. F f \<and> G f)"
  unfolding stable_def by blast

lemma stable_ball: "(\<And>x. x \<in> X \<Longrightarrow> stable S (F x)) \<Longrightarrow> stable S (\<lambda>f. \<forall>x \<in> X. F x f)"
  unfolding stable_def by blast

lemma runs_hook: "quiet l E m \<Longrightarrow> E \<subseteq> S \<Longrightarrow> runs (ready {l}) S m (\<lambda>_. ready {l})"
  unfolding runs_def
proof (intro allI impI conjI)
  fix w :: tx_world and a and w' :: tx_world
  assume q: "quiet l E m" "E \<subseteq> S" and r: "ready {l} (x_fs w)"
  have m: "kept S (x_fs w) (x_fs (snd (m w)))"
    using moves_mono [OF stays_moves [OF q(1) r] q(2)] by simp
  then show "kept S (x_fs w) (x_fs (snd (m w)))" .
  show "ready {l} (x_fs w')" if "m w = (Inr a, w')"
    using ready_moves [OF r m] that by simp
qed

section \<open>Directories\<close>

lemma runs_mkdir:
  assumes "valid_name n" "d @ [n] \<in> S"
  shows "runs (ready {d}) S (create_directory (abs_path (d @ [n])) ctx) (\<lambda>_ f. ready {d, d @ [n]} f)"
  unfolding runs_def
proof (intro allI impI)
  fix w :: tx_world
  assume r: "ready {d} (x_fs w)"
  have "kept S (x_fs w) f' \<and> ready {d, d @ [n]} f'" if c: "create_dir (x_fs w) (abs_path (d @ [n])) m = Inr f'" for f' m
  proof -
    obtain k where k: "entry_at (x_fs w) (abs_path (d @ [n])) = Inr k"
      using c by (auto simp: create_dir_def res_simps)
    then have "k = d @ [n]"
      using entry_at_dir [OF _ _ assms(1)] r by (auto simp: ready_def)
    then have m: "kept S (x_fs w) f'" "is_dir_at f' (d @ [n])"
      using create_dir_moves [OF c k] assms(2) by auto
    then show ?thesis
      using ready_moves [OF r m(1)] by (simp add: ready_def)
  qed
  then show "kept S (x_fs w) (x_fs (snd (create_directory (abs_path (d @ [n])) ctx w))) \<and>
      (\<forall>a w'. create_directory (abs_path (d @ [n])) ctx w = (Inr a, w') \<longrightarrow> ready {d, d @ [n]} (x_fs w'))"
    by (auto simp: create_directory_def alter_def io_context_def res_simps split: sum.splits)
qed

lemma inspected_dir:
  assumes "ready {d} f" "valid_name n" "symlink_metadata f (abs_path (d @ [n])) = Inr x" "is_dir_node x"
  shows "ready {d, d @ [n]} f"
proof -
  have f: "wf_fs f" "is_dir_at f d"
    using assms(1) by (auto simp: ready_def)
  have "fs_nodes f (d @ [n]) = Some x"
    using symlink_metadata_spelled [OF f(1) dir_names [OF f] assms(2) f(2) assms(3)] .
  then show ?thesis
    using assms(1,4) by (cases x) (auto simp: ready_def is_dir_at_def)
qed

lemma runs_sync [simp]: "runs P S (sync_directory p) (\<lambda>_. P)" "runs P S (sync_parent_directory p) (\<lambda>_. P)"
  by (auto simp: runs_def sync_directory_def sync_parent_directory_def see_def act_return_def split: option.splits)

lemma runs_sync_weak: "(\<And>f. P f \<Longrightarrow> Q f) \<Longrightarrow> runs P S (sync_directory p) (\<lambda>_. Q)"
  by (rule runs_conseq [OF runs_sync(1)])

lemma runs_verify_dir:
  assumes "valid_name n"
  shows "runs (ready {d}) S (verify_workspace_directory ws (abs_path (d @ [n])) label) (\<lambda>_. ready {d, d @ [n]})"
  unfolding verify_workspace_directory_def
proof (rule runs_then [OF runs_see], goal_cases)
  case (1 x)
  let ?P = "\<lambda>f. ready {d} f \<and> io_context (''failed to inspect '' @ label @ '': '' @ abs_path (d @ [n])) (symlink_metadata f (abs_path (d @ [n]))) = Inr x"
  show ?case
  proof (rule runs_if [OF runs_fail(2)])
    assume dir: "\<not> (is_link_or_reparse x \<or> \<not> is_dir_node x)"
    have there: "ready {d, d @ [n]} f" if "?P f" for f
      using inspected_dir [OF _ assms, of d f x] that dir by (simp add: io_context_def res_simps)
    show "runs ?P S (act_then (see (\<lambda>f. io_context (''failed to resolve '' @ label @ '': '' @ abs_path (d @ [n])) (canonicalize f (abs_path (d @ [n])))))
        (\<lambda>canonical. if \<not> path_starts_with canonical ws then tx_fail Precondition (label @ '' escapes workspace: '' @ abs_path (d @ [n]))
          else sync_directory (abs_path (d @ [n])))) (\<lambda>_. ready {d, d @ [n]})"
      by (intro runs_then [OF runs_see] runs_if runs_fail runs_conseq [OF runs_sync(1)]) (use there in auto)
  qed
qed

lemma runs_try_inspect:
  assumes "\<And>x. runs (\<lambda>f. P f \<and> symlink_metadata f p = Inr x) S (k (Inr x)) Q"
    and "runs P S (k (Inl (IoCause NotFound))) Q" "\<And>e. e \<noteq> NotFound \<Longrightarrow> runs P S (k (Inl (IoCause e))) Q"
  shows "runs P S (act_try (see (\<lambda>f. map_err IoCause (symlink_metadata f p))) k) Q"
  unfolding runs_def
proof (intro allI impI)
  fix w :: tx_world
  assume P: "P (x_fs w)"
  show "kept S (x_fs w) (x_fs (snd (act_try (see (\<lambda>f. map_err IoCause (symlink_metadata f p))) k w))) \<and>
      (\<forall>a w'. act_try (see (\<lambda>f. map_err IoCause (symlink_metadata f p))) k w = (Inr a, w') \<longrightarrow> Q a (x_fs w'))"
    using assms P unfolding runs_def
    by (cases "symlink_metadata (x_fs w) p"; cases "symlink_metadata (x_fs w) p = Inl NotFound")
      (auto simp: act_try_def see_def)
qed

lemma runs_ensure_dir:
  assumes "valid_name n" "d @ [n] \<in> S"
  shows "runs (ready {d}) S (ensure_workspace_directory ws (abs_path (d @ [n])) label) (\<lambda>_. ready {d, d @ [n]})"
  unfolding ensure_workspace_directory_def
proof (rule runs_then [where Q = "\<lambda>_. ready {d}"])
  have mk: "runs (ready {d}) S (act_then (create_directory (abs_path (d @ [n])) ctx) (\<lambda>_. sync_parent_directory p)) (\<lambda>_. ready {d})" for ctx p
    by (rule runs_then [OF runs_mkdir [OF assms]], rule runs_conseq [OF runs_sync(2)]) (auto intro: ready_mono)
  show "runs (ready {d}) S (act_try (see (\<lambda>f. map_err IoCause (symlink_metadata f (abs_path (d @ [n]))))) (\<lambda>r. case r of
        Inr _ \<Rightarrow> act_return ()
      | Inl (IoCause NotFound) \<Rightarrow>
          act_then (create_directory (abs_path (d @ [n])) (''failed to create '' @ label @ '': '' @ abs_path (d @ [n]))) (\<lambda>_.
          sync_parent_directory (abs_path (d @ [n])))
      | Inl e \<Rightarrow> act_fail (Context (''failed to inspect '' @ label @ '': '' @ abs_path (d @ [n])) e))) (\<lambda>_. ready {d})"
    by (rule runs_try_inspect) (use mk in \<open>auto intro: runs_return split: io_error.splits\<close>)
qed (rule runs_verify_dir [OF assms(1)])

section \<open>The lock\<close>

lemma OPTICCODE_DIR_valid [simp]: "valid_name OPTICCODE_DIR"
  by (simp add: OPTICCODE_DIR_def valid_name_def junk_def sep_def)

lemma scratch_below [simp]: "l @ OPTICCODE_DIR # ns \<in> scratch l"
  by (auto simp: scratch_def prefix_def)

text \<open>The names of a ready workspace are valid, so paths below it are spelled out.\<close>

lemma runs_names:
  assumes "\<forall>n \<in> set l. valid_name n \<Longrightarrow> runs (ready (insert l D)) S m Q"
  shows "runs (ready (insert l D)) S m Q"
  using assms dir_names unfolding runs_def ready_def by blast

lemma metadata_root_runs:
  assumes "scratch l \<subseteq> S"
  shows "runs (ready {l}) S (metadata_root (abs_path l)) (\<lambda>_. ready {l, l @ [OPTICCODE_DIR]})"
proof (rule runs_names)
  assume names: "\<forall>n \<in> set l. valid_name n"
  have mk: "runs (ready {l}) S (act_then (create_directory (abs_path (l @ [OPTICCODE_DIR])) ctx) (\<lambda>_. sync_directory q))
      (\<lambda>_. ready {l, l @ [OPTICCODE_DIR]})" for ctx q
    by (rule runs_then [OF runs_mkdir]) (use assms in \<open>auto simp: subset_iff\<close>)
  show "runs (ready {l}) S (metadata_root (abs_path l)) (\<lambda>_. ready {l, l @ [OPTICCODE_DIR]})"
    unfolding metadata_root_def Let_def path_join_abs_path [OF names OPTICCODE_DIR_valid]
    by (rule runs_try_inspect)
      (use mk inspected_dir [where n = OPTICCODE_DIR] in \<open>auto intro!: runs_return split: io_error.splits\<close>)
qed

lemma runs_open_append:
  assumes "valid_name n" "d @ [n] \<in> S"
  shows "runs (\<lambda>f. ready (insert d D) f \<and> (\<forall>x. symlink_metadata f (abs_path (d @ [n])) = Inr x \<longrightarrow> \<not> is_link_node x)) S
    (alter (\<lambda>m f. io_context ctx (open_append f (abs_path (d @ [n])) m b))) (\<lambda>_. ready (insert d D))"
  unfolding runs_def
proof (intro allI impI)
  fix w :: tx_world
  assume P: "ready (insert d D) (x_fs w) \<and> (\<forall>x. symlink_metadata (x_fs w) (abs_path (d @ [n])) = Inr x \<longrightarrow> \<not> is_link_node x)"
  then have r: "ready {d} (x_fs w)"
    using ready_mono by blast
  have "kept S (x_fs w) f' \<and> ready (insert d D) f'" if "open_append (x_fs w) (abs_path (d @ [n])) m b = Inr f'" for f' m
    using open_append_moves [OF r assms(1) _ assms(2) that, of "\<lambda>_. {}"] P ready_moves by blast
  then show "kept S (x_fs w) (x_fs (snd (alter (\<lambda>m f. io_context ctx (open_append f (abs_path (d @ [n])) m b)) w))) \<and>
     (\<forall>a w'. alter (\<lambda>m f. io_context ctx (open_append f (abs_path (d @ [n])) m b)) w = (Inr a, w') \<longrightarrow> ready (insert d D) (x_fs w'))"
    by (auto simp: alter_def io_context_def res_simps split: sum.splits)
qed

lemma acquire_lock_runs:
  assumes S: "scratch l \<subseteq> S"
  shows "runs (ready {l}) S (acquire_lock h (abs_path l)) (\<lambda>_. ready {l, l @ [OPTICCODE_DIR]})"
proof (rule runs_names)
  assume names: "\<forall>n \<in> set l. valid_name n"
  have lock: "valid_name WORKSPACE_LOCK_FILE"
    by (simp add: WORKSPACE_LOCK_FILE_def valid_name_def junk_def sep_def)
  have names': "\<forall>n \<in> set (l @ [OPTICCODE_DIR]). valid_name n"
    using names by simp
  note p = path_join_abs_path [OF names OPTICCODE_DIR_valid] path_join_abs_path [OF names' lock]
  let ?o = "l @ [OPTICCODE_DIR]"
  let ?lock = "abs_path (?o @ [WORKSPACE_LOCK_FILE])"
  have below: "?o @ [WORKSPACE_LOCK_FILE] \<in> S"
    using S by (auto simp: subset_iff)
  have open_it: "runs (\<lambda>f. (ready {l, ?o} f \<and> X f) \<and> (case symlink_metadata f ?lock of Inl _ \<Rightarrow> Inr ()
       | Inr n \<Rightarrow> ensure (\<not> (is_link_or_reparse n \<or> \<not> is_file_node n)) e) = Inr u) S
     (alter (\<lambda>m f. io_context ctx (open_append f ?lock m []))) (\<lambda>_. ready {l, ?o})" for X e u ctx
    using runs_open_append [OF lock below, of "{l}" ctx "[]"]
    by (rule runs_conseq) (auto simp: insert_commute is_link_or_reparse_def ensure_def split: sum.splits if_splits)
  have last: "runs (ready {l, ?o}) S (case th_try_lock h ?lock of
       WouldBlock \<Rightarrow> tx_fail Precondition e1 | LockError e \<Rightarrow> tx_fail IoKind (e2 e)
     | LockTaken \<Rightarrow> act_then (see (\<lambda>f. io_context ctx (sync_all f ?lock))) (\<lambda>_. sync_directory q)) (\<lambda>_. ready {l, ?o})" for e1 e2 ctx q
    by (cases "th_try_lock h ?lock") (auto intro!: runs_then [OF runs_see] runs_sync_weak)
  show "runs (ready {l}) S (acquire_lock h (abs_path l)) (\<lambda>_. ready {l, ?o})"
    unfolding acquire_lock_def Let_def p
    by (rule runs_then [OF metadata_root_runs [OF S]], rule runs_then [OF runs_see], rule runs_if [OF runs_fail(2)],
        rule runs_then [OF runs_see], rule runs_then [OF open_it], rule last)
qed

section \<open>The directory of a run\<close>

abbreviation runs_loc :: "location \<Rightarrow> location" where
  "runs_loc l \<equiv> l @ [OPTICCODE_DIR, ''runs'']"

abbreviation run_loc :: "location \<Rightarrow> string \<Rightarrow> location" where
  "run_loc l i \<equiv> l @ [OPTICCODE_DIR, ''runs'', i]"

lemma runs_try_alter:
  assumes "runs P S (alter g) (\<lambda>_. Q)" "runs Q S (k (Inr ())) R" "\<And>e. runs P S (k (Inl e)) R"
  shows "runs P S (act_try (alter g) k) R"
  unfolding runs_def
proof (intro allI impI)
  fix w :: tx_world
  assume P: "P (x_fs w)"
  show "kept S (x_fs w) (x_fs (snd (act_try (alter g) k w))) \<and> (\<forall>a w'. act_try (alter g) k w = (Inr a, w') \<longrightarrow> R a (x_fs w'))"
  proof (cases "g (x_meta w) (x_fs w)")
    case (Inl e)
    then have "act_try (alter g) k w = k (Inl e) w"
      by (simp add: act_try_def alter_def)
    then show ?thesis
      using assms(3) P unfolding runs_def by simp
  next
    case (Inr f)
    let ?w = "w\<lparr>x_fs := f\<rparr>"
    have a: "alter g w = (Inr (), ?w)" "act_try (alter g) k w = k (Inr ()) ?w"
      using Inr by (simp_all add: act_try_def alter_def)
    have m: "kept S (x_fs w) f" and q: "Q f"
      using assms(1) P a(1) unfolding runs_def by fastforce+
    show ?thesis
      unfolding a(2) using assms(2) [unfolded runs_def, THEN spec, of ?w] q moves_trans [OF m] by auto
  qed
qed

lemma claim_run_dir_runs:
  assumes "valid_name n" "d @ [n] \<in> S"
  shows "runs (ready (insert d D)) S (claim_run_dir ws runs_dir (abs_path (d @ [n])))
    (\<lambda>created f. ready (insert d D) f \<and> (created \<longrightarrow> is_dir_at f (d @ [n])))"
  unfolding claim_run_dir_def
proof (rule runs_try_alter)
  have "runs (ready {d}) S (create_directory (abs_path (d @ [n])) []) (\<lambda>_. ready {d, d @ [n]})"
    by (rule runs_mkdir [OF assms])
  then have "runs (ready {d}) S (alter (\<lambda>m f. map_err IoCause (create_dir f (abs_path (d @ [n])) m))) (\<lambda>_. ready {d, d @ [n]})"
    by (auto simp: runs_def create_directory_def alter_def io_context_def res_simps split: sum.splits)
  from runs_frame [OF this stable_ready [where D = D]]
  show "runs (ready (insert d D)) S (alter (\<lambda>m f. map_err IoCause (create_dir f (abs_path (d @ [n])) m)))
      (\<lambda>_ f. ready (insert d D) f \<and> is_dir_at f (d @ [n]))"
    by (rule runs_conseq) (auto simp: ready_def)
next
  let ?Q = "\<lambda>f. ready (insert d D) f \<and> is_dir_at f (d @ [n])"
  have "runs (\<lambda>f. ready {d} f \<and> ?Q f) S (verify_workspace_directory ws (abs_path (d @ [n])) ''transaction directory'')
      (\<lambda>_ f. ready {d, d @ [n]} f \<and> ?Q f)"
    by (rule runs_frame [OF runs_verify_dir [OF assms(1)]]) (intro stable_conj stable_ready stable_dir)
  then have v: "runs ?Q S (verify_workspace_directory ws (abs_path (d @ [n])) ''transaction directory'') (\<lambda>_. ?Q)"
    by (rule runs_conseq) (auto simp: ready_def)
  show "runs ?Q S (case Inr () of
        Inr _ \<Rightarrow>
          act_then (sync_directory runs_dir) (\<lambda>_.
          act_then (verify_workspace_directory ws (abs_path (d @ [n])) ''transaction directory'') (\<lambda>_. act_return True))
      | Inl (IoCause AlreadyExists) \<Rightarrow> act_return False
      | Inl e \<Rightarrow> act_fail (Context ''failed to create transaction directory'' e))
    (\<lambda>created f. ready (insert d D) f \<and> (created \<longrightarrow> is_dir_at f (d @ [n])))"
    by (auto intro!: runs_then [OF runs_sync(1)] runs_then [OF v] runs_return)
qed (auto intro!: runs_return split: tool_error.splits io_error.splits)

lemma valid_name_starts:
  assumes "sep \<notin> set n" "n \<noteq> []" "hd n \<noteq> CHR ''.''"
  shows "valid_name n"
  using assms by (cases n) (auto simp: valid_name_def junk_def)

lemma transaction_id_valid:
  assumes "validate_transaction_id i = Inr u"
  shows "valid_name i"
proof (rule valid_name_starts)
  have ok: "i \<noteq> []" "\<forall>c \<in> set i. is_ascii_alphanumeric c \<or> c = CHR ''-'' \<or> c = CHR ''_''"
    using assms by (auto simp: validate_transaction_id_def ensure_def list_all_iff split: if_splits)
  have no: "CHR ''.'' \<notin> set i"
    using ok(2) by (auto simp: is_ascii_alphanumeric_def is_ascii_alphabetic_def is_ascii_digit_def is_ascii_lower_def is_ascii_upper_def)
  show "i \<noteq> []" "hd i \<noteq> CHR ''.''"
    using ok no hd_in_set [OF ok(1)] by metis+
  show "sep \<notin> set i"
    using ok
    by (auto simp: sep_def is_ascii_alphanumeric_def is_ascii_alphabetic_def is_ascii_digit_def is_ascii_lower_def is_ascii_upper_def)
qed

lemma allocated_id_valid: "valid_name (''apply-'' @ dec_of_nat a @ ''-'' @ dec_of_nat b @ ''-'' @ dec_of_nat c)"
  by (rule valid_name_starts) (use dec_of_nat_no_sep in \<open>auto simp: sep_def\<close>)

text \<open>The directory of a run was created, with a valid name.\<close>

definition run_made :: "location \<Rightarrow> string \<times> path \<Rightarrow> fs \<Rightarrow> bool" where
  "run_made l = (\<lambda>(i, run_dir) f. valid_name i \<and> run_dir = abs_path (run_loc l i) \<and> ready {l, run_loc l i} f)"

lemma runs_valid: "valid_name ''runs''"
  by (simp add: valid_name_def junk_def sep_def)

lemma claim_runs:
  assumes S: "scratch l \<subseteq> S" and i: "valid_name i" and names: "\<forall>n \<in> set l. valid_name n"
  shows "runs (ready {runs_loc l, l}) S (claim_run_dir ws (abs_path (runs_loc l)) (path_join (abs_path (runs_loc l)) i))
    (\<lambda>created f. ready {runs_loc l, l} f \<and> (created \<longrightarrow> run_made l (i, path_join (abs_path (runs_loc l)) i) f))"
proof -
  have p: "path_join (abs_path (runs_loc l)) i = abs_path (runs_loc l @ [i])"
    by (rule path_join_abs_path) (use names i runs_valid in simp_all)
  have "runs_loc l @ [i] \<in> S"
    using S by (auto simp: subset_iff)
  from claim_run_dir_runs [OF i this, of "{l}" ws "abs_path (runs_loc l)"] show ?thesis
    unfolding p by (rule runs_conseq) (use i in \<open>auto simp: run_made_def ready_def\<close>)
qed

lemma allocate_run_dir_runs:
  assumes "scratch l \<subseteq> S" "\<forall>n \<in> set l. valid_name n"
  shows "runs (ready {runs_loc l, l}) S (allocate_run_dir k ws (abs_path (runs_loc l))) (run_made l)"
proof (induction k)
  case (Suc k)
  have "runs (ready {runs_loc l, l}) S (act_then (claim_run_dir ws (abs_path (runs_loc l)) (path_join (abs_path (runs_loc l)) i)) (\<lambda>created.
      if created then act_return (i, path_join (abs_path (runs_loc l)) i) else allocate_run_dir k ws (abs_path (runs_loc l)))) (run_made l)"
    if "valid_name i" for i
  proof (rule runs_then [OF claim_runs [OF assms(1) that assms(2)]], rule runs_if)
    fix created
    let ?P = "\<lambda>f. ready {runs_loc l, l} f \<and> (created \<longrightarrow> run_made l (i, path_join (abs_path (runs_loc l)) i) f)"
    show "runs ?P S (act_return (i, path_join (abs_path (runs_loc l)) i)) (run_made l)" if created
      using that by (intro runs_return) simp
    show "runs ?P S (allocate_run_dir k ws (abs_path (runs_loc l))) (run_made l)"
      by (rule runs_conseq [OF Suc]) auto
  qed
  note once = this [OF allocated_id_valid]
  show ?case
    unfolding allocate_run_dir.simps
  proof (intro runs_then [OF runs_time(3)] runs_then [OF runs_time(2)])
    fix counter now
    show "runs (ready {runs_loc l, l}) S (\<lambda>w. let i = ''apply-'' @ dec_of_nat now @ ''-'' @ dec_of_nat (x_pid w) @ ''-'' @ dec_of_nat counter;
        run_dir = path_join (abs_path (runs_loc l)) i in
        act_then (claim_run_dir ws (abs_path (runs_loc l)) run_dir) (\<lambda>created.
        if created then act_return (i, run_dir) else allocate_run_dir k ws (abs_path (runs_loc l))) w) (run_made l)"
      unfolding Let_def using once unfolding runs_def by blast
  qed
qed simp

lemma create_transaction_directory_runs:
  assumes S: "scratch l \<subseteq> S"
  shows "runs (ready {l, l @ [OPTICCODE_DIR]}) S (create_transaction_directory (abs_path l) requested) (run_made l)"
proof (rule runs_names)
  assume names: "\<forall>n \<in> set l. valid_name n"
  let ?o = "l @ [OPTICCODE_DIR]"
  note rn = runs_valid
  have names': "\<forall>n \<in> set ?o. valid_name n"
    using names by simp
  have p: "path_join (path_join (abs_path l) OPTICCODE_DIR) ''runs'' = abs_path (runs_loc l)"
    using path_join_abs_path [OF names OPTICCODE_DIR_valid] path_join_abs_path [OF names' rn] by simp
  have "?o @ [''runs''] \<in> S"
    using S by (auto simp: subset_iff)
  from runs_frame [OF runs_ensure_dir [OF rn this, of "abs_path l" "''transaction runs directory''"] stable_ready [where D = "{l}"]]
  have dirs: "runs (ready {l, ?o}) S (ensure_workspace_directory (abs_path l) (abs_path (runs_loc l)) ''transaction runs directory'')
      (\<lambda>_. ready {runs_loc l, l})"
    unfolding append.assoc append.simps by (rule runs_conseq) (auto simp: ready_def)
  have given: "runs (ready {runs_loc l, l}) S (act_then (act_res (validate_transaction_id i)) (\<lambda>_.
       act_then (claim_run_dir (abs_path l) (abs_path (runs_loc l)) (path_join (abs_path (runs_loc l)) i)) (\<lambda>created.
         if created then act_return (i, path_join (abs_path (runs_loc l)) i)
         else tx_fail Collision (''transaction already exists: '' @ i)))) (run_made l)" for i
  proof (rule runs_then [OF runs_res], cases "valid_name i")
    case True
    fix u
    show "runs (\<lambda>f. ready {runs_loc l, l} f \<and> validate_transaction_id i = Inr u) S
       (act_then (claim_run_dir (abs_path l) (abs_path (runs_loc l)) (path_join (abs_path (runs_loc l)) i)) (\<lambda>created.
         if created then act_return (i, path_join (abs_path (runs_loc l)) i)
         else tx_fail Collision (''transaction already exists: '' @ i))) (run_made l)"
      by (rule runs_conseq [OF runs_then [OF claim_runs [OF S True names]]]) (auto intro!: runs_return)
  qed (auto simp: runs_def dest: transaction_id_valid)
  show "runs (ready {l, ?o}) S (create_transaction_directory (abs_path l) requested) (run_made l)"
    unfolding create_transaction_directory_def Let_def p
    by (rule runs_then [OF dirs]) (use given allocate_run_dir_runs [OF S names] in \<open>auto split: option.splits\<close>)
qed

end
