(* ===== verification/TxRequests.thy ===== *)
theory TxRequests
  imports TxPrepare
begin

text \<open>
  From a request to a prepared transaction: the targets after normalisation, the records of the
  manifest, and the contract of the whole preparation.
\<close>

section \<open>Normalisation\<close>

abbreviation portable :: "path \<Rightarrow> string" where
  "portable p \<equiv> replace_char (CHR 0x5C) (CHR ''/'') p"

definition normalised :: "fs \<Rightarrow> path \<Rightarrow> file_mutation \<Rightarrow> file_mutation \<Rightarrow> bool" where
  "normalised f workspace m m' \<longleftrightarrow> (\<exists>q. validate_relative_path (fm_path m) = Inr q
     \<and> validate_target_location f workspace q = Inr () \<and> m' = m\<lparr>fm_path := q\<rparr>)"

lemma normalize_mutations_Inr:
  assumes "normalize_mutations f workspace seen ms = Inr ms'"
  shows "list_all2 (normalised f workspace) ms ms' \<and> distinct (map (portable \<circ> fm_path) ms')
    \<and> set (map (portable \<circ> fm_path) ms') \<inter> set seen = {}"
  using assms
proof (induction ms arbitrary: seen ms')
  case (Cons m ms)
  obtain q rest where q: "validate_relative_path (fm_path m) = Inr q" "validate_target_location f workspace q = Inr ()"
      "portable q \<notin> set seen" "normalize_mutations f workspace (portable q # seen) ms = Inr rest" "ms' = m\<lparr>fm_path := q\<rparr> # rest"
    using Cons.prems by (auto simp: res_simps path_to_portable_string_def split: if_splits)
  show ?case
    using Cons.IH [OF q(4)] q by (auto simp: normalised_def)
qed simp

lemma normalised_spelled:
  assumes "normalised f workspace m m'"
  shows "spelled m'" "names_of (fm_path m') = names_of (fm_path m)" "OPTICCODE_DIR \<notin> set (names_of (fm_path m))"
    "fm_expected_before m' = fm_expected_before m" "fm_desired_after m' = fm_desired_after m"
    "utf8_valid (fm_path m')" "names_of (fm_path m) \<noteq> []"
proof -
  obtain q where q: "validate_relative_path (fm_path m) = Inr q" "m' = m\<lparr>fm_path := q\<rparr>"
    using assms by (auto simp: normalised_def)
  note n = validate_relative_path_names [OF q(1)]
  show "names_of (fm_path m') = names_of (fm_path m)"
    using names_of_spells [OF n(1)] q by simp
  then show "spelled m'"
    using n(1) q by (simp add: spelled_def)
  show "OPTICCODE_DIR \<notin> set (names_of (fm_path m))" "utf8_valid (fm_path m')" "names_of (fm_path m) \<noteq> []"
    "fm_expected_before m' = fm_expected_before m" "fm_desired_after m' = fm_desired_after m"
    using n spellsD(1) [OF n(1)] q by auto
qed

lemma located_inj:
  assumes "spelled m" "spelled m'" "located l (fm_path m) = located l (fm_path m')"
  shows "fm_path m = fm_path m'"
  using assms by (auto simp: spelled_def spells_def located_def)

text \<open>A target whose names the portable spelling keeps, and which no temporary file can be.\<close>

definition ordinary :: "path \<Rightarrow> bool" where
  "ordinary p \<longleftrightarrow> (\<forall>n \<in> set (names_of p). CHR 0x5C \<notin> set n) \<and> \<not> starts_with (last (names_of p)) ''.opticcode-''"

lemma set_join_with: "set (join_with c ns) \<subseteq> insert c (\<Union>n \<in> set ns. set n)"
  by (induction c ns rule: join_with.induct) auto

lemma portable_same:
  assumes "spells p ns" "\<forall>n \<in> set ns. CHR 0x5C \<notin> set n"
  shows "portable p = p"
proof -
  have "CHR 0x5C \<notin> set p"
    using assms set_join_with [of sep ns] by (auto simp: spells_def sep_def)
  then show ?thesis
    by (auto simp: replace_char_def intro!: map_idI)
qed

section \<open>The records of the manifest\<close>

definition rcd_for :: "tx_host \<Rightarrow> file_mutation \<Rightarrow> tx_file \<Rightarrow> bool" where
  "rcd_for h m rcd \<longleftrightarrow> tf_path rcd = portable (fm_path m) \<and> (tf_existed_before rcd \<longleftrightarrow> fm_expected_before m \<noteq> None)
     \<and> tf_before_hash rcd = map_option (fingerprint_bytes h) (fm_expected_before m)
     \<and> tf_after_hash rcd = map_option (fingerprint_bytes h) (fm_desired_after m)"

lemma rcd_for_sound: "rcd_for h m rcd \<Longrightarrow> sound_record rcd"
  by (auto simp: rcd_for_def sound_record_def)

lemma rcd_for_originals: "rcd_for h m rcd \<Longrightarrow>
    original_contents h rcd = {c. map_option (fingerprint_bytes h) c = map_option (fingerprint_bytes h) (fm_expected_before m)}"
  by (simp add: rcd_for_def original_contents_def)

text \<open>Normalised mutations and their records name the same distinct targets.\<close>

lemma records_separate:
  assumes ms: "list_all spelled ms" "distinct (map (portable \<circ> fm_path) ms)"
    and ord: "\<forall>m \<in> set ms. ordinary (fm_path m) \<and> OPTICCODE_DIR \<notin> set (names_of (fm_path m))"
    and rcds: "list_all2 (rcd_for h) ms rcds"
  shows "separate l rcds" "map (located l \<circ> tf_path) rcds = map (located l \<circ> fm_path) ms"
    "targets l ms \<inter> scratch l = {}"
proof -
  have same: "portable (fm_path m) = fm_path m" if "m \<in> set ms" for m
    using portable_same ord ms(1) that by (auto simp: list_all_iff spelled_def ordinary_def)
  show loc: "map (located l \<circ> tf_path) rcds = map (located l \<circ> fm_path) ms"
    using rcds same by (induction) (auto simp: rcd_for_def)
  have plain: "plain (names_of (fm_path m))" if "m \<in> set ms" for m
    using ord ms(1) that spellsD(1) by (fastforce simp: plain_def ordinary_def spelled_def list_all_iff)
  show t: "targets l ms \<inter> scratch l = {}"
    using plain plain_not_scratch by (auto simp: targets_def located_def)
  have "distinct (map fm_path ms)"
    using ms(2) same by (auto simp: distinct_map inj_on_def)
  then have "distinct (map (located l \<circ> fm_path) ms)"
    using ms(1) located_inj by (auto simp: distinct_map inj_on_def list_all_iff)
  moreover have "list_all sound_record rcds"
    using rcds by (induction) (auto dest: rcd_for_sound)
  ultimately show "separate l rcds"
    using loc unfolding separate_def by simp
qed

section \<open>Backups\<close>

lemma runs_write_new:
  assumes "valid_name n" "prefix (l @ [OPTICCODE_DIR]) d" "scratch l \<subseteq> S"
  shows "runs (ready {d}) S (write_new_atomic (abs_path (d @ [n])) b) (\<lambda>_. ready {d})"
  unfolding runs_def
proof (intro allI impI conjI)
  fix w :: tx_world and a and w' :: tx_world
  assume r: "ready {d} (x_fs w)"
  have m: "kept S (x_fs w) (x_fs (snd (write_new_atomic (abs_path (d @ [n])) b w)))"
    by (rule moves_mono [OF write_new_atomic_moves [OF r assms(1,2)] assms(3)]) simp
  then show "kept S (x_fs w) (x_fs (snd (write_new_atomic (abs_path (d @ [n])) b w)))" .
  show "ready {d} (x_fs w')" if "write_new_atomic (abs_path (d @ [n])) b w = (Inr a, w')"
    using ready_moves [OF r m] that by simp
qed

text \<open>A step that keeps what it starts from, in a run that started from \<open>f0\<close>.\<close>

definition since :: "location set \<Rightarrow> fs \<Rightarrow> location set \<Rightarrow> fs \<Rightarrow> bool" where
  "since S f0 D f \<longleftrightarrow> kept S f0 f \<and> ready D f"

lemma stable_since: "stable S (since S f0 D)"
  using moves_trans ready_moves unfolding stable_def since_def by blast

lemma runs_since:
  assumes "runs (ready D') S m (\<lambda>_. ready D'')" "D' \<subseteq> D"
  shows "runs (since S f0 D) S m (\<lambda>_. since S f0 (D \<union> D''))"
  by (rule runs_conseq [OF runs_frame [OF assms(1) stable_since [of S f0 D]]])
    (use assms(2) in \<open>auto simp: since_def ready_def\<close>)

lemma backup_file_valid: "valid_name (pad_zero 8 (dec_of_nat k) @ ''.bin'')"
proof -
  have "sep \<notin> set (pad_zero 8 (dec_of_nat k) @ ''.bin'')"
    using dec_of_nat_no_sep [of k] by (auto simp: pad_zero_def sep_def)
  moreover have "length (pad_zero 8 (dec_of_nat k) @ ''.bin'') > 2"
    by simp
  ultimately show ?thesis
    by (auto simp: valid_name_def junk_def)
qed

lemma artifact_names_valid [simp]:
  "valid_name BACKUPS_DIR" "valid_name EVENTS_DIR" "valid_name PATCH_FILE" "valid_name MANIFEST_FILE" "valid_name ''runs''"
  by (simp_all add: BACKUPS_DIR_def EVENTS_DIR_def PATCH_FILE_def MANIFEST_FILE_def valid_name_def junk_def sep_def)

lemma backup_path:
  assumes "\<forall>n \<in> set d. valid_name n"
  shows "path_join (abs_path d) (backup_name k) = abs_path ((d @ [BACKUPS_DIR]) @ [pad_zero 8 (dec_of_nat k) @ ''.bin''])"
proof -
  have "path_join (abs_path d) (join_with sep [BACKUPS_DIR, pad_zero 8 (dec_of_nat k) @ ''.bin'']) =
      abs_path (d @ [BACKUPS_DIR, pad_zero 8 (dec_of_nat k) @ ''.bin''])"
    by (rule path_join_names) (use assms backup_file_valid in auto)
  then show ?thesis
    by (simp add: backup_name_def sep_def)
qed

lemma runs_backup:
  assumes S: "scratch l \<subseteq> S" and names: "\<forall>n \<in> set (run_loc l i). valid_name n"
  shows "runs (ready {run_loc l i @ [BACKUPS_DIR]}) S
    (case before of None \<Rightarrow> act_return () | Some bytes \<Rightarrow> with_context ctx
       (write_new_atomic (path_join (abs_path (run_loc l i)) (backup_name k)) bytes))
    (\<lambda>_. ready {run_loc l i @ [BACKUPS_DIR]})"
proof (cases before)
  case (Some bytes)
  show ?thesis
    unfolding Some option.case runs_context backup_path [OF names]
    by (rule runs_write_new [OF backup_file_valid _ S]) simp
qed (simp add: runs_return)

lemma prepare_file_runs:
  assumes S: "S = scratch l \<union> E" and hooks: "\<forall>p. quiet l E (hook p)"
    and names: "\<forall>n \<in> set (run_loc l i). valid_name n" and f0: "ready {l} f0" "is_dir_at f0 (l @ butlast (names_of (fm_path m)))"
    and m: "spelled m" "located l (fm_path m) \<notin> S"
  defines "D \<equiv> {l, run_loc l i @ [BACKUPS_DIR]}"
  shows "runs (since S f0 D) S (prepare_file h hook (abs_path l) (abs_path (run_loc l i)) k m)
    (\<lambda>rcd f. since S f0 D f \<and> rcd_for h m rcd \<and> content_at f0 (located l (fm_path m)) = fm_expected_before m)"
proof -
  let ?b = "path_join (abs_path l) (fm_path m)"
  have found: "content_at f0 (located l (fm_path m)) = c"
    if s: "since S f0 D f" and r: "read_optional_regular_file f ?b = Inr c" for f c
  proof -
    note t = target_split [OF f0(1) m(1) [unfolded spelled_def]]
    have "is_dir_at f (l @ butlast (names_of (fm_path m)))"
      using s f0(2) by (auto simp: since_def moves_def)
    then have "ready {l @ butlast (names_of (fm_path m))} f"
      using s by (simp add: since_def ready_def)
    then have "content_at f (located l (fm_path m)) = c"
      using read_optional_Inr(2) [of "l @ butlast (names_of (fm_path m))" f "last (names_of (fm_path m))" c] r t
      by (simp add: located_def)
    then show ?thesis
      using moves_content_same [OF _ m(2)] s by (auto simp: since_def)
  qed
  have sub: "scratch l \<subseteq> S" "E \<subseteq> S"
    using S by auto
  have backup: "runs (since S f0 D) S (case before of None \<Rightarrow> act_return () | Some bytes \<Rightarrow> with_context ctx
       (write_new_atomic (path_join (abs_path (run_loc l i)) (backup_name k)) bytes)) (\<lambda>_. since S f0 D)" for before ctx
    using runs_since [OF runs_backup [OF sub(1) names], of D] by (simp add: D_def insert_absorb insert_commute)
  have hook: "runs (since S f0 D) S (if k = 0 then hook AfterFirstBackup else act_return ()) (\<lambda>_. since S f0 D)"
    using runs_since [OF runs_hook [OF hooks [THEN spec, of AfterFirstBackup] sub(2)], of D] by (simp add: D_def runs_return)
  have tail: "runs (since S f0 D) S (act_then (see (\<lambda>f. Inr (ok_of (metadata f ?b)))) (\<lambda>meta.
     act_then (case before of None \<Rightarrow> act_return () | Some bytes \<Rightarrow> with_context ctx
       (write_new_atomic (path_join (abs_path (run_loc l i)) (backup_name k)) bytes)) (\<lambda>_.
     act_then (act_res (path_to_portable_string (fm_path m))) (\<lambda>p.
     act_then (if k = 0 then hook AfterFirstBackup else act_return ()) (\<lambda>_.
     act_return (record_of h k p m meta)))))) (\<lambda>rcd f. since S f0 D f \<and> rcd_for h m rcd)" for before ctx
    by (intro runs_see_then runs_then [OF backup] runs_res_then runs_then [OF hook] runs_return)
      (auto simp: rcd_for_def record_of_def Let_def path_to_portable_string_def split: if_splits)
  show ?thesis
    unfolding prepare_file_def Let_def
  proof (rule runs_then [OF runs_see], rule runs_if [OF runs_fail(2)], rule runs_fact)
    fix before f
    assume "since S f0 D f \<and> read_optional_regular_file f ?b = Inr before" "\<not> before \<noteq> fm_expected_before m"
    then show "content_at f0 (located l (fm_path m)) = fm_expected_before m"
      using found by blast
  next
    fix before
    assume c: "content_at f0 (located l (fm_path m)) = fm_expected_before m"
    show "runs (\<lambda>f. since S f0 D f \<and> read_optional_regular_file f ?b = Inr before) S
      (act_then (see (\<lambda>f. Inr (ok_of (metadata f ?b)))) (\<lambda>meta.
     act_then (case before of None \<Rightarrow> act_return () | Some bytes \<Rightarrow>
       with_context (''failed to persist transaction backup for '' @ fm_path m)
       (write_new_atomic (path_join (abs_path (run_loc l i)) (backup_name k)) bytes)) (\<lambda>_.
     act_then (act_res (path_to_portable_string (fm_path m))) (\<lambda>p.
     act_then (if k = 0 then hook AfterFirstBackup else act_return ()) (\<lambda>_.
     act_return (record_of h k p m meta))))))
     (\<lambda>rcd f. since S f0 D f \<and> rcd_for h m rcd \<and> content_at f0 (located l (fm_path m)) = fm_expected_before m)"
      by (rule runs_conseq [OF tail]) (use c in auto)
  qed
qed

text \<open>What the preparation of a list of mutations needs of the file system it starts from.\<close>

definition preparable :: "location \<Rightarrow> location set \<Rightarrow> fs \<Rightarrow> file_mutation list \<Rightarrow> bool" where
  "preparable l S f ms \<longleftrightarrow> ready {l} f \<and> (\<forall>m \<in> set ms. spelled m \<and> located l (fm_path m) \<notin> S
     \<and> is_dir_at f (l @ butlast (names_of (fm_path m))))"

definition prepared_for :: "tx_host \<Rightarrow> location \<Rightarrow> fs \<Rightarrow> file_mutation list \<Rightarrow> tx_file list \<Rightarrow> bool" where
  "prepared_for h l f ms rcds \<longleftrightarrow> list_all2 (rcd_for h) ms rcds
     \<and> (\<forall>m \<in> set ms. content_at f (located l (fm_path m)) = fm_expected_before m)"

lemma prepare_files_runs:
  assumes S: "S = scratch l \<union> E" and hooks: "\<forall>p. quiet l E (hook p)"
    and names: "\<forall>n \<in> set (run_loc l i). valid_name n" and f0: "preparable l S f0 ms"
  shows "runs (since S f0 {l, run_loc l i @ [BACKUPS_DIR]}) S (prepare_files h hook (abs_path l) (abs_path (run_loc l i)) k ms)
    (\<lambda>rcds f. since S f0 {l, run_loc l i @ [BACKUPS_DIR]} f \<and> prepared_for h l f0 ms rcds)"
  using f0
proof (induction ms arbitrary: k)
  case Nil
  show ?case
    by (simp add: prepared_for_def runs_return)
next
  case (Cons m ms)
  let ?I = "since S f0 {l, run_loc l i @ [BACKUPS_DIR]}"
  have one: "runs ?I S (prepare_file h hook (abs_path l) (abs_path (run_loc l i)) k m)
      (\<lambda>rcd f. ?I f \<and> rcd_for h m rcd \<and> content_at f0 (located l (fm_path m)) = fm_expected_before m)"
    using prepare_file_runs [OF S hooks names] Cons.prems by (simp add: preparable_def)
  have rest: "runs ?I S (prepare_files h hook (abs_path l) (abs_path (run_loc l i)) (Suc k) ms)
      (\<lambda>rcds f. ?I f \<and> prepared_for h l f0 ms rcds)"
    using Cons.IH Cons.prems by (simp add: preparable_def)
  show ?case
    unfolding prepare_files.simps
  proof (rule runs_then [OF one], rule runs_fact)
    fix rcd f
    assume "?I f \<and> rcd_for h m rcd \<and> content_at f0 (located l (fm_path m)) = fm_expected_before m"
    then show "rcd_for h m rcd \<and> content_at f0 (located l (fm_path m)) = fm_expected_before m"
      by blast
  next
    fix rcd
    assume c: "rcd_for h m rcd \<and> content_at f0 (located l (fm_path m)) = fm_expected_before m"
    have "runs ?I S (act_then (prepare_files h hook (abs_path l) (abs_path (run_loc l i)) (Suc k) ms) (\<lambda>rcds. act_return (rcd # rcds)))
        (\<lambda>rcds f. ?I f \<and> prepared_for h l f0 (m # ms) rcds)"
      by (rule runs_then [OF rest], rule runs_return) (use c in \<open>auto simp: prepared_for_def\<close>)
    then show "runs (\<lambda>f. ?I f \<and> rcd_for h m rcd \<and> content_at f0 (located l (fm_path m)) = fm_expected_before m) S
       (act_then (prepare_files h hook (abs_path l) (abs_path (run_loc l i)) (Suc k) ms) (\<lambda>rcds. act_return (rcd # rcds)))
       (\<lambda>rcds f. ?I f \<and> prepared_for h l f0 (m # ms) rcds)"
      by (rule runs_conseq) auto
  qed
qed

section \<open>Artifacts and the whole preparation\<close>

lemma runs_first_event:
  assumes "prefix (l @ [OPTICCODE_DIR]) d" "scratch l \<subseteq> S"
  shows "runs (ready {l, d}) S (run_in (journal_new i (abs_path d) started s n) (transition h t msg fs es g))
    (\<lambda>(u, j) f. ready {l, d} f \<and> j_events_dir j = abs_path d)"
  unfolding runs_def
proof (intro allI impI)
  fix w :: tx_world
  assume r: "ready {l, d} (x_fs w)"
  let ?r = "\<lparr>r_world = w, r_journal = journal_new i (abs_path d) started s n, r_modified = []\<rparr>"
  have j: "journals l d ?r"
    using r assms(1) by (simp add: journals_def journal_new_def)
  obtain x r' where t: "transition h t msg fs es g ?r = (x, r')"
    by fastforce
  have "kept S (x_fs w) (run_fs r')"
    using moves_mono [OF transition_moves [OF j, of "\<lambda>_. {}" h t msg fs es g] assms(2)] t by simp
  moreover have "journals l d r'"
    using transition_journals [OF j, of h t msg fs es g] t by simp
  ultimately show "kept S (x_fs w) (x_fs (snd (run_in (journal_new i (abs_path d) started s n) (transition h t msg fs es g) w))) \<and>
      (\<forall>a w'. run_in (journal_new i (abs_path d) started s n) (transition h t msg fs es g) w = (Inr a, w') \<longrightarrow>
        (case a of (u, j) \<Rightarrow> \<lambda>f. ready {l, d} f \<and> j_events_dir j = abs_path d) (x_fs w'))"
    using t by (cases x) (auto simp: run_in_def journals_def)
qed

text \<open>A prepared transaction: its journal, its records and the contents found.\<close>

definition prepared_ok :: "tx_host \<Rightarrow> location \<Rightarrow> location set \<Rightarrow> fs \<Rightarrow> file_mutation list \<Rightarrow> prepared \<Rightarrow> fs \<Rightarrow> bool" where
  "prepared_ok h l S f0 ms c f \<longleftrightarrow> (\<exists>d. since S f0 {l, d} f \<and> prefix (l @ [OPTICCODE_DIR]) d
      \<and> j_events_dir (pt_journal c) = abs_path d) \<and> pt_workspace c = abs_path l \<and> pt_mutations c = ms
     \<and> prepared_for h l f0 ms (tm_files (pt_manifest c))"

lemma write_artifacts_runs:
  assumes S: "S = scratch l \<union> E" and hooks: "\<forall>p. quiet l E (hook p)"
    and names: "\<forall>n \<in> set (run_loc l i). valid_name n" and f0: "preparable l S f0 ms"
  shows "runs (since S f0 {l, run_loc l i}) S
    (write_artifacts h hook request (abs_path l) ms git_before started i (abs_path (run_loc l i))) (prepared_ok h l S f0 ms)"
proof -
  let ?r = "run_loc l i" and ?I = "\<lambda>D. since S f0 D"
  define b where "b = ?r @ [BACKUPS_DIR]"
  define e where "e = ?r @ [EVENTS_DIR]"
  define D where "D = {l, ?r, b, e}"
  have sub: "scratch l \<subseteq> S" and below: "?r @ [n] \<in> S" "prefix (l @ [OPTICCODE_DIR]) ?r" "prefix (l @ [OPTICCODE_DIR]) e" for n
    using S by (auto simp: subset_iff e_def prefix_def)
  have p: "path_join (abs_path ?r) BACKUPS_DIR = abs_path b" "path_join (abs_path ?r) EVENTS_DIR = abs_path e"
      "path_join (abs_path ?r) PATCH_FILE = abs_path (?r @ [PATCH_FILE])" "path_join (abs_path ?r) MANIFEST_FILE = abs_path (?r @ [MANIFEST_FILE])"
    using path_join_abs_path [OF names] by (simp_all add: b_def e_def)
  have mk1: "runs (?I {l, ?r}) S (create_directory (abs_path b) ctx) (\<lambda>_. ?I {l, ?r, b})" for ctx
    using runs_since [OF runs_mkdir [OF artifact_names_valid(1) below(1)], of "{l, ?r}" f0 ctx]
    by (simp add: b_def insert_commute)
  have mk2: "runs (?I {l, ?r, b}) S (create_directory (abs_path e) ctx) (\<lambda>_. ?I D)" for ctx
    using runs_since [OF runs_mkdir [OF artifact_names_valid(2) below(1)], of "{l, ?r, b}" f0 ctx]
    by (simp add: e_def D_def insert_commute)
  have wr: "runs (?I D) S (with_context ctx (write_new_atomic (abs_path (?r @ [n])) c)) (\<lambda>_. ?I D)" if "valid_name n" for n c ctx
    using runs_since [OF runs_write_new [OF that below(2) sub], of D f0 c] by (simp add: runs_context D_def insert_absorb insert_commute)
  have files: "runs (?I D) S (prepare_files h hook (abs_path l) (abs_path ?r) 0 ms) (\<lambda>rcds f. ?I D f \<and> prepared_for h l f0 ms rcds)"
    by (rule runs_conseq [OF runs_frame [OF prepare_files_runs [OF S hooks names f0] stable_since [of S f0 D]]])
      (auto simp: D_def b_def since_def ready_def)
  have ev: "runs (?I D) S (run_in (journal_new i (abs_path e) started None 0) (transition h Prepared msg [] [] None))
      (\<lambda>(u, j) f. ?I D f \<and> j_events_dir j = abs_path e)" for msg
    by (rule runs_conseq [OF runs_frame [OF runs_first_event [OF below(3) sub] stable_since [of S f0 D]]])
      (auto simp: D_def since_def ready_def)
  have tail: "runs (\<lambda>f. ?I D f \<and> prepared_for h l f0 ms rcds) S (act_then unix_time_ms (\<lambda>now.
     act_then (with_context ctx (write_json_new_atomic (abs_path (?r @ [MANIFEST_FILE])) (th_manifest_json h (manifest_of h request (abs_path l) i now rcds git_before)))) (\<lambda>_.
     act_then (run_in (journal_new i (abs_path e) started None 0) (transition h Prepared msg [] [] None)) (\<lambda>(_, j).
     act_return \<lparr>pt_workspace = abs_path l, pt_run_dir = abs_path ?r, pt_manifest = manifest_of h request (abs_path l) i now rcds git_before,
       pt_mutations = ms, pt_journal = j, pt_started_ns = started\<rparr>)))) (prepared_ok h l S f0 ms)" for rcds ctx msg
  proof (rule runs_fact)
    assume c: "prepared_for h l f0 ms rcds"
    have fin: "prepared_ok h l S f0 ms \<lparr>pt_workspace = abs_path l, pt_run_dir = abs_path ?r,
        pt_manifest = manifest_of h request (abs_path l) i now rcds git_before, pt_mutations = ms, pt_journal = j, pt_started_ns = started\<rparr> f"
      if "?I D f \<and> j_events_dir j = abs_path e" for now j f
      using that c below(3) by (auto simp: prepared_ok_def manifest_of_def Let_def D_def since_def ready_def)
    show ?thesis
      unfolding write_json_new_atomic_def
      by (rule runs_conseq [where P = "?I D" and Q = "prepared_ok h l S f0 ms"],
          rule runs_then [OF runs_time(1)], rule runs_then [OF wr [OF artifact_names_valid(4)]], rule runs_then [OF ev])
        (auto intro!: runs_return fin)
  qed blast
  show ?thesis
    unfolding write_artifacts_def Let_def p
    by (intro runs_then [OF mk1] runs_then [OF mk2] runs_then [OF runs_sync(1)] runs_then [OF wr] runs_then [OF files] tail) simp
qed

lemma capture_git_runs: "runs P S (capture_git_for_policy h ws policy) (\<lambda>_. P)"
  by (auto simp: runs_def capture_git_for_policy_def capture_git_def act_try_def see_def act_return_def tx_fail_def act_fail_def
      split: sum.splits if_splits)

lemma runs_run_made:
  assumes "\<And>i. valid_name i \<Longrightarrow> runs (since S f0 {l, run_loc l i}) S (k i (abs_path (run_loc l i))) R"
  shows "runs (\<lambda>f. run_made l a f \<and> kept S f0 f) S (case a of (i, d) \<Rightarrow> k i d) R"
proof (cases a)
  case (Pair i d)
  show ?thesis
    unfolding Pair prod.case
  proof (rule runs_fact)
    assume i: "valid_name i \<and> d = abs_path (run_loc l i)"
    show "runs (\<lambda>f. run_made l (i, d) f \<and> kept S f0 f) S (k i d) R"
      unfolding conjunct2 [OF i]
      by (rule runs_conseq [OF assms [OF conjunct1 [OF i]]]) (auto simp: run_made_def since_def)
  qed (auto simp: run_made_def)
qed

lemma preflight_Inr:
  assumes "preflight h request w = (Inr (ws, ms), w')"
  shows "w' = w" "canonicalize (x_fs w) (tr_workspace request) = Inr ws" "tr_mutations request \<noteq> []"
    "validate_and_sort_mutations (x_fs w) ws (tr_mutations request) = Inr ms"
proof -
  have "snd (capture_git_for_policy h ws' p v) = v" for ws' p v
    by (auto simp: capture_git_for_policy_def capture_git_def act_try_def see_def act_return_def tx_fail_def act_fail_def split: sum.splits if_splits)
  then have git: "capture_git_for_policy h ws' p v = (x, v') \<Longrightarrow> v' = v" for ws' p v x v'
    by (metis snd_conv)
  show "w' = w" "canonicalize (x_fs w) (tr_workspace request) = Inr ws" "tr_mutations request \<noteq> []"
    "validate_and_sort_mutations (x_fs w) ws (tr_mutations request) = Inr ms"
    using assms by (auto simp: preflight_def act_simps res_simps dest!: git sym [of "Inr _"] split: if_splits)
qed

lemma validated_parent:
  assumes "ready {l} f" "normalised f (abs_path l) m m'"
  shows "is_dir_at f (l @ butlast (names_of (fm_path m')))"
proof -
  note n = normalised_spelled [OF assms(2)]
  have "validate_target_location f (abs_path l) (fm_path m') = Inr ()"
    using assms(2) by (auto simp: normalised_def)
  then show ?thesis
    using validate_target_location_Inr(1) [OF assms(1)] n(1) by (auto simp: spelled_def)
qed

lemma sorted_mutations:
  assumes "validate_and_sort_mutations f ws ms = Inr ms'"
  obtains xs where "list_all2 (normalised f ws) ms xs" "set ms' = set xs" "distinct (map (portable \<circ> fm_path) ms')"
proof -
  obtain xs where xs: "normalize_mutations f ws [] ms = Inr xs" "ms' = sort_key (\<lambda>m. components (fm_path m)) xs"
    using assms by (auto simp: validate_and_sort_mutations_def res_simps)
  note n = normalize_mutations_Inr [OF xs(1)]
  have "distinct (map (portable \<circ> fm_path) ms') \<longleftrightarrow> distinct (map (portable \<circ> fm_path) xs)"
    unfolding xs(2) by (simp add: distinct_map)
  then show thesis
    using that [of xs] n xs(2) by simp
qed

lemma preflight_world: "snd (preflight h request w) = w"
  by (auto simp: preflight_def act_then_def see_def act_if_def act_return_def act_fail_def act_res_def capture_git_for_policy_def
      capture_git_def act_try_def tx_fail_def split: sum.splits if_splits prod.splits)

text \<open>The mutations of a prepared transaction are those of the request, normalised and sorted.\<close>

definition stands_for :: "location \<Rightarrow> file_mutation list \<Rightarrow> file_mutation list \<Rightarrow> bool" where
  "stands_for l ms ms' \<longleftrightarrow> list_all spelled ms' \<and> distinct (map (portable \<circ> fm_path) ms') \<and> targets l ms' = targets l ms
     \<and> (\<forall>m \<in> set ms'. \<exists>m0 \<in> set ms. names_of (fm_path m) = names_of (fm_path m0) \<and> OPTICCODE_DIR \<notin> set (names_of (fm_path m)))
     \<and> (\<forall>m \<in> set ms. \<exists>m' \<in> set ms'. located l (fm_path m') = located l (fm_path m)
          \<and> fm_expected_before m' = fm_expected_before m \<and> fm_desired_after m' = fm_desired_after m)"

lemma sorted_stands_for:
  assumes "validate_and_sort_mutations f ws ms = Inr ms'"
  shows "stands_for l ms ms'" "\<forall>m' \<in> set ms'. \<exists>m. normalised f ws m m'"
proof -
  obtain xs where xs: "list_all2 (normalised f ws) ms xs" "set ms' = set xs" "distinct (map (portable \<circ> fm_path) ms')"
    using sorted_mutations [OF assms] .
  have bwd: "\<exists>m \<in> set ms. normalised f ws m m'" if "m' \<in> set ms'" for m'
    using xs(1) that unfolding xs(2) by (metis in_set_conv_nth list_all2_conv_all_nth)
  have fwd: "\<exists>m' \<in> set ms'. normalised f ws m m'" if "m \<in> set ms" for m
    using xs(1) that unfolding xs(2) by (metis in_set_conv_nth list_all2_conv_all_nth)
  show "\<forall>m' \<in> set ms'. \<exists>m. normalised f ws m m'"
    using bwd by blast
  show "stands_for l ms ms'"
    unfolding stands_for_def
  proof (intro conjI ballI)
    show "list_all spelled ms'"
      using bwd normalised_spelled(1) unfolding list_all_iff by metis
    show "distinct (map (portable \<circ> fm_path) ms')"
      by (rule xs(3))
    show "targets l ms' = targets l ms"
    proof (intro equalityI subsetI)
      fix k
      assume "k \<in> targets l ms'"
      then obtain m' where "m' \<in> set ms'" "k = located l (fm_path m')"
        by (auto simp: targets_def)
      then show "k \<in> targets l ms"
        using bwd normalised_spelled(2) unfolding targets_def located_def by (metis image_eqI)
    next
      fix k
      assume "k \<in> targets l ms"
      then obtain m where "m \<in> set ms" "k = located l (fm_path m)"
        by (auto simp: targets_def)
      then show "k \<in> targets l ms'"
        using fwd normalised_spelled(2) unfolding targets_def located_def by (metis image_eqI)
    qed
    show "\<exists>m0 \<in> set ms. names_of (fm_path m) = names_of (fm_path m0) \<and> OPTICCODE_DIR \<notin> set (names_of (fm_path m))"
      if "m \<in> set ms'" for m
      using bwd [OF that] normalised_spelled(2,3) by metis
    show "\<exists>m' \<in> set ms'. located l (fm_path m') = located l (fm_path m)
          \<and> fm_expected_before m' = fm_expected_before m \<and> fm_desired_after m' = fm_desired_after m" if "m \<in> set ms" for m
      using fwd [OF that] normalised_spelled(2,4,5) unfolding located_def by metis
  qed
qed

text \<open>The hypotheses on a request: where it runs, who else runs, and what it names.\<close>

definition fair_request :: "location \<Rightarrow> location set \<Rightarrow> hooks \<Rightarrow> tx_request \<Rightarrow> tx_world \<Rightarrow> bool" where
  "fair_request l E hook request w \<longleftrightarrow> ready {l} (x_fs w)
     \<and> canonicalize (x_fs w) (tr_workspace request) = Inr (abs_path l)
     \<and> (\<forall>p. quiet l E (hook p)) \<and> unrelated l (targets l (tr_mutations request)) E
     \<and> (\<forall>m \<in> set (tr_mutations request). ordinary (fm_path m))"

lemma stands_for_ordinary:
  assumes "stands_for l ms ms'" "\<forall>m \<in> set ms. ordinary (fm_path m)"
  shows "\<forall>m \<in> set ms'. ordinary (fm_path m) \<and> OPTICCODE_DIR \<notin> set (names_of (fm_path m))"
  using assms unfolding stands_for_def ordinary_def by metis

lemma preflight_preparable:
  assumes fair: "fair_request l E hook request w" and p: "preflight h request w = (Inr (ws, ms), w')"
  shows "ws = abs_path l" "w' = w" "stands_for l (tr_mutations request) ms" "preparable l (scratch l \<union> E) (x_fs w) ms"
proof -
  note pf = preflight_Inr [OF p]
  show ws: "ws = abs_path l" and "w' = w"
    using pf fair by (auto simp: fair_request_def)
  note st = sorted_stands_for(1) [OF pf(4) [unfolded ws], of l] sorted_stands_for(2) [OF pf(4) [unfolded ws]]
  show "stands_for l (tr_mutations request) ms"
    using st(1) .
  have ord: "\<forall>m \<in> set ms. ordinary (fm_path m) \<and> OPTICCODE_DIR \<notin> set (names_of (fm_path m))"
    using stands_for_ordinary [OF st(1)] fair by (auto simp: fair_request_def)
  have "located l (fm_path m) \<notin> scratch l \<union> E \<and> spelled m" if "m \<in> set ms" for m
  proof -
    have "spelled m" "plain (names_of (fm_path m))"
      using ord st(1) that spellsD(1) by (fastforce simp: stands_for_def plain_def ordinary_def spelled_def list_all_iff)+
    moreover have "located l (fm_path m) \<in> targets l (tr_mutations request)"
      using st(1) that by (auto simp: stands_for_def targets_def)
    ultimately show ?thesis
      using fair plain_not_scratch by (auto simp: fair_request_def unrelated_def located_def)
  qed
  then show "preparable l (scratch l \<union> E) (x_fs w) ms"
    using st(2) validated_parent fair by (fastforce simp: preparable_def fair_request_def)
qed

lemma prepare_rest_runs:
  assumes S: "S = scratch l \<union> E" and hooks: "\<forall>p. quiet l E (hook p)" and f0: "preparable l S f0 ms"
  shows "runs (since S f0 {l}) S (act_then (acquire_lock h (abs_path l)) (\<lambda>_.
      act_then (capture_git_for_policy h (abs_path l) (tr_git_policy request)) (\<lambda>git_before.
      act_then (act_res (require_clean (tr_git_policy request) git_before)) (\<lambda>_.
      act_then (create_transaction_directory (abs_path l) (tr_requested_id request)) (\<lambda>(i, run_dir).
      write_artifacts h hook request (abs_path l) ms git_before started i run_dir))))) (prepared_ok h l S f0 ms)"
proof -
  have sub: "scratch l \<subseteq> S"
    by (simp add: S)
  have lock: "runs (since S f0 {l}) S (acquire_lock h (abs_path l)) (\<lambda>_. since S f0 {l, l @ [OPTICCODE_DIR]})"
    using runs_since [OF acquire_lock_runs [OF sub], of "{l}"] by (simp add: insert_commute)
  have mk: "runs (since S f0 {l, l @ [OPTICCODE_DIR]}) S (create_transaction_directory (abs_path l) (tr_requested_id request))
      (\<lambda>a f. run_made l a f \<and> kept S f0 f)"
    by (rule runs_conseq [OF runs_frame [OF create_transaction_directory_runs [OF sub] stable_since [of S f0 "{}"]]])
      (auto simp: since_def ready_def)
  show ?thesis
  proof (rule runs_then [OF lock], rule runs_then [OF capture_git_runs], rule runs_res_then, rule runs_then [OF mk], rule runs_run_made)
    fix git_before i
    assume i: "valid_name i"
    have "\<forall>n \<in> set (run_loc l i). valid_name n"
      using dir_names f0 i by (auto simp: ready_def preparable_def)
    then show "runs (since S f0 {l, run_loc l i}) S
        (write_artifacts h hook request (abs_path l) ms git_before started i (abs_path (run_loc l i))) (prepared_ok h l S f0 ms)"
      by (rule write_artifacts_runs [OF S hooks _ f0])
  qed
qed

lemma prepare_transaction_ok:
  assumes fair: "fair_request l E hook request w" and run: "prepare_transaction h hook request w = (x, w')"
  shows "kept (scratch l \<union> E) (x_fs w) (x_fs w')"
    "x = Inr c \<Longrightarrow> \<exists>ms. stands_for l (tr_mutations request) ms \<and> prepared_ok h l (scratch l \<union> E) (x_fs w) ms c (x_fs w')"
proof -
  have hooks: "\<forall>p. quiet l E (hook p)" and r0: "ready {l} (x_fs w)"
    using fair by (auto simp: fair_request_def)
  obtain y where y: "preflight h request w = (y, w)"
    using preflight_world by (metis prod.collapse)
  have "kept (scratch l \<union> E) (x_fs w) (x_fs w') \<and> (x = Inr c \<longrightarrow>
     (\<exists>ms. stands_for l (tr_mutations request) ms \<and> prepared_ok h l (scratch l \<union> E) (x_fs w) ms c (x_fs w')))"
  proof (cases y)
    case (Inl e)
    then show ?thesis
      using y run by (auto simp: prepare_transaction_def act_then_def)
  next
    case (Inr wm)
    then obtain ms where p: "preflight h request w = (Inr (abs_path l, ms), w)" "wm = (abs_path l, ms)"
      using y preflight_preparable(1) [OF fair] by (cases wm) auto
    note pp = preflight_preparable [OF fair p(1)]
    have "since (scratch l \<union> E) (x_fs w) {l} (x_fs w)"
      using r0 by (simp add: since_def)
    then show ?thesis
      using prepare_rest_runs [OF refl hooks pp(4), of h request "x_instant_ns w"] pp(3) run p(1)
      unfolding prepare_transaction_def act_then_def [of "preflight h request"] runs_def
      by (auto dest!: spec [of _ w])
  qed
  then show "kept (scratch l \<union> E) (x_fs w) (x_fs w')"
    "x = Inr c \<Longrightarrow> \<exists>ms. stands_for l (tr_mutations request) ms \<and> prepared_ok h l (scratch l \<union> E) (x_fs w) ms c (x_fs w')"
    by auto
qed

end
