(* ===== verification/TxScenario.thy ===== *)
theory TxScenario
  imports TxRun Scenario
begin

text \<open>
  A small machine on which transactions run: a workspace \<open>/w\<close> with one file and no Git repository. The
  outside functions are instantiated by concrete ones; the digest of a text is the text itself.
\<close>

definition tx_demo_fs :: fs where
  "tx_demo_fs = \<lparr>fs_tree = [demo_dir [], demo_dir [''w''], demo_file [''w'', ''a''] ''x''],
     fs_cwd = [], fs_fault = (\<lambda>_. None), fs_wfault = (\<lambda>_. None), fs_sfault = (\<lambda>_. None)\<rparr>"

definition tx_demo_world :: tx_world where
  "tx_demo_world = \<lparr>x_fs = tx_demo_fs, x_now_ns = 5000000, x_instant_ns = 0, x_pid = 7, x_unique = 0,
     x_meta = plain_meta\<rparr>"

definition tx_demo_request :: tx_request where
  "tx_demo_request = with_transaction_id ''t1'' (with_git_policy OptionalGit
     (tx_request_new ''/w'' ''p'' [mutation_replace ''a'' ''x'' ''y'']))"

definition tx_demo_host :: tx_host where
  "tx_demo_host = \<lparr>th_git = \<lparr>gh_git = (\<lambda>_ _ _. Inl NotFound), gh_blake3 = (\<lambda>s. s)\<rparr>,
     th_try_lock = (\<lambda>_. LockTaken), th_manifest_json = (\<lambda>_. ''M''), th_parse_manifest = (\<lambda>_. None),
     th_event_json = (\<lambda>_. ''E''), th_parse_event = (\<lambda>_. None)\<rparr>"

text \<open>A hook that fails at one fault point.\<close>

definition fail_at :: "fault_point \<Rightarrow> hooks" where
  "fail_at p q = (if p = q then act_fail (Message ''injected'') else act_return ())"

end
