(* ===== verification/TxProperties.thy ===== *)
theory TxProperties
  imports TxRequests TxScenario
begin

text \<open>
  The properties of apply transactions as a whole: all or nothing, what a rollback restores, and the
  life of the journal.
\<close>

section \<open>Running a prepared transaction\<close>





section \<open>All or nothing\<close>












end
