(* ===== verification/TxLife.thy ===== *)
theory TxLife
  imports TxJournal "HOL-Library.Sublist"
begin

text \<open>
  The life of a transaction. The code gives it as a table of transitions; the specification is the
  language of the journals the design allows: the phases of the application in order, up to any of
  them, then rollbacks that failed, then possibly one more, which may complete.
\<close>

fun chain :: "tx_state option \<Rightarrow> tx_state list \<Rightarrow> bool" where
  "chain s [] = True"
| "chain s (t # ts) = (valid_transition s t \<and> chain (Some t) ts)"

definition forward :: "tx_state list" where
  "forward = [Prepared, Applying, Applied, Finalizing, Committed]"

definition retries :: "nat \<Rightarrow> tx_state list" where
  "retries n = concat (replicate n [RollbackStarted, RollbackFailed])"

definition rollbacks :: "tx_state list \<Rightarrow> bool" where
  "rollbacks ss \<longleftrightarrow> (\<exists>n. ss \<in> {retries n, retries n @ [RollbackStarted], retries n @ [RollbackStarted, RolledBack]})"

definition lifecycle :: "tx_state list \<Rightarrow> bool" where
  "lifecycle ss \<longleftrightarrow> ss = [] \<or> (\<exists>ps rs. ps \<noteq> [] \<and> prefix ps forward \<and> rollbacks rs \<and> ss = ps @ rs)"

lemma valid_transition_iff:
  "valid_transition None t \<longleftrightarrow> t = Prepared"
  "valid_transition (Some RollbackStarted) t \<longleftrightarrow> t = RolledBack \<or> t = RollbackFailed"
  "valid_transition (Some RollbackFailed) t \<longleftrightarrow> t = RollbackStarted"
  "\<not> valid_transition (Some RolledBack) t"
  "valid_transition (Some Prepared) t \<longleftrightarrow> t = Applying \<or> t = RollbackStarted"
  "valid_transition (Some Applying) t \<longleftrightarrow> t = Applied \<or> t = RollbackStarted"
  "valid_transition (Some Applied) t \<longleftrightarrow> t = Finalizing \<or> t = RollbackStarted"
  "valid_transition (Some Finalizing) t \<longleftrightarrow> t = Committed \<or> t = RollbackStarted"
  "valid_transition (Some Committed) t \<longleftrightarrow> t = RollbackStarted"
  by (auto simp: valid_transition_def)

lemma retries_simps [simp]: "retries 0 = []" "retries (Suc n) = RollbackStarted # RollbackFailed # retries n"
  by (simp_all add: retries_def)

lemma rollbacks_iff:
  "rollbacks ss \<longleftrightarrow> ss = [] \<or> ss = [RollbackStarted] \<or> ss = [RollbackStarted, RolledBack]
     \<or> (\<exists>rs. ss = RollbackStarted # RollbackFailed # rs \<and> rollbacks rs)"
proof
  assume "rollbacks ss"
  then obtain n where n: "ss \<in> {retries n, retries n @ [RollbackStarted], retries n @ [RollbackStarted, RolledBack]}"
    by (auto simp: rollbacks_def)
  show "ss = [] \<or> ss = [RollbackStarted] \<or> ss = [RollbackStarted, RolledBack]
     \<or> (\<exists>rs. ss = RollbackStarted # RollbackFailed # rs \<and> rollbacks rs)"
  proof (cases n)
    case (Suc k)
    then show ?thesis
      using n by (auto simp: rollbacks_def)
  qed (use n in auto)
next
  assume "ss = [] \<or> ss = [RollbackStarted] \<or> ss = [RollbackStarted, RolledBack]
     \<or> (\<exists>rs. ss = RollbackStarted # RollbackFailed # rs \<and> rollbacks rs)"
  then consider "ss = retries 0" | "ss = retries 0 @ [RollbackStarted]" | "ss = retries 0 @ [RollbackStarted, RolledBack]"
    | rs n where "ss = RollbackStarted # RollbackFailed # rs"
        "rs \<in> {retries n, retries n @ [RollbackStarted], retries n @ [RollbackStarted, RolledBack]}"
    by (auto simp: rollbacks_def)
  then show "rollbacks ss"
  proof cases
    case (4 rs n)
    then have "ss \<in> {retries (Suc n), retries (Suc n) @ [RollbackStarted], retries (Suc n) @ [RollbackStarted, RolledBack]}"
      by auto
    then show ?thesis
      unfolding rollbacks_def by blast
  qed (unfold rollbacks_def, blast+)
qed

lemma chain_rollback:
  "chain (Some RollbackFailed) ss \<longleftrightarrow> rollbacks ss"
  "chain (Some RollbackStarted) ss \<longleftrightarrow> rollbacks (RollbackStarted # ss)"
proof (induction ss)
  case Nil
  {
    case 1
    show ?case by (subst rollbacks_iff) simp
  next
    case 2
    show ?case by (subst rollbacks_iff) simp
  }
next
  case (Cons s ss)
  have stop: "chain (Some RolledBack) ss \<longleftrightarrow> ss = []"
    by (cases ss) (auto simp: valid_transition_iff)
  {
    case 1
    show ?case
    proof (cases "s = RollbackStarted")
      case True
      then show ?thesis
        using Cons.IH(2) by (simp add: valid_transition_iff)
    next
      case False
      then show ?thesis
        by (subst rollbacks_iff) (simp add: valid_transition_iff)
    qed
  next
    case 2
    show ?case
      using Cons.IH(1) stop by (subst rollbacks_iff) (auto simp: valid_transition_iff)
  }
qed

lemma rollbacks_Cons: "rollbacks (s # ss) \<longleftrightarrow> s = RollbackStarted \<and> chain (Some RollbackStarted) ss"
  unfolding chain_rollback(2) by (subst rollbacks_iff, subst (2) rollbacks_iff) auto

lemma rollbacks_Nil [simp]: "rollbacks []"
  by (subst rollbacks_iff) simp

text \<open>After each phase: the next phase, or a rollback.\<close>

lemma chain_phases:
  "chain (Some Committed) ss \<longleftrightarrow> rollbacks ss"
  "chain (Some Finalizing) ss \<longleftrightarrow> rollbacks ss \<or> (\<exists>rs. ss = Committed # rs \<and> chain (Some Committed) rs)"
  "chain (Some Applied) ss \<longleftrightarrow> rollbacks ss \<or> (\<exists>rs. ss = Finalizing # rs \<and> chain (Some Finalizing) rs)"
  "chain (Some Applying) ss \<longleftrightarrow> rollbacks ss \<or> (\<exists>rs. ss = Applied # rs \<and> chain (Some Applied) rs)"
  "chain (Some Prepared) ss \<longleftrightarrow> rollbacks ss \<or> (\<exists>rs. ss = Applying # rs \<and> chain (Some Applying) rs)"
  "chain None ss \<longleftrightarrow> ss = [] \<or> (\<exists>rs. ss = Prepared # rs \<and> chain (Some Prepared) rs)"
  by (cases ss; auto simp: valid_transition_iff rollbacks_Cons)+

lemma chain_is_lifecycle: "chain None ss \<longleftrightarrow> lifecycle ss"
proof -
  have phases: "ps \<noteq> [] \<and> prefix ps forward \<longleftrightarrow> ps \<in> {[Prepared], [Prepared, Applying], [Prepared, Applying, Applied],
      [Prepared, Applying, Applied, Finalizing], [Prepared, Applying, Applied, Finalizing, Committed]}" for ps
    unfolding in_set_prefixes [symmetric] forward_def by auto
  have life: "lifecycle ss \<longleftrightarrow> ss = [] \<or> (\<exists>ps rs. (ps \<noteq> [] \<and> prefix ps forward) \<and> rollbacks rs \<and> ss = ps @ rs)"
    unfolding lifecycle_def by blast
  have step: "(\<exists>rs. ss = s # rs \<and> P rs) \<longleftrightarrow> ss \<noteq> [] \<and> hd ss = s \<and> P (tl ss)" for ss and s :: tx_state and P
    by (cases ss) auto
  have one: "(\<exists>rs. rollbacks rs \<and> ss = s # f rs) \<longleftrightarrow> ss \<noteq> [] \<and> hd ss = s \<and> (\<exists>rs. rollbacks rs \<and> tl ss = f rs)" for ss and s :: tx_state and f :: "tx_state list \<Rightarrow> tx_state list"
    by (cases ss) auto
  show ?thesis
    unfolding life phases chain_phases step
    by (simp add: ex_disj_distrib conj_disj_distribR conj_disj_distribL one)
qed

text \<open>
  C21. The table of transitions is the life cycle of the design. A journal is accepted exactly when it is empty or
  runs through the phases prepared, applying, applied, finalizing, committed in this order up to some point, and then
  through rollbacks that failed, possibly followed by one that is under way or complete. So a commit is always preceded
  by every phase, nothing follows a completed rollback, and no phase of the application follows a rollback.
\<close>

theorem journal_language: "chain None ss \<longleftrightarrow> lifecycle ss"
  by (rule chain_is_lifecycle)

section \<open>The way back\<close>




end
