(* ===== verification/TxRollback.thy ===== *)
theory TxRollback
  imports TxRequests TxLife TxScenario
begin

text \<open>
  Undo and recovery: what a valid inspection guarantees about the manifest and the journal, and what the
  rollback of an inspected transaction does to the recorded files.
\<close>

lemma err_when_Nil [simp]: "err_when b e = [] \<longleftrightarrow> \<not> b"
  by (simp add: err_when_def)

section \<open>A valid inspection\<close>

text \<open>The events of a directory without errors: numbered from zero, of one transaction, a run of the state machine.\<close>

definition numbered :: "nat \<Rightarrow> tx_event list \<Rightarrow> bool" where
  "numbered n events \<longleftrightarrow> map te_sequence events = map (\<lambda>k. min k u32_max) [n..<n + length events]"

lemma numbered_Cons:
  assumes "te_sequence event = min n u32_max" "numbered (Suc n) events"
  shows "numbered n (event # events)"
  using assms by (simp add: numbered_def upt_conv_Cons del: upt_Suc)

lemma inspect_events_Nil:
  assumes "inspect_events h f i manifest (min n u32_max) s ps = (events, [])"
  shows "length events = length ps \<and> (\<forall>e \<in> set events. te_transaction_id e = i) \<and> numbered n events
    \<and> chain s (map te_state events)"
  using assms
proof (induction ps arbitrary: n s events)
  case (Cons p ps)
  obtain event events' where e: "inspect_events h f i manifest (min (te_sequence event + 1) u32_max) (Some (te_state event)) ps = (events', [])"
      "events = event # events'" "event_errors i manifest (min n u32_max) s p event = []"
    using Cons.prems by (auto simp: Let_def split: if_splits sum.splits prod.splits)
  have now: "te_transaction_id event = i" "te_sequence event = min n u32_max" "valid_transition s (te_state event)"
    using e(3) by (auto simp: event_errors_def)
  then have "min (te_sequence event + 1) u32_max = min (Suc n) u32_max"
    by (simp add: min_def)
  then show ?case
    using Cons.IH [of "Suc n" "Some (te_state event)" events'] e(1,2) now numbered_Cons by simp
qed (simp add: numbered_def)

text \<open>The recorded files of a directory without errors are sound and name distinct files.\<close>

lemma manifest_file_errors_Nil:
  assumes "manifest_file_errors h f run_dir seen n rcds = []" "rcd \<in> set rcds"
  shows "sound_record rcd \<and> (\<exists>q. validate_relative_path (tf_path rcd) = Inr q \<and> portable q \<notin> set seen)"
  using assms
proof (induction rcds arbitrary: seen n)
  case (Cons r rcds)
  obtain q where q: "validate_relative_path (tf_path r) = Inr q" "portable q \<notin> set seen"
      "manifest_file_errors h f run_dir (portable q # seen) (Suc n) rcds = []"
    using Cons.prems(1) by (auto simp: Let_def split: sum.splits prod.splits)
  have "sound_record r"
    using Cons.prems(1) by (auto simp: sound_record_def backup_errors_def Let_def split: if_splits option.splits prod.splits)
  then show ?case
    using Cons.IH [OF q(3)] q(1,2) Cons.prems(2) by auto
qed simp

lemma manifest_file_errors_separate:
  assumes "manifest_file_errors h f run_dir seen n rcds = []"
  shows "separate l rcds"
  using assms
proof (induction rcds arbitrary: seen n)
  case (Cons r rcds)
  obtain q where q: "validate_relative_path (tf_path r) = Inr q"
      "manifest_file_errors h f run_dir (portable q # seen) (Suc n) rcds = []"
    using Cons.prems by (auto simp: Let_def split: sum.splits prod.splits)
  have "located l (tf_path r) \<noteq> located l (tf_path r')" if r': "r' \<in> set rcds" for r'
  proof
    assume same: "located l (tf_path r) = located l (tf_path r')"
    obtain q' where q': "validate_relative_path (tf_path r') = Inr q'" "portable q' \<noteq> portable q"
      using manifest_file_errors_Nil [OF q(2) r'] by auto
    have "q = q'"
      using validate_relative_path_names(1) [OF q(1)] validate_relative_path_names(1) [OF q'(1)] same
      by (simp add: located_def spells_def)
    then show False
      using q'(2) by simp
  qed
  moreover have "sound_record r"
    using manifest_file_errors_Nil [OF Cons.prems] by simp
  ultimately show ?case
    using Cons.IH [OF q(2)] by (auto simp: separate_def)
qed (simp add: separate_def)

lemma inspect_contents_valid:
  assumes "ti_valid (inspect_contents h f workspace i run_dir)"
  obtains m events where "ti_manifest (inspect_contents h f workspace i run_dir) = Some m"
    "ti_events (inspect_contents h f workspace i run_dir) = events" "events \<noteq> []"
    "ti_final_state (inspect_contents h f workspace i run_dir) = Some (te_state (last events))"
    "manifest_file_errors h f run_dir [] 0 (tm_files m) = []" "tm_transaction_id m = i"
    "\<exists>x. symlink_metadata f (path_join run_dir EVENTS_DIR) = Inr x \<and> is_dir_node x"
    "(\<forall>e \<in> set events. te_transaction_id e = i) \<and> numbered 0 events \<and> chain None (map te_state events)"
proof -
  obtain m where m: "read_json (th_parse_manifest h) f (path_join run_dir MANIFEST_FILE) = Inr m"
    using assms by (cases "read_json (th_parse_manifest h) f (path_join run_dir MANIFEST_FILE)")
      (auto simp: inspect_contents_def tx_inspection_of_def Let_def split: prod.splits)
  obtain events es where ev: "inspect_events_dir h f i (Some m) (path_join run_dir EVENTS_DIR) = (events, es)"
    by fastforce
  have parts: "manifest_errors h f workspace i run_dir m = []" "es = []"
    using assms m ev by (auto simp: inspect_contents_def tx_inspection_of_def Let_def)
  have view: "ti_manifest (inspect_contents h f workspace i run_dir) = Some m"
    "ti_events (inspect_contents h f workspace i run_dir) = events"
    "ti_final_state (inspect_contents h f workspace i run_dir) = (if events = [] then None else Some (te_state (last events)))"
    using m ev by (simp_all add: inspect_contents_def tx_inspection_of_def Let_def)
  obtain ps where ps: "inspect_events h f i (Some m) 0 None ps = (events, [])" "events \<noteq> []"
      "\<exists>x. symlink_metadata f (path_join run_dir EVENTS_DIR) = Inr x \<and> is_dir_node x"
    using ev parts(2) by (auto simp: inspect_events_dir_def Let_def split: if_splits sum.splits prod.splits)
  have "manifest_file_errors h f run_dir [] 0 (tm_files m) = []" "tm_transaction_id m = i"
    using parts(1) by (auto simp: manifest_errors_def validate_manifest_artifacts_def Let_def split: sum.splits if_splits)
  then show thesis
    using that view ps inspect_events_Nil [of h f i "Some m" 0 None ps events] by (simp add: u32_max_def)
qed

text \<open>A valid inspection has looked into the directory of the run and found its manifest.\<close>

lemma inspect_run_directory_valid:
  assumes "ti_valid (inspect_run_directory h f workspace i run_dir)" "\<not> ti_legacy (inspect_run_directory h f workspace i run_dir)"
  shows "inspect_run_directory h f workspace i run_dir = inspect_contents h f workspace i run_dir"
    "\<exists>x. symlink_metadata f run_dir = Inr x \<and> is_dir_node x"
  using assms
  by (auto simp: inspect_run_directory_def invalid_inspection_def tx_inspection_of_def Let_def
      split: sum.splits if_splits io_error.splits)

lemma inspect_apply_transaction_parts:
  assumes "inspect_apply_transaction h f workspace i = Inr insp"
  obtains q where "canonicalize f workspace = Inr q" "inspect_run_directory h f q i (transaction_run_dir q i) = insp"
proof -
  obtain q where q: "canonicalize f workspace = Inr q"
      "(case symlink_metadata f (transaction_run_dir q i) of
          Inr _ \<Rightarrow> Inr (inspect_run_directory h f q i (transaction_run_dir q i))
        | Inl NotFound \<Rightarrow> Inl (Typed InvalidTransaction (''transaction not found: '' @ i))
        | Inl e \<Rightarrow> Inl (Context (''failed to inspect transaction: '' @ transaction_run_dir q i) (IoCause e))) = Inr insp"
    using assms unfolding inspect_apply_transaction_def Let_def by (auto simp only: res_simps)
  then have "inspect_run_directory h f q i (transaction_run_dir q i) = insp"
    by (auto split: sum.splits io_error.splits)
  then show thesis
    using that q(1) by blast
qed

text \<open>
  C24. An inspection that finds no error has read a run of the state machine: the events it reports belong to the
  transaction, are numbered from zero without a gap, and their states form an accepted life cycle whose last state is the one
  reported. So whatever was written to the directory, a rollback acts on a journal that the code could have written.
\<close>

theorem inspected_journal_runs:
  assumes "inspect_apply_transaction h f workspace i = Inr insp" "ti_valid insp" "\<not> ti_legacy insp"
  shows "\<exists>m. ti_manifest insp = Some m \<and> tm_transaction_id m = i \<and> ti_events insp \<noteq> []
    \<and> (\<forall>e \<in> set (ti_events insp). te_transaction_id e = i) \<and> numbered 0 (ti_events insp)
    \<and> lifecycle (map te_state (ti_events insp)) \<and> ti_final_state insp = Some (last (map te_state (ti_events insp)))"
proof -
  obtain q where q: "inspect_run_directory h f q i (transaction_run_dir q i) = insp"
    using inspect_apply_transaction_parts [OF assms(1)] by metis
  note dir = inspect_run_directory_valid(1) [of h f q i "transaction_run_dir q i", unfolded q, OF assms(2,3)]
  show ?thesis
    by (rule inspect_contents_valid [OF assms(2) [unfolded dir]])
      (auto simp: dir [symmetric] chain_is_lifecycle [symmetric] last_map)
qed

section \<open>Rolling back an inspected transaction\<close>

lemma canonical_ready:
  assumes "ready {l} f" "canonicalize f (abs_path l) = Inr q"
  shows "q = abs_path l"
  using assms resolve_dir [of f l] by (auto simp: canonicalize_def ready_def res_simps)

lemma inspect_apply_transaction_Inr:
  assumes "ready {l} f" "inspect_apply_transaction h f (abs_path l) i = Inr insp"
  shows "insp = inspect_run_directory h f (abs_path l) i (transaction_run_dir (abs_path l) i)"
  using inspect_apply_transaction_parts [OF assms(2)] canonical_ready [OF assms(1)] by metis

lemma transaction_run_dir_loc:
  assumes "\<forall>n \<in> set l. valid_name n" "valid_name i"
  shows "transaction_run_dir (abs_path l) i = abs_path (run_loc l i)"
    "path_join (abs_path (run_loc l i)) EVENTS_DIR = abs_path (run_loc l i @ [EVENTS_DIR])"
proof -
  have runs: "valid_name ''runs''" "valid_name EVENTS_DIR"
    by (simp_all add: valid_name_def junk_def sep_def EVENTS_DIR_def)
  show "transaction_run_dir (abs_path l) i = abs_path (run_loc l i)"
    unfolding transaction_run_dir_def
    using path_join_abs_path [of l OPTICCODE_DIR] path_join_abs_path [of "l @ [OPTICCODE_DIR]" "''runs''"]
      path_join_abs_path [of "runs_loc l" i] assms runs by simp
  show "path_join (abs_path (run_loc l i)) EVENTS_DIR = abs_path (run_loc l i @ [EVENTS_DIR])"
    using path_join_abs_path [of "run_loc l i" EVENTS_DIR] assms runs by simp
qed

text \<open>What a rollback reads from the directory of the run, in the file system \<open>f\<close> it finds after taking the lock.\<close>

definition recorded_in :: "tx_host \<Rightarrow> fs \<Rightarrow> location \<Rightarrow> string \<Rightarrow> tx_manifest \<Rightarrow> bool" where
  "recorded_in h f l i m \<longleftrightarrow> (\<exists>insp. inspect_apply_transaction h f (abs_path l) i = Inr insp
     \<and> ti_valid insp \<and> \<not> ti_legacy insp \<and> ti_manifest insp = Some m)"

lemma recorded_in_parts:
  assumes "ready {l, runs_loc l} f" "validate_transaction_id i = Inr u" "inspect_apply_transaction h f (abs_path l) i = Inr insp"
    and "ti_valid insp" "\<not> ti_legacy insp" "ti_manifest insp = Some m"
  shows "separate l (tm_files m)" "ready {l, run_loc l i @ [EVENTS_DIR]} f"
    "path_join (transaction_run_dir (abs_path l) i) EVENTS_DIR = abs_path (run_loc l i @ [EVENTS_DIR])"
proof -
  have names: "\<forall>n \<in> set l. valid_name n" "valid_name i"
    using dir_names [of f l] assms(1) transaction_id_valid [OF assms(2)] by (auto simp: ready_def)
  note loc = transaction_run_dir_loc [OF names]
  have r: "ready {l} f"
    using ready_mono [OF assms(1)] by blast
  note insp = inspect_apply_transaction_Inr [OF r assms(3)]
  note dir = inspect_run_directory_valid [OF assms(4) [unfolded insp] assms(5) [unfolded insp]]
  obtain x m' where x: "symlink_metadata f (path_join (transaction_run_dir (abs_path l) i) EVENTS_DIR) = Inr x" "is_dir_node x"
      and m': "manifest_file_errors h f (transaction_run_dir (abs_path l) i) [] 0 (tm_files m') = []" "m' = m"
    using inspect_contents_valid [OF assms(4) [unfolded insp dir(1)]] assms(6) insp dir(1) by (metis option.inject)
  show "separate l (tm_files m)"
    using manifest_file_errors_separate [OF m'(1)] m'(2) by simp
  have "ready {run_loc l i} f"
    using dir(2) inspected_dir [of "runs_loc l" f i] ready_mono [OF assms(1), of "{runs_loc l}"] names(2) loc(1)
      ready_mono [of "{runs_loc l, runs_loc l @ [i]}" f "{run_loc l i}"] by auto
  then have "ready {run_loc l i @ [EVENTS_DIR]} f"
    using inspected_dir [of "run_loc l i" f EVENTS_DIR x] x loc
      ready_mono [of "{run_loc l i, run_loc l i @ [EVENTS_DIR]}" f "{run_loc l i @ [EVENTS_DIR]}"]
    by (simp add: valid_name_def junk_def sep_def EVENTS_DIR_def)
  then show "ready {l, run_loc l i @ [EVENTS_DIR]} f"
    using r by (simp add: ready_def)
  show "path_join (transaction_run_dir (abs_path l) i) EVENTS_DIR = abs_path (run_loc l i @ [EVENTS_DIR])"
    using loc by simp
qed

lemma verify_files_restored_True:
  assumes "ready {l} f" "verify_files_restored h f (abs_path l) rcds = Inr True" "rcd \<in> set rcds"
  shows "content_at f (located l (tf_path rcd)) \<in> original_contents h rcd"
  using assms(2,3)
proof (induction rcds)
  case (Cons r rcds)
  obtain q c where q: "validate_relative_path (tf_path r) = Inr q" "read_validated_target f (abs_path l) q = Inr c"
      "map_option (fingerprint_bytes h) c = tf_before_hash r" "verify_files_restored h f (abs_path l) rcds = Inr True"
    using Cons.prems(1) by (auto simp: res_simps split: if_splits)
  have "content_at f (located l (tf_path r)) = c"
    using read_validated_target_Inr(3) [OF assms(1) validate_relative_path_names(1) [OF q(1)] q(2)] by (simp add: located_def)
  then show ?case
    using Cons.IH [OF q(4)] Cons.prems(2) q(3) by (auto simp: original_contents_def)
qed simp

text \<open>The two ways a rollback returns: nothing is left to undo, or the recorded files are restored.\<close>

lemma rollback_parts:
  assumes "ready {l, runs_loc l} (x_fs w)" "canonicalize (x_fs w) workspace = Inr (abs_path l)"
    and "rollback_apply_transaction_with_faults h hook workspace i reason w = (x, w')"
  obtains (stopped) "kept (scratch l) (x_fs w) (x_fs w')" "isl x"
  | (undone) w1 m res where "kept (scratch l) (x_fs w) (x_fs w1)" "recorded_in h (x_fs w1) l i m" "separate l (tm_files m)"
      "x = Inr res" "already_rolled_back h (abs_path l) (transaction_run_dir (abs_path l) i) m w1 = (Inr res, w')" "w' = w1"
  | (rolled) w1 m res r r' where "kept (scratch l) (x_fs w) (x_fs w1)" "recorded_in h (x_fs w1) l i m" "separate l (tm_files m)"
      "x = Inr res" "rollback_manifest h hook (abs_path l) (transaction_run_dir (abs_path l) i) m [] reason True (x_instant_ns w1) r = (res, r')"
      "r_world r = w1" "w' = r_world r'" "journals l (run_loc l i @ [EVENTS_DIR]) r"
proof (cases "validate_transaction_id i")
  case (Inl e)
  then have "w' = w" "isl x"
    using assms(3) by (auto simp: rollback_apply_transaction_with_faults_def act_then_def act_res_def)
  then show thesis
    using stopped by simp
next
  case (Inr u)
  obtain y w1 where lock: "acquire_lock h (abs_path l) w = (y, w1)"
    by fastforce
  have r: "ready {l} (x_fs w)"
    using ready_mono [OF assms(1)] by blast
  then have k1: "kept (scratch l) (x_fs w) (x_fs w1)"
    using acquire_lock_runs [of l "scratch l" h] lock unfolding runs_def by fastforce
  then have r1: "ready {l, runs_loc l} (x_fs w1)"
    using ready_moves assms(1) by blast
  note start = assms(3) [unfolded rollback_apply_transaction_with_faults_def]
  show thesis
  proof (cases y)
    case (Inl e)
    then have "w' = w1" "isl x"
      using start Inr assms(2) lock by (auto simp: act_then_def act_res_def see_def)
    then show thesis
      using stopped k1 by simp
  next
    case locked: (Inr v)
    show thesis
    proof (cases "\<exists>insp m final. inspect_apply_transaction h (x_fs w1) (abs_path l) i = Inr insp \<and> ti_valid insp \<and> \<not> ti_legacy insp
        \<and> ti_manifest insp = Some m \<and> ti_final_state insp = Some final")
      case False
      then have "w' = w1 \<and> isl x"
        using start Inr assms(2) lock locked
        by (cases "inspect_apply_transaction h (x_fs w1) (abs_path l) i")
          (auto simp: act_then_def act_res_def see_def tx_fail_def act_fail_def ok_or_def Let_def split: if_splits option.splits)
      then show thesis
        using stopped k1 by simp
    next
      case True
      then obtain insp m final where insp: "inspect_apply_transaction h (x_fs w1) (abs_path l) i = Inr insp" "ti_valid insp"
          "\<not> ti_legacy insp" "ti_manifest insp = Some m" "ti_final_state insp = Some final"
        by blast
      note parts = recorded_in_parts [OF r1 Inr insp(1-4)]
      have rec: "recorded_in h (x_fs w1) l i m"
        using insp by (auto simp: recorded_in_def)
      let ?j = "journal_new i (abs_path (run_loc l i @ [EVENTS_DIR])) (x_instant_ns w1) (Some final) (length (ti_events insp))"
      let ?r = "\<lparr>r_world = w1, r_journal = ?j, r_modified = []\<rparr>"
      let ?again = "already_rolled_back h (abs_path l) (transaction_run_dir (abs_path l) i) m w1"
      let ?roll = "rollback_manifest h hook (abs_path l) (transaction_run_dir (abs_path l) i) m [] reason True (x_instant_ns w1) ?r"
      have run: "journals l (run_loc l i @ [EVENTS_DIR]) ?r"
        using parts(2) by (simp add: journals_def journal_new_def)
      have "(x, w') = ?again \<or> (x, w') = (Inr (fst ?roll), r_world (snd ?roll)) \<or> w' = w1 \<and> isl x"
        using start Inr assms(2) lock locked insp parts(3)
        by (auto simp: act_then_def act_res_def see_def tx_fail_def act_fail_def ok_or_def Let_def split: if_splits prod.splits)
      moreover have "snd ?again = w1"
        by (auto simp: already_rolled_back_def act_then_def see_def tx_fail_def act_fail_def act_return_def verify_git_restored_def capture_git_def
            split: sum.splits option.splits)
      ultimately consider "w' = w1" "isl x" | "(x, w') = ?again" "w' = w1" | "(x, w') = (Inr (fst ?roll), r_world (snd ?roll))"
        by (metis snd_conv)
      then show thesis
      proof cases
        case 1
        then show thesis
          using stopped k1 by simp
      next
        case 2
        then show thesis
          using stopped undone [OF k1 rec parts(1)] k1 by (cases x) auto
      next
        case 3
        show thesis
          by (rule rolled [OF k1 rec parts(1), of "fst ?roll" ?r "snd ?roll"]) (use 3 run in auto)
      qed
    qed
  qed
qed

text \<open>A manifest of another hash or of the transaction itself is never overwritten by a rollback.\<close>

lemma rollback_manifest_foreign:
  assumes j: "journals l d r" and sep: "separate l (tm_files m)" and hooks: "\<forall>p. quiet l E (hook p)"
    and run: "rollback_manifest h hook (abs_path l) run_dir m modified reason op started r = (res, r')"
    and rcd: "rcd \<in> set (tm_files m)" "located l (tf_path rcd) \<notin> scratch l \<union> E"
      "foreign_to h rcd (content_at (run_fs r) (located l (tf_path rcd)))"
  shows "content_at (run_fs r') (located l (tf_path rcd)) = content_at (run_fs r) (located l (tf_path rcd))"
proof -
  let ?k = "located l (tf_path rcd)"
  define r1 where "r1 = snd (journal_rollback_start h modified reason r)"
  define w2 where "w2 = snd (restore_all h hook (abs_path l) run_dir m (r_world r1))"
  obtain s msg fs es g where r': "r' = snd (transition h s msg fs es g (r1\<lparr>r_world := w2\<rparr>))"
    using rollback_manifest_parts [OF r1_def w2_def run] by metis
  note start = journal_rollback_start_moves(1) [OF j, of "\<lambda>_. {}" h modified reason, folded r1_def]
    journal_rollback_start_moves(2) [OF j, of h modified reason, folded r1_def]
  have c1: "content_at (run_fs r1) ?k = content_at (run_fs r) ?k"
    using moves_content_same [OF start(1)] rcd(2) by simp
  have ready1: "ready {l} (run_fs r1)"
    using journals_ready [OF start(2)] .
  obtain x w1 where x: "hook AtRollbackStarted (r_world r1) = (x, w1)"
    by fastforce
  have m1: "moves ({} \<union> E) (\<lambda>_. {}) (run_fs r1) (x_fs w1)"
    using hook_moves [OF hooks [THEN spec, of AtRollbackStarted] ready1, of "{}" "\<lambda>_. {}"] x by simp
  then have c2: "content_at (x_fs w1) ?k = content_at (run_fs r) ?k"
    using moves_content_same [OF m1] rcd(2) c1 by simp
  have "separate l (rev (tm_files m))"
    using sep by (simp add: separate_def rev_map [symmetric] list_all_iff)
  then have c3: "content_at (x_fs w2) ?k = content_at (run_fs r) ?k"
    using restore_files_foreign [OF ready_moves [OF ready1 m1] _ hooks, of "rev (tm_files m)" rcd h run_dir True] rcd c2 x
    by (auto simp: w2_def restore_all_def split: sum.splits)
  have "moves (scratch l \<union> E) (originals h l (tm_files m)) (run_fs r1) (x_fs w2)"
    using restore_all_moves [OF ready1 _ hooks, of m h run_dir, folded w2_def] sep by (simp add: separate_def)
  then have "journals l d (r1\<lparr>r_world := w2\<rparr>)"
    using journals_moves [OF start(2), of _ _ "r1\<lparr>r_world := w2\<rparr>"] by simp
  from transition_moves [OF this, of "\<lambda>_. {}" h s msg fs es g]
  have "moves (scratch l) (\<lambda>_. {}) (x_fs w2) (run_fs r')"
    using r' by simp
  then show ?thesis
    using moves_content_same [of "scratch l" "\<lambda>_. {}" "x_fs w2" "run_fs r'" ?k] rcd(2) c3 by simp
qed

section \<open>What a rollback promises\<close>

text \<open>
  A workspace at \<open>l\<close> in which a rollback can be asked for: the environment only touches the locations in \<open>E\<close>, and the
  directory of runs is a directory (the code does not check it before it reads a run).
\<close>

definition recoverable_at :: "location \<Rightarrow> location set \<Rightarrow> hooks \<Rightarrow> path \<Rightarrow> tx_world \<Rightarrow> bool" where
  "recoverable_at l E hook workspace w \<longleftrightarrow> ready {l, runs_loc l} (x_fs w) \<and> canonicalize (x_fs w) workspace = Inr (abs_path l)
     \<and> (\<forall>p. quiet l E (hook p))"

text \<open>
  C22. A rollback or recovery that reports \<open>RolledBack\<close> has restored everything: the transaction had a valid journal and
  manifest, and every file the manifest records, outside the locations the environment may change, now has contents with
  the recorded hash of its original contents, or is absent if it did not exist.
\<close>

theorem rollback_restores:
  assumes "recoverable_at l E hook workspace w"
    and "rollback_apply_transaction_with_faults h hook workspace i reason w = (Inr res, w')"
    and "xr_final_state res = RolledBack"
  shows "\<exists>f m. kept (scratch l) (x_fs w) f \<and> recorded_in h f l i m \<and> xr_planned_files res = map tf_path (tm_files m)
    \<and> (\<forall>rcd \<in> set (tm_files m). located l (tf_path rcd) \<notin> scratch l \<union> E \<longrightarrow>
         map_option (fingerprint_bytes h) (content_at (x_fs w') (located l (tf_path rcd))) = tf_before_hash rcd)"
proof -
  note fair = assms(1) [unfolded recoverable_at_def]
  show ?thesis
    using fair [THEN conjunct1] fair [THEN conjunct2, THEN conjunct1] assms(2)
  proof (cases rule: rollback_parts)
    case (undone w1 m res')
    have ready: "ready {l} (x_fs w1)"
      using ready_mono [OF ready_moves [OF conjunct1 [OF fair] undone(1)]] by blast
    have undo: "verify_files_restored h (x_fs w1) (abs_path l) (tm_files m) = Inr True"
        "xr_planned_files res = map tf_path (tm_files m)"
      using undone(4,5) by (auto simp: already_rolled_back_def act_simps see_def tx_fail_def act_fail_def act_return_def
          result_from_manifest_def split: if_splits)
    have "map_option (fingerprint_bytes h) (content_at (x_fs w') (located l (tf_path rcd))) = tf_before_hash rcd"
      if "rcd \<in> set (tm_files m)" for rcd
      using verify_files_restored_True [OF ready undo(1) that] undone(6) by (simp add: original_contents_def)
    then show ?thesis
      using undone(1,2) undo(2) by blast
  next
    case (rolled w1 m res' r r')
    have "xr_planned_files res = map tf_path (tm_files m)"
      using rolled(4,5) by (auto simp: rollback_manifest_def result_from_manifest_def Let_def split: prod.splits)
    moreover have "content_at (x_fs w') (located l (tf_path rcd)) \<in> original_contents h rcd"
      if "rcd \<in> set (tm_files m)" "located l (tf_path rcd) \<notin> scratch l \<union> E" for rcd
      using rollback_manifest_moves(2) [OF rolled(8) _ _ rolled(5) rolled(3) _ that] rolled(3,4,7) assms(3) fair
      by (simp add: separate_def)
    ultimately show ?thesis
      using rolled(1,2) by (auto simp: original_contents_def)
  qed simp
qed

text \<open>
  C23. A rollback never destroys foreign work: whatever its outcome, the contents at a location outside the
  transaction's own files and the reach of the environment change only when a valid manifest records the location, the
  contents found there were those the transaction wrote or the original ones, and the new contents have the hash of the original.
\<close>

theorem rollback_only_reverts:
  assumes "recoverable_at l E hook workspace w"
    and "rollback_apply_transaction_with_faults h hook workspace i reason w = (x, w')"
    and "k \<notin> scratch l \<union> E" "content_at (x_fs w') k \<noteq> content_at (x_fs w) k"
  shows "\<exists>f m rcd. kept (scratch l) (x_fs w) f \<and> recorded_in h f l i m \<and> rcd \<in> set (tm_files m) \<and> located l (tf_path rcd) = k
    \<and> map_option (fingerprint_bytes h) (content_at (x_fs w) k) \<in> {tf_before_hash rcd, tf_after_hash rcd}
    \<and> map_option (fingerprint_bytes h) (content_at (x_fs w') k) = tf_before_hash rcd"
proof -
  note fair = assms(1) [unfolded recoverable_at_def]
  have same: "content_at f k = content_at (x_fs w) k" if "kept (scratch l) (x_fs w) f" for f
    using moves_content_same [OF that] assms(3) by simp
  show ?thesis
    using fair [THEN conjunct1] fair [THEN conjunct2, THEN conjunct1] assms(2)
  proof (cases rule: rollback_parts)
    case (rolled w1 m res r r')
    have sound: "list_all sound_record (tm_files m)"
      using rolled(3) by (simp add: separate_def)
    note hooks = fair [THEN conjunct2, THEN conjunct2]
    have "content_at (x_fs w') k \<in> originals h l (tm_files m) k"
      using moves_content(1) [OF rollback_manifest_moves(1) [OF rolled(8) sound hooks rolled(5)] assms(3)]
        assms(4) same [OF rolled(1)] rolled(6,7) by auto
    then obtain rcd where rcd: "rcd \<in> set (tm_files m)" "located l (tf_path rcd) = k"
        "map_option (fingerprint_bytes h) (content_at (x_fs w') k) = tf_before_hash rcd"
      by (auto simp: originals_def original_contents_def)
    have "\<not> foreign_to h rcd (content_at (run_fs r) k)"
      using rollback_manifest_foreign [OF rolled(8,3) hooks rolled(5) rcd(1)] rcd(2) assms(3,4) same [OF rolled(1)] rolled(6,7) by auto
    then show ?thesis
      using rolled(1,2,6) rcd same [OF rolled(1)] unfolding foreign_to_def by auto
  next
    case stopped
    then show ?thesis
      using same assms(4) by blast
  next
    case (undone w1 m res)
    then show ?thesis
      using same assms(4) by metis
  qed
qed

section \<open>An interrupted transaction\<close>

text \<open>The workspace of the scenario after a crash: the new contents of \<open>a\<close> are in place, the journal ends in \<open>applying\<close>.\<close>

definition tx_crash_manifest :: tx_manifest where
  "tx_crash_manifest = \<lparr>tm_schema_version = APPLY_TRANSACTION_SCHEMA_VERSION, tm_transaction_id = ''t1'', tm_workspace = ''/w'',
     tm_copied_from = None, tm_created_at_unix_ms = 5, tm_patch_hash = fingerprint_bytes tx_demo_host ''p'', tm_patch_path = PATCH_FILE,
     tm_files = [\<lparr>tf_path = ''a'', tf_existed_before = True, tf_before_hash = Some (fingerprint_bytes tx_demo_host ''x''),
       tf_before_bytes = 1, tf_after_hash = Some (fingerprint_bytes tx_demo_host ''y''), tf_after_bytes = 1,
       tf_backup_path = Some (backup_name 0), tf_readonly = Some False, tf_unix_mode = Some 420\<rparr>],
     tm_validation = \<lparr>tv_git_policy = OptionalGit, tv_git_captured = False, tv_git_clean = True, tv_pre_existing_changes = 0,
       tv_expected_contents_verified = True\<rparr>, tm_git_before = None\<rparr>"

definition tx_crash_event :: "nat \<Rightarrow> tx_state \<Rightarrow> tx_event" where
  "tx_crash_event n s = event_of (journal_new ''t1'' [] 0 None n) 5 0 s ''m'' [] [] None"

definition tx_crash_host :: tx_host where
  "tx_crash_host = tx_demo_host\<lparr>th_parse_manifest := (\<lambda>_. Some tx_crash_manifest),
     th_parse_event := (\<lambda>s. if s = ''0'' then Some (tx_crash_event 0 Prepared) else Some (tx_crash_event 1 Applying))\<rparr>"

definition tx_crash_world :: tx_world where
  "tx_crash_world = tx_demo_world\<lparr>x_fs := tx_demo_fs\<lparr>fs_tree :=
     [demo_dir [], demo_dir [''w''], demo_file [''w'', ''a''] ''y'', demo_dir [''w'', OPTICCODE_DIR],
      demo_dir (runs_loc [''w'']), demo_dir (run_loc [''w''] ''t1''), demo_file (run_loc [''w''] ''t1'' @ [MANIFEST_FILE]) ''M'',
      demo_file (run_loc [''w''] ''t1'' @ [PATCH_FILE]) ''p'', demo_dir (run_loc [''w''] ''t1'' @ [BACKUPS_DIR]),
      demo_file (run_loc [''w''] ''t1'' @ [BACKUPS_DIR, ''00000000.bin'']) ''x'', demo_dir (run_loc [''w''] ''t1'' @ [EVENTS_DIR]),
      demo_file (run_loc [''w''] ''t1'' @ [EVENTS_DIR, ''00000000-prepared.json'']) ''0'',
      demo_file (run_loc [''w''] ''t1'' @ [EVENTS_DIR, ''00000001-applying.json'']) ''1'']\<rparr>\<rparr>"

lemma tx_crash_recoverable: "recoverable_at [''w''] {} no_faults ''/w'' tx_crash_world"
proof -
  have "wf_fs (x_fs tx_crash_world)"
    by (rule wf_fs_by_entries; code_simp)
  moreover have "is_dir_at (x_fs tx_crash_world) [''w'']" "is_dir_at (x_fs tx_crash_world) (runs_loc [''w''])"
    "canonicalize (x_fs tx_crash_world) ''/w'' = Inr (abs_path [''w''])"
    by code_simp+
  moreover have "honest_faults (x_fs tx_crash_world)"
    by (simp add: honest_faults_def tx_crash_world_def tx_demo_fs_def)
  ultimately show ?thesis
    by (simp add: recoverable_at_def ready_def no_faults_def stays_def act_return_def)
qed

lemma tx_crash_recovers:
  obtains res w' where "rollback_apply_transaction_with_faults tx_crash_host no_faults ''/w'' ''t1'' ''recovery'' tx_crash_world = (Inr res, w')"
    "xr_final_state res = RolledBack" "content_at (x_fs w') [''w'', ''a''] = Some ''x''"
proof -
  have "(case rollback_apply_transaction_with_faults tx_crash_host no_faults ''/w'' ''t1'' ''recovery'' tx_crash_world of
      (Inr res, w') \<Rightarrow> xr_final_state res = RolledBack \<and> content_at (x_fs w') [''w'', ''a''] = Some ''x'' | (Inl e, w') \<Rightarrow> False)"
    by code_simp
  then show thesis
    using that by (auto split: prod.splits sum.splits)
qed

theorem rollback_restores_witness:
  "\<exists>res w' f m. rollback_apply_transaction_with_faults tx_crash_host no_faults ''/w'' ''t1'' ''recovery'' tx_crash_world = (Inr res, w')
    \<and> recorded_in tx_crash_host f [''w''] ''t1'' m \<and> xr_planned_files res = map tf_path (tm_files m)"
proof -
  obtain res w' where run: "rollback_apply_transaction_with_faults tx_crash_host no_faults ''/w'' ''t1'' ''recovery'' tx_crash_world = (Inr res, w')"
      "xr_final_state res = RolledBack"
    using tx_crash_recovers by blast
  show ?thesis
    using rollback_restores [OF tx_crash_recoverable run] run(1) by blast
qed

theorem rollback_only_reverts_witness:
  "\<exists>f m rcd. recorded_in tx_crash_host f [''w''] ''t1'' m \<and> rcd \<in> set (tm_files m) \<and> located [''w''] (tf_path rcd) = [''w'', ''a'']
    \<and> Some (fingerprint_bytes tx_crash_host ''y'') \<in> {tf_before_hash rcd, tf_after_hash rcd}
    \<and> Some (fingerprint_bytes tx_crash_host ''x'') = tf_before_hash rcd"
proof -
  obtain res w' where run: "rollback_apply_transaction_with_faults tx_crash_host no_faults ''/w'' ''t1'' ''recovery'' tx_crash_world = (Inr res, w')"
      "content_at (x_fs w') [''w'', ''a''] = Some ''x''"
    using tx_crash_recovers by blast
  have start: "content_at (x_fs tx_crash_world) [''w'', ''a''] = Some ''y''"
    by code_simp
  have "[''w'', ''a''] \<notin> scratch [''w''] \<union> {}"
    by (simp add: scratch_def prefix_def OPTICCODE_DIR_def starts_with_iff_prefix)
  from rollback_only_reverts [OF tx_crash_recoverable run(1) this] show ?thesis
    using run(2) start by auto
qed

theorem inspected_journal_runs_witness:
  "\<exists>insp. inspect_apply_transaction tx_crash_host (x_fs tx_crash_world) ''/w'' ''t1'' = Inr insp
    \<and> lifecycle (map te_state (ti_events insp)) \<and> ti_final_state insp = Some (last (map te_state (ti_events insp)))"
proof -
  have "(case inspect_apply_transaction tx_crash_host (x_fs tx_crash_world) ''/w'' ''t1'' of
      Inr insp \<Rightarrow> ti_valid insp \<and> \<not> ti_legacy insp | Inl e \<Rightarrow> False)"
    by code_simp
  then obtain insp where insp: "inspect_apply_transaction tx_crash_host (x_fs tx_crash_world) ''/w'' ''t1'' = Inr insp"
      "ti_valid insp" "\<not> ti_legacy insp"
    by (auto split: sum.splits)
  show ?thesis
    using inspected_journal_runs [OF insp] insp(1) by blast
qed

end
