(* ===== verification/StdText.thy ===== *)
theory StdText
  imports StdFs
begin

text \<open>
  The operations of \<open>str\<close> on lines, characters and affixes that the retrieval and the edit code use. A text is its
  UTF-8 bytes; a character is counted at its first byte.
\<close>

definition newline :: char where "newline = CHR 0x0A"

definition carriage :: char where "carriage = CHR 0x0D"

definition utf8_str :: "string \<Rightarrow> string option" where
  "utf8_str s = (if utf8_valid s then Some s else None)"

definition char_count :: "string \<Rightarrow> nat" where
  "char_count s = length (filter (\<lambda>c. \<not> utf8_cont (of_char c)) s)"

definition is_ascii :: "string \<Rightarrow> bool" where
  "is_ascii s = list_all (\<lambda>c. (of_char c :: nat) < 128) s"

section \<open>Affixes\<close>

definition strip_prefix_str :: "string \<Rightarrow> string \<Rightarrow> string option" where
  "strip_prefix_str s p = (if starts_with s p then Some (drop (length p) s) else None)"

definition strip_suffix_str :: "string \<Rightarrow> string \<Rightarrow> string option" where
  "strip_suffix_str s p = (if ends_with s p then Some (take (length s - length p) s) else None)"

definition trim_end_chars :: "char list \<Rightarrow> string \<Rightarrow> string" where
  "trim_end_chars cs s = rev (dropWhile (\<lambda>c. c \<in> set cs) (rev s))"

definition trim_start_chars :: "char list \<Rightarrow> string \<Rightarrow> string" where
  "trim_start_chars cs s = dropWhile (\<lambda>c. c \<in> set cs) s"

definition trim_chars :: "char list \<Rightarrow> string \<Rightarrow> string" where
  "trim_chars cs s = trim_end_chars cs (trim_start_chars cs s)"

text \<open>\<open>rsplit(d).next()\<close>: what follows the last delimiter.\<close>

definition last_part :: "char \<Rightarrow> string \<Rightarrow> string" where
  "last_part d s = (case rsplit_once d s of None \<Rightarrow> s | Some (_, t) \<Rightarrow> t)"

section \<open>Lines\<close>

text \<open>\<open>split_inclusive\<close>: every piece but possibly the last ends in the delimiter.\<close>

fun split_inclusive :: "char \<Rightarrow> string \<Rightarrow> string list" where
  "split_inclusive d [] = []"
| "split_inclusive d (c # s) =
    (if c = d then [c] # split_inclusive d s
     else case split_inclusive d s of [] \<Rightarrow> [[c]] | w # ws \<Rightarrow> (c # w) # ws)"

definition strip_line_end :: "string \<Rightarrow> string" where
  "strip_line_end l = (case strip_suffix_str l [newline] of
      None \<Rightarrow> l
    | Some t \<Rightarrow> (case strip_suffix_str t [carriage] of None \<Rightarrow> t | Some u \<Rightarrow> u))"

definition str_lines :: "string \<Rightarrow> string list" where
  "str_lines s = map strip_line_end (split_inclusive newline s)"

lemma concat_split_inclusive [simp]: "concat (split_inclusive d s) = s"
  by (induction s) (auto split: list.splits)

text \<open>\<open>replace("\r\n", "\n")\<close>.\<close>

fun normalize_line_endings :: "string \<Rightarrow> string" where
  "normalize_line_endings (c # d # s) =
    (if c = carriage \<and> d = newline then newline # normalize_line_endings s
     else c # normalize_line_endings (d # s))"
| "normalize_line_endings s = s"

section \<open>Numbers\<close>

text \<open>\<open>str::parse\<close> of an unsigned integer with the largest value \<open>m\<close>: an optional plus sign, then decimal digits.\<close>

definition parse_unsigned :: "nat \<Rightarrow> string \<Rightarrow> nat option" where
  "parse_unsigned m s =
    (let digits = (if starts_with s ''+'' then tl s else s) in
     if digits = [] \<or> \<not> list_all is_ascii_digit digits then None
     else let n = foldl (\<lambda>n c. 10 * n + (of_char c - 48)) 0 digits in if n \<le> m then Some n else None)"

section \<open>Replacing a range\<close>

text \<open>\<open>String::replace_range\<close> on a range that lies within the text.\<close>

definition replace_range :: "nat \<Rightarrow> nat \<Rightarrow> string \<Rightarrow> string \<Rightarrow> string" where
  "replace_range a b r s = take a s @ r @ drop b s"

end
