(* ===== verification/RagSecrets.thy ===== *)
theory RagSecrets
  imports StdText
begin

text \<open>
  The scan of a text for secrets (\<open>opticcode-tools/src/rag/secrets.rs\<close>). The matcher of the regular expressions is
  third-party code and a parameter; the scan of credential assignments is the code's own.
\<close>

datatype secret_pattern = PrivateKeyRegex | GithubRegex | AwsRegex | OpenaiRegex | HuggingfaceRegex | GitlabRegex
  | UriCredentialsRegex

text \<open>
  The functions outside the repository: where the first match of a pattern starts, lower-casing of a text
  with characters outside ASCII, the hexadecimal BLAKE3 digest, and the birth time of a file.
\<close>

record text_host =
  rh_find :: "secret_pattern \<Rightarrow> string \<Rightarrow> nat option"
  rh_lowercase :: "string \<Rightarrow> string"
  rh_blake3 :: "string \<Rightarrow> string"
  rh_created :: "meta \<Rightarrow> int option"

definition to_lowercase :: "text_host \<Rightarrow> string \<Rightarrow> string" where
  "to_lowercase h s = (if is_ascii s then to_ascii_lowercase s else rh_lowercase h s)"

record secret_detection =
  sd_rule_id :: string
  sd_category :: string
  sd_line :: nat
  sd_column :: nat

definition max_u32 :: nat where "max_u32 = 2 ^ 32 - 1"

definition bounded_position :: "string \<Rightarrow> nat \<Rightarrow> nat \<times> nat" where
  "bounded_position content byte_offset =
    (let before = take (min byte_offset (length content)) content;
         line = length (filter (\<lambda>c. c = newline) before) + 1;
         column = (case rsplit_once newline before of
             Some (_, t) \<Rightarrow> char_count t + 1 | None \<Rightarrow> char_count before + 1)
     in (min line max_u32, min column max_u32))"

section \<open>Assignments of credentials\<close>

definition first_assignment_separator :: "string \<Rightarrow> nat option" where
  "first_assignment_separator s = (case dropWhile (\<lambda>(_, c). c \<noteq> CHR ''='' \<and> c \<noteq> CHR '':'') (zip [0..<length s] s) of
      [] \<Rightarrow> None | (i, _) # _ \<Rightarrow> Some i)"

definition quote_chars :: "char list" where "quote_chars = [CHR 0x27, CHR 0x22]"

definition normalize_assignment_key :: "string \<Rightarrow> string" where
  "normalize_assignment_key s =
    last_part (CHR ''/'') (replace_char (CHR ''.'') (CHR ''_'') (replace_char (CHR ''-'') (CHR ''_'')
      (to_ascii_lowercase (trim_chars quote_chars (str_trim s)))))"

definition is_credential_key :: "string \<Rightarrow> bool" where
  "is_credential_key key =
    (key \<in> set [''password'', ''passwd'', ''pwd'', ''secret'', ''client_secret'', ''api_key'', ''apikey'', ''token'',
       ''access_token'', ''access_key'', ''private_key'', ''database_password'', ''db_password'']
     \<or> ends_with key ''_password'' \<or> ends_with key ''_secret'' \<or> ends_with key ''_token'' \<or> ends_with key ''_api_key'')"

definition is_explicitly_non_secret_value :: "string \<Rightarrow> bool" where
  "is_explicitly_non_secret_value s =
    (let lower = to_ascii_lowercase (str_trim s) in
     lower = '''' \<or> lower \<in> set [''null'', ''none'', ''false'', ''true'', ''redacted'', ''masked'']
     \<or> (starts_with s ''${'' \<and> ends_with s ''}'') \<or> (starts_with s ''{{'' \<and> ends_with s ''}}'')
     \<or> (starts_with s ''<'' \<and> ends_with s ''>'') \<or> list_all (\<lambda>c. c = CHR ''*'') s)"

text \<open>What a line assigns to a credential: the byte after the separator, when the value may be a secret.\<close>

definition credential_column :: "string \<Rightarrow> nat option" where
  "credential_column line =
    (let trimmed = str_trim line in
     if trimmed = '''' \<or> starts_with trimmed ''#'' \<or> starts_with trimmed ''//'' \<or> starts_with trimmed ''*'' then None
     else case first_assignment_separator trimmed of
       None \<Rightarrow> None
     | Some i \<Rightarrow>
         if \<not> is_credential_key (normalize_assignment_key (take i trimmed)) then None
         else
           let text = trim_chars quote_chars (str_trim (trim_end_chars [CHR '',''] (str_trim (drop (i + 1) trimmed)))) in
           if is_explicitly_non_secret_value text then None else Some (min (i + 2) max_u32))"

fun detect_credential_lines :: "nat \<Rightarrow> string list \<Rightarrow> secret_detection option" where
  "detect_credential_lines n [] = None"
| "detect_credential_lines n (l # ls) = (case credential_column l of
      None \<Rightarrow> detect_credential_lines (Suc n) ls
    | Some column \<Rightarrow> Some \<lparr>sd_rule_id = ''secret.credential_assignment'', sd_category = ''credential'',
        sd_line = min (n + 1) max_u32, sd_column = column\<rparr>)"

definition detect_credential_assignment :: "string \<Rightarrow> secret_detection option" where
  "detect_credential_assignment content = detect_credential_lines 0 (str_lines content)"

section \<open>The scan\<close>

definition secret_patterns :: "(string \<times> string \<times> secret_pattern) list" where
  "secret_patterns =
    [(''secret.private_key'', ''private_key'', PrivateKeyRegex), (''secret.github_token'', ''access_token'', GithubRegex),
     (''secret.aws_access_key'', ''access_key'', AwsRegex), (''secret.openai_token'', ''access_token'', OpenaiRegex),
     (''secret.huggingface_token'', ''access_token'', HuggingfaceRegex), (''secret.gitlab_token'', ''access_token'', GitlabRegex),
     (''secret.uri_credentials'', ''credential'', UriCredentialsRegex)]"

fun detect_patterns :: "text_host \<Rightarrow> string \<Rightarrow> (string \<times> string \<times> secret_pattern) list \<Rightarrow> secret_detection option" where
  "detect_patterns h content [] = None"
| "detect_patterns h content ((rule_id, category, p) # ps) = (case rh_find h p content of
      None \<Rightarrow> detect_patterns h content ps
    | Some start \<Rightarrow> (case bounded_position content start of (line, column) \<Rightarrow>
        Some \<lparr>sd_rule_id = rule_id, sd_category = category, sd_line = line, sd_column = column\<rparr>))"

definition detect_secret :: "text_host \<Rightarrow> string \<Rightarrow> secret_detection option" where
  "detect_secret h content = (case detect_patterns h content secret_patterns of
      Some d \<Rightarrow> Some d | None \<Rightarrow> detect_credential_assignment content)"

record rag_rule =
  rr_rule_id :: string
  rr_category :: string
  rr_decision :: string

definition rule :: "string \<Rightarrow> string \<Rightarrow> rag_rule" where
  "rule rule_id category = \<lparr>rr_rule_id = rule_id, rr_category = category, rr_decision = ''exclude''\<rparr>"

definition secret_rule_descriptors :: "rag_rule list" where
  "secret_rule_descriptors = map (\<lambda>(r, c, _). rule r c) secret_patterns @ [rule ''secret.credential_assignment'' ''credential'']"

text \<open>No finding: no pattern matches and no line assigns a possible secret to a credential.\<close>

lemma detect_credential_lines_None: "detect_credential_lines n ls = None \<longleftrightarrow> (\<forall>l \<in> set ls. credential_column l = None)"
  by (induction ls arbitrary: n) (auto split: option.splits)

lemma detect_patterns_None: "detect_patterns h content ps = None \<longleftrightarrow> (\<forall>(_, _, p) \<in> set ps. rh_find h p content = None)"
  by (induction ps) (auto split: option.splits prod.splits)

lemma detect_secret_None:
  "detect_secret h content = None \<longleftrightarrow>
    (\<forall>p. rh_find h p content = None) \<and> (\<forall>l \<in> set (str_lines content). credential_column l = None)"
proof -
  have "(\<forall>(_, _, p) \<in> set secret_patterns. rh_find h p content = None) \<longleftrightarrow> (\<forall>p. rh_find h p content = None)"
    by (auto simp: secret_patterns_def) (metis secret_pattern.exhaust)
  then show ?thesis
    unfolding detect_secret_def detect_credential_assignment_def
    using detect_patterns_None [of h content secret_patterns] detect_credential_lines_None [of 0 "str_lines content"]
    by (auto split: option.splits)
qed

end
