(* ===== verification/RagPolicy.thy ===== *)
theory RagPolicy
  imports RagSecrets ToolsError
begin

text \<open>
  What the retrieval index may read (\<open>opticcode-tools/src/rag/policy.rs\<close>): the rules on directories, names and
  types, the bounded scan of a source tree, and the stable read of a candidate. The Unix configuration is modelled.
\<close>

definition RAG_POLICY_VERSION :: string where "RAG_POLICY_VERSION = ''rag-safe-v1''"
definition DEFAULT_RAG_MAX_FILE_BYTES :: nat where "DEFAULT_RAG_MAX_FILE_BYTES = 512 * 1024"
definition MAX_RAG_ENTRIES :: nat where "MAX_RAG_ENTRIES = 500000"
definition MAX_RAG_EXCLUSIONS :: nat where "MAX_RAG_EXCLUSIONS = 100000"

definition ALLOWED_EXTENSIONS :: "string list" where
  "ALLOWED_EXTENSIONS = [''gradle'', ''groovy'', ''java'', ''json'', ''kt'', ''kts'', ''lang'', ''mcmeta'', ''md'', ''patch'',
     ''properties'', ''rs'', ''toml'', ''txt'', ''xml'', ''yaml'', ''yml'']"

definition idees_vrac :: string where
  "idees_vrac = ''id'' @ [CHR 0xC3, CHR 0xA9] @ ''es-vrac''"

definition DENIED_DIRECTORIES :: "(string \<times> string \<times> string) list" where
  "DENIED_DIRECTORIES =
    [(''.git'', ''path.directory.git'', ''repository_metadata''), (''.opticcode'', ''path.directory.opticcode'', ''agent_metadata''),
     (''.gradle'', ''path.directory.gradle'', ''build_cache''), (''.idea'', ''path.directory.idea'', ''editor_metadata''),
     (''.settings'', ''path.directory.settings'', ''editor_metadata''), (''.vscode'', ''path.directory.vscode'', ''editor_metadata''),
     (''.cache'', ''path.directory.cache'', ''cache''), (''.cargo'', ''path.directory.cargo'', ''credential_or_cache''),
     (''.m2'', ''path.directory.maven'', ''credential_or_cache''), (''.npm'', ''path.directory.npm'', ''credential_or_cache''),
     (''.ssh'', ''path.directory.ssh'', ''private_key''), (''.next'', ''path.directory.next'', ''build_output''),
     (''.pytest_cache'', ''path.directory.pytest'', ''cache''), (''.venv'', ''path.directory.venv'', ''dependency_cache''),
     (''__pycache__'', ''path.directory.pycache'', ''cache''), (''target'', ''path.directory.target'', ''build_output''),
     (''build'', ''path.directory.build'', ''build_output''), (''bin'', ''path.directory.bin'', ''build_output''),
     (''classes'', ''path.directory.classes'', ''build_output''), (''out'', ''path.directory.out'', ''build_output''),
     (''dist'', ''path.directory.dist'', ''build_output''), (''coverage'', ''path.directory.coverage'', ''generated_output''),
     (''lib'', ''path.directory.lib'', ''dependency_cache''), (''libs'', ''path.directory.libs'', ''dependency_cache''),
     (''node_modules'', ''path.directory.node_modules'', ''dependency_cache''),
     (''models'', ''path.directory.models'', ''model_artifact''), (''data'', ''path.directory.data'', ''generated_or_private_data''),
     (idees_vrac, ''path.directory.private_notes'', ''private_notes''),
     (''idees-vrac'', ''path.directory.private_notes'', ''private_notes'')]"

section \<open>Rules on names\<close>

definition normalized_relative :: "path \<Rightarrow> string" where
  "normalized_relative p = replace_char (CHR 0x5C) (CHR ''/'') (from_utf8_lossy p)"

definition denied_directory :: "text_host \<Rightarrow> string \<Rightarrow> (string \<times> string) option" where
  "denied_directory h name =
    (let lower = to_lowercase h name in
     if starts_with lower ''.staging-'' \<or> starts_with lower ''.opticcode-rag-''
     then Some (''path.directory.rag_staging'', ''generated_output'')
     else map_option snd (find (\<lambda>(candidate, _, _). lower = candidate) DENIED_DIRECTORIES))"

definition denied_relative_directory :: "text_host \<Rightarrow> path \<Rightarrow> (string \<times> string) option" where
  "denied_relative_directory h p =
    (let normalized = to_lowercase h (normalized_relative p) in
     if normalized = ''benchmarks/runs'' \<or> ends_with normalized ''/benchmarks/runs''
     then Some (''path.directory.benchmark_runs'', ''generated_output'') else None)"

definition sensitive_file_name :: "path \<Rightarrow> (string \<times> string) option" where
  "sensitive_file_name p = Option.bind (file_name p) (\<lambda>n.
     let name = to_ascii_lowercase (from_utf8_lossy n);
         ext = map_option to_ascii_lowercase (Option.bind (extension p) utf8_str);
         stem = to_ascii_lowercase (case Option.bind (file_stem p) utf8_str of None \<Rightarrow> '''' | Some s \<Rightarrow> s) in
     if name = ''.env'' \<or> starts_with name ''.env.'' then Some (''path.file.environment'', ''credential_file'')
     else if name \<in> set [''.npmrc'', ''.pypirc'', ''.netrc'', ''_netrc'', ''auth.json'']
     then Some (''path.file.credential_store'', ''credential_store'')
     else if name \<in> set [''id_rsa'', ''id_rsa.pub'', ''id_dsa'', ''id_dsa.pub'', ''id_ecdsa'', ''id_ecdsa.pub'', ''id_ed25519'', ''id_ed25519.pub'']
     then Some (''path.file.private_key'', ''private_key'')
     else if (case ext of None \<Rightarrow> False | Some e \<Rightarrow> e \<in> set [''pem'', ''key'', ''p12'', ''pfx'', ''jks'', ''keystore'', ''kdbx''])
     then Some (''path.file.private_key'', ''private_key'')
     else if list_ex (\<lambda>w. stem = w \<or> starts_with stem (w @ ''-'') \<or> starts_with stem (w @ ''_''))
         [''credential'', ''credentials'', ''secret'', ''secrets'', ''token'', ''tokens'']
       \<or> starts_with stem ''service-account'' \<or> starts_with stem ''service_account''
     then Some (''path.file.credential'', ''credential_file'')
     else None)"

definition allow_rule_for_extension :: "string \<Rightarrow> string" where
  "allow_rule_for_extension ext =
    (if ext \<in> set [''java'', ''kt'', ''kts'', ''groovy'', ''gradle'', ''xml'', ''yml'', ''yaml'', ''properties'', ''json'', ''mcmeta'',
       ''lang'', ''md'', ''txt'', ''patch'', ''toml'', ''rs'']
     then ''allow.extension.'' @ ext else ''allow.extension.unknown'')"

definition allowlisted_content_type :: "string \<Rightarrow> (string \<times> string) option" where
  "allowlisted_content_type ext = map_option (\<lambda>t. (t, allow_rule_for_extension ext)) (map_of
    [(''java'', ''java''), (''kt'', ''kotlin''), (''kts'', ''kotlin''), (''groovy'', ''gradle''), (''gradle'', ''gradle''),
     (''xml'', ''xml''), (''yml'', ''yaml''), (''yaml'', ''yaml''), (''properties'', ''properties''), (''json'', ''json''),
     (''mcmeta'', ''json''), (''lang'', ''minecraft_lang''), (''md'', ''markdown''), (''txt'', ''text''), (''patch'', ''patch''),
     (''toml'', ''toml''), (''rs'', ''rust'')] ext)"

definition extension_label :: "path \<Rightarrow> string" where
  "extension_label p = (case Option.bind (extension p) utf8_str of None \<Rightarrow> ''<none>'' | Some e \<Rightarrow> to_ascii_lowercase e)"

definition is_important_file :: "path \<Rightarrow> bool" where
  "is_important_file p =
    (let normalized = to_ascii_lowercase (normalized_relative p);
         name = (case Option.bind (file_name p) utf8_str of None \<Rightarrow> '''' | Some n \<Rightarrow> to_ascii_lowercase n) in
     name \<in> set [''pom.xml'', ''plugin.yml'', ''paper-plugin.yml'', ''bukkit.yml'', ''build.gradle'', ''build.gradle.kts'',
       ''gradle.properties'', ''settings.gradle'', ''settings.gradle.kts'', ''readme.md'']
     \<or> starts_with normalized ''patches/'' \<or> str_contains normalized ''/patches/''
     \<or> starts_with normalized ''src/main/resources/'')"

text \<open>Whether a stored record agrees with the rules; a parent component is compared as a directory name.\<close>

definition record_matches_allow_policy :: "text_host \<Rightarrow> string \<Rightarrow> string \<Rightarrow> string \<Rightarrow> bool" where
  "record_matches_allow_policy h relative_path content_type allow_rule =
    (sensitive_file_name relative_path = None
     \<and> list_all (\<lambda>c. utf8_valid (component_str c) \<and> denied_directory h (component_str c) = None) (butlast (components relative_path))
     \<and> allowlisted_content_type (extension_label relative_path) = Some (content_type, allow_rule))"

section \<open>Sources\<close>

record rag_source_manifest =
  rs_collection :: string
  rs_profile :: string
  rs_source :: string
  rs_source_label :: string
  rs_source_kind :: string
  rs_root_fingerprint :: string
  rs_source_version :: "string option"

record rag_source =
  src_root :: path
  src_manifest :: rag_source_manifest

definition detect_source_kind :: "fs \<Rightarrow> path \<Rightarrow> string" where
  "detect_source_kind f root =
    (if path_exists f (path_join root ''pack.mcmeta'') then ''resource-pack''
     else if str_contains (to_ascii_lowercase (normalized_relative root)) ''pandaspigot'' then ''pandaspigot''
     else if path_exists f (path_join root ''src/main/resources/plugin.yml'') then ''plugin''
     else if path_exists f (path_join root ''Cargo.toml'') \<and> path_exists f (path_join root ''docs'') then ''opticcode''
     else ''external'')"

definition rag_is_link :: "node \<Rightarrow> bool" where
  "rag_is_link n = is_link_node n"

definition prepare_source :: "text_host \<Rightarrow> fs \<Rightarrow> path \<Rightarrow> (tool_error, rag_source) res" where
  "prepare_source h f root =
    try_then (io_context (''failed to inspect RAG source root: '' @ root) (symlink_metadata f root)) (\<lambda>original.
    try_then (ensure (\<not> (rag_is_link original \<or> \<not> is_dir_node original))
      (Message (''RAG source root must be a real directory, not a symlink or reparse point: '' @ root))) (\<lambda>_.
    try_then (io_context (''failed to resolve RAG source root: '' @ root) (canonicalize f root)) (\<lambda>canonical.
    try_then (io_context (''failed to inspect canonical RAG source root: '' @ canonical) (symlink_metadata f canonical)) (\<lambda>n.
    try_then (ensure (\<not> (rag_is_link n \<or> \<not> is_dir_node n)) (Message (''canonical RAG source root is unsafe: '' @ canonical))) (\<lambda>_.
    let root_fingerprint = rh_blake3 h (normalized_relative canonical);
        kind = detect_source_kind f canonical in
    Inr \<lparr>src_root = canonical, src_manifest = \<lparr>rs_collection = kind @ ''-'' @ take 12 root_fingerprint,
       rs_profile = RAG_POLICY_VERSION, rs_source = ''source-'' @ take 16 root_fingerprint,
       rs_source_label = (case Option.bind (file_name canonical) utf8_str of None \<Rightarrow> ''root'' | Some n \<Rightarrow> n),
       rs_source_kind = kind, rs_root_fingerprint = root_fingerprint, rs_source_version = None\<rparr>\<rparr>)))))"

definition overlapping :: "path \<Rightarrow> path \<Rightarrow> bool" where
  "overlapping left right \<longleftrightarrow> path_eq left right \<or> path_starts_with left right \<or> path_starts_with right left"

fun first_overlap :: "rag_source list \<Rightarrow> (path \<times> path) option" where
  "first_overlap [] = None"
| "first_overlap (s # ss) = (case find (\<lambda>t. overlapping (src_root s) (src_root t)) ss of
      Some t \<Rightarrow> Some (src_root s, src_root t) | None \<Rightarrow> first_overlap ss)"

definition prepare_sources :: "text_host \<Rightarrow> fs \<Rightarrow> path list \<Rightarrow> (tool_error, rag_source list) res" where
  "prepare_sources h f roots =
    try_then (ensure (roots \<noteq> []) (Message ''at least one explicitly authorized RAG source root is required'')) (\<lambda>_.
    try_then (try_each (prepare_source h f) roots) (\<lambda>found.
    let sources = sort_key (rs_source \<circ> src_manifest) found in
    case first_overlap sources of
      Some (left, right) \<Rightarrow> Inl (Message (''RAG source roots must be distinct and non-overlapping: '' @ left @ '' and '' @ right))
    | None \<Rightarrow> Inr sources))"

section \<open>Exclusions\<close>

record rag_exclusion =
  ex_collection :: string
  ex_source :: string
  ex_relative_path :: string
  ex_entry_kind :: string
  ex_rule_id :: string
  ex_category :: string
  ex_decision :: string
  ex_position :: "(nat \<times> nat) option"

definition exclusion :: "rag_source \<Rightarrow> path \<Rightarrow> string \<Rightarrow> string \<Rightarrow> string \<Rightarrow> (nat \<times> nat) option \<Rightarrow> rag_exclusion" where
  "exclusion source relative entry_kind rule_id category position =
    \<lparr>ex_collection = rs_collection (src_manifest source), ex_source = rs_source (src_manifest source),
     ex_relative_path = normalized_relative relative, ex_entry_kind = entry_kind, ex_rule_id = rule_id,
     ex_category = category, ex_decision = ''excluded'', ex_position = position\<rparr>"

fun dedup_key :: "('a \<Rightarrow> 'k) \<Rightarrow> 'a list \<Rightarrow> 'a list" where
  "dedup_key k (x # y # xs) = (if k x = k y then dedup_key k (x # xs) else x # dedup_key k (y # xs))"
| "dedup_key k xs = xs"

definition exclusion_rules :: "rag_rule list" where
  "exclusion_rules =
    (let rules = [rule ''path.symlink_or_reparse'' ''path_safety'', rule ''path.escape'' ''path_safety'',
         rule ''path.non_utf8'' ''path_safety'', rule ''path.unsupported_entry'' ''path_safety'',
         rule ''path.directory.rag_staging'' ''generated_output'', rule ''path.directory.benchmark_runs'' ''generated_output'',
         rule ''type.extensionless'' ''content_type'', rule ''type.not_allowlisted'' ''content_type'',
         rule ''size.too_large'' ''resource_limit'', rule ''content.invalid_utf8'' ''content_type'',
         rule ''content.changed_during_read'' ''consistency'', rule ''io.metadata_failed'' ''io'', rule ''io.read_failed'' ''io'',
         rule ''path.file.environment'' ''credential_file'', rule ''path.file.credential'' ''credential_file'',
         rule ''path.file.private_key'' ''private_key'', rule ''path.file.credential_store'' ''credential_store'']
       @ map (\<lambda>(_, r, c). rule r c) DENIED_DIRECTORIES @ secret_rule_descriptors
     in dedup_key rr_rule_id (sort_key rr_rule_id rules))"

fun ensure_unique_from :: "(string \<times> string \<times> string) set \<Rightarrow> rag_exclusion list \<Rightarrow> bool" where
  "ensure_unique_from seen [] = True"
| "ensure_unique_from seen (r # rs) =
    (let key = (ex_source r, ex_relative_path r, ex_rule_id r) in key \<notin> seen \<and> ensure_unique_from (insert key seen) rs)"

definition ensure_unique_paths :: "rag_exclusion list \<Rightarrow> bool" where
  "ensure_unique_paths records = ensure_unique_from {} records"

end
