(* ===== verification/RagScan.thy ===== *)
theory RagScan
  imports RagPolicy
begin

text \<open>
  The scan of a source tree for the retrieval index and the stable read of one candidate (\<open>rag/policy.rs\<close>).
  The scan works on one observation of the file system; the read sees three, before, at and after it.
\<close>

section \<open>The inventory\<close>

record rag_candidate =
  rc_absolute_path :: path
  rc_relative_path :: string
  rc_content_type :: string
  rc_allow_rule :: string

text \<open>The state of the scan; the directories still to visit are a stack.\<close>

record rag_scan =
  sc_directories :: "path list"
  sc_entries :: nat
  sc_files :: nat
  sc_large :: nat
  sc_extensions :: "(string \<times> nat) list"
  sc_important :: "path list"
  sc_candidates :: "rag_candidate list"
  sc_exclusions :: "rag_exclusion list"

definition push_exclusion :: "rag_exclusion \<Rightarrow> rag_scan \<Rightarrow> (tool_error, rag_scan) res" where
  "push_exclusion e s =
    (if length (sc_exclusions s) \<ge> MAX_RAG_EXCLUSIONS
     then Inl (Message (''RAG source exceeds the bounded exclusion limit of '' @ dec_of_nat MAX_RAG_EXCLUSIONS))
     else Inr (s\<lparr>sc_exclusions := sc_exclusions s @ [e]\<rparr>))"

definition count_extension :: "string \<Rightarrow> (string \<times> nat) list \<Rightarrow> (string \<times> nat) list" where
  "count_extension e m = AList.update e (case map_of m e of None \<Rightarrow> 1 | Some n \<Rightarrow> n + 1) m"

text \<open>A regular file: the rules on its name, its type, its size and the spelling of its path, in this order.\<close>

definition scan_file :: "rag_source \<Rightarrow> path \<Rightarrow> path \<Rightarrow> node \<Rightarrow> rag_scan \<Rightarrow> (tool_error, rag_scan) res" where
  "scan_file source p relative n s0 =
    (let ext = extension_label p;
         s = s0\<lparr>sc_files := sc_files s0 + 1, sc_extensions := count_extension ext (sc_extensions s0)\<rparr>;
         refuse = (\<lambda>rule_id category. push_exclusion (exclusion source relative ''file'' rule_id category None)) in
     case sensitive_file_name relative of
       Some (rule_id, category) \<Rightarrow> refuse rule_id category s
     | None \<Rightarrow> (case allowlisted_content_type ext of
         None \<Rightarrow> refuse (if ext = ''<none>'' then ''type.extensionless'' else ''type.not_allowlisted'') ''content_type'' s
       | Some (content_type, allow_rule) \<Rightarrow>
           if node_len n > DEFAULT_RAG_MAX_FILE_BYTES
           then refuse ''size.too_large'' ''resource_limit'' (s\<lparr>sc_large := sc_large s + 1\<rparr>)
           else if \<not> utf8_valid relative then refuse ''path.non_utf8'' ''path_safety'' s
           else Inr (s\<lparr>sc_important := (if is_important_file relative then sc_important s @ [relative] else sc_important s),
             sc_candidates := sc_candidates s @ [\<lparr>rc_absolute_path = p,
               rc_relative_path = replace_char (CHR 0x5C) (CHR ''/'') relative,
               rc_content_type = content_type, rc_allow_rule = allow_rule\<rparr>]\<rparr>)))"

definition scan_directory :: "text_host \<Rightarrow> rag_source \<Rightarrow> path \<Rightarrow> path \<Rightarrow> string \<Rightarrow> rag_scan \<Rightarrow> (tool_error, rag_scan) res" where
  "scan_directory h source p relative name s =
    (case (case denied_relative_directory h relative of Some d \<Rightarrow> Some d | None \<Rightarrow> denied_directory h (from_utf8_lossy name)) of
       Some (rule_id, category) \<Rightarrow> push_exclusion (exclusion source relative ''directory'' rule_id category None) s
     | None \<Rightarrow> Inr (s\<lparr>sc_directories := p # sc_directories s\<rparr>))"

definition scan_entry :: "text_host \<Rightarrow> fs \<Rightarrow> rag_source \<Rightarrow> path \<Rightarrow> string \<Rightarrow> rag_scan \<Rightarrow> (tool_error, rag_scan) res" where
  "scan_entry h f source directory name s0 =
    (let s = s0\<lparr>sc_entries := sat_add (sc_entries s0) 1\<rparr>; p = path_join directory name in
     if sc_entries s > MAX_RAG_ENTRIES
     then Inl (Message (''RAG source exceeds the bounded entry limit of '' @ dec_of_nat MAX_RAG_ENTRIES))
     else case strip_prefix p (src_root source) of
       None \<Rightarrow> push_exclusion (exclusion source ''<outside-root>'' ''unknown'' ''path.escape'' ''path_safety'' None) s
     | Some relative \<Rightarrow> (case symlink_metadata f p of
         Inl _ \<Rightarrow> push_exclusion (exclusion source relative ''unknown'' ''io.metadata_failed'' ''io'' None) s
       | Inr n \<Rightarrow>
           if rag_is_link n
           then push_exclusion (exclusion source relative (if is_dir_node n then ''directory'' else ''file'')
             ''path.symlink_or_reparse'' ''path_safety'' None) s
           else if is_dir_node n then scan_directory h source p relative name s
           else if \<not> is_file_node n
           then push_exclusion (exclusion source relative ''other'' ''path.unsupported_entry'' ''path_safety'' None) s
           else scan_file source p relative n s))"

fun scan_entries :: "text_host \<Rightarrow> fs \<Rightarrow> rag_source \<Rightarrow> path \<Rightarrow> string list \<Rightarrow> rag_scan \<Rightarrow> (tool_error, rag_scan) res" where
  "scan_entries h f source directory [] s = Inr s"
| "scan_entries h f source directory (n # ns) s = try_then (scan_entry h f source directory n s) (scan_entries h f source directory ns)"

definition sorted_entries :: "fs \<Rightarrow> path \<Rightarrow> (tool_error, string list) res" where
  "sorted_entries f directory = try_then (io_context (''failed to enumerate RAG directory: '' @ directory) (read_dir f directory))
    (\<lambda>names. Inr (sort_key (\<lambda>n. to_ascii_lowercase (from_utf8_lossy n)) names))"

text \<open>
  The work left: every entry counts once against the limit and adds at most one directory, so the entries
  still allowed, counted twice, and the directories on the stack go down with every round of the loop.
\<close>

definition scan_measure :: "rag_scan \<Rightarrow> nat" where
  "scan_measure s = 2 * (MAX_RAG_ENTRIES - sc_entries s) + length (sc_directories s)"

lemma push_exclusion_Inr:
  assumes "push_exclusion e s = Inr s'"
  shows "s' = s\<lparr>sc_exclusions := sc_exclusions s @ [e]\<rparr>" "length (sc_exclusions s') \<le> MAX_RAG_EXCLUSIONS"
  using assms by (auto simp: push_exclusion_def split: if_splits)

lemma scan_file_keeps:
  assumes "scan_file source p relative n s = Inr s'"
  shows "sc_entries s' = sc_entries s \<and> sc_directories s' = sc_directories s"
  using assms by (auto simp: scan_file_def Let_def dest!: push_exclusion_Inr(1) split: option.splits if_splits)

lemma scan_directory_keeps:
  assumes "scan_directory h source p relative name s = Inr s'"
  shows "sc_entries s' = sc_entries s \<and> length (sc_directories s') \<le> Suc (length (sc_directories s))"
  using assms by (auto simp: scan_directory_def dest!: push_exclusion_Inr(1) split: option.splits)

lemma scan_entry_measure:
  assumes "scan_entry h f source directory name s = Inr s'"
  shows "scan_measure s' < scan_measure s"
proof -
  let ?s = "s\<lparr>sc_entries := sat_add (sc_entries s) 1\<rparr>"
  have limit: "sat_add (sc_entries s) 1 \<le> MAX_RAG_ENTRIES"
    using assms by (auto simp: scan_entry_def Let_def split: if_splits)
  then have n: "sat_add (sc_entries s) 1 = Suc (sc_entries s)"
    by (auto simp: sat_add_def u64_max_def MAX_RAG_ENTRIES_def min_def split: if_splits)
  have "sc_entries s' = sc_entries ?s \<and> length (sc_directories s') \<le> Suc (length (sc_directories s))"
    using assms by (auto simp: scan_entry_def Let_def dest!: push_exclusion_Inr(1) scan_file_keeps scan_directory_keeps
        split: if_splits option.splits sum.splits)
  then show ?thesis
    using limit n by (auto simp: scan_measure_def)
qed

lemma scan_entries_measure:
  "scan_entries h f source directory ns s = Inr s' \<Longrightarrow> scan_measure s' \<le> scan_measure s"
proof (induction ns arbitrary: s)
  case (Cons n ns)
  then obtain s1 where s1: "scan_entry h f source directory n s = Inr s1" "scan_entries h f source directory ns s1 = Inr s'"
    by (auto simp: res_simps)
  show ?case
    using scan_entry_measure [OF s1(1)] Cons.IH [OF s1(2)] by simp
qed simp

function scan_loop :: "text_host \<Rightarrow> fs \<Rightarrow> rag_source \<Rightarrow> rag_scan \<Rightarrow> (tool_error, rag_scan) res" where
  "scan_loop h f source s = (case sc_directories s of
      [] \<Rightarrow> Inr s
    | d # ds \<Rightarrow> (case try_then (sorted_entries f d) (\<lambda>names. scan_entries h f source d names (s\<lparr>sc_directories := ds\<rparr>)) of
        Inl e \<Rightarrow> Inl e | Inr s' \<Rightarrow> scan_loop h f source s'))"
  by pat_completeness auto
termination
proof (relation "measure (\<lambda>(_, _, _, s). scan_measure s)")
  fix h :: text_host and f :: fs and source s d ds s'
  assume s: "sc_directories s = d # ds"
    and run: "try_then (sorted_entries f d) (\<lambda>names. scan_entries h f source d names (s\<lparr>sc_directories := ds\<rparr>)) = Inr s'"
  obtain names where "scan_entries h f source d names (s\<lparr>sc_directories := ds\<rparr>) = Inr s'"
    using run by (auto simp: res_simps)
  from scan_entries_measure [OF this] s
  show "((h, f, source, s'), h, f, source, s) \<in> measure (\<lambda>(_, _, _, s). scan_measure s)"
    by (simp add: scan_measure_def)
qed simp

declare scan_loop.simps [simp del]

record rag_inventory =
  ri_total_files :: nat
  ri_skipped_large_files :: nat
  ri_extensions :: "(string \<times> nat) list"
  ri_important_files :: "path list"
  ri_candidates :: "rag_candidate list"
  ri_exclusions :: "rag_exclusion list"
  ri_scan_us :: nat

definition scan_start :: "rag_source \<Rightarrow> rag_scan" where
  "scan_start source = \<lparr>sc_directories = [src_root source], sc_entries = 0, sc_files = 0, sc_large = 0, sc_extensions = [],
     sc_important = [], sc_candidates = [], sc_exclusions = []\<rparr>"

text \<open>The time the scan took is an argument. The counts of a sorted map are listed by extension.\<close>

definition collect_inventory :: "text_host \<Rightarrow> fs \<Rightarrow> nat \<Rightarrow> rag_source \<Rightarrow> (tool_error, rag_inventory) res" where
  "collect_inventory h f scan_us source = try_then (scan_loop h f source (scan_start source)) (\<lambda>s.
     Inr \<lparr>ri_total_files = sc_files s, ri_skipped_large_files = sc_large s, ri_extensions = sort_key fst (sc_extensions s),
       ri_important_files = sort_key components (sc_important s), ri_candidates = sort_key rc_relative_path (sc_candidates s),
       ri_exclusions = sort_key (\<lambda>e. (ex_relative_path e, ex_rule_id e)) (sc_exclusions s), ri_scan_us = scan_us\<rparr>)"

section \<open>The scan ends\<close>

text \<open>One round of the loop that does not fail.\<close>

inductive scan_round :: "text_host \<Rightarrow> fs \<Rightarrow> rag_source \<Rightarrow> rag_scan \<Rightarrow> rag_scan \<Rightarrow> bool" for h f source where
  round: "sc_directories s = d # ds \<Longrightarrow> sorted_entries f d = Inr names \<Longrightarrow>
    scan_entries h f source d names (s\<lparr>sc_directories := ds\<rparr>) = Inr s' \<Longrightarrow> scan_round h f source s s'"

inductive_cases scan_roundE: "scan_round h f source s s'"

lemma scan_round_measure: "scan_round h f source s s' \<Longrightarrow> scan_measure s' < scan_measure s"
  by (erule scan_roundE) (force simp: scan_measure_def dest!: scan_entries_measure)

lemma scan_round_loop:
  assumes "scan_round h f source s s'"
  shows "scan_loop h f source s = scan_loop h f source s'"
  using assms by (elim scan_roundE) (subst scan_loop.simps, simp)

lemma scan_rounds_end:
  "\<exists>n s'. n \<le> scan_measure s \<and> (scan_round h f source ^^ n) s s' \<and> (\<nexists>t. scan_round h f source s' t)
    \<and> scan_loop h f source s = scan_loop h f source s'"
proof (induction "scan_measure s" arbitrary: s rule: less_induct)
  case less
  show ?case
  proof (cases "\<exists>t. scan_round h f source s t")
    case True
    then obtain t where t: "scan_round h f source s t"
      by blast
    obtain n s' where n: "n \<le> scan_measure t" "(scan_round h f source ^^ n) t s'" "\<nexists>t. scan_round h f source s' t"
        "scan_loop h f source t = scan_loop h f source s'"
      using less [OF scan_round_measure [OF t]] by blast
    have "Suc n \<le> scan_measure s" "(scan_round h f source ^^ Suc n) s s'"
      using scan_round_measure [OF t] n(1) relpowp_Suc_I2 [of "scan_round h f source", OF t n(2)] by auto
    then show ?thesis
      using n(3,4) scan_round_loop [OF t] by metis
  next
    case False
    then show ?thesis
      by (intro exI [of _ 0] exI [of _ s]) simp
  qed
qed

end
