(* ===== verification/RagReference.thy ===== *)
theory RagReference
  imports RagScan
begin

text \<open>
  Reading one file of a workspace on behalf of a request (\<open>rag/reference.rs\<close>) and reading a candidate of the index
  (\<open>rag/policy.rs\<close>). Other processes may act in between, so a read sees three observations of the file system: one
  while it checks the path, one when it opens and reads the file, one when it checks the path again; what the open handle
  reports after the read is an argument as well.
\<close>

record file_fingerprint =
  ff_len :: nat
  ff_modified :: "int option"
  ff_created :: "int option"
  ff_attributes :: nat

definition node_fingerprint :: "text_host \<Rightarrow> node \<Rightarrow> file_fingerprint" where
  "node_fingerprint h n = \<lparr>ff_len = node_len n, ff_modified = Some (m_mtime (node_meta n)),
     ff_created = rh_created h (node_meta n), ff_attributes = 0\<rparr>"

text \<open>Reading at most \<open>limit\<close> bytes from an open file; reading a directory or a device fails.\<close>

definition read_limited :: "node \<Rightarrow> nat \<Rightarrow> string option" where
  "read_limited n limit = (case n of FileNode _ c \<Rightarrow> Some (take limit c) | _ \<Rightarrow> None)"

section \<open>Candidates of the index\<close>

record stable_content =
  st_text :: string
  st_bytes :: nat
  st_chars :: nat
  st_blake3 :: string
  st_modified_unix_ms :: "nat option"

definition modified_unix_ms :: "int option \<Rightarrow> nat option" where
  "modified_unix_ms t = (case t of None \<Rightarrow> None
    | Some ns \<Rightarrow> if ns < 0 then None else Some (min (nat (ns div 1000000)) u64_max))"

fun has_link_below :: "fs \<Rightarrow> path \<Rightarrow> component list \<Rightarrow> (io_error, bool) res" where
  "has_link_below f current [] = Inr False"
| "has_link_below f current (c # cs) =
    (let p = path_join current (component_str c) in
     try_then (symlink_metadata f p) (\<lambda>n. if rag_is_link n then Inr True else has_link_below f p cs))"

text \<open>Whether a component below the root is a link; a path outside the root and an error count as one.\<close>

definition path_has_link_or_reparse :: "fs \<Rightarrow> path \<Rightarrow> path \<Rightarrow> bool" where
  "path_has_link_or_reparse f root absolute = (case strip_prefix absolute root of
      None \<Rightarrow> True
    | Some relative \<Rightarrow> (case has_link_below f root (components relative) of Inr b \<Rightarrow> b | Inl _ \<Rightarrow> True))"

definition read_stable_candidate ::
  "text_host \<Rightarrow> fs \<Rightarrow> fs \<Rightarrow> fs \<Rightarrow> (io_error, node) res \<Rightarrow> rag_source \<Rightarrow> rag_candidate \<Rightarrow> (rag_exclusion, stable_content) res" where
  "read_stable_candidate h f g k handle source candidate =
    (let p = rc_absolute_path candidate;
         excluded = (\<lambda>rule_id category. exclusion source (rc_relative_path candidate) ''file'' rule_id category None);
         linked = excluded ''path.symlink_or_reparse'' ''path_safety''; escaped = excluded ''path.escape'' ''path_safety'';
         changed = excluded ''content.changed_during_read'' ''consistency'' in
     try_then (map_err (\<lambda>_. linked) (symlink_metadata f p)) (\<lambda>before.
     try_then (ensure (is_file_node before \<and> \<not> rag_is_link before) linked) (\<lambda>_.
     try_then (ensure (node_len before \<le> DEFAULT_RAG_MAX_FILE_BYTES) (excluded ''size.too_large'' ''resource_limit'')) (\<lambda>_.
     try_then (map_err (\<lambda>_. escaped) (canonicalize f p)) (\<lambda>before_canonical.
     try_then (ensure (strip_prefix before_canonical (src_root source) \<noteq> None) escaped) (\<lambda>_.
     try_then (ensure (\<not> path_has_link_or_reparse f (src_root source) before_canonical) linked) (\<lambda>_.
     try_then (map_err (\<lambda>_. excluded ''io.read_failed'' ''io'') (metadata g p)) (\<lambda>opened.
     try_then (ensure (node_fingerprint h opened = node_fingerprint h before) changed) (\<lambda>_.
     try_then (ok_or (excluded ''io.read_failed'' ''io'') (read_limited opened (DEFAULT_RAG_MAX_FILE_BYTES + 1))) (\<lambda>bytes.
     try_then (ensure (length bytes \<le> DEFAULT_RAG_MAX_FILE_BYTES) (excluded ''size.too_large'' ''resource_limit'')) (\<lambda>_.
     try_then (map_err (\<lambda>_. excluded ''io.metadata_failed'' ''io'') handle) (\<lambda>handle_after.
     try_then (map_err (\<lambda>_. linked) (symlink_metadata k p)) (\<lambda>path_after.
     try_then (ensure (is_file_node path_after \<and> \<not> rag_is_link path_after) linked) (\<lambda>_.
     try_then (map_err (\<lambda>_. escaped) (canonicalize k p)) (\<lambda>after_canonical.
     try_then (ensure (strip_prefix after_canonical (src_root source) \<noteq> None) escaped) (\<lambda>_.
     try_then (ensure (path_eq before_canonical after_canonical \<and> node_fingerprint h before = node_fingerprint h handle_after
       \<and> node_fingerprint h before = node_fingerprint h path_after) changed) (\<lambda>_.
     try_then (ensure (utf8_valid bytes) (excluded ''content.invalid_utf8'' ''content_type'')) (\<lambda>_.
     case detect_secret h bytes of
       Some d \<Rightarrow> Inl (exclusion source (rc_relative_path candidate) ''file'' (sd_rule_id d) (sd_category d) (Some (sd_line d, sd_column d)))
     | None \<Rightarrow> Inr \<lparr>st_text = bytes, st_bytes = length bytes, st_chars = char_count bytes, st_blake3 = rh_blake3 h bytes,
         st_modified_unix_ms = modified_unix_ms (Some (m_mtime (node_meta before)))\<rparr>))))))))))))))))))"

section \<open>References\<close>

datatype ref_error = RefErr (re_rule_id: string) (re_message: string)

definition MAX_SAFE_REFERENCE_FILE_BYTES :: nat where "MAX_SAFE_REFERENCE_FILE_BYTES = 2 * 1024 * 1024"

record safe_file =
  sf_relative_path :: string
  sf_bytes :: nat
  sf_chars :: nat
  sf_content_hash :: string
  sf_content :: string

definition inspect_sensitive_text :: "text_host \<Rightarrow> string \<Rightarrow> secret_detection option" where
  "inspect_sensitive_text h content = detect_secret h content"

definition relative_request_path :: "path \<Rightarrow> path \<Rightarrow> (ref_error, path) res" where
  "relative_request_path canonical_root requested =
    try_then (if is_absolute requested
      then ok_or (RefErr ''path.escape'' ''absolute reference is outside the workspace'') (strip_prefix requested canonical_root)
      else Inr requested) (\<lambda>relative.
    try_then (ensure (relative \<noteq> '''') (RefErr ''path.not_file'' ''workspace root is not a file reference'')) (\<lambda>_.
    try_then (ensure (list_all is_normal (components relative))
      (RefErr ''path.invalid_relative'' ''reference path must contain only normal relative components'')) (\<lambda>_.
    Inr relative)))"

fun denied_on_way :: "text_host \<Rightarrow> component list \<Rightarrow> (string \<times> string) option" where
  "denied_on_way h [] = None"
| "denied_on_way h (c # cs) = (case (if utf8_valid (component_str c) then denied_directory h (component_str c) else None) of
      Some d \<Rightarrow> Some d | None \<Rightarrow> denied_on_way h cs)"

definition rag_reject_sensitive_path :: "text_host \<Rightarrow> path \<Rightarrow> (ref_error, unit) res" where
  "rag_reject_sensitive_path h relative = (case denied_relative_directory h relative of
      Some (rule_id, _) \<Rightarrow> Inl (RefErr rule_id ''reference points into an excluded generated directory'')
    | None \<Rightarrow> (case denied_on_way h (butlast (components relative)) of
        Some (rule_id, _) \<Rightarrow> Inl (RefErr rule_id ''reference points into an excluded directory'')
      | None \<Rightarrow> (case sensitive_file_name relative of
          Some (rule_id, _) \<Rightarrow> Inl (RefErr rule_id ''reference points to a sensitive file name'')
        | None \<Rightarrow> Inr ())))"

fun components_real :: "fs \<Rightarrow> path \<Rightarrow> component list \<Rightarrow> (ref_error, unit) res" where
  "components_real f current [] = Inr ()"
| "components_real f current (c # cs) =
    (let p = path_join current (component_str c) in
     try_then (map_err (\<lambda>_. RefErr ''path.not_found'' ''reference path component does not exist'') (symlink_metadata f p)) (\<lambda>n.
     if rag_is_link n
     then Inl (RefErr ''path.symlink_or_reparse'' ''reference path contains a symlink, junction, or reparse point'')
     else components_real f p cs))"

definition rag_validate_components :: "fs \<Rightarrow> path \<Rightarrow> path \<Rightarrow> (ref_error, unit) res" where
  "rag_validate_components f root relative = components_real f root (components relative)"

definition too_large :: "nat \<Rightarrow> ref_error" where
  "too_large max_bytes = RefErr ''size.too_large'' (''referenced file exceeds the '' @ dec_of_nat max_bytes @ ''-byte limit'')"

definition read_safe_workspace_file ::
  "text_host \<Rightarrow> fs \<Rightarrow> fs \<Rightarrow> fs \<Rightarrow> (path \<Rightarrow> (io_error, node) res) \<Rightarrow> path \<Rightarrow> path \<Rightarrow> nat \<Rightarrow> (ref_error, safe_file) res" where
  "read_safe_workspace_file h f g k handle workspace requested max_bytes =
    try_then (ensure (\<not> (max_bytes = 0 \<or> max_bytes > MAX_SAFE_REFERENCE_FILE_BYTES)) (RefErr ''size.invalid_limit''
      (''reference byte limit must be between 1 and '' @ dec_of_nat MAX_SAFE_REFERENCE_FILE_BYTES))) (\<lambda>_.
    try_then (map_err (\<lambda>_. RefErr ''io.workspace_metadata'' ''workspace cannot be inspected'') (symlink_metadata f workspace)) (\<lambda>w.
    try_then (ensure (is_dir_node w \<and> \<not> rag_is_link w)
      (RefErr ''path.workspace_reparse'' ''workspace root must be a real directory'')) (\<lambda>_.
    try_then (map_err (\<lambda>_. RefErr ''io.workspace_resolve'' ''workspace cannot be resolved'') (canonicalize f workspace)) (\<lambda>root.
    try_then (relative_request_path root requested) (\<lambda>relative.
    try_then (rag_reject_sensitive_path h relative) (\<lambda>_.
    let candidate = path_join root relative in
    try_then (rag_validate_components f root relative) (\<lambda>_.
    try_then (map_err (\<lambda>_. RefErr ''path.not_found'' ''referenced file does not exist'') (symlink_metadata f candidate)) (\<lambda>before.
    try_then (ensure (is_file_node before \<and> \<not> rag_is_link before)
      (RefErr ''path.symlink_or_reparse'' ''reference is not a regular file'')) (\<lambda>_.
    try_then (ensure (node_len before \<le> max_bytes) (too_large max_bytes)) (\<lambda>_.
    try_then (map_err (\<lambda>_. RefErr ''path.resolve_failed'' ''referenced file cannot be resolved'') (canonicalize f candidate)) (\<lambda>before_canonical.
    try_then (ensure (path_starts_with before_canonical root) (RefErr ''path.escape'' ''referenced file resolves outside the workspace'')) (\<lambda>_.
    try_then (map_err (\<lambda>_. RefErr ''io.read_failed'' ''referenced file cannot be opened'') (metadata g candidate)) (\<lambda>opened.
    try_then (ensure (node_fingerprint h opened = node_fingerprint h before)
      (RefErr ''content.changed_during_read'' ''referenced file changed before it could be read'')) (\<lambda>_.
    try_then (ok_or (RefErr ''io.read_failed'' ''referenced file could not be read'')
      (read_limited opened (sat_add max_bytes 1))) (\<lambda>bytes.
    try_then (ensure (length bytes \<le> max_bytes) (too_large max_bytes)) (\<lambda>_.
    try_then (rag_validate_components k root relative) (\<lambda>_.
    try_then (map_err (\<lambda>_. RefErr ''io.metadata_failed'' ''open file cannot be re-inspected'') (handle candidate)) (\<lambda>handle_after.
    try_then (map_err (\<lambda>_. RefErr ''content.changed_during_read'' ''referenced file disappeared'') (symlink_metadata k candidate)) (\<lambda>after.
    try_then (map_err (\<lambda>_. RefErr ''content.changed_during_read'' ''referenced file moved'') (canonicalize k candidate)) (\<lambda>after_canonical.
    try_then (ensure (\<not> (rag_is_link after \<or> \<not> path_eq before_canonical after_canonical
        \<or> node_fingerprint h before \<noteq> node_fingerprint h handle_after \<or> node_fingerprint h before \<noteq> node_fingerprint h after))
      (RefErr ''content.changed_during_read'' ''referenced file changed while it was being read'')) (\<lambda>_.
    try_then (ensure (utf8_valid bytes) (RefErr ''content.invalid_utf8'' ''referenced file is not UTF-8 text'')) (\<lambda>_.
    case detect_secret h bytes of
      Some d \<Rightarrow> Inl (RefErr (sd_rule_id d) (''referenced file was excluded by secret scanning at line '' @ dec_of_nat (sd_line d)
        @ '', column '' @ dec_of_nat (sd_column d)))
    | None \<Rightarrow> Inr \<lparr>sf_relative_path = normalized_relative relative, sf_bytes = length bytes, sf_chars = char_count bytes,
        sf_content_hash = rh_blake3 h bytes, sf_content = bytes\<rparr>))))))))))))))))))))))"

text \<open>A read during which nothing changes: all observations are the same.\<close>

definition read_safe_file_in :: "text_host \<Rightarrow> fs \<Rightarrow> path \<Rightarrow> path \<Rightarrow> nat \<Rightarrow> (ref_error, safe_file) res" where
  "read_safe_file_in h f workspace requested max_bytes =
    read_safe_workspace_file h f f f (metadata f) workspace requested max_bytes"

end
