(* ===== verification/EditSchema.thy ===== *)
theory EditSchema
  imports RagReference
begin

text \<open>
  The data of edit plans and proposals (\<open>opticcode-edit/src/schema.rs\<close>): operations, limits, plans, snapshots of the
  files a proposal touches, and the states of a proposal.
\<close>

definition EDIT_PLAN_SCHEMA_VERSION :: nat where "EDIT_PLAN_SCHEMA_VERSION = 1"
definition PROPOSAL_STORE_SCHEMA_VERSION :: nat where "PROPOSAL_STORE_SCHEMA_VERSION = 1"
definition MAX_EDIT_FILES :: nat where "MAX_EDIT_FILES = 5"
definition MAX_EDIT_CREATED_FILES :: nat where "MAX_EDIT_CREATED_FILES = 1"
definition MAX_EDIT_FILE_BYTES :: nat where "MAX_EDIT_FILE_BYTES = 512 * 1024"
definition MAX_EDIT_PROPOSAL_BYTES :: nat where "MAX_EDIT_PROPOSAL_BYTES = 2 * 1024 * 1024"
definition MAX_EDIT_DIFF_DISPLAY_BYTES :: nat where "MAX_EDIT_DIFF_DISPLAY_BYTES = 1024 * 1024"
definition MAX_EDIT_HUNKS :: nat where "MAX_EDIT_HUNKS = 64"
definition MAX_EDIT_ADDED_LINES :: nat where "MAX_EDIT_ADDED_LINES = 1500"
definition MAX_EDIT_DELETED_LINES :: nat where "MAX_EDIT_DELETED_LINES = 1500"
definition MAX_EDIT_CHANGED_LINES :: nat where "MAX_EDIT_CHANGED_LINES = 2000"
definition MAX_EDIT_GLOBAL_TIMEOUT_SECONDS :: nat where "MAX_EDIT_GLOBAL_TIMEOUT_SECONDS = 15 * 60"
definition DEFAULT_PROPOSAL_TTL_SECONDS :: nat where "DEFAULT_PROPOSAL_TTL_SECONDS = 24 * 60 * 60"
definition DEFAULT_TRANSACTION_REPORT_TTL_SECONDS :: nat where "DEFAULT_TRANSACTION_REPORT_TTL_SECONDS = 7 * 24 * 60 * 60"
definition MAX_EDIT_IDENTIFIER_BYTES :: nat where "MAX_EDIT_IDENTIFIER_BYTES = 160"
definition MAX_EDIT_REASON_CHARS :: nat where "MAX_EDIT_REASON_CHARS = 2048"
definition MAX_EDIT_LIST_ITEMS :: nat where "MAX_EDIT_LIST_ITEMS = 64"

definition ALLOWED_EDIT_EXTENSIONS :: "string list" where
  "ALLOWED_EDIT_EXTENSIONS = [''java'', ''xml'', ''yml'', ''yaml'', ''json'', ''toml'', ''properties'', ''gradle'', ''md'', ''txt'']"

lemmas edit_limits = MAX_EDIT_FILES_def MAX_EDIT_CREATED_FILES_def MAX_EDIT_FILE_BYTES_def MAX_EDIT_PROPOSAL_BYTES_def
  MAX_EDIT_HUNKS_def MAX_EDIT_ADDED_LINES_def MAX_EDIT_DELETED_LINES_def MAX_EDIT_CHANGED_LINES_def
  MAX_EDIT_GLOBAL_TIMEOUT_SECONDS_def

datatype text_encoding = Utf8

datatype line_ending = NoEnding | Lf | Crlf

fun line_ending_str :: "line_ending \<Rightarrow> string" where
  "line_ending_str NoEnding = ''none''"
| "line_ending_str Lf = ''lf''"
| "line_ending_str Crlf = ''crlf''"

record byte_range =
  br_start :: nat
  br_end :: nat

record edit_context_reference =
  cr_source :: string
  cr_provenance :: string
  cr_content_hash :: "string option"

record edit_user_reference =
  ur_reference_id :: string
  ur_kind :: string
  ur_path :: "string option"
  ur_provenance :: string

datatype edit_validation_kind = ReparseJava | BuildOffline | TestOffline

datatype provider_id = Ollama

record edit_plan_limits =
  el_max_files :: nat
  el_max_created_files :: nat
  el_max_file_bytes :: nat
  el_max_proposal_bytes :: nat
  el_max_hunks :: nat
  el_max_added_lines :: nat
  el_max_deleted_lines :: nat
  el_max_changed_lines :: nat
  el_global_timeout_seconds :: nat

definition hard_maxima :: edit_plan_limits where
  "hard_maxima = \<lparr>el_max_files = MAX_EDIT_FILES, el_max_created_files = MAX_EDIT_CREATED_FILES,
     el_max_file_bytes = MAX_EDIT_FILE_BYTES, el_max_proposal_bytes = MAX_EDIT_PROPOSAL_BYTES, el_max_hunks = MAX_EDIT_HUNKS,
     el_max_added_lines = MAX_EDIT_ADDED_LINES, el_max_deleted_lines = MAX_EDIT_DELETED_LINES,
     el_max_changed_lines = MAX_EDIT_CHANGED_LINES, el_global_timeout_seconds = MAX_EDIT_GLOBAL_TIMEOUT_SECONDS\<rparr>"

definition bounded_by_hard_maxima :: "edit_plan_limits \<Rightarrow> bool" where
  "bounded_by_hard_maxima l \<longleftrightarrow> el_max_files l > 0 \<and> el_max_files l \<le> MAX_EDIT_FILES
     \<and> el_max_created_files l \<le> MAX_EDIT_CREATED_FILES
     \<and> el_max_file_bytes l > 0 \<and> el_max_file_bytes l \<le> MAX_EDIT_FILE_BYTES
     \<and> el_max_proposal_bytes l > 0 \<and> el_max_proposal_bytes l \<le> MAX_EDIT_PROPOSAL_BYTES
     \<and> el_max_hunks l > 0 \<and> el_max_hunks l \<le> MAX_EDIT_HUNKS
     \<and> el_max_added_lines l \<le> MAX_EDIT_ADDED_LINES \<and> el_max_deleted_lines l \<le> MAX_EDIT_DELETED_LINES
     \<and> el_max_changed_lines l \<le> MAX_EDIT_CHANGED_LINES
     \<and> el_global_timeout_seconds l > 0 \<and> el_global_timeout_seconds l \<le> MAX_EDIT_GLOBAL_TIMEOUT_SECONDS"

record modify_operation =
  mo_path :: string
  mo_expected_file_hash :: string
  mo_encoding :: text_encoding
  mo_line_ending :: line_ending
  mo_range :: byte_range
  mo_expected_old :: string
  mo_replacement :: string
  mo_reason :: string
  mo_symbol :: "string option"
  mo_provenance :: "string list"

record create_operation =
  co_path :: string
  co_extension :: string
  co_encoding :: text_encoding
  co_line_ending :: line_ending
  co_content :: string
  co_reason :: string
  co_provenance :: "string list"
  co_expected_absent :: bool
  co_declared_size :: nat

datatype edit_operation = Modify modify_operation | Create create_operation

fun op_path :: "edit_operation \<Rightarrow> string" where
  "op_path (Modify m) = mo_path m"
| "op_path (Create c) = co_path c"

fun is_creation :: "edit_operation \<Rightarrow> bool" where
  "is_creation (Modify _) = False"
| "is_creation (Create _) = True"

record edit_plan =
  ep_schema_version :: nat
  ep_plan_id :: string
  ep_request_id :: string
  ep_workspace_id :: string
  ep_workspace_root_hash :: string
  ep_profile :: string
  ep_provider :: provider_id
  ep_model :: string
  ep_base_head :: string
  ep_working_tree_digest :: string
  ep_context_used :: "edit_context_reference list"
  ep_user_references :: "edit_user_reference list"
  ep_summary :: string
  ep_rationale_summary :: string
  ep_operations :: "edit_operation list"
  ep_validations :: "edit_validation_kind list"
  ep_risks :: "string list"
  ep_limitations :: "string list"
  ep_limits :: edit_plan_limits
  ep_expires_at_unix_ms :: nat

definition edit_plan_empty :: edit_plan where
  "edit_plan_empty = \<lparr>ep_schema_version = EDIT_PLAN_SCHEMA_VERSION, ep_plan_id = [], ep_request_id = [], ep_workspace_id = [],
     ep_workspace_root_hash = [], ep_profile = [], ep_provider = Ollama, ep_model = [], ep_base_head = [],
     ep_working_tree_digest = [], ep_context_used = [], ep_user_references = [], ep_summary = [], ep_rationale_summary = [],
     ep_operations = [], ep_validations = [], ep_risks = [], ep_limitations = [], ep_limits = hard_maxima,
     ep_expires_at_unix_ms = 0\<rparr>"

record edit_plan_expectations =
  ee_request_id :: string
  ee_plan_id :: string
  ee_workspace_id :: string
  ee_workspace_root :: path
  ee_workspace_root_hash :: string
  ee_profile :: string
  ee_provider :: provider_id
  ee_model :: string
  ee_base_head :: string
  ee_working_tree_digest :: string
  ee_now_unix_ms :: nat
  ee_limits :: edit_plan_limits

datatype proposal_file_status = FileModified | FileCreated

record proposal_file =
  pp_path :: string
  pp_status :: proposal_file_status
  pp_encoding :: text_encoding
  pp_line_ending :: line_ending
  pp_base_content :: "string option"
  pp_base_hash :: "string option"
  pp_proposed_content :: string
  pp_proposed_hash :: string
  pp_proposed_bytes :: nat

record validated_edit_plan =
  vp_plan :: edit_plan
  vp_files :: "proposal_file list"
  vp_estimated_added_lines :: nat
  vp_estimated_deleted_lines :: nat
  vp_total_snapshot_bytes :: nat

section \<open>The states of a proposal\<close>

datatype proposal_state = PsGenerated | PsValidated | PsWorktreePrepared | PsWorktreeApplied | PsBuildRunning | PsVerified
  | PsVerificationFailed | PsApprovalPending | PsApplying | PsApplied | PsRollbackAvailable | PsRollingBack | PsRolledBack
  | PsDiscarded | PsExpired | PsFailed

definition proposal_next :: "(proposal_state \<times> proposal_state list) list" where
  "proposal_next =
    [(PsGenerated, [PsValidated]),
     (PsValidated, [PsWorktreePrepared, PsVerificationFailed, PsFailed, PsExpired, PsDiscarded]),
     (PsWorktreePrepared, [PsWorktreeApplied, PsVerificationFailed, PsFailed]),
     (PsWorktreeApplied, [PsBuildRunning, PsVerificationFailed, PsFailed]),
     (PsBuildRunning, [PsVerified, PsVerificationFailed, PsFailed]),
     (PsVerified, [PsWorktreePrepared, PsVerificationFailed, PsApprovalPending, PsApplying, PsExpired, PsDiscarded]),
     (PsVerificationFailed, [PsWorktreePrepared, PsExpired, PsDiscarded]),
     (PsApprovalPending, [PsApplying, PsVerified, PsExpired, PsDiscarded]),
     (PsApplying, [PsApplied, PsVerified, PsFailed]),
     (PsApplied, [PsRollbackAvailable, PsRollingBack, PsFailed]),
     (PsRollbackAvailable, [PsRollingBack, PsExpired]),
     (PsRollingBack, [PsRolledBack, PsRollbackAvailable, PsFailed])]"

definition can_transition_to :: "proposal_state \<Rightarrow> proposal_state \<Rightarrow> bool" where
  "can_transition_to s t \<longleftrightarrow> (case map_of proposal_next s of None \<Rightarrow> False | Some ts \<Rightarrow> t \<in> set ts) \<or> s = t"

definition proposal_is_terminal :: "proposal_state \<Rightarrow> bool" where
  "proposal_is_terminal s \<longleftrightarrow> s \<in> set [PsRolledBack, PsDiscarded, PsExpired, PsFailed]"

record proposal_transition =
  pn_sequence :: nat
  pn_state :: proposal_state
  pn_recorded_at_unix_ms :: nat
  pn_reason :: string

end
