(* ===== verification/EditValidation.thy ===== *)
theory EditValidation
  imports EditSchema
begin

text \<open>
  The validation of an untrusted edit plan against the trusted state of a request and the files of the workspace
  (\<open>opticcode-edit/src/validation.rs\<close>), and the contents it proposes. The JSON parser is a parameter; the workspace does
  not change while the plan is validated.
\<close>

definition MAX_EXPECTED_OLD_BYTES :: nat where "MAX_EXPECTED_OLD_BYTES = 128 * 1024"

datatype edit_plan_error = PlanErr (pe_code: string) (pe_message: string)

definition plan_error_text :: "edit_plan_error \<Rightarrow> string" where
  "plan_error_text e = pe_code e @ '': '' @ pe_message e"

section \<open>Texts\<close>

definition content_hash :: "text_host \<Rightarrow> string \<Rightarrow> string" where
  "content_hash h bytes = rh_blake3 h bytes"

definition edit_normalize_relative :: "string \<Rightarrow> string" where
  "edit_normalize_relative s = replace_char (CHR 0x5C) (CHR ''/'') s"

definition is_hash :: "string \<Rightarrow> bool" where
  "is_hash s \<longleftrightarrow> length s = 64 \<and> list_all is_ascii_hexdigit s"

definition is_git_oid :: "string \<Rightarrow> bool" where
  "is_git_oid s \<longleftrightarrow> (length s = 40 \<or> length s = 64) \<and> list_all is_ascii_hexdigit s"

text \<open>The loop over the bytes: how many line feeds follow a carriage return, and how many do not.\<close>

fun count_endings :: "char option \<Rightarrow> string \<Rightarrow> nat \<times> nat" where
  "count_endings prev [] = (0, 0)"
| "count_endings prev (c # s) =
    (let (crlf, lf) = count_endings (Some c) s in
     if c = newline then (if prev = Some carriage then (crlf + 1, lf) else (crlf, lf + 1)) else (crlf, lf))"

definition detect_line_ending :: "string \<Rightarrow> (edit_plan_error, line_ending) res" where
  "detect_line_ending s =
    (let (crlf, lf) = count_endings None s in
     if crlf > 0 \<and> lf > 0
     then Inl (PlanErr ''file.mixed_line_endings'' ''mixed CRLF and LF line endings are not editable in CHAT-EDIT-001'')
     else Inr (if crlf > 0 then Crlf else if lf > 0 then Lf else NoEnding))"

definition validate_bounded_text :: "string \<Rightarrow> string \<Rightarrow> (edit_plan_error, unit) res" where
  "validate_bounded_text s name =
    ensure (\<not> (str_trim s = '''' \<or> char_count s > MAX_EDIT_REASON_CHARS \<or> CHR 0x00 \<in> set s))
      (PlanErr ''plan.text_limit'' (name @ '' is empty, too long, or contains NUL''))"

definition validate_string_list :: "string list \<Rightarrow> string \<Rightarrow> (edit_plan_error, unit) res" where
  "validate_string_list ss name =
    try_then (ensure (length ss \<le> MAX_EDIT_LIST_ITEMS) (PlanErr ''plan.list_limit'' (name @ '' exceeds its item limit''))) (\<lambda>_.
    try_then (try_each (\<lambda>s. validate_bounded_text s name) ss) (\<lambda>_. Inr ()))"

definition edit_line_count :: "string \<Rightarrow> nat" where
  "edit_line_count s = (if s = [] then 0 else sat_add (length (filter (\<lambda>c. c = newline) s)) 1)"

section \<open>Paths\<close>

definition windows_reserved_name :: "string \<Rightarrow> bool" where
  "windows_reserved_name s =
    (let stem = to_ascii_uppercase (hd (split_on (CHR ''.'') (trim_end_chars [CHR '' '', CHR ''.''] s))) in
     stem \<in> set [''CON'', ''PRN'', ''AUX'', ''NUL'']
     \<or> (case (case strip_prefix_str stem ''COM'' of Some t \<Rightarrow> Some t | None \<Rightarrow> strip_prefix_str stem ''LPT'') of
          None \<Rightarrow> False
        | Some rest \<Rightarrow> rest \<in> set [''1'', ''2'', ''3'', ''4'', ''5'', ''6'', ''7'', ''8'', ''9'']))"

definition sensitive_path :: "string \<Rightarrow> bool" where
  "sensitive_path s =
    (let normalized = to_ascii_lowercase (replace_char (CHR 0x5C) (CHR ''/'') s); name = last_part (CHR ''/'') normalized in
     normalized = ''.git'' \<or> starts_with normalized ''.git/'' \<or> str_contains normalized ''/.git/''
     \<or> normalized = ''.opticcode'' \<or> starts_with normalized ''.opticcode/'' \<or> starts_with normalized ''.mvn/''
     \<or> starts_with normalized ''gradle/wrapper/'' \<or> name \<in> set [''mvnw'', ''mvnw.cmd'', ''gradlew'', ''gradlew.bat'']
     \<or> starts_with name ''.env'' \<or> ends_with name ''.key'' \<or> ends_with name ''.pem'' \<or> ends_with name ''.pfx''
     \<or> ends_with name ''.p12'' \<or> str_contains name ''credential'' \<or> str_contains name ''secret'' \<or> str_contains name ''token''
     \<or> name = ''id_rsa'' \<or> name = ''id_ed25519'')"

definition edit_check_component :: "component \<Rightarrow> (edit_plan_error, unit) res" where
  "edit_check_component c = (case c of
      Normal n \<Rightarrow> (let text = from_utf8_lossy n in
        ensure (\<not> (text = '''' \<or> CHR '':'' \<in> set text \<or> windows_reserved_name text))
          (PlanErr ''path.windows_unsafe'' ''edit path contains a Windows-unsafe component''))
    | _ \<Rightarrow> Inl (PlanErr ''path.traversal'' ''edit path contains traversal, root, prefix, or current-directory components''))"

definition edit_validate_relative_path :: "string \<Rightarrow> (edit_plan_error, unit) res" where
  "edit_validate_relative_path s =
    try_then (ensure (\<not> (s = '''' \<or> length s > 1024 \<or> CHR 0x00 \<in> set s \<or> carriage \<in> set s \<or> newline \<in> set s))
      (PlanErr ''path.invalid'' ''edit path is empty, too long, or contains control characters'')) (\<lambda>_.
    try_then (ensure (\<not> is_absolute s) (PlanErr ''path.absolute'' ''absolute edit paths are refused'')) (\<lambda>_.
    try_then (try_each edit_check_component (components s)) (\<lambda>names.
    ensure (\<not> (length names = 0 \<or> sensitive_path s))
      (PlanErr ''path.sensitive'' ''Git metadata, build wrappers, executable files, and secret-like names are refused''))))"

definition edit_extension :: "string \<Rightarrow> string" where
  "edit_extension s = (case Option.bind (extension s) utf8_str of None \<Rightarrow> '''' | Some e \<Rightarrow> to_ascii_lowercase e)"

definition validate_extension :: "string \<Rightarrow> (edit_plan_error, unit) res" where
  "validate_extension s = ensure (edit_extension s \<in> set ALLOWED_EDIT_EXTENSIONS)
    (PlanErr ''path.extension_refused'' (''file extension for '' @ s @ '' is outside the Minecraft V1 text allowlist''))"

definition canonical_real_directory :: "fs \<Rightarrow> path \<Rightarrow> (edit_plan_error, path) res" where
  "canonical_real_directory f p =
    try_then (map_err (\<lambda>e. PlanErr ''path.inspect_failed'' (''failed to inspect '' @ p @ '': '' @ io_text e)) (symlink_metadata f p)) (\<lambda>n.
    try_then (ensure (\<not> (\<not> is_dir_node n \<or> is_link_node n)) (PlanErr ''path.reparse_refused''
      (''directory is a symlink, junction, reparse point, or non-directory: '' @ p))) (\<lambda>_.
    map_err (\<lambda>e. PlanErr ''path.resolve_failed'' (''failed to resolve '' @ p @ '': '' @ io_text e)) (canonicalize f p)))"

definition canonical_root_hash :: "text_host \<Rightarrow> fs \<Rightarrow> path \<Rightarrow> (edit_plan_error, string) res" where
  "canonical_root_hash h f p = try_then (canonical_real_directory f p) (\<lambda>canonical.
     Inr (content_hash h (replace_char (CHR 0x5C) (CHR ''/'') (from_utf8_lossy canonical))))"

section \<open>The envelope\<close>

fun check_identifiers :: "(string \<times> string \<times> string) list \<Rightarrow> (edit_plan_error, unit) res" where
  "check_identifiers [] = Inr ()"
| "check_identifiers ((name, actual, trusted) # rest) =
    (if actual = '''' \<or> length actual > MAX_EDIT_IDENTIFIER_BYTES
        \<or> carriage \<in> set actual \<or> newline \<in> set actual \<or> CHR 0x00 \<in> set actual \<or> actual \<noteq> trusted
     then Inl (PlanErr (''plan.'' @ name @ ''_mismatch'') (name @ '' does not match the trusted request state''))
     else check_identifiers rest)"

definition plan_identifiers :: "edit_plan \<Rightarrow> edit_plan_expectations \<Rightarrow> (string \<times> string \<times> string) list" where
  "plan_identifiers plan expected =
    [(''plan_id'', ep_plan_id plan, ee_plan_id expected), (''request_id'', ep_request_id plan, ee_request_id expected),
     (''workspace_id'', ep_workspace_id plan, ee_workspace_id expected), (''profile'', ep_profile plan, ee_profile expected),
     (''model'', ep_model plan, ee_model expected), (''base_head'', ep_base_head plan, ee_base_head expected),
     (''working_tree_digest'', ep_working_tree_digest plan, ee_working_tree_digest expected),
     (''workspace_root_hash'', ep_workspace_root_hash plan, ee_workspace_root_hash expected)]"

definition validate_envelope :: "edit_plan \<Rightarrow> edit_plan_expectations \<Rightarrow> (edit_plan_error, unit) res" where
  "validate_envelope plan expected =
    try_then (ensure (ep_schema_version plan = EDIT_PLAN_SCHEMA_VERSION) (PlanErr ''plan.schema_version''
      (''unsupported edit plan schema version '' @ dec_of_nat (ep_schema_version plan)))) (\<lambda>_.
    try_then (check_identifiers (plan_identifiers plan expected)) (\<lambda>_.
    try_then (ensure (ep_provider plan = ee_provider expected)
      (PlanErr ''plan.provider_mismatch'' ''provider does not match the trusted request'')) (\<lambda>_.
    try_then (ensure (is_hash (ep_workspace_root_hash plan) \<and> is_hash (ep_working_tree_digest plan))
      (PlanErr ''plan.hash_invalid'' ''workspace and working-tree digests must be 64 hexadecimal BLAKE3 values'')) (\<lambda>_.
    try_then (ensure (is_git_oid (ep_base_head plan))
      (PlanErr ''plan.head_invalid'' ''base HEAD must be a 40- or 64-character hexadecimal object ID'')) (\<lambda>_.
    ensure (\<not> (ep_expires_at_unix_ms plan \<le> ee_now_unix_ms expected
        \<or> ep_expires_at_unix_ms plan > sat_add (ee_now_unix_ms expected) (sat_mul DEFAULT_PROPOSAL_TTL_SECONDS 1000)))
      (PlanErr ''plan.expiry_invalid'' ''proposal expiry must be in the future and no more than 24 hours away''))))))"

definition exceeds_effective_limits :: "edit_plan \<Rightarrow> edit_plan_expectations \<Rightarrow> bool" where
  "exceeds_effective_limits plan expected =
    (let left = ep_limits plan; right = ee_limits expected in
     el_max_files left > el_max_files right \<or> el_max_created_files left > el_max_created_files right
     \<or> el_max_file_bytes left > el_max_file_bytes right \<or> el_max_proposal_bytes left > el_max_proposal_bytes right
     \<or> el_max_hunks left > el_max_hunks right \<or> el_max_added_lines left > el_max_added_lines right
     \<or> el_max_deleted_lines left > el_max_deleted_lines right \<or> el_max_changed_lines left > el_max_changed_lines right
     \<or> el_global_timeout_seconds left > el_global_timeout_seconds right)"

section \<open>Operations\<close>

text \<open>\<open>str::get\<close> of a range: nothing outside the text or inside a character.\<close>

definition str_get :: "string \<Rightarrow> nat \<Rightarrow> nat \<Rightarrow> string option" where
  "str_get s a b = (if a \<le> b \<and> b \<le> length s \<and> is_char_boundary s a \<and> is_char_boundary s b
     then Some (drop a (take b s)) else None)"

definition validate_range :: "string \<Rightarrow> byte_range \<Rightarrow> string \<Rightarrow> (edit_plan_error, unit) res" where
  "validate_range source r expected_old =
    try_then (ensure (\<not> (br_start r > br_end r \<or> br_end r > length source
        \<or> \<not> is_char_boundary source (br_start r) \<or> \<not> is_char_boundary source (br_end r)))
      (PlanErr ''operation.range_invalid'' ''byte range is reversed, out of bounds, or splits UTF-8'')) (\<lambda>_.
    ensure (str_get source (br_start r) (br_end r) = Some expected_old)
      (PlanErr ''operation.expected_old_mismatch'' ''expected old content does not match the exact byte range''))"

definition validate_operation_metadata :: "string \<Rightarrow> string list \<Rightarrow> string option \<Rightarrow> (edit_plan_error, unit) res" where
  "validate_operation_metadata reason provenance symbol =
    try_then (validate_bounded_text reason ''operation reason'') (\<lambda>_.
    try_then (ensure (\<not> (provenance = [] \<or> length provenance > MAX_EDIT_LIST_ITEMS))
      (PlanErr ''operation.provenance'' ''every operation needs a bounded non-empty provenance list'')) (\<lambda>_.
    try_then (validate_string_list provenance ''operation provenance'') (\<lambda>_.
    ensure (\<not> (case symbol of None \<Rightarrow> False | Some s \<Rightarrow> s = '''' \<or> char_count s > 512))
      (PlanErr ''operation.symbol'' ''target symbol is empty or too long''))))"

fun estimate_group_lines :: "edit_operation list \<Rightarrow> nat \<times> nat" where
  "estimate_group_lines ops = foldl (\<lambda>(added, deleted) operation. case operation of
      Modify m \<Rightarrow> (sat_add added (edit_line_count (mo_replacement m)), sat_add deleted (edit_line_count (mo_expected_old m)))
    | Create c \<Rightarrow> (sat_add added (edit_line_count (co_content c)), deleted)) (0, 0) ops"

declare estimate_group_lines.simps [simp del]

section \<open>Modified files\<close>

definition check_modification ::
  "text_host \<Rightarrow> string \<Rightarrow> string \<Rightarrow> string \<Rightarrow> line_ending \<Rightarrow> edit_operation \<Rightarrow> (edit_plan_error, modify_operation) res" where
  "check_modification h p base actual_hash actual_line_ending operation = (case operation of
      Create _ \<Rightarrow> Inl (PlanErr ''plan.mixed_operations'' ''a path cannot be both created and modified in one proposal'')
    | Modify m \<Rightarrow>
        try_then (ensure (\<not> (mo_encoding m \<noteq> Utf8 \<or> mo_line_ending m \<noteq> actual_line_ending))
          (PlanErr ''file.encoding_or_line_ending'' (''encoding or line ending expectation does not match '' @ p))) (\<lambda>_.
        try_then (ensure (\<not> (mo_expected_file_hash m \<noteq> actual_hash \<or> \<not> is_hash (mo_expected_file_hash m)))
          (PlanErr ''file.hash_mismatch'' (''expected BLAKE3 hash does not match '' @ p))) (\<lambda>_.
        try_then (validate_operation_metadata (mo_reason m) (mo_provenance m) (mo_symbol m)) (\<lambda>_.
        try_then (validate_range base (mo_range m) (mo_expected_old m)) (\<lambda>_.
        try_then (ensure (length (mo_expected_old m) \<le> MAX_EXPECTED_OLD_BYTES)
          (PlanErr ''operation.expected_old_limit'' ''expected old content exceeds its bounded size'')) (\<lambda>_.
        try_then (ensure (inspect_sensitive_text h (mo_replacement m) = None)
          (PlanErr ''secret.replacement_content'' (''replacement for '' @ p @ '' contains secret-like material''))) (\<lambda>_.
        Inr m)))))))"

abbreviation range_key :: "modify_operation \<Rightarrow> nat \<times> nat" where
  "range_key m \<equiv> (br_start (mo_range m), br_end (mo_range m))"

fun ranges_overlap :: "byte_range list \<Rightarrow> bool" where
  "ranges_overlap (a # b # rs) = (br_end a > br_start b \<or> ranges_overlap (b # rs))"
| "ranges_overlap _ = False"

text \<open>
  The replacements, from the end of the file to its start. Sorting by the reversed key is stable: operations with the
  same range keep their order.
\<close>

fun insert_descending :: "modify_operation \<Rightarrow> modify_operation list \<Rightarrow> modify_operation list" where
  "insert_descending m [] = [m]"
| "insert_descending m (n # ns) = (if range_key n \<le> range_key m then m # n # ns else n # insert_descending m ns)"

fun sort_descending :: "modify_operation list \<Rightarrow> modify_operation list" where
  "sort_descending [] = []"
| "sort_descending (m # ms) = insert_descending m (sort_descending ms)"

fun apply_replacements :: "modify_operation list \<Rightarrow> string \<Rightarrow> string" where
  "apply_replacements [] s = s"
| "apply_replacements (m # ms) s =
    apply_replacements ms (replace_range (br_start (mo_range m)) (br_end (mo_range m)) (mo_replacement m) s)"

definition modified_snapshot :: "text_host \<Rightarrow> string \<Rightarrow> line_ending \<Rightarrow> string \<Rightarrow> string \<Rightarrow> proposal_file" where
  "modified_snapshot h p ending base proposed = \<lparr>pp_path = p, pp_status = FileModified, pp_encoding = Utf8, pp_line_ending = ending,
     pp_base_content = Some base, pp_base_hash = Some (content_hash h base), pp_proposed_content = proposed,
     pp_proposed_hash = content_hash h proposed, pp_proposed_bytes = length proposed\<rparr>"

definition validate_modification_group ::
  "text_host \<Rightarrow> fs \<Rightarrow> path \<Rightarrow> string \<Rightarrow> edit_operation list \<Rightarrow> edit_plan \<Rightarrow> (edit_plan_error, proposal_file) res" where
  "validate_modification_group h f root p operations plan =
    try_then (map_err (\<lambda>e. PlanErr (re_rule_id e) (re_message e)) (read_safe_file_in h f root p (el_max_file_bytes (ep_limits plan)))) (\<lambda>r.
    let base = sf_content r in
    try_then (ensure (inspect_sensitive_text h base = None) (PlanErr ''secret.source_content''
      (''source file '' @ p @ '' contains material excluded by secret scanning''))) (\<lambda>_.
    try_then (detect_line_ending base) (\<lambda>ending.
    try_then (try_each (check_modification h p base (content_hash h base) ending) operations) (\<lambda>ms.
    try_then (ensure (\<not> ranges_overlap (map mo_range (sort_key range_key ms)))
      (PlanErr ''operation.overlap'' (''byte ranges overlap in '' @ p))) (\<lambda>_.
    let proposed = apply_replacements (sort_descending ms) base in
    try_then (ensure (length proposed \<le> el_max_file_bytes (ep_limits plan))
      (PlanErr ''file.size_after'' (''proposed file '' @ p @ '' exceeds the file byte limit''))) (\<lambda>_.
    try_then (detect_line_ending proposed) (\<lambda>proposed_ending.
    try_then (ensure (\<not> (ending \<noteq> NoEnding \<and> proposed_ending \<noteq> ending))
      (PlanErr ''file.line_ending_changed'' (''proposal changes the line-ending convention of '' @ p))) (\<lambda>_.
    Inr (modified_snapshot h p ending base proposed)))))))))"

section \<open>Created files\<close>

definition created_snapshot :: "text_host \<Rightarrow> string \<Rightarrow> create_operation \<Rightarrow> proposal_file" where
  "created_snapshot h p c = \<lparr>pp_path = p, pp_status = FileCreated, pp_encoding = Utf8, pp_line_ending = co_line_ending c,
     pp_base_content = None, pp_base_hash = None, pp_proposed_content = co_content c,
     pp_proposed_hash = content_hash h (co_content c), pp_proposed_bytes = length (co_content c)\<rparr>"

definition check_absent :: "fs \<Rightarrow> path \<Rightarrow> string \<Rightarrow> (edit_plan_error, unit) res" where
  "check_absent f absolute p = (case symlink_metadata f absolute of
      Inr _ \<Rightarrow> Inl (PlanErr ''creation.already_exists'' (''new file target already exists: '' @ p))
    | Inl NotFound \<Rightarrow> Inr ()
    | Inl e \<Rightarrow> Inl (PlanErr ''creation.inspect_failed'' (''cannot inspect new file target '' @ p @ '': '' @ io_text e)))"

definition validate_creation ::
  "text_host \<Rightarrow> fs \<Rightarrow> path \<Rightarrow> string \<Rightarrow> create_operation \<Rightarrow> edit_plan \<Rightarrow> (edit_plan_error, proposal_file) res" where
  "validate_creation h f root p c plan =
    try_then (validate_operation_metadata (co_reason c) (co_provenance c) None) (\<lambda>_.
    try_then (ensure (\<not> (co_encoding c \<noteq> Utf8 \<or> \<not> co_expected_absent c \<or> co_declared_size c \<noteq> length (co_content c)))
      (PlanErr ''creation.contract'' ''new file encoding, expected-absent marker, or declared byte size is invalid'')) (\<lambda>_.
    try_then (ensure (to_ascii_lowercase (trim_start_chars [CHR ''.''] (co_extension c)) = edit_extension p)
      (PlanErr ''creation.extension_mismatch'' ''declared extension does not match the new file path'')) (\<lambda>_.
    try_then (ensure (\<not> (length (co_content c) > el_max_file_bytes (ep_limits plan) \<or> inspect_sensitive_text h (co_content c) \<noteq> None))
      (PlanErr ''creation.content_refused'' ''new file content exceeds bounds or contains secret-like material'')) (\<lambda>_.
    try_then (detect_line_ending (co_content c)) (\<lambda>ending.
    try_then (ensure (ending = co_line_ending c)
      (PlanErr ''creation.line_ending_mismatch'' ''declared line ending does not match new file content'')) (\<lambda>_.
    let absolute = path_join root p in
    try_then (check_absent f absolute p) (\<lambda>_.
    try_then (ok_or (PlanErr ''creation.parent'' ''new file has no workspace parent'') (path_parent absolute)) (\<lambda>parent.
    try_then (canonical_real_directory f parent) (\<lambda>parent.
    try_then (ensure (path_starts_with parent root)
      (PlanErr ''path.outside_workspace'' ''new file parent resolves outside the workspace'')) (\<lambda>_.
    Inr (created_snapshot h p c)))))))))))"

definition validate_creation_group ::
  "text_host \<Rightarrow> fs \<Rightarrow> path \<Rightarrow> string \<Rightarrow> edit_operation list \<Rightarrow> edit_plan \<Rightarrow> (edit_plan_error, proposal_file) res" where
  "validate_creation_group h f root p operations plan = (case operations of
      [Create c] \<Rightarrow> validate_creation h f root p c plan
    | [Modify _] \<Rightarrow> Inl (PlanErr ''plan.mixed_operations'' ''a path cannot be both created and modified in one proposal'')
    | _ \<Rightarrow> Inl (PlanErr ''plan.creation_duplicate'' ''a new file must be represented by exactly one creation operation''))"

section \<open>The plan\<close>

text \<open>The operations by path, in the order of the paths; the operations on a path keep their order.\<close>

fun group_insert :: "string \<Rightarrow> edit_operation \<Rightarrow> (string \<times> edit_operation list) list \<Rightarrow> (string \<times> edit_operation list) list" where
  "group_insert p operation [] = [(p, [operation])]"
| "group_insert p operation ((q, ops) # groups) =
    (if p = q then (q, ops @ [operation]) # groups
     else if p < q then (p, [operation]) # (q, ops) # groups
     else (q, ops) # group_insert p operation groups)"

fun group_operations :: "(string \<times> edit_operation list) list \<Rightarrow> edit_operation list \<Rightarrow> (edit_plan_error, (string \<times> edit_operation list) list) res" where
  "group_operations groups [] = Inr groups"
| "group_operations groups (operation # ops) =
    try_then (edit_validate_relative_path (op_path operation)) (\<lambda>_.
    try_then (validate_extension (op_path operation)) (\<lambda>_.
    group_operations (group_insert (edit_normalize_relative (op_path operation)) operation groups) ops))"

definition validate_group ::
  "text_host \<Rightarrow> fs \<Rightarrow> path \<Rightarrow> edit_plan \<Rightarrow> string \<times> edit_operation list \<Rightarrow> (edit_plan_error, proposal_file) res" where
  "validate_group h f root plan pair = (case pair of (p, ops) \<Rightarrow>
     if list_ex is_creation ops then validate_creation_group h f root p ops plan
     else validate_modification_group h f root p ops plan)"

definition snapshot_bytes :: "nat \<Rightarrow> proposal_file \<Rightarrow> nat" where
  "snapshot_bytes n s = sat_add (sat_add n (case pp_base_content s of None \<Rightarrow> 0 | Some b \<Rightarrow> length b)) (length (pp_proposed_content s))"

definition total_lines :: "(string \<times> edit_operation list) list \<Rightarrow> nat \<times> nat" where
  "total_lines groups = foldl (\<lambda>(added, deleted) (_, ops). case estimate_group_lines ops of (a, d) \<Rightarrow> (sat_add added a, sat_add deleted d))
     (0, 0) groups"

definition validations_complete :: "edit_validation_kind list \<Rightarrow> bool" where
  "validations_complete vs \<longleftrightarrow> card (set vs) = length vs \<and> ReparseJava \<in> set vs \<and> BuildOffline \<in> set vs"

definition validate_plan_fields :: "edit_plan \<Rightarrow> edit_plan_expectations \<Rightarrow> (edit_plan_error, unit) res" where
  "validate_plan_fields plan expected =
    try_then (validate_envelope plan expected) (\<lambda>_.
    try_then (validate_bounded_text (ep_summary plan) ''summary'') (\<lambda>_.
    try_then (validate_bounded_text (ep_rationale_summary plan) ''rationale_summary'') (\<lambda>_.
    try_then (validate_string_list (ep_risks plan) ''risks'') (\<lambda>_.
    try_then (validate_string_list (ep_limitations plan) ''limitations'') (\<lambda>_.
    try_then (ensure (\<not> (length (ep_context_used plan) > MAX_EDIT_LIST_ITEMS \<or> length (ep_user_references plan) > MAX_EDIT_LIST_ITEMS
        \<or> length (ep_validations plan) > MAX_EDIT_LIST_ITEMS))
      (PlanErr ''plan.list_limit'' ''context, references, validations, risks, or limitations exceed runtime bounds'')) (\<lambda>_.
    try_then (ensure (validations_complete (ep_validations plan)) (PlanErr ''plan.validation_contract''
      ''every edit plan must request unique reparse_java and build_offline validations'')) (\<lambda>_.
    try_then (ensure (\<not> (\<not> bounded_by_hard_maxima (ep_limits plan) \<or> exceeds_effective_limits plan expected))
      (PlanErr ''plan.limit_escalation'' ''the plan attempted to raise or invalidate a trusted runtime limit'')) (\<lambda>_.
    ensure (\<not> (ep_operations plan = [] \<or> length (ep_operations plan) > el_max_hunks (ep_limits plan)))
      (PlanErr ''plan.operation_limit'' ''the plan must contain a bounded non-empty operation list'')))))))))"

definition validate_edit_plan ::
  "text_host \<Rightarrow> fs \<Rightarrow> edit_plan \<Rightarrow> edit_plan_expectations \<Rightarrow> (edit_plan_error, validated_edit_plan) res" where
  "validate_edit_plan h f plan expected =
    (let limits = ep_limits plan; creations = length (filter is_creation (ep_operations plan)) in
     try_then (validate_plan_fields plan expected) (\<lambda>_.
     try_then (canonical_real_directory f (ee_workspace_root expected)) (\<lambda>root.
     try_then (group_operations [] (ep_operations plan)) (\<lambda>groups.
     try_then (ensure (length groups \<le> el_max_files limits) (PlanErr ''plan.file_limit'' (''proposal touches ''
       @ dec_of_nat (length groups) @ '' files; maximum is '' @ dec_of_nat (el_max_files limits)))) (\<lambda>_.
     try_then (ensure (creations \<le> el_max_created_files limits) (PlanErr ''plan.creation_limit'' (''proposal creates ''
       @ dec_of_nat creations @ '' files; maximum is '' @ dec_of_nat (el_max_created_files limits)))) (\<lambda>_.
     try_then (try_each (validate_group h f root plan) groups) (\<lambda>snapshots.
     let (added, deleted) = total_lines groups; bytes = foldl snapshot_bytes 0 snapshots in
     try_then (ensure (\<not> (added > el_max_added_lines limits \<or> deleted > el_max_deleted_lines limits
         \<or> sat_add added deleted > el_max_changed_lines limits))
       (PlanErr ''plan.line_limit'' (''proposal line estimate is +'' @ dec_of_nat added @ ''/-'' @ dec_of_nat deleted
         @ '' and exceeds configured bounds''))) (\<lambda>_.
     try_then (ensure (bytes \<le> sat_mul (el_max_proposal_bytes limits) 2)
       (PlanErr ''plan.snapshot_limit'' ''base and proposed review snapshots exceed the bounded storage limit'')) (\<lambda>_.
     Inr \<lparr>vp_plan = plan, vp_files = snapshots, vp_estimated_added_lines = added, vp_estimated_deleted_lines = deleted,
       vp_total_snapshot_bytes = bytes\<rparr>)))))))))"

definition parse_edit_plan_json :: "(string \<Rightarrow> edit_plan option) \<Rightarrow> string \<Rightarrow> (edit_plan_error, edit_plan) res" where
  "parse_edit_plan_json parse raw =
    try_then (ensure (\<not> (raw = '''' \<or> length raw > MAX_EDIT_PROPOSAL_BYTES))
      (PlanErr ''plan.size'' ''structured edit output is empty or exceeds the proposal byte limit'')) (\<lambda>_.
    let trimmed = str_trim raw in
    try_then (ensure (\<not> (\<not> starts_with trimmed ''{'' \<or> \<not> ends_with trimmed ''}''))
      (PlanErr ''plan.trailing_text'' ''the model output must contain exactly one JSON object and no prose or code fence'')) (\<lambda>_.
    ok_or (PlanErr ''plan.invalid_json'' ''the edit plan does not match schema v1'') (parse trimmed)))"

text \<open>The digest of the Git state; dropping the \<open>metrics\<close> field from its JSON form is a parameter.\<close>

definition working_tree_digest :: "text_host \<Rightarrow> (string \<Rightarrow> string option) \<Rightarrow> string \<Rightarrow> string \<Rightarrow> string \<Rightarrow> string" where
  "working_tree_digest h without_metrics root_hash head state_json =
    rh_blake3 h (''opticcode-working-tree-v1'' @ [CHR 0x00] @ root_hash @ [CHR 0x00] @ head @ [CHR 0x00]
      @ (case without_metrics state_json of None \<Rightarrow> state_json | Some s \<Rightarrow> s))"

end
