(* ===== verification/EditSplice.thy ===== *)
theory EditSplice
  imports EditValidation "HOL-Library.Multiset"
begin

text \<open>
  The contents a plan proposes for an existing file. The code applies the replacements one after the other, from the end
  of the file to its start; the specification cuts the file into the kept pieces and the pieces to replace.
\<close>

section \<open>Kept and replaced pieces\<close>

fun weave :: "string list \<Rightarrow> string list \<Rightarrow> string" where
  "weave (k # ks) (x # xs) = k @ x @ weave ks xs"
| "weave ks xs = concat ks"

fun kept_pieces :: "nat \<Rightarrow> modify_operation list \<Rightarrow> string \<Rightarrow> string list" where
  "kept_pieces a [] s = [drop a s]"
| "kept_pieces a (m # ms) s = drop a (take (br_start (mo_range m)) s) # kept_pieces (br_end (mo_range m)) ms s"

text \<open>Ranges of a text in ascending order from a position on, none before the end of the one before it.\<close>

fun ascending :: "nat \<Rightarrow> nat \<Rightarrow> modify_operation list \<Rightarrow> bool" where
  "ascending a n [] \<longleftrightarrow> a \<le> n"
| "ascending a n (m # ms) \<longleftrightarrow> a \<le> br_start (mo_range m) \<and> br_start (mo_range m) \<le> br_end (mo_range m)
     \<and> ascending (br_end (mo_range m)) n ms"

lemma ascending_le: "ascending a n ms \<Longrightarrow> a \<le> n"
  by (induction ms arbitrary: a) force+

lemma length_kept_pieces [simp]: "length (kept_pieces a ms s) = Suc (length ms)"
  by (induction ms arbitrary: a) auto

abbreviation old_piece :: "string \<Rightarrow> modify_operation \<Rightarrow> string" where
  "old_piece s m \<equiv> drop (br_start (mo_range m)) (take (br_end (mo_range m)) s)"

lemma drop_split: "a \<le> b \<Longrightarrow> drop a s = drop a (take b s) @ drop b s"
  by (metis append_take_drop_id drop_drop drop_take le_add_diff_inverse2)

lemma weave_olds: "ascending a (length s) ms \<Longrightarrow> weave (kept_pieces a ms s) (map (old_piece s) ms) = drop a s"
proof (induction ms arbitrary: a)
  case (Cons m ms)
  then show ?case
    using drop_split [of a "br_start (mo_range m)" s] drop_split [of "br_start (mo_range m)" "br_end (mo_range m)" s] by simp
qed simp

section \<open>Replacing from the end\<close>

fun descending :: "nat \<Rightarrow> modify_operation list \<Rightarrow> bool" where
  "descending n [] \<longleftrightarrow> True"
| "descending n (m # ms) \<longleftrightarrow> br_start (mo_range m) \<le> br_end (mo_range m) \<and> br_end (mo_range m) \<le> n
     \<and> descending (br_start (mo_range m)) ms"

lemma descending_mono: "descending n ms \<Longrightarrow> n \<le> k \<Longrightarrow> descending k ms"
  by (cases ms) auto

text \<open>The replacements do not look beyond the end of the first one.\<close>

lemma apply_replacements_append:
  "descending (length u) ms \<Longrightarrow> apply_replacements ms (u @ t) = apply_replacements ms u @ t"
proof (induction ms arbitrary: u)
  case (Cons m ms)
  let ?a = "br_start (mo_range m)" and ?b = "br_end (mo_range m)" and ?r = "mo_replacement m"
  have "descending (length (take ?a u @ ?r @ drop ?b u)) ms"
    using Cons.prems by (auto intro: descending_mono)
  moreover have "replace_range ?a ?b ?r (u @ t) = replace_range ?a ?b ?r u @ t"
    using Cons.prems by (simp add: replace_range_def)
  ultimately show ?case
    using Cons.IH [of "take ?a u @ ?r @ drop ?b u"] by (simp add: replace_range_def)
qed simp

lemma ascending_snoc:
  "ascending a n (ms @ [m]) \<longleftrightarrow> ascending a (br_start (mo_range m)) ms \<and> br_start (mo_range m) \<le> br_end (mo_range m) \<and> br_end (mo_range m) \<le> n"
  by (induction ms arbitrary: a) auto

lemma ascending_descending: "ascending a n ms \<Longrightarrow> descending n (rev ms)"
proof (induction ms arbitrary: n rule: rev_induct)
  case (snoc m ms)
  then show ?case
    by (simp add: ascending_snoc)
qed simp

lemma kept_pieces_snoc:
  "ascending a (br_start (mo_range m)) ms \<Longrightarrow>
   weave (kept_pieces a (ms @ [m]) s) (map mo_replacement (ms @ [m]))
     = weave (kept_pieces a ms (take (br_start (mo_range m)) s)) (map mo_replacement ms) @ mo_replacement m @ drop (br_end (mo_range m)) s"
proof (induction ms arbitrary: a)
  case (Cons n ms)
  have "br_start (mo_range n) \<le> br_start (mo_range m)"
    using Cons.prems ascending_le [of "br_end (mo_range n)" "br_start (mo_range m)" ms] by simp
  then show ?case
    using Cons by (simp add: min_absorb1)
qed simp

lemma apply_replacements_weave:
  "ascending 0 (length s) ms \<Longrightarrow> apply_replacements (rev ms) s = weave (kept_pieces 0 ms s) (map mo_replacement ms)"
proof (induction ms arbitrary: s rule: rev_induct)
  case (snoc m ms)
  let ?a = "br_start (mo_range m)" and ?b = "br_end (mo_range m)"
  have asc: "ascending 0 ?a ms" "?a \<le> ?b" "?b \<le> length s"
    using snoc.prems by (auto simp: ascending_snoc)
  have len: "length (take ?a s) = ?a"
    using asc by simp
  have "apply_replacements (rev (ms @ [m])) s = apply_replacements (rev ms) (take ?a s @ mo_replacement m @ drop ?b s)"
    by (simp add: replace_range_def)
  also have "\<dots> = apply_replacements (rev ms) (take ?a s) @ mo_replacement m @ drop ?b s"
    using apply_replacements_append [of "take ?a s" "rev ms"] ascending_descending [OF asc(1)] len by simp
  also have "\<dots> = weave (kept_pieces 0 ms (take ?a s)) (map mo_replacement ms) @ mo_replacement m @ drop ?b s"
    using snoc.IH [of "take ?a s"] asc(1) len by simp
  finally show ?case
    using kept_pieces_snoc [OF asc(1)] by simp
qed simp

section \<open>The order of the code\<close>

lemma mset_sort_descending [simp]: "mset (sort_descending ms) = mset ms"
proof -
  have "mset (insert_descending m ns) = add_mset m (mset ns)" for m ns
    by (induction ns) auto
  then show ?thesis
    by (induction ms) auto
qed

lemma sort_descending_sorted: "sorted (map range_key (rev (sort_descending ms)))"
proof -
  have "sorted_wrt (\<lambda>a b. b \<le> a) (map range_key (insert_descending m ns))"
    if "sorted_wrt (\<lambda>a b. b \<le> a) (map range_key ns)" for m ns
    using that
  proof (induction ns)
    case (Cons n ns)
    have "set (insert_descending m ns) = insert m (set ns)"
      by (induction ns) auto
    then show ?case
      using Cons by (auto intro: order.trans)
  qed simp
  then have "sorted_wrt (\<lambda>a b. b \<le> a) (map range_key (sort_descending ms))"
    by (induction ms) auto
  then show ?thesis
    by (simp add: rev_map [symmetric] sorted_wrt_rev)
qed

lemma same_ranges: "map mo_range (rev (sort_descending ms)) = map mo_range (sort_key range_key ms)"
proof -
  let ?g = "\<lambda>k. \<lparr>br_start = fst k, br_end = snd k\<rparr>"
  have keys: "map range_key (rev (sort_descending ms)) = map range_key (sort_key range_key ms)"
    using properties_for_sort [of "map range_key (rev (sort_descending ms))" "map range_key ms"]
      properties_for_sort [of "map range_key (sort_key range_key ms)" "map range_key ms"] sort_descending_sorted [of ms]
    by simp
  have ranges: "map mo_range xs = map ?g (map range_key xs)" for xs
    by simp
  show ?thesis
    unfolding ranges keys ..
qed

text \<open>Sorted ranges of the text without an overlap are ascending.\<close>

lemma ascending_ranges:
  assumes "\<forall>m \<in> set ms. br_start (mo_range m) \<le> br_end (mo_range m) \<and> br_end (mo_range m) \<le> n" "\<not> ranges_overlap (map mo_range ms)"
    and "\<forall>m \<in> set ms. a \<le> br_start (mo_range m)" "a \<le> n" "sorted (map range_key ms)"
  shows "ascending a n ms"
  using assms
proof (induction ms arbitrary: a)
  case (Cons m ms)
  have rest: "\<forall>m' \<in> set ms. br_end (mo_range m) \<le> br_start (mo_range m')"
  proof (cases ms)
    case (Cons m' ms')
    then have "br_end (mo_range m) \<le> br_start (mo_range m')" "\<forall>x \<in> set ms. br_start (mo_range m') \<le> br_start (mo_range x)"
      using \<open>sorted (map range_key (m # ms))\<close> \<open>\<not> ranges_overlap (map mo_range (m # ms))\<close>
      by (auto simp: less_eq_prod_def)
    then show ?thesis
      using order.trans by blast
  qed simp
  have "\<not> ranges_overlap (map mo_range ms)"
    using Cons.prems(2) by (cases ms) auto
  then show ?case
    using Cons.IH [of "br_end (mo_range m)"] Cons.prems rest by simp
qed simp

end
