(* ===== verification/RagSafety.thy ===== *)
theory RagSafety
  imports RagReference FsRegion PolicyPaths
begin

text \<open>
  What a scan of a source tree and a read of one of its files guarantee: only regular files below the root, reached
  through real directories that no rule denies, within the limits of size and number.
\<close>

section \<open>What a scan offers for reading\<close>

lemma drop_tokens_names: "\<forall>n \<in> set l. valid_name n \<Longrightarrow> ns = [] \<or> \<not> junk (hd ns) \<Longrightarrow> drop_tokens (length l) (l @ ns) = ns"
proof (induction l)
  case Nil
  then show ?case
    by (cases ns) auto
qed (auto simp: valid_name_def)

lemma strip_prefix_abs_path:
  assumes "\<forall>n \<in> set (l @ ns). valid_name n" "ns \<noteq> []"
  shows "strip_prefix (abs_path (l @ ns)) (abs_path l) = Some (join_with sep ns)"
proof -
  have l: "\<forall>n \<in> set l. valid_name n" and hd: "\<not> junk (hd ns)" and last: "\<not> junk (last ns)"
    using assms by (auto simp: valid_name_def)
  have c: "components (abs_path l) = RootDir # map Normal l" "components (abs_path (l @ ns)) = RootDir # map Normal (l @ ns)"
    using components_abs_path [OF l] components_abs_path [OF assms(1)] by auto
  have "length (filter (\<lambda>c. c \<noteq> RootDir \<and> c \<noteq> CurDir) (map Normal l)) = length l"
    by (induction l) auto
  moreover have "tokens (abs_path (l @ ns)) = [] # l @ ns"
    using tokens_abs_path [of "l @ ns"] assms valid_name_no_sep by auto
  moreover have "trim_right ns = ns"
    using last assms(2) by (cases ns rule: rev_cases) (auto simp: trim_right_def)
  ultimately show ?thesis
    using drop_tokens_names [OF l, of ns] hd
    by (auto simp: strip_prefix_def path_starts_with_def c Let_def)
qed

lemma read_dir_names:
  assumes "wf_fs f" "is_dir_at f d" "read_dir f (abs_path d) = Inr names"
  shows "names = names_in f d"
  using assms resolve_dir [OF assms(1,2)] by (auto simp: read_dir_def res_simps split: if_splits)

text \<open>
  A way down from the source root that the rules allow: real directories, none of them denied, and no further
  component of the name was looked at through a link.
\<close>

definition allowed_below :: "text_host \<Rightarrow> fs \<Rightarrow> location \<Rightarrow> string list \<Rightarrow> bool" where
  "allowed_below h f l ns \<longleftrightarrow> is_dir_at f (l @ ns)
     \<and> (\<forall>k < length ns. denied_directory h (from_utf8_lossy (ns ! k)) = None
          \<and> denied_relative_directory h (join_with sep (take (Suc k) ns)) = None)"

definition safe_candidate :: "text_host \<Rightarrow> fs \<Rightarrow> location \<Rightarrow> rag_candidate \<Rightarrow> bool" where
  "safe_candidate h f l c \<longleftrightarrow> (\<exists>ns n m t. allowed_below h f l ns \<and> rc_absolute_path c = abs_path (l @ ns @ [n])
     \<and> fs_nodes f (l @ ns @ [n]) = Some (FileNode m t) \<and> length t \<le> DEFAULT_RAG_MAX_FILE_BYTES
     \<and> sensitive_file_name (join_with sep (ns @ [n])) = None
     \<and> rc_relative_path c = replace_char (CHR 0x5C) (CHR ''/'') (join_with sep (ns @ [n]))
     \<and> allowlisted_content_type (extension_label (abs_path (l @ ns @ [n]))) = Some (rc_content_type c, rc_allow_rule c))"

definition scan_ok :: "text_host \<Rightarrow> fs \<Rightarrow> location \<Rightarrow> rag_scan \<Rightarrow> bool" where
  "scan_ok h f l s \<longleftrightarrow> (\<forall>d \<in> set (sc_directories s). \<exists>ns. d = abs_path (l @ ns) \<and> allowed_below h f l ns)
     \<and> (\<forall>c \<in> set (sc_candidates s). safe_candidate h f l c) \<and> length (sc_exclusions s) \<le> MAX_RAG_EXCLUSIONS"

lemma scan_ok_push:
  assumes "scan_ok h f l s" "push_exclusion e s = Inr s'"
  shows "scan_ok h f l s'"
  using push_exclusion_Inr [OF assms(2)] assms(1) by (auto simp: scan_ok_def)

lemma scan_ok_add:
  assumes "scan_ok h f l s" "safe_candidate h f l c"
  shows "scan_ok h f l (s\<lparr>sc_important := i, sc_candidates := sc_candidates s @ [c]\<rparr>)"
  using assms by (auto simp: scan_ok_def)

lemma scan_file_ok:
  assumes ok: "scan_ok h f l s" and below: "allowed_below h f l ns" and node: "fs_nodes f (l @ ns @ [n]) = Some x" "is_file_node x"
    and run: "scan_file source (abs_path (l @ ns @ [n])) (join_with sep (ns @ [n])) x s = Inr s'"
  shows "scan_ok h f l s'"
proof -
  obtain m t where x: "x = FileNode m t"
    using node(2) by (cases x) (auto simp: is_file_node_def)
  let ?s = "s\<lparr>sc_files := sc_files s + 1, sc_extensions := count_extension (extension_label (abs_path (l @ ns @ [n]))) (sc_extensions s)\<rparr>"
  have ok1: "scan_ok h f l ?s" "scan_ok h f l (?s\<lparr>sc_large := k\<rparr>)" for k
    using ok by (auto simp: scan_ok_def)
  let ?rel = "join_with sep (ns @ [n])" and ?ext = "extension_label (abs_path (l @ ns @ [n]))"
  show ?thesis
  proof (cases "sensitive_file_name ?rel = None \<and> length t \<le> DEFAULT_RAG_MAX_FILE_BYTES \<and> utf8_valid ?rel
      \<and> allowlisted_content_type ?ext \<noteq> None")
    case True
    then obtain type allow where a: "allowlisted_content_type ?ext = Some (type, allow)"
      by auto
    let ?c = "\<lparr>rc_absolute_path = abs_path (l @ ns @ [n]), rc_relative_path = replace_char (CHR 0x5C) (CHR ''/'') ?rel,
       rc_content_type = type, rc_allow_rule = allow\<rparr>"
    have "safe_candidate h f l ?c"
      using below node a True x by (auto simp: safe_candidate_def)
    then show ?thesis
      using scan_ok_add [OF ok1(1), of ?c] run a True by (auto simp: scan_file_def Let_def x node_len_def)
  next
    case False
    then have "(\<exists>e. push_exclusion e ?s = Inr s') \<or> (\<exists>e. push_exclusion e (?s\<lparr>sc_large := Suc (sc_large s)\<rparr>) = Inr s')"
      using run by (auto simp: scan_file_def Let_def x node_len_def split: option.splits if_splits)
    then show ?thesis
      using scan_ok_push ok1 by blast
  qed
qed

lemma allowed_below_step:
  assumes "allowed_below h f l ns" "is_dir_at f (l @ ns @ [n])" "denied_directory h (from_utf8_lossy n) = None"
    and "denied_relative_directory h (join_with sep (ns @ [n])) = None"
  shows "allowed_below h f l (ns @ [n])"
  using assms by (auto simp: allowed_below_def nth_append less_Suc_eq)

lemma scan_entry_ok:
  assumes wf: "wf_fs f" and root: "src_root source = abs_path l" and ok: "scan_ok h f l s" and below: "allowed_below h f l ns"
    and n: "n \<in> set (names_in f (l @ ns))" and run: "scan_entry h f source (abs_path (l @ ns)) n s = Inr s'"
  shows "scan_ok h f l s'"
proof -
  have dir: "is_dir_at f (l @ ns)"
    using below by (simp add: allowed_below_def)
  have names: "\<forall>n \<in> set (l @ ns). valid_name n" "valid_name n"
    using dir_names [OF wf dir] n wf [unfolded wf_fs_def, THEN conjunct2, THEN conjunct2, rule_format, of "l @ ns" n]
    by (auto simp: names_in_iff)
  have p: "path_join (abs_path (l @ ns)) n = abs_path (l @ ns @ [n])"
    using path_join_abs_path [OF names] by simp
  have rel: "strip_prefix (abs_path (l @ ns @ [n])) (src_root source) = Some (join_with sep (ns @ [n]))"
    using strip_prefix_abs_path [of l "ns @ [n]"] names root by auto
  let ?s = "s\<lparr>sc_entries := sat_add (sc_entries s) 1\<rparr>"
  have ok1: "scan_ok h f l ?s"
    using ok by (simp add: scan_ok_def)
  note push = scan_ok_push [OF ok1]
  show ?thesis
  proof (cases "symlink_metadata f (abs_path (l @ ns @ [n]))")
    case (Inl e)
    then show ?thesis
      using run push by (auto simp: scan_entry_def Let_def p rel split: if_splits)
  next
    case (Inr x)
    then have node: "fs_nodes f (l @ ns @ [n]) = Some x"
      using symlink_metadata_spelled [OF wf names dir] by simp
    consider (link) "rag_is_link x" | (dir) "\<not> rag_is_link x" "is_dir_node x" | (plain) "\<not> rag_is_link x" "\<not> is_dir_node x" "is_file_node x"
      | (other) "\<not> rag_is_link x" "\<not> is_dir_node x" "\<not> is_file_node x"
      by blast
    then show ?thesis
    proof cases
      case dir
      have "scan_directory h source (abs_path (l @ ns @ [n])) (join_with sep (ns @ [n])) n ?s = Inr s'"
        using run dir Inr by (auto simp: scan_entry_def Let_def p rel split: if_splits)
      moreover have "is_dir_at f (l @ ns @ [n])"
        using node dir(2) by (cases x) (auto simp: is_dir_at_def is_dir_node_def)
      ultimately show ?thesis
        using push allowed_below_step [OF below, of n] ok1
        by (auto simp: scan_directory_def scan_ok_def split: option.splits)
    next
      case plain
      then have "scan_file source (abs_path (l @ ns @ [n])) (join_with sep (ns @ [n])) x ?s = Inr s'"
        using run Inr by (auto simp: scan_entry_def Let_def p rel split: if_splits)
      then show ?thesis
        using scan_file_ok [OF ok1 below node plain(3)] by blast
    qed (use run push Inr in \<open>auto simp: scan_entry_def Let_def p rel split: if_splits\<close>)
  qed
qed

lemma scan_entries_ok:
  assumes "wf_fs f" "src_root source = abs_path l" "allowed_below h f l ns"
  shows "scan_ok h f l s \<Longrightarrow> set names \<subseteq> set (names_in f (l @ ns)) \<Longrightarrow>
    scan_entries h f source (abs_path (l @ ns)) names s = Inr s' \<Longrightarrow> scan_ok h f l s'"
proof (induction names arbitrary: s)
  case (Cons n names)
  obtain s1 where s1: "scan_entry h f source (abs_path (l @ ns)) n s = Inr s1" "scan_entries h f source (abs_path (l @ ns)) names s1 = Inr s'"
    using Cons.prems(3) by (auto simp: res_simps)
  show ?case
    using scan_entry_ok [OF assms(1,2) Cons.prems(1) assms(3) _ s1(1)] Cons.IH [OF _ _ s1(2)] Cons.prems(2) by simp
qed simp

lemma scan_round_ok:
  assumes "wf_fs f" "src_root source = abs_path l" "scan_round h f source s s'" "scan_ok h f l s"
  shows "scan_ok h f l s'"
proof -
  obtain d ds names where 1: "sc_directories s = d # ds" "sorted_entries f d = Inr names"
      "scan_entries h f source d names (s\<lparr>sc_directories := ds\<rparr>) = Inr s'"
    using assms(3) by (elim scan_roundE)
  obtain ns where ns: "d = abs_path (l @ ns)" "allowed_below h f l ns"
    using assms(4) 1(1) by (auto simp: scan_ok_def)
  have "set names \<subseteq> set (names_in f (l @ ns))"
    using 1(2) ns read_dir_names [OF assms(1), of "l @ ns"]
    by (auto simp: sorted_entries_def res_simps io_context_def allowed_below_def)
  moreover have "scan_ok h f l (s\<lparr>sc_directories := ds\<rparr>)"
    using assms(4) 1(1) by (auto simp: scan_ok_def)
  ultimately show ?thesis
    using scan_entries_ok [OF assms(1,2) ns(2)] 1(3) ns(1) by blast
qed

lemma scan_loop_ok:
  assumes "wf_fs f" "src_root source = abs_path l" "scan_ok h f l s" "scan_loop h f source s = Inr s'"
  shows "scan_ok h f l s'"
proof -
  obtain n t where t: "(scan_round h f source ^^ n) s t" "\<nexists>u. scan_round h f source t u" "scan_loop h f source t = Inr s'"
    using scan_rounds_end [of s h f source] assms(4) by metis
  have ok: "scan_ok h f l t"
    using t(1) assms(1-3) by (induction n arbitrary: t) (auto intro: scan_round_ok)
  have "sc_directories t = []"
  proof (rule ccontr)
    assume "sc_directories t \<noteq> []"
    then obtain d ds where d: "sc_directories t = d # ds"
      by (cases "sc_directories t") auto
    then obtain names u where "sorted_entries f d = Inr names" "scan_entries h f source d names (t\<lparr>sc_directories := ds\<rparr>) = Inr u"
      using t(3) by (subst (asm) scan_loop.simps) (auto simp: res_simps split: sum.splits)
    then show False
      using scan_round.round [OF d] t(2) by blast
  qed
  then have "s' = t"
    using t(3) by (subst (asm) scan_loop.simps) simp
  then show ?thesis
    using ok by simp
qed

section \<open>Reading a file\<close>

definition no_links :: "fs \<Rightarrow> location \<Rightarrow> bool" where
  "no_links f l \<longleftrightarrow> (\<forall>k < length l. \<forall>m t. fs_nodes f (take (Suc k) l) \<noteq> Some (LinkNode m t))"

lemma no_links_snoc: "no_links f (l @ [n]) \<longleftrightarrow> no_links f l \<and> (\<forall>m t. fs_nodes f (l @ [n]) \<noteq> Some (LinkNode m t))"
  by (auto simp: no_links_def less_Suc_eq)

lemma no_links_existing:
  assumes "wf_fs f" "fs_nodes f l = Some x" "\<not> is_link_node x"
  shows "no_links f l"
  unfolding no_links_def
proof (intro allI impI)
  fix k m t
  assume k: "k < length l"
  show "fs_nodes f (take (Suc k) l) \<noteq> Some (LinkNode m t)"
  proof (cases "Suc k = length l")
    case True
    then show ?thesis
      using assms(2,3) by (auto simp: is_link_node_def)
  next
    case False
    have l: "l = take (Suc k) l @ drop (Suc k) l"
      by simp
    then have "fs_nodes f (take (Suc k) l @ drop (Suc k) l) = Some x" "drop (Suc k) l \<noteq> []"
      using assms(2) False k by auto
    then have "is_dir_at f (take (Suc k) l)"
      using wf_fs_ancestor [OF assms(1)] by blast
    then show ?thesis
      by (auto simp: is_dir_at_def)
  qed
qed

lemma symlink_metadata_no_links:
  assumes "wf_fs f" "no_links f l" "\<forall>n \<in> set (l @ [n]). valid_name n" "symlink_metadata f (abs_path (l @ [n])) = Inr x"
  shows "fs_nodes f (l @ [n]) = Some x"
proof -
  obtain q where q: "resolve f (abs_path (l @ [n])) False = Inr q" "lookup f q = Inr x"
    using assms(4) by (auto simp: symlink_metadata_def res_simps)
  have "is_dir_at f []"
    using assms(1) by (simp add: wf_fs_def)
  then have "walk max_links f [] (l @ [n]) False = Inr q"
    using q(1) resolve_abs_path [OF assms(3), of f False] by simp
  then have "q = l @ [n]"
    using walk_spelled [of "l @ [n]" False f "[]" max_links q] assms(2,3) by (auto simp: no_links_def)
  then show ?thesis
    using q(2) by (simp add: lookup_Inr)
qed

lemma components_real_no_links:
  assumes "wf_fs f"
  shows "no_links f l \<Longrightarrow> \<forall>n \<in> set (l @ ns). valid_name n \<Longrightarrow> components_real f (abs_path l) (map Normal ns) = Inr u \<Longrightarrow>
    no_links f (l @ ns)"
proof (induction ns arbitrary: l)
  case (Cons n ns)
  have join: "path_join (abs_path l) (component_str (Normal n)) = abs_path (l @ [n])"
    using Cons.prems(2) by (simp add: component_str_def path_join_abs_path)
  obtain x where x: "symlink_metadata f (abs_path (l @ [n])) = Inr x" "\<not> rag_is_link x"
      "components_real f (abs_path (l @ [n])) (map Normal ns) = Inr u"
    using Cons.prems(3) by (auto simp: join Let_def res_simps split: if_splits)
  have "fs_nodes f (l @ [n]) = Some x"
    using symlink_metadata_no_links [OF assms Cons.prems(1) _ x(1)] Cons.prems(2) by simp
  then have "no_links f (l @ [n])"
    using Cons.prems(1) x(2) by (auto simp: no_links_snoc rag_is_link_def is_link_node_def)
  then show ?case
    using Cons.IH [of "l @ [n]"] Cons.prems(2) x(3) by simp
qed simp

text \<open>Opening a path below the root that has no link on its way reaches the file it spells.\<close>

lemma metadata_no_links:
  assumes "wf_fs f" "no_links f (l @ ns)" "\<forall>n \<in> set l. valid_name n" "\<not> is_absolute rel"
    and "\<forall>t \<in> set (tokens rel). junk t \<or> valid_name t" "ns = filter (\<lambda>t. \<not> junk t) (tokens rel)"
    and "metadata f (path_join (abs_path l) rel) = Inr x"
  shows "fs_nodes f (l @ ns) = Some x"
proof -
  have tok: "tokens (path_join (abs_path l) rel) = [] # l @ tokens rel"
    using tokens_path_join_abs_path [OF assms(3,4)] .
  have abs: "is_absolute (path_join (abs_path l) rel)" "path_join (abs_path l) rel \<noteq> []"
    using is_absolute_join [OF assms(4), of "abs_path l"] by (auto simp: is_absolute_iff abs_path_def)
  obtain q where q: "resolve f (path_join (abs_path l) rel) True = Inr q" "lookup f q = Inr x"
    using assms(7) by (auto simp: metadata_def res_simps)
  then have "walk max_links f [] ([] # l @ tokens rel) True = Inr q"
    using abs tok by (simp add: resolve_def)
  moreover have fl: "filter (\<lambda>t. \<not> junk t) ([] # l @ tokens rel) = l @ ns"
  proof -
    have "filter (\<lambda>t. \<not> junk t) l = l"
      using assms(3) by (intro filter_True) (simp add: valid_name_def)
    then show ?thesis
      using assms(6) by (simp add: junk_def)
  qed
  moreover have "\<forall>t \<in> set ([] # l @ tokens rel). junk t \<or> valid_name t"
    using assms(3,5) by (simp add: ball_Un)
  ultimately have "q = [] @ (l @ ns)"
    using walk_spelled_junk [of "[] # l @ tokens rel" f "[]" max_links True q] assms(2)
    unfolding fl no_links_def by simp
  then show ?thesis
    using q(2) by (simp add: lookup_Inr)
qed

lemma denied_on_way_None:
  "denied_on_way h (map Normal ns) = None \<longleftrightarrow> (\<forall>n \<in> set ns. utf8_valid n \<longrightarrow> denied_directory h n = None)"
  by (induction ns) (auto simp: component_str_def split: option.splits)

text \<open>What a reference that was read is: the names below the workspace and the contents found there.\<close>

definition safely_read :: "text_host \<Rightarrow> fs \<Rightarrow> location \<Rightarrow> string list \<Rightarrow> nat \<Rightarrow> safe_file \<Rightarrow> bool" where
  "safely_read h f l ns max_bytes r \<longleftrightarrow> ns \<noteq> [] \<and> (\<forall>n \<in> set ns. valid_name n) \<and> no_links f (l @ ns)
     \<and> content_at f (l @ ns) = Some (sf_content r) \<and> length (sf_content r) \<le> max_bytes \<and> utf8_valid (sf_content r)
     \<and> sf_bytes r = length (sf_content r) \<and> sf_content_hash r = rh_blake3 h (sf_content r) \<and> detect_secret h (sf_content r) = None
     \<and> (\<forall>n \<in> set (butlast ns). utf8_valid n \<longrightarrow> denied_directory h n = None)"

lemma read_safe_file_parts:
  assumes "read_safe_file_in h f workspace requested max_bytes = Inr r"
  obtains root relative opened bytes where "canonicalize f workspace = Inr root"
    "relative_request_path root requested = Inr relative" "rag_reject_sensitive_path h relative = Inr ()"
    "rag_validate_components f root relative = Inr ()" "metadata f (path_join root relative) = Inr opened"
    "read_limited opened (sat_add max_bytes 1) = Some bytes" "length bytes \<le> max_bytes" "max_bytes \<le> MAX_SAFE_REFERENCE_FILE_BYTES"
    "utf8_valid bytes" "detect_secret h bytes = None" "sf_content r = bytes" "sf_bytes r = length bytes"
    "sf_content_hash r = rh_blake3 h bytes" "sf_relative_path r = normalized_relative relative"
proof -
  obtain root relative opened bytes where x: "canonicalize f workspace = Inr root"
    "relative_request_path root requested = Inr relative" "rag_reject_sensitive_path h relative = Inr ()"
    "rag_validate_components f root relative = Inr ()" "metadata f (path_join root relative) = Inr opened"
    "read_limited opened (sat_add max_bytes 1) = Some bytes" "length bytes \<le> max_bytes" "\<not> (max_bytes = 0 \<or> max_bytes > MAX_SAFE_REFERENCE_FILE_BYTES)"
    "utf8_valid bytes"
    and y: "(case detect_secret h bytes of
      Some d \<Rightarrow> Inl (RefErr (sd_rule_id d) (''referenced file was excluded by secret scanning at line '' @ dec_of_nat (sd_line d)
        @ '', column '' @ dec_of_nat (sd_column d)))
    | None \<Rightarrow> Inr \<lparr>sf_relative_path = normalized_relative relative, sf_bytes = length bytes, sf_chars = char_count bytes,
        sf_content_hash = rh_blake3 h bytes, sf_content = bytes\<rparr>) = Inr r"
    using assms unfolding read_safe_file_in_def read_safe_workspace_file_def Let_def
    by (simp only: res_simps) (elim exE conjE, rule that, (assumption | simp)+)
  then show thesis
    using that by (cases "detect_secret h bytes") auto
qed

lemma normal_names_nonempty:
  assumes "rel \<noteq> []" "\<forall>c \<in> set (components rel). is_normal c"
  shows "non_junk (tokens rel) \<noteq> []"
proof -
  note nn = normal_names [OF assms]
  obtain c s where rel: "rel = c # s" "c \<noteq> sep"
    using assms(1) nn(1) by (cases rel) (auto simp: is_absolute_def sep_def)
  then obtain w ws where "tokens rel = (c # w) # ws"
    by (cases "split_on sep s") (auto simp: tokens_def)
  moreover from this have "c # w \<noteq> ''.''"
    using assms(2) nn(1) by (auto simp: components_def is_normal_def split: if_splits)
  ultimately show ?thesis
    by (simp add: non_junk_def junk_def)
qed

lemma read_safe_file_ok:
  assumes "wf_fs f" "read_safe_file_in h f workspace requested max_bytes = Inr r"
  obtains l relative where "canonicalize f workspace = Inr (abs_path l)" "relative_request_path (abs_path l) requested = Inr relative"
    "sf_relative_path r = normalized_relative relative" "safely_read h f l (non_junk (tokens relative)) max_bytes r"
    "\<forall>n \<in> set l. valid_name n"
  using assms(2)
proof (cases rule: read_safe_file_parts)
  case (1 root relative opened bytes)
  obtain l x where l: "root = abs_path l" "fs_nodes f l = Some x" "\<not> is_link_node x" "\<forall>n \<in> set l. valid_name n"
    using canonicalize_Inr [OF 1(1) assms(1)] by metis
  have rel: "relative \<noteq> []" "\<forall>c \<in> set (components relative). is_normal c"
    using 1(2) by (auto simp: relative_request_path_def res_simps list_all_iff)
  note nn = normal_names [OF rel]
  let ?ns = "non_junk (tokens relative)"
  have links: "no_links f (l @ ?ns)"
    using components_real_no_links [OF assms(1) no_links_existing [OF assms(1) l(2,3)], of ?ns] 1(4) nn l(1,4)
    by (auto simp: rag_validate_components_def)
  have node: "fs_nodes f (l @ ?ns) = Some opened"
    using metadata_no_links [OF assms(1) links l(4) nn(1,4)] 1(5) l(1) by (simp add: non_junk_def)
  obtain m c where c: "opened = FileNode m c" "bytes = take (sat_add max_bytes 1) c"
    using 1(6) by (cases opened) (auto simp: read_limited_def)
  have "sat_add max_bytes 1 = Suc max_bytes"
    using 1(8) by (simp add: sat_add_def u64_max_def MAX_SAFE_REFERENCE_FILE_BYTES_def)
  then have "bytes = c"
    using c(2) 1(7) by (cases "length c \<le> Suc max_bytes") auto
  moreover have "?ns \<noteq> []"
    using normal_names_nonempty [OF rel] .
  ultimately have "safely_read h f l ?ns max_bytes r"
    using links node c 1 nn by (auto simp: safely_read_def content_at_def rag_reject_sensitive_path_def
        denied_on_way_None map_butlast [symmetric] split: option.splits)
  then show thesis
    using that 1 l(1,4) by blast
qed

end
