(* ===== verification/EditSound.thy ===== *)
theory EditSound
  imports EditSplice RagSafety
begin

text \<open>
  What a validated edit plan guarantees: the proposed contents are the base contents with exactly the requested pieces
  replaced, the files lie in the workspace, and the limits of the plan hold.
\<close>

section \<open>Modified files\<close>

lemma check_modification_Inr:
  assumes "check_modification h p base hash ending operation = Inr m"
  shows "operation = Modify m" "br_start (mo_range m) \<le> br_end (mo_range m)" "br_end (mo_range m) \<le> length base"
    "old_piece base m = mo_expected_old m" "mo_expected_file_hash m = hash" "detect_secret h (mo_replacement m) = None"
    "is_char_boundary base (br_start (mo_range m)) \<and> is_char_boundary base (br_end (mo_range m))"
  using assms
  by (auto simp: check_modification_def validate_range_def str_get_def inspect_sensitive_text_def res_simps split: edit_operation.splits if_splits)

lemma modification_group_parts:
  assumes "validate_modification_group h f root p operations plan = Inr s"
  obtains r ms ending where "read_safe_file_in h f root p (el_max_file_bytes (ep_limits plan)) = Inr r"
    "operations = map Modify ms" "\<forall>m \<in> set ms. br_start (mo_range m) \<le> br_end (mo_range m) \<and> br_end (mo_range m) \<le> length (sf_content r)
       \<and> old_piece (sf_content r) m = mo_expected_old m \<and> mo_expected_file_hash m = content_hash h (sf_content r)
       \<and> detect_secret h (mo_replacement m) = None"
    "\<not> ranges_overlap (map mo_range (sort_key range_key ms))" "detect_line_ending (sf_content r) = Inr ending"
    "s = modified_snapshot h p ending (sf_content r) (apply_replacements (sort_descending ms) (sf_content r))"
    "length (pp_proposed_content s) \<le> el_max_file_bytes (ep_limits plan)"
    "\<exists>e. detect_line_ending (pp_proposed_content s) = Inr e \<and> (ending = NoEnding \<or> e = ending)"
proof -
  obtain r ending ms e where r: "read_safe_file_in h f root p (el_max_file_bytes (ep_limits plan)) = Inr r"
      "detect_line_ending (sf_content r) = Inr ending"
      "try_each (check_modification h p (sf_content r) (content_hash h (sf_content r)) ending) operations = Inr ms"
      "\<not> ranges_overlap (map mo_range (sort_key range_key ms))"
      "length (apply_replacements (sort_descending ms) (sf_content r)) \<le> el_max_file_bytes (ep_limits plan)"
      "detect_line_ending (apply_replacements (sort_descending ms) (sf_content r)) = Inr e" "\<not> (ending \<noteq> NoEnding \<and> e \<noteq> ending)"
      "s = modified_snapshot h p ending (sf_content r) (apply_replacements (sort_descending ms) (sf_content r))"
    using assms unfolding validate_modification_group_def Let_def by (auto simp: res_simps)
  have ms: "length ms = length operations" "\<And>i. i < length operations \<Longrightarrow>
      check_modification h p (sf_content r) (content_hash h (sf_content r)) ending (operations ! i) = Inr (ms ! i)"
    using r(3) by (auto simp: try_each_Inr)
  note ok = check_modification_Inr [OF ms(2)]
  have "operations = map Modify ms"
    using ms(1) ok(1) by (auto intro: nth_equalityI)
  moreover have "\<forall>m \<in> set ms. br_start (mo_range m) \<le> br_end (mo_range m) \<and> br_end (mo_range m) \<le> length (sf_content r)
       \<and> old_piece (sf_content r) m = mo_expected_old m \<and> mo_expected_file_hash m = content_hash h (sf_content r)
       \<and> detect_secret h (mo_replacement m) = None"
    using ms(1) ok(2-6) by (auto simp: in_set_conv_nth)
  ultimately show thesis
    using that r by (auto simp: modified_snapshot_def)
qed

text \<open>The specification of an edit of a text: the same kept pieces around the old and around the new ones.\<close>

definition edits :: "modify_operation list \<Rightarrow> string \<Rightarrow> string \<Rightarrow> bool" where
  "edits ms base proposed \<longleftrightarrow> (\<exists>asc. mset asc = mset ms \<and> ascending 0 (length base) asc
     \<and> base = weave (kept_pieces 0 asc base) (map mo_expected_old asc)
     \<and> proposed = weave (kept_pieces 0 asc base) (map mo_replacement asc))"

lemma modification_group_edits:
  assumes "validate_modification_group h f root p operations plan = Inr s"
  obtains ms base where "operations = map Modify ms" "pp_base_content s = Some base" "edits ms base (pp_proposed_content s)"
  using assms
proof (cases rule: modification_group_parts)
  case (1 r ms ending)
  let ?asc = "rev (sort_descending ms)" and ?base = "sf_content r"
  have ms: "set (sort_descending ms) = set ms"
    by (metis mset_sort_descending set_mset_mset)
  have asc: "ascending 0 (length ?base) ?asc"
    by (rule ascending_ranges) (use 1(3,4) ms sort_descending_sorted [of ms] same_ranges [of ms] in simp_all)
  have olds: "map (old_piece ?base) ?asc = map mo_expected_old ?asc"
    using 1(3) ms by simp
  have "edits ms ?base (pp_proposed_content s)"
    unfolding edits_def
  proof (intro exI [of _ ?asc] conjI)
    show "?base = weave (kept_pieces 0 ?asc ?base) (map mo_expected_old ?asc)"
      using weave_olds [OF asc] olds by simp
    show "pp_proposed_content s = weave (kept_pieces 0 ?asc ?base) (map mo_replacement ?asc)"
      using apply_replacements_weave [OF asc] 1(6) by (simp add: modified_snapshot_def)
  qed (use asc in simp_all)
  then show thesis
    using that 1(2,6) by (simp add: modified_snapshot_def)
qed

section \<open>Groups\<close>

definition operations_on :: "string \<Rightarrow> edit_operation list \<Rightarrow> edit_operation list" where
  "operations_on p ops = filter (\<lambda>operation. edit_normalize_relative (op_path operation) = p) ops"

text \<open>The groups of some operations: in the order of the paths, each with all its operations in their order.\<close>

definition groups_of :: "edit_operation list \<Rightarrow> (string \<times> edit_operation list) list \<Rightarrow> bool" where
  "groups_of ops groups \<longleftrightarrow> sorted_wrt (<) (map fst groups)
     \<and> (\<forall>p. map_of groups p = (if operations_on p ops = [] then None else Some (operations_on p ops)))"

lemma group_insert_sorted:
  assumes "sorted_wrt (<) (map fst groups)"
  shows "sorted_wrt (<) (map fst (group_insert p operation groups)) \<and> set (map fst (group_insert p operation groups)) = insert p (set (map fst groups))"
  using assms
proof (induction groups)
  case (Cons g groups)
  obtain q ops where g: "g = (q, ops)"
    by fastforce
  show ?case
    using Cons by (auto simp: g)
qed simp

lemma map_of_group_insert:
  assumes "sorted_wrt (<) (map fst groups)"
  shows "map_of (group_insert p operation groups) = (map_of groups)(p \<mapsto> (case map_of groups p of None \<Rightarrow> [] | Some ops \<Rightarrow> ops) @ [operation])"
  using assms
proof (induction groups)
  case (Cons g groups)
  obtain q ops where g: "g = (q, ops)"
    by fastforce
  have "map_of groups p = None" if "p < q"
    using that Cons.prems by (auto simp: g map_of_eq_None_iff)
  then show ?case
    using Cons by (auto simp: g fun_upd_twist)
qed simp

lemma groups_of_insert:
  assumes "groups_of ops groups"
  shows "groups_of (ops @ [operation]) (group_insert (edit_normalize_relative (op_path operation)) operation groups)"
  using assms group_insert_sorted [of groups] map_of_group_insert [of groups]
  by (auto simp: groups_of_def operations_on_def)

lemma group_operations_Inr:
  assumes "group_operations groups ops = Inr groups'" "groups_of seen groups"
  shows "groups_of (seen @ ops) groups'
    \<and> (\<forall>operation \<in> set ops. edit_validate_relative_path (op_path operation) = Inr () \<and> validate_extension (op_path operation) = Inr ())"
  using assms
proof (induction ops arbitrary: groups seen)
  case (Cons operation ops)
  have step: "edit_validate_relative_path (op_path operation) = Inr ()" "validate_extension (op_path operation) = Inr ()"
      "group_operations (group_insert (edit_normalize_relative (op_path operation)) operation groups) ops = Inr groups'"
    using Cons.prems(1) by (auto simp: res_simps)
  show ?case
    using Cons.IH [OF step(3) groups_of_insert [OF Cons.prems(2)]] step(1,2) by simp
qed simp

lemma groups_of_member:
  assumes "groups_of ops groups" "(p, os) \<in> set groups"
  shows "os = operations_on p ops \<and> os \<noteq> []"
proof -
  have "distinct (map fst groups)"
    using assms(1) by (simp add: groups_of_def strict_sorted_iff)
  then have "map_of groups p = Some os"
    using assms(2) by simp
  then show ?thesis
    using assms(1) by (auto simp: groups_of_def split: if_splits)
qed

lemma groups_of_paths:
  assumes "groups_of ops groups"
  shows "fst ` set groups = (\<lambda>operation. edit_normalize_relative (op_path operation)) ` set ops"
proof (rule set_eqI)
  fix p
  have "p \<in> fst ` set groups \<longleftrightarrow> map_of groups p \<noteq> None"
    by (simp add: map_of_eq_None_iff)
  also have "\<dots> \<longleftrightarrow> operations_on p ops \<noteq> []"
    using assms by (simp add: groups_of_def)
  also have "\<dots> \<longleftrightarrow> p \<in> (\<lambda>operation. edit_normalize_relative (op_path operation)) ` set ops"
    by (auto simp: operations_on_def filter_empty_conv)
  finally show "p \<in> fst ` set groups \<longleftrightarrow> p \<in> (\<lambda>operation. edit_normalize_relative (op_path operation)) ` set ops" .
qed

section \<open>Created files\<close>

lemma creation_parts:
  assumes "validate_creation h f root p c plan = Inr s"
  obtains parent dir where "s = created_snapshot h p c" "length (co_content c) \<le> el_max_file_bytes (ep_limits plan)"
    "detect_secret h (co_content c) = None" "detect_line_ending (co_content c) = Inr (co_line_ending c)"
    "symlink_metadata f (path_join root p) = Inl NotFound" "path_parent (path_join root p) = Some parent"
    "canonical_real_directory f parent = Inr dir" "path_starts_with dir root"
proof -
  obtain parent dir ending where x: "\<not> (length (co_content c) > el_max_file_bytes (ep_limits plan) \<or> inspect_sensitive_text h (co_content c) \<noteq> None)"
      "detect_line_ending (co_content c) = Inr ending" "ending = co_line_ending c" "check_absent f (path_join root p) p = Inr ()"
      "path_parent (path_join root p) = Some parent" "canonical_real_directory f parent = Inr dir" "path_starts_with dir root"
      "s = created_snapshot h p c"
    using assms unfolding validate_creation_def Let_def by (auto simp: res_simps)
  have "symlink_metadata f (path_join root p) = Inl NotFound"
    using x(4) by (auto simp: check_absent_def split: sum.splits io_error.splits)
  then show thesis
    using that x by (simp add: inspect_sensitive_text_def)
qed

section \<open>The plan\<close>

lemma plan_parts:
  assumes "validate_edit_plan h f plan expected = Inr v"
  obtains root groups where "validate_plan_fields plan expected = Inr ()"
    "canonical_real_directory f (ee_workspace_root expected) = Inr root" "groups_of (ep_operations plan) groups"
    "length groups \<le> el_max_files (ep_limits plan)"
    "length (filter is_creation (ep_operations plan)) \<le> el_max_created_files (ep_limits plan)"
    "try_each (validate_group h f root plan) groups = Inr (vp_files v)"
    "total_lines groups = (vp_estimated_added_lines v, vp_estimated_deleted_lines v)"
    "vp_estimated_added_lines v \<le> el_max_added_lines (ep_limits plan)" "vp_estimated_deleted_lines v \<le> el_max_deleted_lines (ep_limits plan)"
    "sat_add (vp_estimated_added_lines v) (vp_estimated_deleted_lines v) \<le> el_max_changed_lines (ep_limits plan)"
    "vp_total_snapshot_bytes v = foldl snapshot_bytes 0 (vp_files v)"
    "vp_total_snapshot_bytes v \<le> sat_mul (el_max_proposal_bytes (ep_limits plan)) 2" "vp_plan v = plan"
    "\<forall>operation \<in> set (ep_operations plan). edit_validate_relative_path (op_path operation) = Inr () \<and> validate_extension (op_path operation) = Inr ()"
proof -
  obtain root groups snapshots where x: "validate_plan_fields plan expected = Inr ()"
      "canonical_real_directory f (ee_workspace_root expected) = Inr root" "group_operations [] (ep_operations plan) = Inr groups"
      "length groups \<le> el_max_files (ep_limits plan)"
      "length (filter is_creation (ep_operations plan)) \<le> el_max_created_files (ep_limits plan)"
      "try_each (validate_group h f root plan) groups = Inr snapshots"
    and y: "(case total_lines groups of (added, deleted) \<Rightarrow>
     try_then (ensure (\<not> (added > el_max_added_lines (ep_limits plan) \<or> deleted > el_max_deleted_lines (ep_limits plan)
         \<or> sat_add added deleted > el_max_changed_lines (ep_limits plan)))
       (PlanErr ''plan.line_limit'' (''proposal line estimate is +'' @ dec_of_nat added @ ''/-'' @ dec_of_nat deleted
         @ '' and exceeds configured bounds''))) (\<lambda>_.
     try_then (ensure (foldl snapshot_bytes 0 snapshots \<le> sat_mul (el_max_proposal_bytes (ep_limits plan)) 2)
       (PlanErr ''plan.snapshot_limit'' ''base and proposed review snapshots exceed the bounded storage limit'')) (\<lambda>_.
     Inr \<lparr>vp_plan = plan, vp_files = snapshots, vp_estimated_added_lines = added, vp_estimated_deleted_lines = deleted,
       vp_total_snapshot_bytes = foldl snapshot_bytes 0 snapshots\<rparr>))) = Inr v"
    using assms unfolding validate_edit_plan_def Let_def
    by (simp only: res_simps) (elim exE conjE, rule that, (assumption | simp)+)
  obtain added deleted where t: "total_lines groups = (added, deleted)"
    by fastforce
  have "groups_of [] []"
    by (simp add: groups_of_def operations_on_def)
  from group_operations_Inr [OF x(3) this] x y t show thesis
    by (intro that [of root groups]) (auto simp: res_simps)
qed

lemma group_result:
  assumes "validate_group h f root plan (p, ops) = Inr s" "ops \<noteq> []"
  shows "(\<exists>c. ops = [Create c] \<and> validate_creation h f root p c plan = Inr s)
    \<or> (\<not> list_ex is_creation ops \<and> validate_modification_group h f root p ops plan = Inr s)"
  using assms by (auto simp: validate_group_def validate_creation_group_def split: if_splits list.splits edit_operation.splits)

end
