(* ===== verification/EditScenario.thy ===== *)
theory EditScenario
  imports EditSound Scenario
begin

text \<open>
  A small workspace on which edit plans are validated: \<open>/w\<close> with one Markdown file. The digest is constant, no
  secret pattern matches, and the plan inserts a line and creates one file.
\<close>

definition edit_demo_fs :: fs where
  "edit_demo_fs = \<lparr>fs_tree = [demo_dir [], demo_dir [''w''], demo_file [''w'', ''a.md''] ''one two'',
       demo_dir [''w'', ''docs'']],
     fs_cwd = [], fs_fault = (\<lambda>_. None), fs_wfault = (\<lambda>_. None), fs_sfault = (\<lambda>_. None)\<rparr>"

definition edit_demo_hash :: string where
  "edit_demo_hash = replicate 64 (CHR ''b'')"

definition edit_demo_host :: text_host where
  "edit_demo_host = \<lparr>rh_find = (\<lambda>_ _. None), rh_lowercase = (\<lambda>s. s), rh_blake3 = (\<lambda>_. edit_demo_hash), rh_created = (\<lambda>_. None)\<rparr>"

definition edit_demo_modify :: modify_operation where
  "edit_demo_modify = \<lparr>mo_path = ''a.md'', mo_expected_file_hash = edit_demo_hash, mo_encoding = Utf8, mo_line_ending = NoEnding,
     mo_range = \<lparr>br_start = 4, br_end = 7\<rparr>, mo_expected_old = ''two'', mo_replacement = ''three'', mo_reason = ''count'',
     mo_symbol = None, mo_provenance = [''user'']\<rparr>"

definition edit_demo_create :: create_operation where
  "edit_demo_create = \<lparr>co_path = ''docs/b.md'', co_extension = ''md'', co_encoding = Utf8, co_line_ending = NoEnding,
     co_content = ''new'', co_reason = ''doc'', co_provenance = [''user''], co_expected_absent = True, co_declared_size = 3\<rparr>"

definition edit_demo_plan :: edit_plan where
  "edit_demo_plan = edit_plan_empty\<lparr>ep_plan_id := ''p'', ep_request_id := ''r'', ep_workspace_id := ''w'',
     ep_workspace_root_hash := edit_demo_hash, ep_profile := ''j'', ep_model := ''m'', ep_base_head := demo_head,
     ep_working_tree_digest := edit_demo_hash, ep_summary := ''s'', ep_rationale_summary := ''t'',
     ep_operations := [Create edit_demo_create, Modify edit_demo_modify], ep_validations := [ReparseJava, BuildOffline],
     ep_expires_at_unix_ms := 2000\<rparr>"

definition edit_demo_expected :: edit_plan_expectations where
  "edit_demo_expected = \<lparr>ee_request_id = ''r'', ee_plan_id = ''p'', ee_workspace_id = ''w'', ee_workspace_root = ''/w'',
     ee_workspace_root_hash = edit_demo_hash, ee_profile = ''j'', ee_provider = Ollama, ee_model = ''m'', ee_base_head = demo_head,
     ee_working_tree_digest = edit_demo_hash, ee_now_unix_ms = 1000, ee_limits = hard_maxima\<rparr>"

definition edit_demo_validated :: validated_edit_plan where
  "edit_demo_validated = \<lparr>vp_plan = edit_demo_plan,
     vp_files = [modified_snapshot edit_demo_host ''a.md'' NoEnding ''one two'' ''one three'',
       created_snapshot edit_demo_host ''docs/b.md'' edit_demo_create],
     vp_estimated_added_lines = 2, vp_estimated_deleted_lines = 1, vp_total_snapshot_bytes = 19\<rparr>"

lemma edit_demo_runs: "validate_edit_plan edit_demo_host edit_demo_fs edit_demo_plan edit_demo_expected = Inr edit_demo_validated"
  by code_simp

lemma edit_demo_wf: "wf_fs edit_demo_fs"
  by (rule wf_fs_by_entries; code_simp)

definition edit_demo_source :: rag_source where
  "edit_demo_source = (case prepare_source edit_demo_host edit_demo_fs ''/w'' of Inr s \<Rightarrow> s)"

definition edit_demo_inventory :: rag_inventory where
  "edit_demo_inventory = (case collect_inventory edit_demo_host edit_demo_fs 0 edit_demo_source of Inr i \<Rightarrow> i)"

definition edit_demo_read :: safe_file where
  "edit_demo_read = (case read_safe_file_in edit_demo_host edit_demo_fs ''/w'' ''a.md'' 100 of Inr r \<Rightarrow> r)"

lemma edit_demo_scans:
  "prepare_source edit_demo_host edit_demo_fs ''/w'' = Inr edit_demo_source"
  "collect_inventory edit_demo_host edit_demo_fs 0 edit_demo_source = Inr edit_demo_inventory"
  "read_safe_file_in edit_demo_host edit_demo_fs ''/w'' ''a.md'' 100 = Inr edit_demo_read"
  by code_simp+

end
