(* ===== verification/EditProperties.thy ===== *)
theory EditProperties
  imports EditScenario
begin

text \<open>
  The properties of the validation of edit plans and of the reading and scanning below them: what a validated plan
  changes, where its files lie, the bounds it keeps, and the termination and safety of the scan of the sources.
\<close>

section \<open>Validated plans\<close>

definition edited :: "edit_operation list \<Rightarrow> proposal_file \<Rightarrow> bool" where
  "edited ops s \<longleftrightarrow>
     (\<exists>ms base. ops = map Modify ms \<and> pp_status s = FileModified \<and> pp_base_content s = Some base \<and> edits ms base (pp_proposed_content s))
   \<or> (\<exists>c. ops = [Create c] \<and> pp_status s = FileCreated \<and> pp_base_content s = None \<and> pp_proposed_content s = co_content c)"

lemma group_edited:
  assumes "validate_group h f root plan (p, ops) = Inr s" "ops \<noteq> []"
  shows "pp_path s = p \<and> edited ops s"
  using group_result [OF assms]
proof (elim disjE exE conjE)
  fix c assume "ops = [Create c]" "validate_creation h f root p c plan = Inr s"
  then show ?thesis
    by (elim creation_parts) (simp add: edited_def created_snapshot_def)
next
  assume m: "validate_modification_group h f root p ops plan = Inr s"
  then have "pp_path s = p \<and> pp_status s = FileModified"
    by (elim modification_group_parts) (simp add: modified_snapshot_def)
  with m show ?thesis
    by (elim modification_group_edits) (auto simp: edited_def)
qed

lemma plan_files:
  assumes "validate_edit_plan h f plan expected = Inr v"
  obtains root groups where "canonical_real_directory f (ee_workspace_root expected) = Inr root" "groups_of (ep_operations plan) groups"
    "map pp_path (vp_files v) = map fst groups"
    "\<forall>s \<in> set (vp_files v). validate_group h f root plan (pp_path s, operations_on (pp_path s) (ep_operations plan)) = Inr s
       \<and> operations_on (pp_path s) (ep_operations plan) \<noteq> []"
  using assms
proof (cases rule: plan_parts)
  case (1 root groups)
  note each = 1(6) [unfolded try_each_Inr]
  have row: "groups ! i = (pp_path (vp_files v ! i), operations_on (pp_path (vp_files v ! i)) (ep_operations plan))
      \<and> snd (groups ! i) \<noteq> [] \<and> validate_group h f root plan (groups ! i) = Inr (vp_files v ! i)" if i: "i < length groups" for i
  proof -
    obtain q ops where g: "groups ! i = (q, ops)"
      by fastforce
    then have ops: "ops = operations_on q (ep_operations plan)" "ops \<noteq> []"
      using groups_of_member [OF 1(3), of q ops] i by (auto simp: in_set_conv_nth)
    have ok: "validate_group h f root plan (q, ops) = Inr (vp_files v ! i)"
      using each i g by fastforce
    then have "pp_path (vp_files v ! i) = q"
      using group_edited ops(2) by blast
    then show ?thesis
      using g ops ok by simp
  qed
  show thesis
  proof (rule that [OF 1(2,3)])
    show "map pp_path (vp_files v) = map fst groups"
      using each row by (auto intro!: nth_equalityI)
    show "\<forall>s \<in> set (vp_files v). validate_group h f root plan (pp_path s, operations_on (pp_path s) (ep_operations plan)) = Inr s
       \<and> operations_on (pp_path s) (ep_operations plan) \<noteq> []"
    proof
      fix s assume "s \<in> set (vp_files v)"
      then obtain i where i: "i < length groups" "s = vp_files v ! i"
        using each by (auto simp: in_set_conv_nth)
      then show "validate_group h f root plan (pp_path s, operations_on (pp_path s) (ep_operations plan)) = Inr s
          \<and> operations_on (pp_path s) (ep_operations plan) \<noteq> []"
        using row [of i] by (metis snd_conv)
    qed
  qed
qed

text \<open>
  C26. A validated plan changes exactly what it says: its files are in strict order and are the files its operations
  name; a modified file keeps every piece of its base outside the requested ranges and has the replacements in their
  place, where the expected old contents were; a created file has the contents of its one creation.
\<close>

theorem plan_edits_exactly:
  assumes "validate_edit_plan h f plan expected = Inr v"
  shows "sorted_wrt (<) (map pp_path (vp_files v))
    \<and> set (map pp_path (vp_files v)) = (\<lambda>operation. edit_normalize_relative (op_path operation)) ` set (ep_operations plan)
    \<and> (\<forall>s \<in> set (vp_files v). edited (operations_on (pp_path s) (ep_operations plan)) s)"
  using assms
proof (cases rule: plan_files)
  case (1 root groups)
  show ?thesis
  proof (intro conjI ballI)
    show "sorted_wrt (<) (map pp_path (vp_files v))"
      using 1(2) unfolding 1(3) groups_of_def by blast
    show "set (map pp_path (vp_files v)) = (\<lambda>operation. edit_normalize_relative (op_path operation)) ` set (ep_operations plan)"
      using groups_of_paths [OF 1(2)] unfolding 1(3) by simp
    show "edited (operations_on (pp_path s) (ep_operations plan)) s" if "s \<in> set (vp_files v)" for s
      using 1(4) that group_edited by blast
  qed
qed

theorem plan_edits_exactly_witness:
  "validate_edit_plan edit_demo_host edit_demo_fs edit_demo_plan edit_demo_expected = Inr edit_demo_validated
    \<and> map pp_path (vp_files edit_demo_validated) = [''a.md'', ''docs/b.md'']
    \<and> (\<exists>s \<in> set (vp_files edit_demo_validated). pp_proposed_content s = ''one three'' \<and> edited (operations_on (pp_path s) (ep_operations edit_demo_plan)) s)"
  using plan_edits_exactly [OF edit_demo_runs] edit_demo_runs by (simp add: edit_demo_validated_def modified_snapshot_def created_snapshot_def edit_demo_create_def)

lemma canonicalize_self:
  assumes "wf_fs f" "is_dir_at f l" "\<forall>n \<in> set l. valid_name n" "canonicalize f (abs_path l) = Inr q"
  shows "q = abs_path l"
proof -
  obtain x where x: "fs_nodes f l = Some x" "\<not> is_link_node x"
    using assms(2) by (auto simp: is_dir_at_iff)
  obtain l' where l': "q = abs_path l'" "walk max_links f [] (tokens (abs_path l)) True = Inr l'"
    using canonicalize_Inr [OF assms(4,1)] by (auto simp: resolve_def split: if_splits)
  have tok: "tokens (abs_path l) = (if l = [] then [[], []] else [] # l)"
    using assms(3) by (intro tokens_abs_path) (auto simp: valid_name_def)
  have fl: "filter (\<lambda>t. \<not> junk t) (tokens (abs_path l)) = l"
    using assms(3) unfolding tok by (auto simp: junk_def valid_name_def filter_id_conv)
  have "\<forall>t \<in> set (tokens (abs_path l)). junk t \<or> valid_name t"
    using assms(3) unfolding tok by (auto simp: junk_def)
  from walk_spelled_junk [OF this _ l'(2)] no_links_existing [OF assms(1) x] l'(1) show ?thesis
    unfolding fl no_links_def by simp
qed

text \<open>
  Where a file of a plan lies: a modified file is below the workspace with no link on its way and holds the base
  contents the plan was checked against; a created one is absent from a directory of the workspace.
\<close>

definition modifies_safely :: "text_host \<Rightarrow> fs \<Rightarrow> location \<Rightarrow> edit_plan \<Rightarrow> proposal_file \<Rightarrow> bool" where
  "modifies_safely h f l plan s \<longleftrightarrow> (\<exists>relative r. relative_request_path (abs_path l) (pp_path s) = Inr relative
     \<and> safely_read h f l (non_junk (tokens relative)) (el_max_file_bytes (ep_limits plan)) r
     \<and> pp_base_content s = Some (sf_content r) \<and> pp_base_hash s = Some (rh_blake3 h (sf_content r)))"

definition creates_safely :: "fs \<Rightarrow> location \<Rightarrow> proposal_file \<Rightarrow> bool" where
  "creates_safely f l s \<longleftrightarrow> symlink_metadata f (path_join (abs_path l) (pp_path s)) = Inl NotFound
     \<and> (\<exists>parent d. path_parent (path_join (abs_path l) (pp_path s)) = Some parent
          \<and> canonicalize f parent = Inr (abs_path d) \<and> is_dir_at f d \<and> path_starts_with (abs_path d) (abs_path l))"

lemma canonical_real_directory_dir:
  assumes "wf_fs f" "canonical_real_directory f p = Inr q"
  obtains l where "q = abs_path l" "\<forall>n \<in> set l. valid_name n" "is_dir_at f l" "canonicalize f p = Inr q"
proof -
  obtain n where "symlink_metadata f p = Inr n" "is_dir_node n" "canonicalize f p = Inr q"
    using assms(2) by (auto simp: canonical_real_directory_def res_simps)
  then show thesis
    using canonicalize_dir [OF assms(1), of p q n] that by metis
qed

lemma group_safe:
  assumes "wf_fs f" "is_dir_at f l" "\<forall>n \<in> set l. valid_name n" "validate_group h f (abs_path l) plan (p, ops) = Inr s" "ops \<noteq> []"
  shows "(pp_status s = FileModified \<and> modifies_safely h f l plan s) \<or> (pp_status s = FileCreated \<and> creates_safely f l s)"
  using group_result [OF assms(4,5)]
proof (elim disjE exE conjE)
  fix c assume "validate_creation h f (abs_path l) p c plan = Inr s"
  then show ?thesis
  proof (cases rule: creation_parts)
    case (1 parent dir)
    from canonical_real_directory_dir [OF assms(1) 1(7)] 1 show ?thesis
      by (auto simp: creates_safely_def created_snapshot_def)
  qed
next
  assume "validate_modification_group h f (abs_path l) p ops plan = Inr s"
  then show ?thesis
  proof (cases rule: modification_group_parts)
    case (1 r ms ending)
    from assms(1) 1(1) show ?thesis
    proof (cases rule: read_safe_file_ok)
      case (1 l' relative)
      then have "l' = l"
        using canonicalize_self [OF assms(1-3)] abs_path_inj assms(3) by blast
      then show ?thesis
        using 1 \<open>s = _\<close> by (auto simp: modifies_safely_def modified_snapshot_def content_hash_def)
    qed
  qed
qed

lemma files_of_plan_safe:
  assumes "wf_fs f" "validate_edit_plan h f plan expected = Inr v"
  shows "\<exists>l. canonicalize f (ee_workspace_root expected) = Inr (abs_path l) \<and> is_dir_at f l \<and> (\<forall>s \<in> set (vp_files v).
    (pp_status s = FileModified \<and> modifies_safely h f l plan s) \<or> (pp_status s = FileCreated \<and> creates_safely f l s))"
  using assms(2)
proof (cases rule: plan_files)
  case (1 root groups)
  from assms(1) 1(1) obtain l where l: "root = abs_path l" "\<forall>n \<in> set l. valid_name n" "is_dir_at f l"
      "canonicalize f (ee_workspace_root expected) = Inr root"
    by (rule canonical_real_directory_dir)
  then show ?thesis
    using group_safe [OF assms(1) l(3,2)] 1(4) by blast
qed

text \<open>
  C27. The files of a validated plan lie in the workspace: a modified file is below the canonical root, with no link on
  its way, and holds the base the plan was checked against; a created file does not exist and its parent resolves to a
  directory below the root.
\<close>

theorem plan_files_in_workspace:
  assumes "wf_fs f" "validate_edit_plan h f plan expected = Inr v"
  shows "\<exists>l. canonicalize f (ee_workspace_root expected) = Inr (abs_path l) \<and> is_dir_at f l \<and> (\<forall>s \<in> set (vp_files v).
    (pp_status s = FileModified \<and> modifies_safely h f l plan s) \<or> (pp_status s = FileCreated \<and> creates_safely f l s))"
  by (rule files_of_plan_safe [OF assms])

theorem plan_files_in_workspace_witness:
  "wf_fs edit_demo_fs \<and> validate_edit_plan edit_demo_host edit_demo_fs edit_demo_plan edit_demo_expected = Inr edit_demo_validated
    \<and> (\<exists>l. canonicalize edit_demo_fs ''/w'' = Inr (abs_path l) \<and> (\<forall>s \<in> set (vp_files edit_demo_validated).
      (pp_status s = FileModified \<and> modifies_safely edit_demo_host edit_demo_fs l edit_demo_plan s)
      \<or> (pp_status s = FileCreated \<and> creates_safely edit_demo_fs l s)))"
  using plan_files_in_workspace [OF edit_demo_wf edit_demo_runs] edit_demo_wf edit_demo_runs by (auto simp: edit_demo_expected_def)

lemma group_size:
  assumes "validate_group h f root plan (p, ops) = Inr s" "ops \<noteq> []"
  shows "length (pp_proposed_content s) \<le> el_max_file_bytes (ep_limits plan) \<and> pp_proposed_bytes s = length (pp_proposed_content s)
    \<and> pp_proposed_hash s = rh_blake3 h (pp_proposed_content s)"
  using group_result [OF assms]
  by (auto elim!: creation_parts modification_group_parts simp: created_snapshot_def modified_snapshot_def content_hash_def)

lemma created_operations:
  assumes "validate_edit_plan h f plan expected = Inr v"
  shows "length (filter (\<lambda>s. pp_status s = FileCreated) (vp_files v)) \<le> length (filter is_creation (ep_operations plan))"
  using assms
proof (cases rule: plan_files)
  case (1 root groups)
  let ?created = "filter (\<lambda>s. pp_status s = FileCreated) (vp_files v)"
  let ?path = "\<lambda>operation. edit_normalize_relative (op_path operation)"
  have "distinct (map pp_path (vp_files v))"
    using 1(2,3) by (simp add: groups_of_def strict_sorted_iff)
  then have "distinct (map pp_path ?created)"
    by (rule distinct_map_filter)
  then have "length ?created = card (set (map pp_path ?created))"
    using distinct_card by fastforce
  also have "\<dots> \<le> card (set (map ?path (filter is_creation (ep_operations plan))))"
  proof (rule card_mono)
    show "set (map pp_path ?created) \<subseteq> set (map ?path (filter is_creation (ep_operations plan)))"
    proof
      fix p assume "p \<in> set (map pp_path ?created)"
      then obtain s where s: "s \<in> set (vp_files v)" "pp_status s = FileCreated" "p = pp_path s"
        by auto
      then have "edited (operations_on p (ep_operations plan)) s"
        using 1(4) group_edited by blast
      then obtain c where "operations_on p (ep_operations plan) = [Create c]"
        using s(2) by (auto simp: edited_def)
      then have "Create c \<in> set (operations_on p (ep_operations plan))"
        by simp
      then show "p \<in> set (map ?path (filter is_creation (ep_operations plan)))"
        by (force simp: operations_on_def)
    qed
  qed simp
  also have "\<dots> \<le> length (map ?path (filter is_creation (ep_operations plan)))"
    by (rule card_length)
  finally show ?thesis
    by simp
qed

text \<open>
  C28. The bounds of a validated plan: at most five files, one of them created, 512 KiB each, 64 operations, 2000 changed
  lines and 4 MiB of snapshots, whatever limits the plan itself carries.
\<close>

theorem plan_bounds:
  assumes "validate_edit_plan h f plan expected = Inr v"
  shows "length (vp_files v) \<le> 5 \<and> length (filter (\<lambda>s. pp_status s = FileCreated) (vp_files v)) \<le> 1
    \<and> (\<forall>s \<in> set (vp_files v). length (pp_proposed_content s) \<le> 524288)
    \<and> length (ep_operations plan) \<le> 64 \<and> vp_estimated_added_lines v + vp_estimated_deleted_lines v \<le> 2000
    \<and> vp_total_snapshot_bytes v \<le> 4194304"
  using assms
proof (cases rule: plan_parts)
  case (1 root groups)
  have "bounded_by_hard_maxima (ep_limits plan)" "length (ep_operations plan) \<le> el_max_hunks (ep_limits plan)"
    using 1(1) by (auto simp: validate_plan_fields_def res_simps)
  then have lim: "el_max_files (ep_limits plan) \<le> 5" "el_max_created_files (ep_limits plan) \<le> 1" "el_max_file_bytes (ep_limits plan) \<le> 524288"
      "length (ep_operations plan) \<le> 64" "el_max_proposal_bytes (ep_limits plan) \<le> 2097152"
      "el_max_added_lines (ep_limits plan) \<le> 1500" "el_max_deleted_lines (ep_limits plan) \<le> 1500" "el_max_changed_lines (ep_limits plan) \<le> 2000"
    by (auto simp: bounded_by_hard_maxima_def edit_limits)
  have "length (vp_files v) = length groups"
    using 1(6) by (simp add: try_each_Inr)
  moreover have "length (pp_proposed_content s) \<le> el_max_file_bytes (ep_limits plan)" if "s \<in> set (vp_files v)" for s
    using assms
  proof (cases rule: plan_files)
    case 1
    then show ?thesis
      using that group_size by blast
  qed
  moreover have "vp_estimated_added_lines v + vp_estimated_deleted_lines v \<le> 2000"
    using 1(8-10) lim(6-8) by (auto simp: sat_add_def u64_max_def)
  moreover have "vp_total_snapshot_bytes v \<le> 4194304"
    using 1(12) lim(5) by (auto simp: sat_mul_def u64_max_def)
  ultimately show ?thesis
    using 1(4,5) lim created_operations [OF assms] by fastforce
qed

theorem plan_bounds_witness:
  "validate_edit_plan edit_demo_host edit_demo_fs edit_demo_plan edit_demo_expected = Inr edit_demo_validated
    \<and> length (vp_files edit_demo_validated) \<le> 5 \<and> vp_total_snapshot_bytes edit_demo_validated \<le> 4194304"
  using plan_bounds [OF edit_demo_runs] edit_demo_runs by simp

section \<open>Scanned sources\<close>

text \<open>
  C29. The scan of a source ends: after at most twice the entry limit and one more rounds no round is left, and the loop
  returns what it returns from there.
\<close>

theorem scan_ends:
  "\<exists>n s. n \<le> 2 * MAX_RAG_ENTRIES + 1 \<and> (scan_round h f source ^^ n) (scan_start source) s \<and> (\<nexists>t. scan_round h f source s t)
    \<and> scan_loop h f source (scan_start source) = scan_loop h f source s"
  using scan_rounds_end [of "scan_start source" h f source] by (simp add: scan_measure_def scan_start_def)

lemma prepared_root:
  assumes "wf_fs f" "prepare_source h f root = Inr source"
  obtains l where "src_root source = abs_path l" "is_dir_at f l" "canonicalize f root = Inr (abs_path l)"
proof -
  obtain n where "symlink_metadata f root = Inr n" "is_dir_node n" "canonicalize f root = Inr (src_root source)"
    using assms(2) by (auto simp: prepare_source_def res_simps Let_def io_context_def)
  then show thesis
    using canonicalize_dir [OF assms(1), of root "src_root source" n] that by metis
qed

text \<open>
  C30. The scan of a source is safe: every candidate is a regular file of bounded size below the canonical root, reached
  through directories none of which is denied, with an allowed extension and no sensitive name; the exclusions are bounded.
\<close>

theorem inventory_safe:
  assumes "wf_fs f" "prepare_source h f root = Inr source" "collect_inventory h f us source = Inr found"
  shows "\<exists>l. canonicalize f root = Inr (abs_path l) \<and> (\<forall>c \<in> set (ri_candidates found). safe_candidate h f l c)
    \<and> length (ri_exclusions found) \<le> MAX_RAG_EXCLUSIONS"
  using assms(1,2)
proof (cases rule: prepared_root)
  case (1 l)
  obtain s where s: "scan_loop h f source (scan_start source) = Inr s" "set (ri_candidates found) = set (sc_candidates s)"
      "length (ri_exclusions found) = length (sc_exclusions s)"
    using assms(3) by (auto simp: collect_inventory_def res_simps)
  have "scan_ok h f l (scan_start source)"
    using 1(1,2) by (auto simp: scan_ok_def scan_start_def allowed_below_def intro!: exI [of _ "[]"])
  from scan_loop_ok [OF assms(1) 1(1) this s(1)] show ?thesis
    using 1(3) s(2,3) by (auto simp: scan_ok_def)
qed

theorem inventory_safe_witness:
  "map rc_relative_path (ri_candidates edit_demo_inventory) = [''a.md'']
    \<and> (\<exists>l. canonicalize edit_demo_fs ''/w'' = Inr (abs_path l) \<and> (\<forall>c \<in> set (ri_candidates edit_demo_inventory). safe_candidate edit_demo_host edit_demo_fs l c))"
proof
  show "map rc_relative_path (ri_candidates edit_demo_inventory) = [''a.md'']"
    by code_simp
qed (use inventory_safe [OF edit_demo_wf edit_demo_scans(1,2)] in blast)



end
