(* ===== verification/EditIntent.thy ===== *)
theory EditIntent
  imports EditValidation
begin

text \<open>
  The trusted intent behind an edit (\<open>opticcode-edit/src/intent.rs\<close>): the targets and constraints the runtime allows,
  the binding a proposal keeps of them, and the check of a plan against either. The JSON text of an intent and of a
  binding are parameters; a set of references is its sorted list.
\<close>

definition EDIT_INTENT_SCHEMA_VERSION :: nat where "EDIT_INTENT_SCHEMA_VERSION = 1"
definition MAX_EDIT_INTENT_TARGETS :: nat where "MAX_EDIT_INTENT_TARGETS = 16"
definition MAX_EDIT_INTENT_TASK_BYTES :: nat where "MAX_EDIT_INTENT_TASK_BYTES = 64 * 1024"
definition MAX_EDIT_INTENT_JSON_BYTES :: nat where "MAX_EDIT_INTENT_JSON_BYTES = 512 * 1024"
definition MAX_EDIT_INTENT_REFERENCES_PER_TARGET :: nat where "MAX_EDIT_INTENT_REFERENCES_PER_TARGET = 32"
definition MAX_EDIT_INTENT_PATH_BYTES :: nat where "MAX_EDIT_INTENT_PATH_BYTES = 4 * 1024"
definition DEFAULT_EDIT_INTENT_TTL_SECONDS :: nat where "DEFAULT_EDIT_INTENT_TTL_SECONDS = 15 * 60"
definition MAX_EDIT_INTENT_AGE_SECONDS :: nat where "MAX_EDIT_INTENT_AGE_SECONDS = 5 * 60"
definition MAX_EDIT_INTENT_CLOCK_SKEW_SECONDS :: nat where "MAX_EDIT_INTENT_CLOCK_SKEW_SECONDS = 60"

datatype intent_selection_mode = ExplicitReferences | ResolvedContext | Hybrid

datatype intent_operation_kind = ModifyExisting | CreateTextFile

datatype intent_provenance = UserReference | ResolvedReference | ContextManifest | UserRequestedCreation

datatype offset_encoding = Utf8Bytes

record existing_target =
  xt_path :: string
  xt_content_hash :: string
  xt_reference_ids :: "string list"
  xt_provenance :: intent_provenance

record prospective_target =
  yt_path :: string
  yt_extension :: string
  yt_reference_ids :: "string list"
  yt_provenance :: intent_provenance

datatype intent_target = ExistingFile existing_target | ProspectiveFile prospective_target

fun target_path :: "intent_target \<Rightarrow> string" where
  "target_path (ExistingFile x) = xt_path x"
| "target_path (ProspectiveFile y) = yt_path y"

fun operation_kind :: "intent_target \<Rightarrow> intent_operation_kind" where
  "operation_kind (ExistingFile _) = ModifyExisting"
| "operation_kind (ProspectiveFile _) = CreateTextFile"

fun target_references :: "intent_target \<Rightarrow> string list" where
  "target_references (ExistingFile x) = xt_reference_ids x"
| "target_references (ProspectiveFile y) = yt_reference_ids y"

fun set_references :: "string list \<Rightarrow> intent_target \<Rightarrow> intent_target" where
  "set_references rs (ExistingFile x) = ExistingFile (x\<lparr>xt_reference_ids := rs\<rparr>)"
| "set_references rs (ProspectiveFile y) = ProspectiveFile (y\<lparr>yt_reference_ids := rs\<rparr>)"

fun sort_rank :: "intent_target \<Rightarrow> nat" where
  "sort_rank (ExistingFile _) = 0"
| "sort_rank (ProspectiveFile _) = 1"

record intent_constraints =
  ic_allowed_operations :: "intent_operation_kind list"
  ic_allowed_extensions :: "string list"
  ic_limits :: edit_plan_limits
  ic_offset_encoding :: offset_encoding
  ic_require_clean_worktree :: bool
  ic_require_offline_verification :: bool
  ic_require_native_confirmation :: bool

definition modify_only :: "edit_plan_limits \<Rightarrow> intent_constraints" where
  "modify_only limits = \<lparr>ic_allowed_operations = [ModifyExisting], ic_allowed_extensions = ALLOWED_EDIT_EXTENSIONS,
     ic_limits = limits\<lparr>el_max_created_files := 0\<rparr>, ic_offset_encoding = Utf8Bytes, ic_require_clean_worktree = True,
     ic_require_offline_verification = True, ic_require_native_confirmation = True\<rparr>"

definition modify_and_create :: "edit_plan_limits \<Rightarrow> intent_constraints" where
  "modify_and_create limits = \<lparr>ic_allowed_operations = [ModifyExisting, CreateTextFile],
     ic_allowed_extensions = ALLOWED_EDIT_EXTENSIONS, ic_limits = limits, ic_offset_encoding = Utf8Bytes,
     ic_require_clean_worktree = True, ic_require_offline_verification = True, ic_require_native_confirmation = True\<rparr>"

record edit_intent =
  ei_schema_version :: nat
  ei_intent_id :: string
  ei_request_id :: string
  ei_workspace_id :: string
  ei_workspace_root_hash :: string
  ei_base_head :: string
  ei_working_tree_digest :: string
  ei_task :: string
  ei_selection_mode :: intent_selection_mode
  ei_targets :: "intent_target list"
  ei_constraints :: intent_constraints
  ei_created_at_unix_ms :: nat
  ei_expires_at_unix_ms :: nat

record allowed_existing_target =
  ax_path :: string
  ax_content_hash :: string
  ax_reference_ids :: "string list"

record allowed_create_target =
  ay_path :: string
  ay_reference_ids :: "string list"

record edit_intent_expectations =
  ix_request_id :: string
  ix_workspace_id :: string
  ix_workspace_root_hash :: string
  ix_base_head :: string
  ix_working_tree_digest :: string
  ix_now_unix_ms :: nat
  ix_limits :: edit_plan_limits
  ix_allowed_existing_targets :: "allowed_existing_target list"
  ix_allowed_create_targets :: "allowed_create_target list"

record validated_edit_intent =
  vi_intent :: edit_intent
  vi_intent_hash :: string
  vi_canonical_json :: string

record intent_binding =
  bi_schema_version :: nat
  bi_intent_id :: string
  bi_intent_hash :: string
  bi_binding_hash :: string
  bi_request_id :: string
  bi_workspace_id :: string
  bi_workspace_root_hash :: string
  bi_base_head :: string
  bi_working_tree_digest :: string
  bi_task_hash :: string
  bi_selection_mode :: intent_selection_mode
  bi_targets :: "intent_target list"
  bi_constraints :: intent_constraints
  bi_created_at_unix_ms :: nat
  bi_expires_at_unix_ms :: nat

text \<open>
  The outside of this component: BLAKE3, and the JSON text of a canonical intent and of the fields of a binding other
  than its hash, each of which may fail with a message.
\<close>

record intent_host =
  ih_blake3 :: "string \<Rightarrow> string"
  ih_intent_json :: "edit_intent \<Rightarrow> (string, string) res"
  ih_binding_json :: "intent_binding \<Rightarrow> (string, string) res"
  ih_parse_intent :: "string \<Rightarrow> edit_intent option"

datatype edit_intent_error = IntentErr (ie_code: string) (ie_message: string)

definition intent_error_text :: "edit_intent_error \<Rightarrow> string" where
  "intent_error_text e = ie_code e @ '': '' @ ie_message e"

abbreviation quoted :: "string \<Rightarrow> string" where
  "quoted s \<equiv> [CHR 0x60] @ s @ [CHR 0x60]"

section \<open>Identifiers and paths\<close>

text \<open>
  \<open>char::is_control\<close> in UTF-8: the control characters of ASCII are single bytes, those from U+0080 to U+009F are the
  byte C2 and a byte below A0.
\<close>

fun has_control :: "string \<Rightarrow> bool" where
  "has_control [] = False"
| "has_control (c # s) \<longleftrightarrow> (of_char c :: nat) < 32 \<or> (of_char c :: nat) = 127
     \<or> ((of_char c :: nat) = 194 \<and> (case s of [] \<Rightarrow> False | d # _ \<Rightarrow> (of_char d :: nat) < 160)) \<or> has_control s"

definition intent_validate_identifier :: "string \<Rightarrow> string \<Rightarrow> (edit_intent_error, unit) res" where
  "intent_validate_identifier name s =
    ensure (\<not> (s = '''' \<or> length s > MAX_EDIT_IDENTIFIER_BYTES \<or> has_control s))
      (IntentErr (''intent.'' @ name) (name @ '' is empty, too long, or contains control characters''))"

definition is_reserved_windows_name :: "string \<Rightarrow> bool" where
  "is_reserved_windows_name part =
    (let stem = to_ascii_uppercase (trim_end_chars [CHR '' '', CHR ''.''] (hd (split_on (CHR ''.'') part))) in
     stem \<in> set [''CON'', ''PRN'', ''AUX'', ''NUL'']
     \<or> (length stem = 4 \<and> (starts_with stem ''COM'' \<or> starts_with stem ''LPT'') \<and> is_ascii_digit (stem ! 3) \<and> stem ! 3 \<noteq> CHR ''0''))"

definition intent_component :: "string \<Rightarrow> component \<Rightarrow> (edit_intent_error, string) res" where
  "intent_component p c = (case c of
      Normal part \<Rightarrow>
        try_then (ensure (utf8_valid part) (IntentErr ''intent.path'' (''path '' @ quoted p @ '' is not valid UTF-8''))) (\<lambda>_.
        try_then (ensure (\<not> (part = '''' \<or> length part > 255 \<or> ends_with part '' '' \<or> ends_with part ''.'' \<or> is_reserved_windows_name part))
          (IntentErr ''intent.path'' (''path component '' @ quoted part @ '' is not portable''))) (\<lambda>_.
        Inr part))
    | _ \<Rightarrow> Inl (IntentErr ''intent.path'' (''path '' @ quoted p @ '' contains a forbidden component'')))"

definition intent_relative_path :: "string \<Rightarrow> (edit_intent_error, string) res" where
  "intent_relative_path p =
    try_then (ensure (\<not> (p = '''' \<or> length p > MAX_EDIT_INTENT_PATH_BYTES \<or> CHR 0x5C \<in> set p \<or> CHR 0x00 \<in> set p \<or> CHR '':'' \<in> set p
        \<or> has_control p))
      (IntentErr ''intent.path'' (''path '' @ quoted p @ '' is empty, oversized, non-portable, or contains control data''))) (\<lambda>_.
    try_then (ensure (\<not> is_absolute p) (IntentErr ''intent.path'' (''path '' @ quoted p @ '' must be relative''))) (\<lambda>_.
    try_then (try_each (intent_component p) (components p)) (\<lambda>parts.
    let normalized = join_with sep parts in
    try_then (ensure (normalized = p)
      (IntentErr ''intent.path'' (''path '' @ quoted p @ '' is not in canonical workspace-relative form''))) (\<lambda>_.
    try_then (ensure (\<not> (parts \<noteq> [] \<and> to_ascii_lowercase (hd parts) \<in> set [''.git'', ''.opticcode'']))
      (IntentErr ''intent.path'' (''path '' @ quoted p @ '' targets protected repository metadata''))) (\<lambda>_.
    Inr normalized)))))"

definition extension_for_path :: "string \<Rightarrow> (edit_intent_error, string) res" where
  "extension_for_path p = ok_or (IntentErr ''intent.target_extension'' (''target '' @ quoted p @ '' has no valid extension''))
     (map_option to_ascii_lowercase (Option.bind (extension p) utf8_str))"

fun check_references :: "string list \<Rightarrow> string list \<Rightarrow> (edit_intent_error, unit) res" where
  "check_references seen [] = Inr ()"
| "check_references seen (r # rs) =
    try_then (intent_validate_identifier ''reference_id'' r) (\<lambda>_.
    if r \<in> set seen then Inl (IntentErr ''intent.reference_duplicate'' (''reference ID '' @ quoted r @ '' is duplicated''))
    else check_references (r # seen) rs)"

definition validate_reference_inventory :: "string list \<Rightarrow> (edit_intent_error, string list) res" where
  "validate_reference_inventory references =
    try_then (ensure (length references \<le> MAX_EDIT_INTENT_REFERENCES_PER_TARGET) (IntentErr ''intent.reference_limit''
      (''target references exceed the per-target limit of '' @ dec_of_nat MAX_EDIT_INTENT_REFERENCES_PER_TARGET))) (\<lambda>_.
    try_then (check_references [] references) (\<lambda>_.
    Inr (sort references)))"

definition ensure_reference_subset :: "string \<Rightarrow> string list \<Rightarrow> string list \<Rightarrow> (edit_intent_error, unit) res" where
  "ensure_reference_subset p references allowed = (case find (\<lambda>r. r \<notin> set allowed) references of
      Some r \<Rightarrow> Inl (IntentErr ''intent.reference_not_trusted''
        (''target '' @ quoted p @ '' uses untrusted reference ID '' @ quoted r))
    | None \<Rightarrow> Inr ())"

section \<open>Limits and constraints\<close>

definition limits_exceed :: "edit_plan_limits \<Rightarrow> edit_plan_limits \<Rightarrow> bool" where
  "limits_exceed left right \<longleftrightarrow>
     el_max_files left > el_max_files right \<or> el_max_created_files left > el_max_created_files right
     \<or> el_max_file_bytes left > el_max_file_bytes right \<or> el_max_proposal_bytes left > el_max_proposal_bytes right
     \<or> el_max_hunks left > el_max_hunks right \<or> el_max_added_lines left > el_max_added_lines right
     \<or> el_max_deleted_lines left > el_max_deleted_lines right \<or> el_max_changed_lines left > el_max_changed_lines right
     \<or> el_global_timeout_seconds left > el_global_timeout_seconds right"

fun check_extensions :: "string list \<Rightarrow> string list \<Rightarrow> (edit_intent_error, unit) res" where
  "check_extensions seen [] = Inr ()"
| "check_extensions seen (e # es) =
    (if e = '''' \<or> e \<noteq> to_ascii_lowercase e \<or> starts_with e ''.'' \<or> e \<notin> set ALLOWED_EDIT_EXTENSIONS \<or> e \<in> set seen
     then Inl (IntentErr ''intent.extension_contract'' (''extension '' @ quoted e @ '' is invalid, duplicated, or not allowlisted''))
     else check_extensions (e # seen) es)"

definition validate_constraints :: "intent_constraints \<Rightarrow> edit_plan_limits \<Rightarrow> (edit_intent_error, intent_operation_kind set) res" where
  "validate_constraints c expected_limits =
    (let operations = set (ic_allowed_operations c) in
     try_then (ensure (ic_offset_encoding c = Utf8Bytes)
       (IntentErr ''intent.offset_encoding'' ''edit intent v1 requires utf8_bytes offsets'')) (\<lambda>_.
     try_then (ensure (\<not> (\<not> ic_require_clean_worktree c \<or> \<not> ic_require_offline_verification c \<or> \<not> ic_require_native_confirmation c))
       (IntentErr ''intent.security_constraints''
         ''edit intent v1 requires a clean worktree, offline verification, and native confirmation'')) (\<lambda>_.
     try_then (ensure (\<not> (\<not> bounded_by_hard_maxima (ic_limits c) \<or> limits_exceed (ic_limits c) expected_limits))
       (IntentErr ''intent.limit_escalation'' ''edit intent attempted to raise or invalidate trusted runtime limits'')) (\<lambda>_.
     try_then (ensure (\<not> (operations = {} \<or> card operations \<noteq> length (ic_allowed_operations c)))
       (IntentErr ''intent.operation_contract'' ''allowed_operations must be non-empty and contain no duplicates'')) (\<lambda>_.
     try_then (if CreateTextFile \<in> operations
       then ensure (el_max_created_files (ic_limits c) \<noteq> 0)
         (IntentErr ''intent.creation_contract'' ''create_text_file is enabled while max_created_files is zero'')
       else ensure (el_max_created_files (ic_limits c) = 0)
         (IntentErr ''intent.creation_contract'' ''max_created_files must be zero when create_text_file is disabled'')) (\<lambda>_.
     try_then (ensure (\<not> (ic_allowed_extensions c = [] \<or> length (ic_allowed_extensions c) > length ALLOWED_EDIT_EXTENSIONS))
       (IntentErr ''intent.extension_contract'' ''allowed_extensions is empty or exceeds the runtime extension inventory'')) (\<lambda>_.
     try_then (check_extensions [] (ic_allowed_extensions c)) (\<lambda>_.
     Inr operations))))))))"

section \<open>Canonical form\<close>

definition kind_rank :: "intent_operation_kind \<Rightarrow> nat" where
  "kind_rank k = (case k of ModifyExisting \<Rightarrow> 0 | CreateTextFile \<Rightarrow> 1)"

definition canonicalize_targets :: "intent_target list \<Rightarrow> intent_target list" where
  "canonicalize_targets ts = sort_key (\<lambda>t. (target_path t, sort_rank t)) (map (\<lambda>t. set_references (sort (target_references t)) t) ts)"

definition canonicalize_constraints :: "intent_constraints \<Rightarrow> intent_constraints" where
  "canonicalize_constraints c = c\<lparr>ic_allowed_operations := sort_key kind_rank (ic_allowed_operations c),
     ic_allowed_extensions := sort (ic_allowed_extensions c)\<rparr>"

definition canonicalize_intent :: "edit_intent \<Rightarrow> edit_intent" where
  "canonicalize_intent i = i\<lparr>ei_targets := canonicalize_targets (ei_targets i), ei_constraints := canonicalize_constraints (ei_constraints i)\<rparr>"

section \<open>Bindings\<close>

definition check_existing_binding :: "string \<Rightarrow> string list \<Rightarrow> existing_target \<Rightarrow> (edit_intent_error, unit) res" where
  "check_existing_binding p references x =
    ensure (\<not> (\<not> is_hash (xt_content_hash x) \<or> xt_provenance x = UserRequestedCreation
        \<or> (xt_provenance x = UserReference \<and> references = [])))
      (IntentErr ''intent.binding_existing_target'' (''stored existing target '' @ quoted p @ '' is inconsistent''))"

definition check_prospective_binding :: "string \<Rightarrow> string \<Rightarrow> prospective_target \<Rightarrow> (edit_intent_error, unit) res" where
  "check_prospective_binding p path_extension y =
    ensure (\<not> (yt_extension y \<noteq> path_extension \<or> yt_provenance y \<noteq> UserRequestedCreation))
      (IntentErr ''intent.binding_prospective_target'' (''stored prospective target '' @ quoted p @ '' is inconsistent''))"

fun check_binding_targets ::
  "intent_operation_kind set \<Rightarrow> string list \<Rightarrow> string list \<Rightarrow> intent_target list \<Rightarrow> (edit_intent_error, unit) res" where
  "check_binding_targets operations extensions seen [] = Inr ()"
| "check_binding_targets operations extensions seen (t # ts) =
    try_then (intent_relative_path (target_path t)) (\<lambda>p.
    try_then (ensure (p \<notin> set seen) (IntentErr ''intent.binding_target_duplicate''
      (''stored intent binding target '' @ quoted p @ '' is duplicated''))) (\<lambda>_.
    try_then (ensure (operation_kind t \<in> operations) (IntentErr ''intent.binding_target_operation''
      (''stored intent binding target '' @ quoted p @ '' has no operation permission''))) (\<lambda>_.
    try_then (validate_reference_inventory (target_references t)) (\<lambda>references.
    try_then (extension_for_path p) (\<lambda>path_extension.
    try_then (ensure (path_extension \<in> set extensions) (IntentErr ''intent.binding_target_extension''
      (''stored intent binding target '' @ quoted p @ '' uses a disallowed extension''))) (\<lambda>_.
    try_then (case t of ExistingFile x \<Rightarrow> check_existing_binding p references x
      | ProspectiveFile y \<Rightarrow> check_prospective_binding p path_extension y) (\<lambda>_.
    check_binding_targets operations extensions (p # seen) ts)))))))"

abbreviation has_existing :: "intent_target list \<Rightarrow> bool" where
  "has_existing ts \<equiv> list_ex (\<lambda>t. operation_kind t = ModifyExisting) ts"

abbreviation has_prospective :: "intent_target list \<Rightarrow> bool" where
  "has_prospective ts \<equiv> list_ex (\<lambda>t. operation_kind t = CreateTextFile) ts"

abbreviation has_explicit_reference :: "intent_target list \<Rightarrow> bool" where
  "has_explicit_reference ts \<equiv> list_ex (\<lambda>t. target_references t \<noteq> []) ts"

definition check_selection_mode ::
  "string \<Rightarrow> string \<Rightarrow> string \<Rightarrow> intent_selection_mode \<Rightarrow> intent_target list \<Rightarrow> (edit_intent_error, unit) res" where
  "check_selection_mode code explicit hybrid selection_mode targets = (case selection_mode of
      ExplicitReferences \<Rightarrow> ensure (list_all (\<lambda>t. target_references t \<noteq> []) targets) (IntentErr code explicit)
    | Hybrid \<Rightarrow> ensure (has_explicit_reference targets) (IntentErr code hybrid)
    | ResolvedContext \<Rightarrow> Inr ())"

definition validate_binding_targets ::
  "intent_target list \<Rightarrow> intent_operation_kind set \<Rightarrow> string list \<Rightarrow> intent_selection_mode \<Rightarrow> (edit_intent_error, unit) res" where
  "validate_binding_targets targets operations allowed_extensions selection_mode =
    try_then (ensure (\<not> (targets = [] \<or> length targets > MAX_EDIT_INTENT_TARGETS))
      (IntentErr ''intent.binding_targets'' ''stored intent binding target inventory is empty or oversized'')) (\<lambda>_.
    try_then (check_binding_targets operations allowed_extensions [] targets) (\<lambda>_.
    try_then (ensure (\<not> ((ModifyExisting \<in> operations) \<noteq> has_existing targets \<or> (CreateTextFile \<in> operations) \<noteq> has_prospective targets))
      (IntentErr ''intent.binding_operation_targets'' ''stored intent binding operations do not match their target kinds'')) (\<lambda>_.
    check_selection_mode ''intent.binding_selection_mode'' ''explicit_references binding requires reference IDs on every target''
      ''hybrid binding requires at least one explicit reference'' selection_mode targets)))"

definition calculate_binding_hash :: "intent_host \<Rightarrow> intent_binding \<Rightarrow> (edit_intent_error, string) res" where
  "calculate_binding_hash h b =
    try_then (map_err (\<lambda>e. IntentErr ''intent.binding_serialization'' (''stored intent binding could not be serialized: '' @ e))
      (ih_binding_json h (b\<lparr>bi_binding_hash := ''''\<rparr>))) (\<lambda>bytes.
    Inr (ih_blake3 h bytes))"

definition from_validated :: "intent_host \<Rightarrow> validated_edit_intent \<Rightarrow> (edit_intent_error, intent_binding) res" where
  "from_validated h v =
    (let i = vi_intent v;
         binding = \<lparr>bi_schema_version = EDIT_INTENT_SCHEMA_VERSION, bi_intent_id = ei_intent_id i, bi_intent_hash = vi_intent_hash v,
           bi_binding_hash = '''', bi_request_id = ei_request_id i, bi_workspace_id = ei_workspace_id i,
           bi_workspace_root_hash = ei_workspace_root_hash i, bi_base_head = ei_base_head i,
           bi_working_tree_digest = ei_working_tree_digest i, bi_task_hash = ih_blake3 h (ei_task i),
           bi_selection_mode = ei_selection_mode i, bi_targets = ei_targets i, bi_constraints = ei_constraints i,
           bi_created_at_unix_ms = ei_created_at_unix_ms i, bi_expires_at_unix_ms = ei_expires_at_unix_ms i\<rparr> in
     try_then (calculate_binding_hash h binding) (\<lambda>hash. Inr (binding\<lparr>bi_binding_hash := hash\<rparr>)))"

definition check_binding_hash_field :: "string \<times> string \<Rightarrow> (edit_intent_error, unit) res" where
  "check_binding_hash_field pair = (case pair of (name, hash) \<Rightarrow>
     ensure (is_hash hash) (IntentErr (''intent.binding_'' @ name) (''stored intent binding '' @ name @ '' is not a BLAKE3 hash'')))"

definition validate_binding_fields :: "intent_binding \<Rightarrow> (edit_intent_error, unit) res" where
  "validate_binding_fields b =
    try_then (ensure (bi_schema_version b = EDIT_INTENT_SCHEMA_VERSION)
      (IntentErr ''intent.binding_schema'' ''stored intent binding uses an unsupported schema version'')) (\<lambda>_.
    try_then (try_each (\<lambda>(name, s). intent_validate_identifier name s)
      [(''intent_id'', bi_intent_id b), (''request_id'', bi_request_id b), (''workspace_id'', bi_workspace_id b)]) (\<lambda>_.
    try_then (try_each check_binding_hash_field
      [(''intent_hash'', bi_intent_hash b), (''binding_hash'', bi_binding_hash b), (''workspace_root_hash'', bi_workspace_root_hash b),
       (''working_tree_digest'', bi_working_tree_digest b), (''task_hash'', bi_task_hash b)]) (\<lambda>_.
    try_then (ensure (is_git_oid (bi_base_head b))
      (IntentErr ''intent.binding_head'' ''stored intent binding base_head is not a Git object ID'')) (\<lambda>_.
    try_then (ensure (\<not> (bi_targets b = [] \<or> length (bi_targets b) > MAX_EDIT_INTENT_TARGETS))
      (IntentErr ''intent.binding_targets'' ''stored intent binding target inventory is empty or oversized'')) (\<lambda>_.
    ensure (\<not> (bi_expires_at_unix_ms b \<le> bi_created_at_unix_ms b
        \<or> bi_expires_at_unix_ms b > sat_add (bi_created_at_unix_ms b) (sat_mul DEFAULT_EDIT_INTENT_TTL_SECONDS 1000)))
      (IntentErr ''intent.binding_expiry'' ''stored intent binding timestamps are inconsistent''))))))"

definition binding_validate :: "intent_host \<Rightarrow> intent_binding \<Rightarrow> (edit_intent_error, unit) res" where
  "binding_validate h b =
    try_then (validate_binding_fields b) (\<lambda>_.
    try_then (validate_constraints (bi_constraints b) hard_maxima) (\<lambda>operations.
    try_then (validate_binding_targets (bi_targets b) operations (ic_allowed_extensions (bi_constraints b)) (bi_selection_mode b)) (\<lambda>_.
    try_then (ensure (\<not> (canonicalize_targets (bi_targets b) \<noteq> bi_targets b \<or> canonicalize_constraints (bi_constraints b) \<noteq> bi_constraints b))
      (IntentErr ''intent.binding_canonical'' ''stored intent binding is not in canonical form'')) (\<lambda>_.
    try_then (calculate_binding_hash h b) (\<lambda>calculated.
    ensure (calculated = bi_binding_hash b)
      (IntentErr ''intent.binding_hash'' ''stored intent binding hash does not match its canonical payload''))))))"

section \<open>Trusted targets\<close>

record trusted_targets =
  tt_existing :: "(string \<times> string \<times> string list) list"
  tt_prospective :: "(string \<times> string list) list"

abbreviation trusted_invalid :: "string \<Rightarrow> edit_intent_error" where
  "trusted_invalid message \<equiv> IntentErr ''intent.trusted_state_invalid'' message"

fun trusted_existing ::
  "(string \<times> string \<times> string list) list \<Rightarrow> allowed_existing_target list \<Rightarrow> (edit_intent_error, (string \<times> string \<times> string list) list) res" where
  "trusted_existing found [] = Inr found"
| "trusted_existing found (t # ts) =
    try_then (map_err (\<lambda>e. trusted_invalid (''trusted existing target is invalid: '' @ intent_error_text e)) (intent_relative_path (ax_path t))) (\<lambda>p.
    try_then (ensure (is_hash (ax_content_hash t))
      (trusted_invalid (''trusted existing target '' @ quoted p @ '' has an invalid content hash''))) (\<lambda>_.
    try_then (map_err (\<lambda>e. trusted_invalid (''trusted existing target '' @ quoted p @ '' is invalid: '' @ intent_error_text e))
      (validate_reference_inventory (ax_reference_ids t))) (\<lambda>references.
    try_then (ensure (map_of found p = None) (trusted_invalid (''trusted existing target '' @ quoted p @ '' is duplicated''))) (\<lambda>_.
    trusted_existing ((p, ax_content_hash t, references) # found) ts))))"

fun trusted_prospective ::
  "(string \<times> string list) list \<Rightarrow> allowed_create_target list \<Rightarrow> (edit_intent_error, (string \<times> string list) list) res" where
  "trusted_prospective found [] = Inr found"
| "trusted_prospective found (t # ts) =
    try_then (map_err (\<lambda>e. trusted_invalid (''trusted create target is invalid: '' @ intent_error_text e)) (intent_relative_path (ay_path t))) (\<lambda>p.
    try_then (map_err (\<lambda>e. trusted_invalid (''trusted create target '' @ quoted p @ '' is invalid: '' @ intent_error_text e))
      (validate_reference_inventory (ay_reference_ids t))) (\<lambda>references.
    try_then (ensure (map_of found p = None) (trusted_invalid (''trusted create target '' @ quoted p @ '' is duplicated''))) (\<lambda>_.
    trusted_prospective ((p, references) # found) ts)))"

definition validate_trusted_targets :: "edit_intent_expectations \<Rightarrow> (edit_intent_error, trusted_targets) res" where
  "validate_trusted_targets expected =
    try_then (trusted_existing [] (ix_allowed_existing_targets expected)) (\<lambda>existing.
    try_then (trusted_prospective [] (ix_allowed_create_targets expected)) (\<lambda>prospective.
    Inr \<lparr>tt_existing = existing, tt_prospective = prospective\<rparr>))"

section \<open>Targets of an intent\<close>

definition check_existing_target ::
  "trusted_targets \<Rightarrow> string \<Rightarrow> string list \<Rightarrow> existing_target \<Rightarrow> (edit_intent_error, unit) res" where
  "check_existing_target trusted p references x =
    try_then (ensure (xt_provenance x \<noteq> UserRequestedCreation) (IntentErr ''intent.target_provenance''
      (''existing target '' @ quoted p @ '' has creation-only provenance''))) (\<lambda>_.
    try_then (ensure (\<not> (xt_provenance x = UserReference \<and> references = [])) (IntentErr ''intent.target_provenance''
      (''user-reference target '' @ quoted p @ '' has no reference IDs''))) (\<lambda>_.
    try_then (ensure (is_hash (xt_content_hash x)) (IntentErr ''intent.target_hash''
      (''existing target '' @ quoted p @ '' has an invalid content hash''))) (\<lambda>_.
    try_then (ok_or (IntentErr ''intent.target_not_trusted''
      (''existing target '' @ quoted p @ '' was not resolved by the trusted runtime'')) (map_of (tt_existing trusted) p)) (\<lambda>allowed.
    try_then (ensure (xt_content_hash x = fst allowed) (IntentErr ''intent.target_hash_mismatch''
      (''existing target '' @ quoted p @ '' no longer matches trusted content''))) (\<lambda>_.
    ensure_reference_subset p references (snd allowed))))))"

definition check_prospective_target ::
  "trusted_targets \<Rightarrow> string list \<Rightarrow> string \<Rightarrow> string list \<Rightarrow> prospective_target \<Rightarrow> (edit_intent_error, unit) res" where
  "check_prospective_target trusted extensions p references y =
    try_then (ensure (yt_provenance y = UserRequestedCreation) (IntentErr ''intent.target_provenance''
      (''prospective target '' @ quoted p @ '' requires user_requested_creation''))) (\<lambda>_.
    try_then (extension_for_path p) (\<lambda>actual.
    try_then (ensure (\<not> (yt_extension y \<noteq> actual \<or> yt_extension y \<notin> set extensions)) (IntentErr ''intent.target_extension''
      (''prospective target '' @ quoted p @ '' has an invalid or disallowed extension''))) (\<lambda>_.
    try_then (ok_or (IntentErr ''intent.target_not_trusted''
      (''prospective target '' @ quoted p @ '' was not explicitly allowed by the trusted runtime'')) (map_of (tt_prospective trusted) p)) (\<lambda>allowed.
    ensure_reference_subset p references allowed))))"

definition operation_name :: "intent_operation_kind \<Rightarrow> string" where
  "operation_name k = (case k of ModifyExisting \<Rightarrow> ''modify_existing'' | CreateTextFile \<Rightarrow> ''create_text_file'')"

fun check_targets ::
  "intent_operation_kind set \<Rightarrow> trusted_targets \<Rightarrow> string list \<Rightarrow> string list \<Rightarrow> intent_target list \<Rightarrow> (edit_intent_error, unit) res" where
  "check_targets operations trusted extensions seen [] = Inr ()"
| "check_targets operations trusted extensions seen (t # ts) =
    try_then (intent_relative_path (target_path t)) (\<lambda>p.
    try_then (ensure (p \<notin> set seen) (IntentErr ''intent.target_duplicate'' (''target '' @ quoted p @ '' appears more than once''))) (\<lambda>_.
    try_then (ensure (operation_kind t \<in> operations) (IntentErr ''intent.target_operation'' (''target '' @ quoted p
      @ '' requires operation '' @ quoted (operation_name (operation_kind t)) @ '' which is not allowed''))) (\<lambda>_.
    try_then (validate_reference_inventory (target_references t)) (\<lambda>references.
    try_then (case t of ExistingFile x \<Rightarrow> check_existing_target trusted p references x
      | ProspectiveFile y \<Rightarrow> check_prospective_target trusted extensions p references y) (\<lambda>_.
    try_then (extension_for_path p) (\<lambda>target_extension.
    try_then (ensure (target_extension \<in> set extensions) (IntentErr ''intent.target_extension''
      (''target '' @ quoted p @ '' uses a disallowed extension''))) (\<lambda>_.
    check_targets operations trusted extensions (p # seen) ts)))))))"

definition validate_targets :: "edit_intent \<Rightarrow> intent_operation_kind set \<Rightarrow> trusted_targets \<Rightarrow> (edit_intent_error, unit) res" where
  "validate_targets i operations trusted =
    try_then (ensure (\<not> (ei_targets i = [] \<or> length (ei_targets i) > MAX_EDIT_INTENT_TARGETS)) (IntentErr ''intent.target_limit''
      (''edit intent must contain between 1 and '' @ dec_of_nat MAX_EDIT_INTENT_TARGETS @ '' targets''))) (\<lambda>_.
    try_then (check_targets operations trusted (ic_allowed_extensions (ei_constraints i)) [] (ei_targets i)) (\<lambda>_.
    try_then (ensure ((ModifyExisting \<in> operations) = has_existing (ei_targets i)) (IntentErr ''intent.operation_targets''
      ''modify_existing must correspond to at least one existing_file target'')) (\<lambda>_.
    try_then (ensure ((CreateTextFile \<in> operations) = has_prospective (ei_targets i)) (IntentErr ''intent.operation_targets''
      ''create_text_file must correspond to at least one prospective_file target'')) (\<lambda>_.
    check_selection_mode ''intent.selection_mode'' ''explicit_references mode requires reference IDs on every target''
      ''hybrid mode requires at least one explicit reference'' (ei_selection_mode i) (ei_targets i)))))"

section \<open>The intent\<close>

definition check_intent_identity :: "string \<times> string \<times> string \<Rightarrow> (edit_intent_error, unit) res" where
  "check_intent_identity triple = (case triple of (name, actual, trusted) \<Rightarrow>
     try_then (intent_validate_identifier name actual) (\<lambda>_.
     ensure (actual = trusted) (IntentErr (''intent.'' @ name @ ''_mismatch'') (name @ '' does not match the trusted request state''))))"

definition intent_envelope :: "edit_intent \<Rightarrow> edit_intent_expectations \<Rightarrow> (edit_intent_error, unit) res" where
  "intent_envelope i expected =
    try_then (ensure (ei_schema_version i = EDIT_INTENT_SCHEMA_VERSION) (IntentErr ''intent.schema_version''
      (''unsupported edit intent schema version '' @ dec_of_nat (ei_schema_version i)))) (\<lambda>_.
    try_then (intent_validate_identifier ''intent_id'' (ei_intent_id i)) (\<lambda>_.
    try_then (try_each check_intent_identity
      [(''request_id'', ei_request_id i, ix_request_id expected), (''workspace_id'', ei_workspace_id i, ix_workspace_id expected),
       (''workspace_root_hash'', ei_workspace_root_hash i, ix_workspace_root_hash expected),
       (''base_head'', ei_base_head i, ix_base_head expected),
       (''working_tree_digest'', ei_working_tree_digest i, ix_working_tree_digest expected)]) (\<lambda>_.
    try_then (ensure (is_hash (ei_workspace_root_hash i) \<and> is_hash (ei_working_tree_digest i)) (IntentErr ''intent.hash_invalid''
      ''workspace_root_hash and working_tree_digest must be 64-character hexadecimal BLAKE3 values'')) (\<lambda>_.
    ensure (is_git_oid (ei_base_head i)) (IntentErr ''intent.head_invalid''
      ''base_head must be a 40- or 64-character hexadecimal Git object ID'')))))"

definition validate_task :: "string \<Rightarrow> (edit_intent_error, unit) res" where
  "validate_task task =
    try_then (ensure (\<not> (str_trim task = '''' \<or> length task > MAX_EDIT_INTENT_TASK_BYTES)) (IntentErr ''intent.task''
      ''edit intent task is empty or exceeds the 64 KiB byte limit'')) (\<lambda>_.
    ensure (CHR 0x00 \<notin> set task) (IntentErr ''intent.task'' ''edit intent task contains a NUL byte''))"

definition validate_timestamps :: "edit_intent \<Rightarrow> nat \<Rightarrow> (edit_intent_error, unit) res" where
  "validate_timestamps i now =
    (let skew_ms = sat_mul MAX_EDIT_INTENT_CLOCK_SKEW_SECONDS 1000; max_age_ms = sat_mul MAX_EDIT_INTENT_AGE_SECONDS 1000;
         max_ttl_ms = sat_mul DEFAULT_EDIT_INTENT_TTL_SECONDS 1000 in
     try_then (ensure (ei_created_at_unix_ms i \<le> sat_add now skew_ms)
       (IntentErr ''intent.created_at'' ''edit intent creation time is too far in the future'')) (\<lambda>_.
     try_then (ensure (now \<le> sat_add (ei_created_at_unix_ms i) max_age_ms)
       (IntentErr ''intent.stale'' ''edit intent is older than the allowed validation window'')) (\<lambda>_.
     ensure (\<not> (ei_expires_at_unix_ms i \<le> now \<or> ei_expires_at_unix_ms i \<le> ei_created_at_unix_ms i
         \<or> ei_expires_at_unix_ms i > sat_add (ei_created_at_unix_ms i) max_ttl_ms))
       (IntentErr ''intent.expiry'' ''edit intent expiry is invalid or exceeds the 15-minute TTL''))))"

definition validate_edit_intent ::
  "intent_host \<Rightarrow> edit_intent \<Rightarrow> edit_intent_expectations \<Rightarrow> (edit_intent_error, validated_edit_intent) res" where
  "validate_edit_intent h i expected =
    try_then (intent_envelope i expected) (\<lambda>_.
    try_then (validate_task (ei_task i)) (\<lambda>_.
    try_then (validate_timestamps i (ix_now_unix_ms expected)) (\<lambda>_.
    try_then (validate_constraints (ei_constraints i) (ix_limits expected)) (\<lambda>operations.
    try_then (validate_trusted_targets expected) (\<lambda>trusted.
    try_then (validate_targets i operations trusted) (\<lambda>_.
    let canonical = canonicalize_intent i in
    try_then (map_err (\<lambda>e. IntentErr ''intent.canonicalization'' (''edit intent canonical serialization failed: '' @ e)) (ih_intent_json h canonical)) (\<lambda>json.
    Inr \<lparr>vi_intent = canonical, vi_intent_hash = ih_blake3 h json, vi_canonical_json = json\<rparr>)))))))"

definition parse_edit_intent_json :: "intent_host \<Rightarrow> string \<Rightarrow> (edit_intent_error, edit_intent) res" where
  "parse_edit_intent_json h raw =
    try_then (ensure (\<not> (raw = '''' \<or> length raw > MAX_EDIT_INTENT_JSON_BYTES))
      (IntentErr ''intent.size'' ''edit intent JSON is empty or exceeds the bounded payload limit'')) (\<lambda>_.
    let trimmed = str_trim raw in
    try_then (ensure (\<not> (\<not> starts_with trimmed ''{'' \<or> \<not> ends_with trimmed ''}''))
      (IntentErr ''intent.trailing_text'' ''edit intent input must contain exactly one JSON object'')) (\<lambda>_.
    ok_or (IntentErr ''intent.invalid_json'' ''edit intent does not match schema v1'') (ih_parse_intent h trimmed)))"

section \<open>A plan against its authority\<close>

record edit_authority =
  au_request_id :: string
  au_workspace_id :: string
  au_workspace_root_hash :: string
  au_base_head :: string
  au_working_tree_digest :: string
  au_targets :: "intent_target list"
  au_constraints :: intent_constraints

definition check_authority_identity :: "string \<times> string \<times> string \<Rightarrow> (edit_intent_error, unit) res" where
  "check_authority_identity triple = (case triple of (name, actual, expected) \<Rightarrow>
     ensure (actual = expected) (IntentErr (''intent.plan_'' @ name @ ''_mismatch'')
       (''validated edit plan '' @ name @ '' is not bound to the trusted intent'')))"

text \<open>The map of the targets by path: of two targets with the same path the later one counts.\<close>

definition target_of :: "intent_target list \<Rightarrow> string \<Rightarrow> intent_target option" where
  "target_of targets = map_of (rev (map (\<lambda>t. (target_path t, t)) targets))"

definition check_plan_operation ::
  "intent_operation_kind set \<Rightarrow> intent_target list \<Rightarrow> edit_operation \<Rightarrow> (edit_intent_error, unit) res" where
  "check_plan_operation allowed targets operation =
    try_then (intent_relative_path (op_path operation)) (\<lambda>p.
    try_then (ok_or (IntentErr ''intent.plan_target_not_allowed''
      (''edit plan targets '' @ quoted p @ '' outside the trusted intent'')) (target_of targets p)) (\<lambda>t.
    case (operation, t) of
      (Modify m, ExistingFile x) \<Rightarrow>
        try_then (ensure (ModifyExisting \<in> allowed) (IntentErr ''intent.plan_operation_not_allowed''
          (''edit plan modifies '' @ quoted p @ '' without modify_existing permission''))) (\<lambda>_.
        ensure (mo_expected_file_hash m = xt_content_hash x) (IntentErr ''intent.plan_hash_mismatch''
          (''edit plan hash for '' @ quoted p @ '' differs from the trusted intent'')))
    | (Create c, ProspectiveFile y) \<Rightarrow>
        try_then (ensure (CreateTextFile \<in> allowed) (IntentErr ''intent.plan_operation_not_allowed''
          (''edit plan creates '' @ quoted p @ '' without create_text_file permission''))) (\<lambda>_.
        ensure (\<not> (co_extension c \<noteq> yt_extension y \<or> \<not> co_expected_absent c)) (IntentErr ''intent.plan_creation_mismatch''
          (''edit plan creation for '' @ quoted p @ '' differs from the trusted intent'')))
    | _ \<Rightarrow> Inl (IntentErr ''intent.plan_target_kind'' (''edit plan operation kind does not match target '' @ quoted p))))"

definition check_plan_snapshot :: "intent_target list \<Rightarrow> proposal_file \<Rightarrow> (edit_intent_error, unit) res" where
  "check_plan_snapshot targets s =
    try_then (intent_relative_path (pp_path s)) (\<lambda>p.
    try_then (ok_or (IntentErr ''intent.plan_snapshot_not_allowed''
      (''materialized snapshot '' @ quoted p @ '' is outside the trusted intent'')) (target_of targets p)) (\<lambda>t.
    ensure (case t of
        ExistingFile x \<Rightarrow> pp_status s = FileModified \<and> pp_base_hash s = Some (xt_content_hash x)
      | ProspectiveFile _ \<Rightarrow> pp_status s = FileCreated \<and> pp_base_hash s = None \<and> pp_base_content s = None)
      (IntentErr ''intent.plan_snapshot_mismatch'' (''materialized snapshot for '' @ quoted p @ '' differs from the trusted intent''))))"

definition validate_edit_plan_against_authority :: "validated_edit_plan \<Rightarrow> edit_authority \<Rightarrow> (edit_intent_error, unit) res" where
  "validate_edit_plan_against_authority v a =
    (let plan = vp_plan v in
     try_then (try_each check_authority_identity
       [(''request_id'', ep_request_id plan, au_request_id a), (''workspace_id'', ep_workspace_id plan, au_workspace_id a),
        (''workspace_root_hash'', ep_workspace_root_hash plan, au_workspace_root_hash a),
        (''base_head'', ep_base_head plan, au_base_head a),
        (''working_tree_digest'', ep_working_tree_digest plan, au_working_tree_digest a)]) (\<lambda>_.
     try_then (ensure (\<not> limits_exceed (ep_limits plan) (ic_limits (au_constraints a))) (IntentErr ''intent.plan_limit_escalation''
       ''validated edit plan raises limits above the trusted intent'')) (\<lambda>_.
     try_then (try_each (check_plan_operation (set (ic_allowed_operations (au_constraints a))) (au_targets a)) (ep_operations plan)) (\<lambda>_.
     try_then (try_each (check_plan_snapshot (au_targets a)) (vp_files v)) (\<lambda>_.
     Inr ())))))"

definition intent_authority :: "edit_intent \<Rightarrow> edit_authority" where
  "intent_authority i = \<lparr>au_request_id = ei_request_id i, au_workspace_id = ei_workspace_id i,
     au_workspace_root_hash = ei_workspace_root_hash i, au_base_head = ei_base_head i,
     au_working_tree_digest = ei_working_tree_digest i, au_targets = ei_targets i, au_constraints = ei_constraints i\<rparr>"

definition binding_authority :: "intent_binding \<Rightarrow> edit_authority" where
  "binding_authority b = \<lparr>au_request_id = bi_request_id b, au_workspace_id = bi_workspace_id b,
     au_workspace_root_hash = bi_workspace_root_hash b, au_base_head = bi_base_head b,
     au_working_tree_digest = bi_working_tree_digest b, au_targets = bi_targets b, au_constraints = bi_constraints b\<rparr>"

definition validate_edit_plan_against_intent ::
  "intent_host \<Rightarrow> validated_edit_plan \<Rightarrow> validated_edit_intent \<Rightarrow> (edit_intent_error, unit) res" where
  "validate_edit_plan_against_intent h v i =
    try_then (from_validated h i) (\<lambda>binding.
    try_then (binding_validate h binding) (\<lambda>_.
    validate_edit_plan_against_authority v (intent_authority (vi_intent i))))"

definition validate_edit_plan_against_binding ::
  "intent_host \<Rightarrow> validated_edit_plan \<Rightarrow> intent_binding \<Rightarrow> (edit_intent_error, unit) res" where
  "validate_edit_plan_against_binding h v b =
    try_then (binding_validate h b) (\<lambda>_. validate_edit_plan_against_authority v (binding_authority b))"

end
