(* ===== verification/EditRecords.thy ===== *)
theory EditRecords
  imports EditIntent TxFiles
begin

text \<open>
  The reports of the edit runtime (\<open>opticcode-edit/src/runtime.rs\<close>), the verified diff (\<open>diff.rs\<close>) and the stored
  record of a proposal (\<open>store.rs\<close>), and the world the edit runtime acts on. Durations are in milliseconds.
\<close>

definition CHAT_EDIT_REPORT_SCHEMA_VERSION :: nat where "CHAT_EDIT_REPORT_SCHEMA_VERSION = 1"

datatype edit_stage_status = StageNotRun | StageRunning | StagePassed | StageFailed | StageCancelled | StageUnavailable

record edit_stage_report =
  sr_status :: edit_stage_status
  sr_duration_ms :: nat
  sr_summary :: string
  sr_errors :: "string list"

definition stage_passed :: "string \<Rightarrow> nat \<Rightarrow> edit_stage_report" where
  "stage_passed summary duration = \<lparr>sr_status = StagePassed, sr_duration_ms = duration, sr_summary = summary, sr_errors = []\<rparr>"

definition stage_failed :: "string \<Rightarrow> nat \<Rightarrow> string \<Rightarrow> edit_stage_report" where
  "stage_failed summary duration e = \<lparr>sr_status = StageFailed, sr_duration_ms = duration, sr_summary = summary, sr_errors = [e]\<rparr>"

definition stage_not_run :: "string \<Rightarrow> edit_stage_report" where
  "stage_not_run summary = \<lparr>sr_status = StageNotRun, sr_duration_ms = 0, sr_summary = summary, sr_errors = []\<rparr>"

record policy_decision_record =
  pd_stage :: string
  pd_action_kind :: string
  pd_decision :: string
  pd_rule_id :: string
  pd_action_hash :: string
  pd_audit_event_id :: "string option"

record edit_process_report =
  er_tool :: string
  er_executable :: string
  er_arguments :: "string list"
  er_status :: string
  er_exit_code :: "int option"
  er_duration_ms :: nat
  er_timed_out :: bool
  er_cancelled :: bool
  er_output_truncated :: bool
  er_stdout_tail :: string
  er_stderr_tail :: string

record verification_report =
  vr_schema_version :: nat
  vr_request_id :: string
  vr_proposal_id :: string
  vr_base_head :: string
  vr_working_tree_digest :: string
  vr_worktree_run_id :: "string option"
  vr_success :: bool
  vr_source_unchanged :: bool
  vr_lease_recovery_required :: bool
  vr_worktree :: edit_stage_report
  vr_apply :: edit_stage_report
  vr_reparse :: edit_stage_report
  vr_build :: edit_stage_report
  vr_tests :: edit_stage_report
  vr_diff :: edit_stage_report
  vr_cleanup :: edit_stage_report
  vr_processes :: "edit_process_report list"
  vr_policy :: "policy_decision_record list"
  vr_verified_at_unix_ms :: "nat option"
  vr_warnings :: "string list"
  vr_errors :: "string list"

record apply_report =
  app_schema_version :: nat
  app_request_id :: string
  app_proposal_id :: string
  app_transaction_id :: string
  app_success :: bool
  app_approval_id :: string
  app_approval_consumed :: bool
  app_post_reparse :: edit_stage_report
  app_post_build :: edit_stage_report
  app_rollback_attempted :: bool
  app_rollback_success :: "bool option"
  app_policy :: "policy_decision_record list"
  app_applied_at_unix_ms :: "nat option"
  app_errors :: "string list"

record rollback_report =
  rbr_schema_version :: nat
  rbr_request_id :: string
  rbr_proposal_id :: string
  rbr_transaction_id :: string
  rbr_success :: bool
  rbr_already_rolled_back :: bool
  rbr_approval_id :: string
  rbr_approval_consumed :: bool
  rbr_reparse :: edit_stage_report
  rbr_policy :: "policy_decision_record list"
  rbr_rolled_back_at_unix_ms :: "nat option"
  rbr_errors :: "string list"

section \<open>Verified diffs\<close>

record diff_statistics =
  ds_files :: nat
  ds_added_files :: nat
  ds_modified_files :: nat
  ds_deleted_files :: nat
  ds_renamed_files :: nat
  ds_binary_files :: nat
  ds_additions :: nat
  ds_deletions :: nat
  ds_hunks :: nat
  ds_patch_bytes :: nat

record diff_file_statistics =
  df_path :: string
  df_status :: proposal_file_status
  df_additions :: nat
  df_deletions :: nat
  df_hunks :: nat
  df_binary :: bool
  df_base_hash :: "string option"
  df_proposed_hash :: string
  df_proposed_bytes :: nat

record verified_diff =
  vd_schema_version :: nat
  vd_patch :: string
  vd_patch_hash :: string
  vd_display_patch :: string
  vd_display_truncated :: bool
  vd_statistics :: diff_statistics
  vd_files :: "diff_file_statistics list"

section \<open>Proposal records\<close>

record proposal_record =
  pr_schema_version :: nat
  pr_proposal_id :: string
  pr_workspace_id :: string
  pr_workspace_root_hash :: string
  pr_sequence :: nat
  pr_state :: proposal_state
  pr_created_at_unix_ms :: nat
  pr_updated_at_unix_ms :: nat
  pr_expires_at_unix_ms :: nat
  pr_transaction_report_expires_at_unix_ms :: nat
  pr_intent :: "intent_binding option"
  pr_plan :: edit_plan
  pr_files :: "proposal_file list"
  pr_transitions :: "proposal_transition list"
  pr_policy :: "policy_decision_record list"
  pr_verification :: "verification_report option"
  pr_verified_diff :: "verified_diff option"
  pr_apply :: "apply_report option"
  pr_rollback :: "rollback_report option"

definition proposal_expired :: "proposal_record \<Rightarrow> nat \<Rightarrow> bool" where
  "proposal_expired r now \<longleftrightarrow> now > pr_expires_at_unix_ms r
     \<and> pr_state r \<notin> set [PsApplied, PsRollbackAvailable, PsRollingBack, PsRolledBack]"

section \<open>The world of the edit runtime\<close>

text \<open>
  The world of transactions, the counter of the store (a \<open>u64\<close>) and the counters and random bytes of the policy state.
\<close>

record edit_world =
  e_tx :: tx_world
  e_store_counter :: nat
  e_policy_counter :: nat
  e_policy_draws :: nat
  e_policy_random :: "nat \<Rightarrow> string option"

type_synonym 'a edit = "(edit_world, tool_error, 'a) action"

abbreviation e_fs :: "edit_world \<Rightarrow> fs" where
  "e_fs w \<equiv> x_fs (e_tx w)"

definition in_tx :: "'a tx \<Rightarrow> 'a edit" where
  "in_tx m w = (case m (e_tx w) of (r, t) \<Rightarrow> (r, w\<lparr>e_tx := t\<rparr>))"

abbreviation e_see :: "(fs \<Rightarrow> (tool_error, 'a) res) \<Rightarrow> 'a edit" where
  "e_see g \<equiv> in_tx (see g)"

abbreviation e_alter :: "(meta \<Rightarrow> fs \<Rightarrow> (tool_error, fs) res) \<Rightarrow> unit edit" where
  "e_alter g \<equiv> in_tx (alter g)"

text \<open>\<open>unix_millis\<close>: zero before the epoch, saturating.\<close>

definition unix_millis :: "nat edit" where
  "unix_millis w = (Inr (min (nat (x_now_ns (e_tx w)) div 1000000) u64_max), w)"

lemma edit_act_simps [act_simps]:
  "in_tx m w = (r, w') \<longleftrightarrow> (\<exists>t. m (e_tx w) = (r, t) \<and> w' = w\<lparr>e_tx := t\<rparr>)"
  "unix_millis v = (q, v') \<longleftrightarrow> q = Inr (min (nat (x_now_ns (e_tx v)) div 1000000) u64_max) \<and> v' = v"
  by (auto simp: in_tx_def unix_millis_def split: prod.splits)

lemma Inr_eq_simps [act_simps]:
  "Inr a = map_err g x \<longleftrightarrow> x = Inr a" "Inr u = ensure ok e \<longleftrightarrow> ok"
  by (cases x; auto) (auto simp: ensure_def)

text \<open>An alteration that is cleaned up after when it fails: it succeeds when the alteration does.\<close>

lemma alter_or_clean [act_simps]:
  "act_try (in_tx (alter g)) (case_sum (\<lambda>e. act_then (in_tx (remove_quietly p)) (\<lambda>_. act_fail (k e))) act_return) w = (Inr u, w')
    \<longleftrightarrow> in_tx (alter g) w = (Inr (), w')"
proof -
  obtain r v where v: "in_tx (alter g) w = (r, v)"
    by fastforce
  show ?thesis
    by (cases r) (auto simp: act_try_def v act_simps)
qed

end
