(* ===== verification/EditStore.thy ===== *)
theory EditStore
  imports EditRecords PolicyState TxFiles
begin

text \<open>
  The store of proposals (\<open>opticcode-edit/src/store.rs\<close>): one directory per proposal with a numbered record file per
  generation, published by renaming. Locking and JSON are parameters: \<open>sh_lock\<close> gives the answers of the attempts to lock
  that are made before the wait is over.
\<close>

definition STORE_DIRECTORY :: string where "STORE_DIRECTORY = ''proposals-v1''"
definition RECORDS_DIRECTORY :: string where "RECORDS_DIRECTORY = ''records''"
definition STORE_LOCK_FILE :: string where "STORE_LOCK_FILE = ''.store.lock''"
definition MAX_RECORD_BYTES :: nat where "MAX_RECORD_BYTES = 12 * 1024 * 1024"
definition MAX_RECORD_GENERATIONS :: nat where "MAX_RECORD_GENERATIONS = 4096"

record store_host =
  sh_lock :: "path \<Rightarrow> lock_answer list"
  sh_record_json :: "proposal_record \<Rightarrow> (string, string) res"
  sh_parse_record :: "string \<Rightarrow> proposal_record option"
  sh_env :: "string \<Rightarrow> string option"
  sh_intent :: intent_host

record proposal_store =
  ps_root :: path
  ps_workspace_hash :: string
  ps_workspace_dir :: path

section \<open>Checks\<close>

definition store_validate_identifier :: "string \<Rightarrow> string \<Rightarrow> (tool_error, unit) res" where
  "store_validate_identifier s name =
    ensure (\<not> (s = '''' \<or> length s > 160 \<or> \<not> list_all (\<lambda>c. is_ascii_alphanumeric c \<or> c \<in> set ''-_.'') s))
      (Message (name @ '' is invalid''))"

definition store_validate_hash :: "string \<Rightarrow> string \<Rightarrow> (tool_error, unit) res" where
  "store_validate_hash s name = ensure (\<not> (length s \<noteq> 64 \<or> \<not> list_all is_ascii_hexdigit s))
     (Message (name @ '' is not a 64-character hexadecimal hash''))"

definition parent_is :: "path \<Rightarrow> path \<Rightarrow> bool" where
  "parent_is p d = (case path_parent p of None \<Rightarrow> False | Some q \<Rightarrow> path_eq q d)"

definition real_dir :: "node \<Rightarrow> bool" where
  "real_dir n \<longleftrightarrow> is_dir_node n \<and> \<not> is_link_node n"

section \<open>Directories\<close>

definition ensure_real_directory :: "path \<Rightarrow> path edit" where
  "ensure_real_directory p =
    act_then (act_try (e_see (\<lambda>f. map_err IoCause (symlink_metadata f p))) (\<lambda>r. case r of
        Inr n \<Rightarrow> act_if (real_dir n) (Message ''proposal state root is not a regular directory'')
      | Inl e \<Rightarrow> if e = IoCause NotFound
          then e_alter (\<lambda>m f. map_err IoCause (create_dir_all (Suc (length p)) m p f))
          else act_fail e)) (\<lambda>_.
    act_then (e_see (\<lambda>f. map_err IoCause (canonicalize f p))) (\<lambda>canonical.
    act_then (e_see (\<lambda>f. map_err IoCause (symlink_metadata f canonical))) (\<lambda>n.
    act_then (act_if (real_dir n) (Message ''proposal state root resolves through an unsafe entry'')) (\<lambda>_.
    act_return canonical))))"

definition ensure_child_directory :: "path \<Rightarrow> string \<Rightarrow> path edit" where
  "ensure_child_directory parent name =
    act_then (act_res (store_validate_identifier name ''storage directory'')) (\<lambda>_.
    act_then (ensure_real_directory parent) (\<lambda>parent.
    let child = path_join parent name in
    act_then (act_try (e_alter (\<lambda>m f. map_err IoCause (create_dir f child m))) (\<lambda>r. case r of
        Inr _ \<Rightarrow> act_return ()
      | Inl e \<Rightarrow> if e = IoCause AlreadyExists then act_return () else act_fail e)) (\<lambda>_.
    act_then (e_see (\<lambda>f. map_err IoCause (symlink_metadata f child))) (\<lambda>n.
    act_then (act_if (real_dir n) (Message ''proposal storage child is not a regular directory'')) (\<lambda>_.
    act_then (e_see (\<lambda>f. map_err IoCause (canonicalize f child))) (\<lambda>canonical.
    act_then (act_if (parent_is canonical parent) (Message ''proposal storage child escaped its parent'')) (\<lambda>_.
    act_return canonical)))))))"

definition recognized_proposal_dir :: "path \<Rightarrow> string \<Rightarrow> fs \<Rightarrow> (tool_error, path) res" where
  "recognized_proposal_dir workspace_dir proposal_id f =
    (let p = path_join workspace_dir proposal_id in
     try_then (io_context ''proposal does not exist'' (symlink_metadata f p)) (\<lambda>n.
     try_then (ensure (real_dir n) (Message ''proposal path is not a regular directory'')) (\<lambda>_.
     try_then (map_err IoCause (canonicalize f p)) (\<lambda>canonical.
     try_then (ensure (parent_is canonical workspace_dir) (Message ''proposal path escapes its workspace namespace'')) (\<lambda>_.
     Inr canonical)))))"

definition recognized_records_dir :: "path \<Rightarrow> fs \<Rightarrow> (tool_error, path) res" where
  "recognized_records_dir proposal_dir f =
    (let p = path_join proposal_dir RECORDS_DIRECTORY in
     try_then (map_err IoCause (symlink_metadata f p)) (\<lambda>n.
     try_then (ensure (real_dir n) (Message ''proposal records path is not a regular directory'')) (\<lambda>_.
     try_then (map_err IoCause (canonicalize f p)) (\<lambda>canonical.
     try_then (ensure (parent_is canonical proposal_dir) (Message ''proposal records path escapes its proposal directory'')) (\<lambda>_.
     Inr canonical)))))"

definition default_state_root :: "store_host \<Rightarrow> (tool_error, path) res" where
  "default_state_root h =
    try_then (ok_or (Message ''local application state directory is unavailable'')
      (case sh_env h ''XDG_STATE_HOME'' of
         Some base \<Rightarrow> Some base
       | None \<Rightarrow> map_option (\<lambda>home. path_join home ''.local/state'') (sh_env h ''HOME''))) (\<lambda>base.
    Inr (path_join base ''OpticCode''))"

definition store_open :: "path \<Rightarrow> string \<Rightarrow> proposal_store edit" where
  "store_open state_root workspace_hash =
    act_then (act_res (store_validate_hash workspace_hash ''workspace hash'')) (\<lambda>_.
    act_then (ensure_real_directory state_root) (\<lambda>_.
    act_then (ensure_child_directory state_root STORE_DIRECTORY) (\<lambda>root.
    act_then (ensure_child_directory root workspace_hash) (\<lambda>workspace_dir.
    act_return \<lparr>ps_root = root, ps_workspace_hash = workspace_hash, ps_workspace_dir = workspace_dir\<rparr>))))"

definition default_store :: "store_host \<Rightarrow> string \<Rightarrow> proposal_store edit" where
  "default_store h workspace_hash = act_then (act_res (default_state_root h)) (\<lambda>root. store_open root workspace_hash)"

section \<open>The lock\<close>

fun lock_loop :: "lock_answer list \<Rightarrow> (tool_error, unit) res" where
  "lock_loop [] = Inl (Message ''proposal store remained busy for this workspace'')"
| "lock_loop (LockTaken # _) = Inr ()"
| "lock_loop (WouldBlock # answers) = lock_loop answers"
| "lock_loop (LockError e # _) = Inl (Context ''failed to acquire proposal store lock'' (IoCause e))"

definition store_lock :: "store_host \<Rightarrow> path \<Rightarrow> unit edit" where
  "store_lock h workspace_dir =
    (let p = path_join workspace_dir STORE_LOCK_FILE in
     act_then (e_see (\<lambda>f. case symlink_metadata f p of
         Inl _ \<Rightarrow> Inr ()
       | Inr n \<Rightarrow> ensure (\<not> (\<not> is_file_node n \<or> is_link_node n)) (Message ''proposal store lock is not a regular file''))) (\<lambda>_.
     act_then (e_alter (\<lambda>m f. map_err IoCause (open_append f p m []))) (\<lambda>_.
     act_res (lock_loop (sh_lock h p)))))"

section \<open>Records\<close>

fun check_transitions :: "nat \<Rightarrow> proposal_state option \<Rightarrow> proposal_transition list \<Rightarrow> (tool_error, unit) res" where
  "check_transitions i prev [] = Inr ()"
| "check_transitions i prev (t # ts) =
    try_then (ensure (pn_sequence t = i) (Message ''proposal transition sequence is inconsistent'')) (\<lambda>_.
    try_then (ensure (case prev of None \<Rightarrow> True | Some s \<Rightarrow> can_transition_to s (pn_state t))
      (Message ''proposal transition history contains an invalid transition'')) (\<lambda>_.
    check_transitions (Suc i) (Some (pn_state t)) ts))"

abbreviation intent_tool_error :: "edit_intent_error \<Rightarrow> tool_error" where
  "intent_tool_error e \<equiv> Message (intent_error_text e)"

definition record_plan :: "proposal_record \<Rightarrow> validated_edit_plan" where
  "record_plan r = \<lparr>vp_plan = pr_plan r, vp_files = pr_files r, vp_estimated_added_lines = 0, vp_estimated_deleted_lines = 0,
     vp_total_snapshot_bytes = foldl snapshot_bytes 0 (pr_files r)\<rparr>"

definition validate_record_intent :: "intent_host \<Rightarrow> proposal_record \<Rightarrow> (tool_error, unit) res" where
  "validate_record_intent h r = (case pr_intent r of
      None \<Rightarrow> Inr ()
    | Some b \<Rightarrow>
        try_then (map_err intent_tool_error (binding_validate h b)) (\<lambda>_.
        try_then (ensure (\<not> (bi_request_id b \<noteq> ep_request_id (pr_plan r) \<or> bi_workspace_id b \<noteq> pr_workspace_id r
            \<or> bi_workspace_root_hash b \<noteq> pr_workspace_root_hash r \<or> bi_base_head b \<noteq> ep_base_head (pr_plan r)
            \<or> bi_working_tree_digest b \<noteq> ep_working_tree_digest (pr_plan r)))
          (Message ''proposal record intent binding does not match its persisted plan'')) (\<lambda>_.
        map_err intent_tool_error (validate_edit_plan_against_binding h (record_plan r) b))))"

definition record_consistent :: "proposal_record \<Rightarrow> string \<Rightarrow> string \<Rightarrow> bool" where
  "record_consistent r proposal_id workspace_hash \<longleftrightarrow>
     \<not> (pr_schema_version r \<noteq> PROPOSAL_STORE_SCHEMA_VERSION \<or> pr_proposal_id r \<noteq> proposal_id \<or> ep_plan_id (pr_plan r) \<noteq> proposal_id
        \<or> pr_workspace_root_hash r \<noteq> workspace_hash \<or> ep_workspace_root_hash (pr_plan r) \<noteq> workspace_hash
        \<or> pr_workspace_id r \<noteq> ep_workspace_id (pr_plan r) \<or> pr_created_at_unix_ms r > pr_updated_at_unix_ms r
        \<or> pr_expires_at_unix_ms r < pr_created_at_unix_ms r \<or> pr_transitions r = []
        \<or> pn_state (last (pr_transitions r)) \<noteq> pr_state r)"

definition validate_record :: "intent_host \<Rightarrow> proposal_record \<Rightarrow> string \<Rightarrow> string \<Rightarrow> (tool_error, unit) res" where
  "validate_record h r proposal_id workspace_hash =
    try_then (ensure (record_consistent r proposal_id workspace_hash)
      (Message ''proposal record identity, state, or timestamps are inconsistent'')) (\<lambda>_.
    try_then (validate_record_intent h r) (\<lambda>_.
    check_transitions 0 None (pr_transitions r)))"

definition record_name :: "nat \<Rightarrow> string" where
  "record_name n = ''record-'' @ pad_zero 10 (dec_of_nat n) @ ''.json''"

definition parse_record_sequence :: "string \<Rightarrow> nat option" where
  "parse_record_sequence name = Option.bind (strip_prefix_str name ''record-'') (\<lambda>s.
     Option.bind (strip_suffix_str s ''.json'') (parse_unsigned max_u32))"

definition next_store_counter :: "nat edit" where
  "next_store_counter w = (Inr (e_store_counter w), w\<lparr>e_store_counter := (e_store_counter w + 1) mod 2 ^ 64\<rparr>)"

definition process_id :: "nat edit" where
  "process_id w = (Inr (x_pid (e_tx w)), w)"

definition publish_record :: "store_host \<Rightarrow> path \<Rightarrow> proposal_record \<Rightarrow> unit edit" where
  "publish_record h records r =
    act_then (act_res (map_err Message (sh_record_json h r))) (\<lambda>json.
    let bytes = json @ [newline]; final_path = path_join records (record_name (pr_sequence r)) in
    act_then (act_if (length bytes \<le> MAX_RECORD_BYTES) (Message ''proposal record exceeds its bounded storage size'')) (\<lambda>_.
    act_then (e_see (\<lambda>f. ensure (\<not> path_exists f final_path) (Message ''proposal record generation already exists''))) (\<lambda>_.
    act_then process_id (\<lambda>pid.
    act_then next_store_counter (\<lambda>counter.
    let temp = path_join records (''.record-'' @ pad_zero 10 (dec_of_nat (pr_sequence r)) @ ''-'' @ dec_of_nat pid @ ''-''
          @ dec_of_nat counter @ ''.tmp'') in
    act_then (e_alter (\<lambda>m f. map_err IoCause (create_new f temp m bytes))) (\<lambda>_.
    act_then (e_see (\<lambda>f. map_err IoCause (sync_all f temp))) (\<lambda>_.
    act_try (e_alter (\<lambda>m f. map_err IoCause (rename_file f temp final_path))) (\<lambda>result. case result of
        Inr _ \<Rightarrow> act_return ()
      | Inl e \<Rightarrow> act_then (in_tx (remove_quietly temp)) (\<lambda>_.
          act_fail (Context ''failed to atomically publish proposal record'' e))))))))))"

definition record_candidates :: "path \<Rightarrow> string list \<Rightarrow> (nat \<times> path) list" where
  "record_candidates records names = List.map_filter (\<lambda>name. Option.bind (utf8_str name) (\<lambda>s.
     map_option (\<lambda>n. (n, path_join records name)) (parse_record_sequence s))) names"

text \<open>One candidate of the loop; whatever is wrong with it, the loop goes on.\<close>

definition candidate_record :: "store_host \<Rightarrow> string \<Rightarrow> string \<Rightarrow> fs \<Rightarrow> nat \<times> path \<Rightarrow> proposal_record option" where
  "candidate_record h proposal_id workspace_hash f candidate = (case candidate of (n, p) \<Rightarrow>
     (case symlink_metadata f p of
        Inl _ \<Rightarrow> None
      | Inr x \<Rightarrow>
          if \<not> is_file_node x \<or> is_link_node x \<or> node_len x > MAX_RECORD_BYTES then None
          else (case fs_read f p of
            Inl _ \<Rightarrow> None
          | Inr bytes \<Rightarrow> (case sh_parse_record h bytes of
              None \<Rightarrow> None
            | Some r \<Rightarrow> if pr_sequence r = n \<and> is_ok (validate_record (sh_intent h) r proposal_id workspace_hash) then Some r else None))))"

definition newest_first :: "(nat \<times> path) list \<Rightarrow> (nat \<times> path) list" where
  "newest_first cs = rev (sort_key fst (rev cs))"

definition load_latest_valid_record :: "store_host \<Rightarrow> path \<Rightarrow> string \<Rightarrow> string \<Rightarrow> fs \<Rightarrow> (tool_error, proposal_record) res" where
  "load_latest_valid_record h records proposal_id workspace_hash f =
    try_then (map_err IoCause (read_dir f records)) (\<lambda>names.
    let candidates = record_candidates records names in
    try_then (ensure (length candidates \<le> MAX_RECORD_GENERATIONS) (Message ''proposal record generation limit exceeded'')) (\<lambda>_.
    ok_or (Message ''proposal has no valid published record generation'')
      (case List.map_filter (candidate_record h proposal_id workspace_hash f) (newest_first candidates) of [] \<Rightarrow> None | r # _ \<Rightarrow> Some r)))"

section \<open>Operations\<close>

definition first_transitions :: "nat \<Rightarrow> proposal_transition list" where
  "first_transitions now =
    [\<lparr>pn_sequence = 0, pn_state = PsGenerated, pn_recorded_at_unix_ms = now, pn_reason = ''structured edit plan generated''\<rparr>,
     \<lparr>pn_sequence = 1, pn_state = PsValidated, pn_recorded_at_unix_ms = now,
       pn_reason = ''untrusted plan passed strict runtime validation''\<rparr>]"

definition new_record :: "string \<Rightarrow> validated_edit_plan \<Rightarrow> intent_binding option \<Rightarrow> nat \<Rightarrow> proposal_record" where
  "new_record workspace_hash v intent now = \<lparr>pr_schema_version = PROPOSAL_STORE_SCHEMA_VERSION, pr_proposal_id = ep_plan_id (vp_plan v),
     pr_workspace_id = ep_workspace_id (vp_plan v), pr_workspace_root_hash = workspace_hash, pr_sequence = 0, pr_state = PsValidated,
     pr_created_at_unix_ms = now, pr_updated_at_unix_ms = now, pr_expires_at_unix_ms = ep_expires_at_unix_ms (vp_plan v),
     pr_transaction_report_expires_at_unix_ms = sat_add now (sat_mul DEFAULT_TRANSACTION_REPORT_TTL_SECONDS 1000),
     pr_intent = intent, pr_plan = vp_plan v, pr_files = vp_files v, pr_transitions = first_transitions now, pr_policy = [],
     pr_verification = None, pr_verified_diff = None, pr_apply = None, pr_rollback = None\<rparr>"

definition create_record :: "store_host \<Rightarrow> proposal_store \<Rightarrow> validated_edit_plan \<Rightarrow> intent_binding option \<Rightarrow> proposal_record edit" where
  "create_record h st v intent =
    act_then (store_lock h (ps_workspace_dir st)) (\<lambda>_.
    act_then unix_millis (\<lambda>now.
    let proposal_id = ep_plan_id (vp_plan v); proposal_dir = path_join (ps_workspace_dir st) proposal_id in
    act_then (act_res (store_validate_identifier proposal_id ''proposal ID'')) (\<lambda>_.
    act_then (act_try (e_alter (\<lambda>m f. map_err IoCause (create_dir f proposal_dir m))) (\<lambda>r. case r of
        Inr _ \<Rightarrow> act_return ()
      | Inl e \<Rightarrow> act_fail (if e = IoCause AlreadyExists then Message (''proposal already exists: '' @ proposal_id)
          else Context ''failed to create proposal directory'' e))) (\<lambda>_.
    act_then (e_see (\<lambda>f. map_err IoCause (canonicalize f proposal_dir))) (\<lambda>proposal_dir.
    act_then (act_if (parent_is proposal_dir (ps_workspace_dir st)) (Message ''proposal directory escaped its workspace namespace'')) (\<lambda>_.
    act_then (ensure_child_directory proposal_dir RECORDS_DIRECTORY) (\<lambda>records.
    let r = new_record (ps_workspace_hash st) v intent now in
    act_then (publish_record h records r) (\<lambda>_.
    act_return r))))))))"

definition store_create :: "store_host \<Rightarrow> proposal_store \<Rightarrow> validated_edit_plan \<Rightarrow> proposal_record edit" where
  "store_create h st v = create_record h st v None"

definition create_with_intent ::
  "store_host \<Rightarrow> proposal_store \<Rightarrow> validated_edit_plan \<Rightarrow> validated_edit_intent \<Rightarrow> proposal_record edit" where
  "create_with_intent h st v i =
    act_then (act_res (map_err intent_tool_error (validate_edit_plan_against_intent (sh_intent h) v i))) (\<lambda>_.
    act_then (act_res (map_err intent_tool_error (from_validated (sh_intent h) i))) (\<lambda>binding.
    act_then (act_res (map_err intent_tool_error (binding_validate (sh_intent h) binding))) (\<lambda>_.
    create_record h st v (Some binding))))"

definition load_in :: "store_host \<Rightarrow> proposal_store \<Rightarrow> string \<Rightarrow> fs \<Rightarrow> (tool_error, path \<times> proposal_record) res" where
  "load_in h st proposal_id f =
    try_then (recognized_proposal_dir (ps_workspace_dir st) proposal_id f) (\<lambda>proposal_dir.
    try_then (recognized_records_dir proposal_dir f) (\<lambda>records.
    try_then (load_latest_valid_record h records proposal_id (ps_workspace_hash st) f) (\<lambda>r.
    Inr (records, r))))"

definition store_load_in :: "store_host \<Rightarrow> proposal_store \<Rightarrow> string \<Rightarrow> fs \<Rightarrow> (tool_error, proposal_record) res" where
  "store_load_in h st proposal_id f =
    try_then (store_validate_identifier proposal_id ''proposal ID'') (\<lambda>_.
    try_then (load_in h st proposal_id f) (\<lambda>(_, r).
    try_then (validate_record (sh_intent h) r proposal_id (ps_workspace_hash st)) (\<lambda>_.
    Inr r)))"

definition store_load :: "store_host \<Rightarrow> proposal_store \<Rightarrow> string \<Rightarrow> proposal_record edit" where
  "store_load h st proposal_id = e_see (store_load_in h st proposal_id)"

definition loadable :: "store_host \<Rightarrow> proposal_store \<Rightarrow> fs \<Rightarrow> string \<Rightarrow> proposal_record option" where
  "loadable h st f name = (case Option.bind (utf8_str name) (\<lambda>s.
      if is_ok (store_validate_identifier s ''proposal ID'') then Some (store_load_in h st s f) else None) of
     Some (Inr r) \<Rightarrow> Some r | _ \<Rightarrow> None)"

text \<open>The newest record, of two with the same time the one with the larger identifier.\<close>

definition store_latest :: "store_host \<Rightarrow> proposal_store \<Rightarrow> proposal_record option edit" where
  "store_latest h st = e_see (\<lambda>f.
    try_then (map_err IoCause (read_dir f (ps_workspace_dir st))) (\<lambda>names.
    let candidates = List.map_filter (loadable h st f) (filter (\<lambda>n. n \<noteq> STORE_LOCK_FILE) names) in
    Inr (case rev (sort_key (\<lambda>r. (pr_updated_at_unix_ms r, pr_proposal_id r)) (rev candidates)) of [] \<Rightarrow> None | r # _ \<Rightarrow> Some r)))"

definition find_by_transaction_id :: "store_host \<Rightarrow> proposal_store \<Rightarrow> string \<Rightarrow> proposal_record option edit" where
  "find_by_transaction_id h st transaction_id = e_see (\<lambda>f.
    try_then (store_validate_identifier transaction_id ''transaction ID'') (\<lambda>_.
    try_then (map_err IoCause (read_dir f (ps_workspace_dir st))) (\<lambda>names.
    let matches = filter (\<lambda>r. case pr_apply r of None \<Rightarrow> False | Some a \<Rightarrow> app_transaction_id a = transaction_id)
          (List.map_filter (loadable h st f) names) in
    try_then (ensure (length matches \<le> 1) (Message ''transaction ID is associated with multiple proposal records'')) (\<lambda>_.
    Inr (case rev (sort_key pr_updated_at_unix_ms (rev matches)) of [] \<Rightarrow> None | r # _ \<Rightarrow> Some r)))))"

text \<open>
  An update: the change of the newest valid record may fail or read the clock; the changed record is checked and published
  as the next generation.
\<close>

definition store_update ::
  "store_host \<Rightarrow> proposal_store \<Rightarrow> string \<Rightarrow> (proposal_record \<Rightarrow> proposal_record edit) \<Rightarrow> proposal_record edit" where
  "store_update h st proposal_id alteration =
    act_then (act_res (store_validate_identifier proposal_id ''proposal ID'')) (\<lambda>_.
    act_then (store_lock h (ps_workspace_dir st)) (\<lambda>_.
    act_then (e_see (load_in h st proposal_id)) (\<lambda>(records, r).
    act_then (alteration r) (\<lambda>r.
    act_then (act_if (pr_sequence r + 1 \<le> max_u32) (Message ''proposal sequence exhausted'')) (\<lambda>_.
    act_then unix_millis (\<lambda>now.
    let r' = r\<lparr>pr_sequence := pr_sequence r + 1, pr_updated_at_unix_ms := now\<rparr> in
    act_then (act_res (validate_record (sh_intent h) r' proposal_id (ps_workspace_hash st))) (\<lambda>_.
    act_then (publish_record h records r') (\<lambda>_.
    act_return r'))))))))"

definition state_text :: "proposal_state \<Rightarrow> string" where
  "state_text s = (case s of PsGenerated \<Rightarrow> ''Generated'' | PsValidated \<Rightarrow> ''Validated'' | PsWorktreePrepared \<Rightarrow> ''WorktreePrepared''
     | PsWorktreeApplied \<Rightarrow> ''WorktreeApplied'' | PsBuildRunning \<Rightarrow> ''BuildRunning'' | PsVerified \<Rightarrow> ''Verified''
     | PsVerificationFailed \<Rightarrow> ''VerificationFailed'' | PsApprovalPending \<Rightarrow> ''ApprovalPending'' | PsApplying \<Rightarrow> ''Applying''
     | PsApplied \<Rightarrow> ''Applied'' | PsRollbackAvailable \<Rightarrow> ''RollbackAvailable'' | PsRollingBack \<Rightarrow> ''RollingBack''
     | PsRolledBack \<Rightarrow> ''RolledBack'' | PsDiscarded \<Rightarrow> ''Discarded'' | PsExpired \<Rightarrow> ''Expired'' | PsFailed \<Rightarrow> ''Failed'')"

definition change_state :: "proposal_state \<Rightarrow> string \<Rightarrow> proposal_record \<Rightarrow> proposal_record edit" where
  "change_state next reason r =
    act_then (act_if (can_transition_to (pr_state r) next)
      (Message (''invalid proposal transition: '' @ state_text (pr_state r) @ '' -> '' @ state_text next))) (\<lambda>_.
    act_then unix_millis (\<lambda>now.
    act_return (r\<lparr>pr_state := next, pr_transitions := pr_transitions r
      @ [\<lparr>pn_sequence = min (length (pr_transitions r)) max_u32, pn_state = next, pn_recorded_at_unix_ms = now, pn_reason = reason\<rparr>]\<rparr>)))"

definition store_transition :: "store_host \<Rightarrow> proposal_store \<Rightarrow> string \<Rightarrow> proposal_state \<Rightarrow> string \<Rightarrow> proposal_record edit" where
  "store_transition h st proposal_id next reason =
    act_then (act_if (\<not> (str_trim reason = '''' \<or> length reason > 4 * 1024))
      (Message ''proposal transition reason is empty or too large'')) (\<lambda>_.
    store_update h st proposal_id (change_state next reason))"

definition record_policy :: "store_host \<Rightarrow> proposal_store \<Rightarrow> string \<Rightarrow> policy_decision_record list \<Rightarrow> proposal_record edit" where
  "record_policy h st proposal_id decisions = store_update h st proposal_id (\<lambda>r.
     let r' = r\<lparr>pr_policy := pr_policy r @ decisions\<rparr> in
     act_then (act_if (length (pr_policy r') \<le> 512) (Message ''proposal policy audit references exceed their bound'')) (\<lambda>_.
     act_return r'))"

definition record_verification ::
  "store_host \<Rightarrow> proposal_store \<Rightarrow> string \<Rightarrow> verification_report \<Rightarrow> verified_diff option \<Rightarrow> proposal_record edit" where
  "record_verification h st proposal_id report diff = store_update h st proposal_id (\<lambda>r.
     act_then (act_if (vr_proposal_id report = pr_proposal_id r) (Message ''verification report belongs to another proposal'')) (\<lambda>_.
     act_return (r\<lparr>pr_verification := Some report, pr_verified_diff := diff\<rparr>)))"

definition record_apply :: "store_host \<Rightarrow> proposal_store \<Rightarrow> string \<Rightarrow> apply_report \<Rightarrow> proposal_record edit" where
  "record_apply h st proposal_id report = store_update h st proposal_id (\<lambda>r.
     act_then (act_if (app_proposal_id report = pr_proposal_id r) (Message ''apply report belongs to another proposal'')) (\<lambda>_.
     act_return (r\<lparr>pr_apply := Some report\<rparr>)))"

definition record_rollback :: "store_host \<Rightarrow> proposal_store \<Rightarrow> string \<Rightarrow> rollback_report \<Rightarrow> proposal_record edit" where
  "record_rollback h st proposal_id report = store_update h st proposal_id (\<lambda>r.
     act_then (act_if (rbr_proposal_id report = pr_proposal_id r) (Message ''rollback report belongs to another proposal'')) (\<lambda>_.
     act_return (r\<lparr>pr_rollback := Some report\<rparr>)))"

definition store_discard :: "store_host \<Rightarrow> proposal_store \<Rightarrow> string \<Rightarrow> proposal_record edit" where
  "store_discard h st proposal_id = store_transition h st proposal_id PsDiscarded ''proposal discarded by explicit client command''"

definition expire_if_needed :: "store_host \<Rightarrow> proposal_store \<Rightarrow> string \<Rightarrow> nat \<Rightarrow> proposal_record edit" where
  "expire_if_needed h st proposal_id now =
    act_then (store_load h st proposal_id) (\<lambda>r.
    if proposal_expired r now \<and> pr_state r \<noteq> PsExpired then store_transition h st proposal_id PsExpired ''proposal TTL elapsed''
    else act_return r)"

end
