(* ===== verification/EditLife.thy ===== *)
theory EditLife
  imports EditStore
begin

text \<open>
  The life of a proposal: what the table of transitions implies for a history, and what the checks of a stored record say
  about it.
\<close>

section \<open>Histories\<close>

abbreviation legal_history :: "proposal_state list \<Rightarrow> bool" where
  "legal_history ss \<equiv> successively can_transition_to ss"

text \<open>
  The states every history passes on its way to a state: nothing is applied that was not verified, nothing verified that
  was not applied and built in a worktree.
\<close>

definition verified_road :: "proposal_state list" where
  "verified_road = [PsGenerated, PsValidated, PsWorktreePrepared, PsWorktreeApplied, PsBuildRunning, PsVerified]"

definition road_to :: "proposal_state \<Rightarrow> proposal_state list" where
  "road_to s = (case s of
      PsGenerated \<Rightarrow> take 1 verified_road
    | PsValidated \<Rightarrow> take 2 verified_road
    | PsWorktreePrepared \<Rightarrow> take 3 verified_road
    | PsWorktreeApplied \<Rightarrow> take 4 verified_road
    | PsBuildRunning \<Rightarrow> take 5 verified_road
    | PsVerified \<Rightarrow> verified_road
    | PsApprovalPending \<Rightarrow> verified_road @ [PsApprovalPending]
    | PsApplying \<Rightarrow> verified_road @ [PsApplying]
    | PsApplied \<Rightarrow> verified_road @ [PsApplying, PsApplied]
    | PsRollbackAvailable \<Rightarrow> verified_road @ [PsApplying, PsApplied, PsRollbackAvailable]
    | PsRollingBack \<Rightarrow> verified_road @ [PsApplying, PsApplied, PsRollingBack]
    | PsRolledBack \<Rightarrow> verified_road @ [PsApplying, PsApplied, PsRollingBack, PsRolledBack]
    | t \<Rightarrow> take 2 verified_road @ [t])"

lemma can_transition_road:
  assumes "can_transition_to s t"
  shows "t = s \<or> subseq (butlast (road_to t)) (road_to s)"
proof -
  have "\<forall>s \<in> set (map fst proposal_next). \<forall>t \<in> set (the (map_of proposal_next s)). subseq (butlast (road_to t)) (road_to s)"
    by code_simp
  then show ?thesis
    using assms map_of_SomeD [of proposal_next s] unfolding can_transition_to_def
    by (auto split: option.splits)
qed

lemma legal_history_road:
  assumes "legal_history (PsGenerated # ss)"
  shows "subseq (road_to (last (PsGenerated # ss))) (PsGenerated # ss)"
  using assms
proof (induction ss rule: rev_induct)
  case (snoc t ss)
  let ?h = "PsGenerated # ss"
  have legal: "legal_history ?h" "can_transition_to (last ?h) t"
    using snoc.prems successively_append_iff [of can_transition_to ?h "[t]"] by auto
  note road = snoc.IH [OF legal(1)]
  have t: "road_to t = butlast (road_to t) @ [t]"
    by (cases t) (simp_all add: road_to_def verified_road_def)
  have "subseq (road_to t) (?h @ [t])"
    using can_transition_road [OF legal(2)]
  proof
    assume "t = last ?h"
    then show ?thesis
      using subseq_order.order_trans [OF road, of "?h @ [t]"] by (metis prefixI prefix_imp_subseq)
  next
    assume "subseq (butlast (road_to t)) (road_to (last ?h))"
    then have "subseq (butlast (road_to t)) ?h"
      using road subseq_order.order_trans by blast
    then show ?thesis
      by (subst t) (rule list_emb_append_mono, simp_all)
  qed
  then show ?case
    by simp
qed (simp add: road_to_def verified_road_def)

lemma terminal_absorbs: "proposal_is_terminal s \<Longrightarrow> can_transition_to s t \<longleftrightarrow> t = s"
  by (cases s; cases t) (simp_all add: proposal_is_terminal_def can_transition_to_def proposal_next_def)

section \<open>The history of a record\<close>

abbreviation states_of :: "proposal_record \<Rightarrow> proposal_state list" where
  "states_of r \<equiv> map pn_state (pr_transitions r)"

definition history_ok :: "proposal_record \<Rightarrow> bool" where
  "history_ok r \<longleftrightarrow> pr_transitions r \<noteq> [] \<and> legal_history (states_of r) \<and> last (states_of r) = pr_state r
     \<and> map pn_sequence (pr_transitions r) = [0..<length (pr_transitions r)]"

lemma check_transitions_Inr:
  "check_transitions i prev ts = Inr () \<longleftrightarrow> map pn_sequence ts = [i..<i + length ts]
     \<and> legal_history ((case prev of None \<Rightarrow> [] | Some s \<Rightarrow> [s]) @ map pn_state ts)"
proof (induction ts arbitrary: i prev)
  case (Cons t ts)
  show ?case
    unfolding check_transitions.simps
    by (auto simp: res_simps Cons.IH upt_conv_Cons split: option.splits simp del: upt_Suc)
qed (auto split: option.splits)

lemma validate_record_history:
  assumes "validate_record h r p ws = Inr ()"
  shows "history_ok r" "pr_proposal_id r = p" "pr_workspace_root_hash r = ws" "ep_plan_id (pr_plan r) = p"
  using assms by (auto simp: validate_record_def record_consistent_def check_transitions_Inr history_ok_def res_simps last_map)

lemma change_state_history:
  assumes "change_state next reason r w = (Inr r', w')" "history_ok r"
  shows "can_transition_to (pr_state r) next" "states_of r' = states_of r @ [next]" "pr_state r' = next"
    "legal_history (states_of r')"
  using assms by (auto simp: change_state_def act_simps history_ok_def successively_append_iff)

end
