(* ===== verification/EditStoreSound.thy ===== *)
theory EditStoreSound
  imports EditLife RagSafety TxSafety PolicyWorktree
begin

text \<open>
  What the store of proposals guarantees: the directories of a proposal are where their names say, and what an operation
  publishes is what the next load returns.
\<close>

section \<open>Numbered names\<close>

lemma parse_digits: "foldl (\<lambda>n c. 10 * n + (of_char c - 48)) 0 (dec_of_nat n) = n"
proof (induction n rule: dec_of_nat.induct)
  case (1 n)
  have digit: "of_char (digit_char k) - 48 = k" if "k < 10" for k
    using that by (simp add: digit_char_def)
  show ?case
    using 1 digit [of n] digit [of "n mod 10"] by (subst dec_of_nat.simps) auto
qed

lemma parse_padded:
  assumes "n \<le> m"
  shows "parse_unsigned m (pad_zero k (dec_of_nat n)) = Some n"
proof -
  have zeros: "foldl (\<lambda>n c. 10 * n + (of_char c - 48)) 0 (replicate j (CHR ''0'')) = (0::nat)" for j
    by (induction j) simp_all
  have digits: "list_all is_ascii_digit (pad_zero k (dec_of_nat n))"
    using dec_of_nat_digits by (auto simp: pad_zero_def list_all_iff is_ascii_digit_def)
  moreover have "pad_zero k (dec_of_nat n) \<noteq> []"
    by (simp add: pad_zero_def)
  moreover from digits this have "\<not> starts_with (pad_zero k (dec_of_nat n)) ''+''"
    by (cases "pad_zero k (dec_of_nat n)") (auto simp: is_ascii_digit_def)
  moreover have "foldl (\<lambda>n c. 10 * n + (of_char c - 48)) 0 (pad_zero k (dec_of_nat n)) = n"
    by (simp add: pad_zero_def zeros parse_digits)
  ultimately show ?thesis
    using assms by (simp add: parse_unsigned_def Let_def)
qed

lemma parse_record_name: "n \<le> max_u32 \<Longrightarrow> parse_record_sequence (record_name n) = Some n"
proof -
  assume n: "n \<le> max_u32"
  have "strip_prefix_str (record_name n) ''record-'' = Some (pad_zero 10 (dec_of_nat n) @ ''.json'')"
    by (simp add: strip_prefix_str_def record_name_def)
  moreover have "strip_suffix_str (s @ ''.json'') ''.json'' = Some s" for s
    by (simp add: strip_suffix_str_def ends_with_def)
  ultimately show ?thesis
    using parse_padded [OF n, of 10] by (simp add: parse_record_sequence_def)
qed

section \<open>The directories of a proposal\<close>

lemma parent_is_abs_path:
  assumes "\<forall>n \<in> set q. valid_name n" "\<forall>n \<in> set d. valid_name n"
  shows "parent_is (abs_path q) (abs_path d) \<longleftrightarrow> q \<noteq> [] \<and> butlast q = d"
proof (cases q rule: rev_cases)
  case Nil
  have "path_parent (abs_path []) = None"
    by code_simp
  then show ?thesis
    using Nil by (simp add: parent_is_def)
next
  case (snoc l n)
  then show ?thesis
    using assms path_parent_abs_path [of l n] path_eq_abs_path [of l d] by (simp add: parent_is_def)
qed

lemma identifier_name:
  assumes "store_validate_identifier s name = Inr ()"
  shows "s \<noteq> ''''" "sep \<notin> set s" "\<not> is_absolute s" "valid_name s \<or> s = ''.'' \<or> s = ''..''"
proof -
  show s: "s \<noteq> ''''" "sep \<notin> set s"
    using assms by (auto simp: store_validate_identifier_def res_simps list_all_iff sep_def is_ascii_alphanumeric_def
        is_ascii_alphabetic_def is_ascii_lower_def is_ascii_upper_def is_ascii_digit_def)
  show "\<not> is_absolute s"
    using s by (auto simp: is_absolute_iff)
  show "valid_name s \<or> s = ''.'' \<or> s = ''..''"
    using s by (auto simp: valid_name_def junk_def)
qed

lemma open_dir_child:
  assumes "open_dir f d" "valid_name n" "lookup f (d @ [n]) = Inr x" "is_dir_node x"
  shows "open_dir f (d @ [n])"
  using assms by (cases x) (auto simp: open_dir_def lookup_Inr is_dir_at_iff le_Suc_eq)

lemma recognized_proposal_dir_Inr:
  assumes "wf_fs f" "open_dir f d" "store_validate_identifier i name = Inr ()" "recognized_proposal_dir (abs_path d) i f = Inr p"
  shows "valid_name i \<and> p = abs_path (d @ [i]) \<and> open_dir f (d @ [i])"
proof -
  note ident = identifier_name [OF assms(3)] and names = open_dirD(2) [OF assms(2)]
  obtain n where n: "symlink_metadata f (path_join (abs_path d) i) = Inr n" "real_dir n"
      "canonicalize f (path_join (abs_path d) i) = Inr p" "parent_is p (abs_path d)"
    using assms(4) unfolding recognized_proposal_dir_def Let_def io_context_def
    by (auto simp: res_simps)
  obtain q where q: "resolve f (path_join (abs_path d) i) True = Inr q" "p = abs_path q" "\<forall>n \<in> set q. valid_name n"
    using canonicalize_Inr [OF n(3) assms(1)] by metis
  have parent: "q \<noteq> []" "butlast q = d"
    using parent_is_abs_path [OF q(3) names] n(4) q(2) by auto
  have abs: "is_absolute (path_join (abs_path d) i)" "path_join (abs_path d) i \<noteq> []"
    using is_absolute_join [OF ident(3), of "abs_path d"] by (auto simp: is_absolute_iff abs_path_def)
  have "tokens i = [i]"
    using ident(2) by (simp add: tokens_def split_on_fresh)
  then have "tokens (path_join (abs_path d) i) = [] # d @ [i]"
    using tokens_path_join_abs_path [OF names ident(3)] by simp
  then have walk: "walk max_links f d [i] True = Inr q"
    using q(1) abs walk_open_dir [OF assms(1,2)] assms(1) by (simp add: resolve_def walk.simps wf_fs_def junk_def)
  have "valid_name i"
  proof (rule ccontr)
    assume "\<not> valid_name i"
    then have "i = ''.'' \<or> i = ''..''"
      using ident(4) by blast
    moreover have "walk max_links f d [''.''] True = Inr d" "walk max_links f d [''..''] True = Inr (butlast d)"
      using open_dirD(1) [OF assms(2)] by (simp_all add: walk.simps(1,2) junk_def)
    ultimately have "q = d \<or> q = butlast d"
      using walk by (metis Inr_inject)
    then have "length q \<le> length d"
      by auto
    moreover have "length q = Suc (length d)"
      using parent by (cases q rule: rev_cases) auto
    ultimately show False
      by simp
  qed
  moreover have join: "path_join (abs_path d) i = abs_path (d @ [i])"
    using names calculation by (simp add: path_join_abs_path)
  moreover have "symlink_metadata f (abs_path (d @ [i])) = lookup f (d @ [i])"
    using symlink_metadata_open [OF assms(1,2)] calculation by simp
  moreover have "open_dir f (d @ [i])"
    using open_dir_child [OF assms(2)] calculation n(1,2) by (auto simp: real_dir_def)
  moreover have "p = abs_path (d @ [i])"
    using canonicalize_open_dir [OF assms(1)] calculation n(3) by auto
  ultimately show ?thesis
    by simp
qed

lemma recognized_proposal_dir_open:
  assumes "wf_fs f" "open_dir f d" "valid_name i" "open_dir f (d @ [i])"
  shows "recognized_proposal_dir (abs_path d) i f = Inr (abs_path (d @ [i]))"
proof -
  note names = open_dirD(2) [OF assms(4)]
  obtain m where "lookup f (d @ [i]) = Inr (DirNode m)"
    using open_dirD(1,3) [OF assms(4)] by (auto simp: is_dir_at_iff lookup_Inr)
  then show ?thesis
    using assms names symlink_metadata_open [OF assms(1-3)] canonicalize_open_dir [OF assms(1,4)]
      parent_is_abs_path [of "d @ [i]" d]
    unfolding recognized_proposal_dir_def Let_def io_context_def
    by (auto simp: path_join_abs_path real_dir_def)
qed

lemma records_name [simp]: "valid_name RECORDS_DIRECTORY"
  by code_simp

lemma recognized_records_dir_Inr:
  assumes "wf_fs f" "open_dir f d" "recognized_records_dir (abs_path d) f = Inr p"
  shows "p = abs_path (d @ [RECORDS_DIRECTORY]) \<and> open_dir f (d @ [RECORDS_DIRECTORY])"
proof -
  have join: "path_join (abs_path d) RECORDS_DIRECTORY = abs_path (d @ [RECORDS_DIRECTORY])"
    using open_dirD(2) [OF assms(2)] by (simp add: path_join_abs_path)
  obtain n where n: "lookup f (d @ [RECORDS_DIRECTORY]) = Inr n" "real_dir n"
      "canonicalize f (abs_path (d @ [RECORDS_DIRECTORY])) = Inr p"
    using assms(3) unfolding recognized_records_dir_def Let_def join
    by (auto simp: res_simps symlink_metadata_open [OF assms(1,2)])
  have "open_dir f (d @ [RECORDS_DIRECTORY])"
    using open_dir_child [OF assms(2) _ n(1)] n(2) by (simp add: real_dir_def)
  then show ?thesis
    using canonicalize_open_dir [OF assms(1)] n(3) by auto
qed

lemma recognized_records_dir_open:
  assumes "wf_fs f" "open_dir f d" "open_dir f (d @ [RECORDS_DIRECTORY])"
  shows "recognized_records_dir (abs_path d) f = Inr (abs_path (d @ [RECORDS_DIRECTORY]))"
proof -
  obtain m where "lookup f (d @ [RECORDS_DIRECTORY]) = Inr (DirNode m)"
    using open_dirD(1,3) [OF assms(3)] by (auto simp: is_dir_at_iff lookup_Inr)
  then show ?thesis
    using assms open_dirD(2) [OF assms(3)] symlink_metadata_open [OF assms(1,2)] canonicalize_open_dir [OF assms(1,3)]
      parent_is_abs_path [of "d @ [RECORDS_DIRECTORY]" d]
    unfolding recognized_records_dir_def Let_def
    by (auto simp: path_join_abs_path real_dir_def)
qed

section \<open>The newest valid record\<close>

lemma set_newest_first [simp]: "set (newest_first cs) = set cs"
  by (simp add: newest_first_def)

lemma newest_first_sorted: "sorted_wrt (\<lambda>a b. fst b \<le> fst a) (newest_first cs)"
proof -
  have "sorted (map fst (sort_key fst (rev cs)))"
    by simp
  then show ?thesis
    unfolding newest_first_def sorted_wrt_rev sorted_map by simp
qed

lemma map_filter_first:
  fixes cs :: "(nat \<times> path) list"
  assumes "sorted_wrt (\<lambda>a b. fst b \<le> fst a) cs" "List.map_filter g cs = r # rs"
  obtains c where "c \<in> set cs" "g c = Some r" "\<forall>c' \<in> set cs. g c' \<noteq> None \<longrightarrow> fst c' \<le> fst c"
  using assms
proof (induction cs arbitrary: thesis)
  case (Cons c cs)
  show ?case
  proof (cases "g c")
    case None
    then show ?thesis
      using Cons.IH Cons.prems by (auto simp: List.map_filter_def)
  next
    case (Some x)
    then show ?thesis
      using Cons.prems(1) [of c] Cons.prems(2,3) by (auto simp: List.map_filter_def)
  qed
qed (simp add: List.map_filter_def)

lemma newest_valid:
  assumes "List.map_filter g (newest_first cs) = r # rs"
  obtains c where "c \<in> set cs" "g c = Some r" "\<forall>c' \<in> set cs. g c' \<noteq> None \<longrightarrow> fst c' \<le> fst c"
  using map_filter_first [OF newest_first_sorted assms] by auto

lemma newest_valid_unique:
  assumes "c \<in> set cs" "g c = Some r" "\<forall>c' \<in> set cs. g c' \<noteq> None \<longrightarrow> c' = c \<or> fst c' < fst c"
  shows "\<exists>rs. List.map_filter g (newest_first cs) = r # rs"
proof (cases "List.map_filter g (newest_first cs)")
  case Nil
  then show ?thesis
    using assms(1,2) by (auto simp: List.map_filter_def filter_empty_conv)
next
  case (Cons x xs)
  from newest_valid [OF this] obtain c' where c': "c' \<in> set cs" "g c' = Some x"
      "\<forall>c \<in> set cs. g c \<noteq> None \<longrightarrow> fst c \<le> fst c'"
    by metis
  then have "c' = c"
    using assms by (metis leD option.distinct(1))
  then show ?thesis
    using Cons c'(2) assms(2) by simp
qed

lemma candidate_record_Some:
  assumes "candidate_record h i ws f (n, p) = Some r"
  shows "pr_sequence r = n \<and> validate_record (sh_intent h) r i ws = Inr ()"
  using assms unfolding candidate_record_def
  by (auto simp: is_ok_def split: sum.splits option.splits if_splits)

lemma load_latest_Inr:
  assumes "load_latest_valid_record h records i ws f = Inr r"
  obtains names where "read_dir f records = Inr names" "length (record_candidates records names) \<le> MAX_RECORD_GENERATIONS"
    "validate_record (sh_intent h) r i ws = Inr ()"
    "\<forall>c \<in> set (record_candidates records names). candidate_record h i ws f c \<noteq> None \<longrightarrow> fst c \<le> pr_sequence r"
proof -
  obtain names where n: "read_dir f records = Inr names" "length (record_candidates records names) \<le> MAX_RECORD_GENERATIONS"
      "(case List.map_filter (candidate_record h i ws f) (newest_first (record_candidates records names)) of [] \<Rightarrow> None | r # _ \<Rightarrow> Some r) = Some r"
    using assms unfolding load_latest_valid_record_def Let_def by (auto simp: res_simps)
  then obtain rs where "List.map_filter (candidate_record h i ws f) (newest_first (record_candidates records names)) = r # rs"
    by (auto split: list.splits)
  from newest_valid [OF this] obtain c where c: "candidate_record h i ws f c = Some r"
      "\<forall>c' \<in> set (record_candidates records names). candidate_record h i ws f c' \<noteq> None \<longrightarrow> fst c' \<le> fst c"
    by metis
  then have "fst c = pr_sequence r" "validate_record (sh_intent h) r i ws = Inr ()"
    using candidate_record_Some by (metis prod.collapse)+
  then show thesis
    using that n c(2) by metis
qed

section \<open>Publishing a record\<close>

lemma no_sep_digits: "sep \<notin> set (pad_zero k (dec_of_nat n))" "sep \<notin> set (dec_of_nat n)"
  using dec_of_nat_digits [of sep n] by (auto simp: pad_zero_def sep_def is_ascii_digit_def)

lemma record_name_valid [simp]: "valid_name (record_name n)"
  using no_sep_digits by (auto simp: record_name_def valid_name_def junk_def sep_def)

definition temp_name :: "nat \<Rightarrow> nat \<Rightarrow> nat \<Rightarrow> string" where
  "temp_name n pid counter = ''.record-'' @ pad_zero 10 (dec_of_nat n) @ ''-'' @ dec_of_nat pid @ ''-'' @ dec_of_nat counter @ ''.tmp''"

lemma temp_name_valid [simp]: "valid_name (temp_name n pid counter)"
  using no_sep_digits by (auto simp: temp_name_def valid_name_def junk_def sep_def)

lemma temp_name_no_record: "parse_record_sequence (temp_name n pid counter) = None" "temp_name n pid counter \<noteq> record_name k"
  by (simp_all add: parse_record_sequence_def strip_prefix_str_def temp_name_def record_name_def)

definition published :: "fs \<Rightarrow> location \<Rightarrow> nat \<Rightarrow> string \<Rightarrow> fs \<Rightarrow> bool" where
  "published f d n bytes f' \<longleftrightarrow> wf_fs f' \<and> (\<forall>e. open_dir f e \<longrightarrow> open_dir f' e) \<and> fs_fault f' = fs_fault f
     \<and> (\<forall>e. is_dir_at f e \<longrightarrow> is_dir_at f' e)
     \<and> (\<exists>m. fs_nodes f' (d @ [record_name n]) = Some (FileNode m bytes))
     \<and> (\<exists>pid counter. fs_nodes f' (d @ [temp_name n pid counter]) = None
          \<and> (\<forall>l. l \<noteq> d @ [record_name n] \<longrightarrow> l \<noteq> d @ [temp_name n pid counter] \<longrightarrow> fs_nodes f' l = fs_nodes f l))"

lemma publish_record_Inr:
  assumes "wf_fs (e_fs w)" "open_dir (e_fs w) d" "publish_record h (abs_path d) r w = (Inr u, w')"
  obtains json where "sh_record_json h r = Inr json" "length json < MAX_RECORD_BYTES"
    "published (e_fs w) d (pr_sequence r) (json @ [newline]) (e_fs w')" "x_now_ns (e_tx w') = x_now_ns (e_tx w)"
proof -
  let ?n = "pr_sequence r" and ?f = "e_fs w"
  let ?tn = "temp_name ?n (x_pid (e_tx w)) (e_store_counter w)"
  have join: "path_join (abs_path d) k = abs_path (d @ [k])" if "valid_name k" for k
    using open_dirD(2) [OF assms(2)] that by (simp add: path_join_abs_path)
  obtain json f1 f2 where json: "sh_record_json h r = Inr json" "length json < MAX_RECORD_BYTES"
      and f1: "create_new ?f (abs_path (d @ [?tn])) (x_meta (e_tx w)) (json @ [newline]) = Inr f1"
      and f2: "rename_file f1 (abs_path (d @ [?tn])) (abs_path (d @ [record_name ?n])) = Inr f2"
      and w': "e_fs w' = f2" "x_now_ns (e_tx w') = x_now_ns (e_tx w)"
    using assms(3) unfolding publish_record_def Let_def temp_name_def [symmetric] join [OF record_name_valid] process_id_def next_store_counter_def
    by (auto simp: act_simps res_simps join)
  note c = create_new_open [OF assms(1,2) temp_name_valid f1]
  have d1: "open_dir f1 d"
    using c(4) assms(2) by blast
  note rn = rename_file_open [OF c(3) d1 d1 temp_name_valid record_name_valid f2]
  have ne: "d @ [?tn] \<noteq> d @ [record_name ?n]"
    using temp_name_no_record(2) by simp
  have "moves UNIV (\<lambda>_. {}) ?f f1" "moves UNIV (\<lambda>_. {}) f1 f2"
    using create_new_moves [OF f1 entry_at_open [OF assms(1,2) temp_name_valid]] c(2)
      rename_file_moves [OF f2 entry_at_open [OF c(3) d1 temp_name_valid] entry_at_open [OF c(3) d1 record_name_valid]] by auto
  then have dirs: "\<forall>e. is_dir_at ?f e \<longrightarrow> is_dir_at f2 e"
    by (auto simp: moves_def)
  have nodes1: "fs_nodes f1 l = fs_nodes ?f l" if "l \<noteq> d @ [?tn]" for l
    using that c(2) by simp
  have "published ?f d ?n (json @ [newline]) f2"
    unfolding published_def
  proof (intro conjI exI)
    show "fs_nodes f2 (d @ [record_name ?n]) = Some (FileNode (x_meta (e_tx w)) (json @ [newline]))"
      using rn(1) c(2) by auto
    show "fs_nodes f2 (d @ [?tn]) = None"
      using rn(3) ne by blast
    show "\<forall>l. l \<noteq> d @ [record_name ?n] \<longrightarrow> l \<noteq> d @ [?tn] \<longrightarrow> fs_nodes f2 l = fs_nodes ?f l"
      using rn(2) nodes1 by auto
    show "\<forall>e. is_dir_at ?f e \<longrightarrow> is_dir_at f2 e"
      by (fact dirs)
  qed (use rn c in auto)
  then show thesis
    using that json w' by simp
qed


section \<open>What is published is what is loaded\<close>

text \<open>A candidate is read from its own entry.\<close>

definition same_entry :: "fs \<Rightarrow> fs \<Rightarrow> location \<Rightarrow> bool" where
  "same_entry f f' k \<longleftrightarrow> fs_fault f' = fs_fault f \<and> fs_nodes f' k = fs_nodes f k"

lemma candidate_same:
  assumes "wf_fs f" "open_dir f d" "wf_fs f'" "open_dir f' d" "valid_name s" "same_entry f f' (d @ [s])"
  shows "candidate_record h i ws f' (k, abs_path (d @ [s])) = candidate_record h i ws f (k, abs_path (d @ [s]))"
proof -
  have f': "fs_fault f' = fs_fault f" "fs_nodes f' (d @ [s]) = fs_nodes f (d @ [s])"
    using assms(6) by (auto simp: same_entry_def)
  then have lk: "lookup f' (d @ [s]) = lookup f (d @ [s])"
    unfolding lookup_def by (simp only:)
  note sm = symlink_metadata_open [OF assms(3-5)] symlink_metadata_open [OF assms(1,2,5)]
  show ?thesis
  proof (cases "lookup f (d @ [s])")
    case (Inr x)
    then have "fs_read f' (abs_path (d @ [s])) = fs_read f (abs_path (d @ [s]))" if "\<not> is_link_node x"
      using that metadata_open [OF assms(3-5)] metadata_open [OF assms(1,2,5)] f'(2) lk
      by (cases x) (auto simp: fs_read_def lookup_Inr is_link_node_def)
    then show ?thesis
      using Inr lk sm by (auto simp: candidate_record_def)
  qed (use sm lk in \<open>simp add: candidate_record_def\<close>)
qed

lemma candidate_published:
  assumes "published f d (pr_sequence r) (json @ [newline]) f'" "open_dir f' d"
    and "length json < MAX_RECORD_BYTES" "sh_parse_record h (json @ [newline]) = Some r"
    and "validate_record (sh_intent h) r i ws = Inr ()" "fs_fault f' (d @ [record_name (pr_sequence r)]) = None"
  shows "candidate_record h i ws f' (pr_sequence r, abs_path (d @ [record_name (pr_sequence r)])) = Some r"
proof -
  obtain m where f': "wf_fs f'" "fs_nodes f' (d @ [record_name (pr_sequence r)]) = Some (FileNode m (json @ [newline]))"
    using assms(1) by (auto simp: published_def)
  then have "symlink_metadata f' (abs_path (d @ [record_name (pr_sequence r)])) = Inr (FileNode m (json @ [newline]))"
    using symlink_metadata_open [OF f'(1) assms(2) record_name_valid] assms(6) by (simp add: lookup_Inr)
  moreover have "fs_read f' (abs_path (d @ [record_name (pr_sequence r)])) = Inr (json @ [newline])"
    using fs_read_open [OF f'(1) assms(2) record_name_valid f'(2) assms(6)] .
  ultimately show ?thesis
    using assms(3-5) by (simp add: candidate_record_def is_file_node_def is_link_node_def node_len_def is_ok_def)
qed

lemma read_dir_open:
  assumes "wf_fs f" "open_dir f d"
  shows "read_dir f (abs_path d) = Inr (names_in f d)"
proof -
  obtain m where "lookup f d = Inr (DirNode m)"
    using open_dirD(1,3) [OF assms(2)] by (auto simp: is_dir_at_iff lookup_Inr)
  then show ?thesis
    by (simp add: read_dir_def resolve_open_dir [OF assms] is_dir_node_def)
qed

lemma record_candidates_iff:
  assumes "open_dir f d" "wf_fs f"
  shows "(k, p) \<in> set (record_candidates (abs_path d) (names_in f d)) \<longleftrightarrow>
    (\<exists>s. fs_nodes f (d @ [s]) \<noteq> None \<and> valid_name s \<and> p = abs_path (d @ [s]) \<and> Option.bind (utf8_str s) parse_record_sequence = Some k)"
proof -
  have "valid_name s \<and> path_join (abs_path d) s = abs_path (d @ [s])" if "fs_nodes f (d @ [s]) \<noteq> None" for s
    using assms that open_dirD(2) [OF assms(1)] by (auto simp: wf_fs_def path_join_abs_path)
  then show ?thesis
    by (force simp: record_candidates_def List.map_filter_def names_in_iff bind_eq_Some_conv)
qed

lemma utf8_ascii: "list_all (\<lambda>c. of_char c < (128::nat)) s \<Longrightarrow> utf8_valid s"
proof (induction s)
  case (Cons c s)
  then show ?case
    by (cases s) (simp_all add: utf8_valid_def)
qed (simp add: utf8_valid_def)

lemma utf8_ascii_names: "utf8_str (record_name n) = Some (record_name n)"
proof -
  have "list_all (\<lambda>c. of_char c < (128::nat)) (record_name n)"
    using dec_of_nat_digits [of _ n] by (force simp: record_name_def pad_zero_def list_all_iff is_ascii_digit_def)
  then show ?thesis
    using utf8_ascii by (simp add: utf8_str_def)
qed

text \<open>A record is the newest one of a directory when every other candidate that is valid has a smaller number.\<close>

definition newest_in :: "store_host \<Rightarrow> location \<Rightarrow> string \<Rightarrow> string \<Rightarrow> fs \<Rightarrow> proposal_record \<Rightarrow> bool" where
  "newest_in h d i ws f r \<longleftrightarrow> (\<exists>s. fs_nodes f (d @ [s]) \<noteq> None \<and> valid_name s
     \<and> Option.bind (utf8_str s) parse_record_sequence = Some (pr_sequence r)
     \<and> candidate_record h i ws f (pr_sequence r, abs_path (d @ [s])) = Some r
     \<and> (\<forall>t k. fs_nodes f (d @ [t]) \<noteq> None \<longrightarrow> Option.bind (utf8_str t) parse_record_sequence = Some k \<longrightarrow>
          candidate_record h i ws f (k, abs_path (d @ [t])) \<noteq> None \<longrightarrow> t = s \<or> k < pr_sequence r))"

lemma newest_in_load:
  assumes "wf_fs f" "open_dir f d" "newest_in h d i ws f r"
  shows "load_latest_valid_record h (abs_path d) i ws f =
    (if length (record_candidates (abs_path d) (names_in f d)) \<le> MAX_RECORD_GENERATIONS then Inr r
     else Inl (Message ''proposal record generation limit exceeded''))"
proof -
  let ?cs = "record_candidates (abs_path d) (names_in f d)"
  obtain s where s: "fs_nodes f (d @ [s]) \<noteq> None" "valid_name s" "Option.bind (utf8_str s) parse_record_sequence = Some (pr_sequence r)"
      "candidate_record h i ws f (pr_sequence r, abs_path (d @ [s])) = Some r"
    and other: "\<And>t k. fs_nodes f (d @ [t]) \<noteq> None \<Longrightarrow> Option.bind (utf8_str t) parse_record_sequence = Some k \<Longrightarrow>
          candidate_record h i ws f (k, abs_path (d @ [t])) \<noteq> None \<Longrightarrow> t = s \<or> k < pr_sequence r"
    using assms(3) unfolding newest_in_def by metis
  let ?c = "(pr_sequence r, abs_path (d @ [s]))"
  have "?c \<in> set ?cs"
    unfolding record_candidates_iff [OF assms(2,1)] using s by (intro exI [of _ s]) simp
  moreover have "c' = ?c \<or> fst c' < fst ?c" if "c' \<in> set ?cs" "candidate_record h i ws f c' \<noteq> None" for c'
  proof -
    obtain k p where c': "c' = (k, p)"
      by fastforce
    have "\<exists>t. fs_nodes f (d @ [t]) \<noteq> None \<and> valid_name t \<and> p = abs_path (d @ [t])
        \<and> Option.bind (utf8_str t) parse_record_sequence = Some k"
      using that(1) unfolding c' record_candidates_iff [OF assms(2,1)] .
    then obtain t where t: "fs_nodes f (d @ [t]) \<noteq> None" "p = abs_path (d @ [t])" "Option.bind (utf8_str t) parse_record_sequence = Some k"
      by metis
    then show ?thesis
      using other [OF t(1,3)] that(2) c' s(3) by auto
  qed
  ultimately obtain rs where "List.map_filter (candidate_record h i ws f) (newest_first ?cs) = r # rs"
    using newest_valid_unique [of ?c ?cs "candidate_record h i ws f" r] s(4) by blast
  then show ?thesis
    by (simp add: load_latest_valid_record_def Let_def read_dir_open [OF assms(1,2)] ensure_def)
qed

lemma newest_in_same:
  assumes "wf_fs f" "open_dir f d" "wf_fs f'" "open_dir f' d" "\<forall>s. same_entry f f' (d @ [s])" "newest_in h d i ws f r"
  shows "newest_in h d i ws f' r"
proof -
  have "valid_name s" if "fs_nodes f (d @ [s]) \<noteq> None" for s
    using assms(1) that by (auto simp: wf_fs_def)
  then have same: "fs_nodes f' (d @ [s]) = fs_nodes f (d @ [s])"
    "fs_nodes f (d @ [s]) \<noteq> None \<Longrightarrow> candidate_record h i ws f' (k, abs_path (d @ [s])) = candidate_record h i ws f (k, abs_path (d @ [s]))" for s k
    using candidate_same [OF assms(1-4)] assms(5) by (auto simp: same_entry_def)
  show ?thesis
    using assms(6) same(2) unfolding newest_in_def same(1) by metis
qed

lemma publish_newest:
  assumes "wf_fs f" "open_dir f d" "published f d (pr_sequence r) (json @ [newline]) f'"
    and "load_latest_valid_record h (abs_path d) i ws f = Inr r0" "pr_sequence r0 < pr_sequence r" "pr_sequence r \<le> max_u32"
    and "length json < MAX_RECORD_BYTES" "sh_parse_record h (json @ [newline]) = Some r"
    and "validate_record (sh_intent h) r i ws = Inr ()" "fs_fault f (d @ [record_name (pr_sequence r)]) = None"
  shows "newest_in h d i ws f' r"
proof -
  let ?n = "pr_sequence r"
  have f': "wf_fs f'" "open_dir f' d" "fs_fault f' = fs_fault f"
    using assms(2,3) by (auto simp: published_def)
  have old: "\<forall>c \<in> set (record_candidates (abs_path d) (names_in f d)). candidate_record h i ws f c \<noteq> None \<longrightarrow> fst c \<le> pr_sequence r0"
    using load_latest_Inr [OF assms(4)] read_dir_open [OF assms(1,2)] by (metis Inr_inject)
  have "t = record_name ?n \<or> k < ?n" if t: "fs_nodes f' (d @ [t]) \<noteq> None" "Option.bind (utf8_str t) parse_record_sequence = Some k"
      "candidate_record h i ws f' (k, abs_path (d @ [t])) \<noteq> None" for t k
  proof (cases "t = record_name ?n")
    case False
    have "t \<noteq> temp_name ?n pid counter" for pid counter
      using t(2) temp_name_no_record(1) by (auto simp: bind_eq_Some_conv utf8_str_def split: if_splits)
    then have same: "same_entry f f' (d @ [t])"
      using False assms(3) by (auto simp: published_def same_entry_def)
    have v: "valid_name t"
      using t(1) f'(1) by (auto simp: wf_fs_def)
    have "(k, abs_path (d @ [t])) \<in> set (record_candidates (abs_path d) (names_in f d))"
      unfolding record_candidates_iff [OF assms(2,1)] using t(1,2) v same by (intro exI [of _ t]) (simp add: same_entry_def)
    then have "k \<le> pr_sequence r0"
      using old t(3) candidate_same [OF assms(1,2) f'(1,2) v same] by fastforce
    then show ?thesis
      using assms(5) by simp
  qed simp
  moreover have "candidate_record h i ws f' (?n, abs_path (d @ [record_name ?n])) = Some r"
    using candidate_published [OF assms(3) f'(2) assms(7-9)] assms(10) f'(3) by simp
  moreover have "Option.bind (utf8_str (record_name ?n)) parse_record_sequence = Some ?n"
    using utf8_ascii_names parse_record_name [OF assms(6)] by simp
  moreover have "fs_nodes f' (d @ [record_name ?n]) \<noteq> None"
    using assms(3) by (auto simp: published_def)
  ultimately show ?thesis
    unfolding newest_in_def by (intro exI [of _ "record_name ?n"]) simp
qed

section \<open>Updates\<close>

lemma act_Inr:
  "act_res x w = (Inr a, w') \<longleftrightarrow> x = Inr a \<and> w' = w"
  "see g t = (Inr b, t') \<longleftrightarrow> g (x_fs t) = Inr b \<and> t' = t"
  by (auto simp: act_res_def see_def)

lemma lock_name [simp]: "valid_name STORE_LOCK_FILE"
  by code_simp

lemma moves_fault: "moves S A f f' \<Longrightarrow> fs_fault f' = fs_fault f"
  by (simp add: moves_def)

lemma open_dir_moves: "moves S A f f' \<Longrightarrow> open_dir f d \<Longrightarrow> open_dir f' d"
  by (auto simp: moves_def open_dir_def)

lemma open_append_put:
  assumes "ready {d} f" "open_dir f d" "valid_name n"
    and "\<forall>x. symlink_metadata f (abs_path (d @ [n])) = Inr x \<longrightarrow> \<not> is_link_node x" "open_append f (abs_path (d @ [n])) m b = Inr f'"
  shows "\<exists>m' c. f' = fs_put (d @ [n]) (FileNode m' c) f"
proof (cases "resolve f (abs_path (d @ [n])) True")
  case (Inl e)
  then have "create_new f (abs_path (d @ [n])) m b = Inr f'"
    using assms(5) by (auto simp: open_append_def split: if_splits)
  then show ?thesis
    using create_new_open(2) [OF _ assms(2,3)] assms(1) unfolding ready_def by blast
next
  case (Inr k)
  then have "k = d @ [n]"
    using resolve_unlinked [OF assms(1,3,4)] by blast
  then show ?thesis
    using assms(5) Inr by (cases "fs_nodes f k"; cases "the (fs_nodes f k)") (auto simp: open_append_def res_simps lookup_Inr)
qed

lemma store_lock_Inr:
  assumes "ready {d} (e_fs w)" "open_dir (e_fs w) d" "store_lock h (abs_path d) w = (Inr u, w')"
  shows "moves {d @ [STORE_LOCK_FILE]} A (e_fs w) (e_fs w') \<and> (\<forall>k. k \<noteq> d @ [STORE_LOCK_FILE] \<longrightarrow> same_entry (e_fs w) (e_fs w') k)
    \<and> (\<exists>m c. e_fs w' = fs_put (d @ [STORE_LOCK_FILE]) (FileNode m c) (e_fs w)) \<and> x_now_ns (e_tx w') = x_now_ns (e_tx w)"
proof -
  have "\<forall>n \<in> set d. valid_name n"
    using assms(1) dir_names by (auto simp: ready_def)
  then have p: "path_join (abs_path d) STORE_LOCK_FILE = abs_path (d @ [STORE_LOCK_FILE])"
    by (simp add: path_join_abs_path)
  obtain f' where "(case symlink_metadata (e_fs w) (abs_path (d @ [STORE_LOCK_FILE])) of Inl _ \<Rightarrow> Inr ()
        | Inr n \<Rightarrow> ensure (\<not> (\<not> is_file_node n \<or> is_link_node n)) (Message ''proposal store lock is not a regular file'')) = Inr ()"
      and f': "open_append (e_fs w) (abs_path (d @ [STORE_LOCK_FILE])) (x_meta (e_tx w)) [] = Inr f'" "e_fs w' = f'"
        "x_now_ns (e_tx w') = x_now_ns (e_tx w)"
    using assms(3) unfolding store_lock_def Let_def p by (auto simp: act_simps res_simps)
  then have x: "\<forall>x. symlink_metadata (e_fs w) (abs_path (d @ [STORE_LOCK_FILE])) = Inr x \<longrightarrow> \<not> is_link_node x"
    by (auto simp: ensure_def split: if_splits)
  then show ?thesis
    using open_append_moves [OF assms(1) lock_name x _ f'(1)] open_append_put [OF assms(1,2) lock_name x f'(1)] f'(2,3)
    by (auto simp: same_entry_def)
qed

text \<open>
  What an operation on a proposal needs of its surroundings: the directory of the store is there, entries are not hidden by
  faults, and a record reads back from its JSON text.
\<close>

definition store_at :: "store_host \<Rightarrow> proposal_store \<Rightarrow> location \<Rightarrow> fs \<Rightarrow> bool" where
  "store_at h st d f \<longleftrightarrow> ps_workspace_dir st = abs_path d \<and> ready {d} f \<and> open_dir f d
     \<and> (\<forall>k. prefix d k \<longrightarrow> fs_fault f k = None)
     \<and> (\<forall>r json. sh_record_json h r = Inr json \<longrightarrow> sh_parse_record h (json @ [newline]) = Some r)"

abbreviation records_of :: "location \<Rightarrow> string \<Rightarrow> location" where
  "records_of d i \<equiv> d @ [i, RECORDS_DIRECTORY]"

lemma store_at_moves: "store_at h st d f \<Longrightarrow> moves S A f f' \<Longrightarrow> store_at h st d f'"
  using open_dir_moves [of S A f f' d] ready_moves [of "{d}" f S A f'] by (simp add: store_at_def moves_fault)

lemma load_in_Inr:
  assumes "store_at h st d f" "store_validate_identifier i name = Inr ()" "load_in h st i f = Inr (records, r)"
  shows "valid_name i" "records = abs_path (records_of d i)" "open_dir f (d @ [i])" "open_dir f (records_of d i)"
    "load_latest_valid_record h (abs_path (records_of d i)) i (ps_workspace_hash st) f = Inr r"
proof -
  have f: "wf_fs f" "open_dir f d" "ps_workspace_dir st = abs_path d"
    using assms(1) by (auto simp: store_at_def ready_def)
  obtain pd where pd: "recognized_proposal_dir (abs_path d) i f = Inr pd" "recognized_records_dir pd f = Inr records"
      "load_latest_valid_record h records i (ps_workspace_hash st) f = Inr r"
    using assms(3) f(3) by (auto simp: load_in_def res_simps)
  have p: "valid_name i" "pd = abs_path (d @ [i])" "open_dir f (d @ [i])"
    using recognized_proposal_dir_Inr [OF f(1,2) assms(2) pd(1)] by auto
  have "records = abs_path (records_of d i)" "open_dir f (records_of d i)"
    using recognized_records_dir_Inr [OF f(1) p(3)] pd(2) p(2) by auto
  then show "valid_name i" "records = abs_path (records_of d i)" "open_dir f (d @ [i])" "open_dir f (records_of d i)"
    "load_latest_valid_record h (abs_path (records_of d i)) i (ps_workspace_hash st) f = Inr r"
    using p pd(3) by auto
qed

lemma load_in_open:
  assumes "store_at h st d f" "valid_name i" "open_dir f (d @ [i])" "open_dir f (records_of d i)"
  shows "load_in h st i f = try_then (load_latest_valid_record h (abs_path (records_of d i)) i (ps_workspace_hash st) f)
    (\<lambda>r. Inr (abs_path (records_of d i), r))"
proof -
  have f: "wf_fs f" "open_dir f d" "ps_workspace_dir st = abs_path d"
    using assms(1) by (auto simp: store_at_def ready_def)
  show ?thesis
    using recognized_proposal_dir_open [OF f(1,2) assms(2,3)] recognized_records_dir_open [OF f(1) assms(3)] assms(4) f(3)
    by (simp add: load_in_def)
qed


text \<open>
  The alterations an update is called with: they read the clock at most, and do not number the record.
\<close>

definition pure_alteration :: "(proposal_record \<Rightarrow> proposal_record edit) \<Rightarrow> bool" where
  "pure_alteration g \<longleftrightarrow> (\<forall>r w r' w'. g r w = (Inr r', w') \<longrightarrow> w' = w \<and> pr_sequence r' = pr_sequence r)"

lemma change_state_pure [simp]: "pure_alteration (change_state next reason)"
  by (auto simp: pure_alteration_def change_state_def act_simps)

text \<open>The newest record of a proposal, in a file system where the store has one.\<close>

definition stored :: "store_host \<Rightarrow> proposal_store \<Rightarrow> location \<Rightarrow> string \<Rightarrow> fs \<Rightarrow> proposal_record \<Rightarrow> bool" where
  "stored h st d i f r \<longleftrightarrow> valid_name i \<and> i \<noteq> STORE_LOCK_FILE \<and> open_dir f (d @ [i]) \<and> open_dir f (records_of d i)
     \<and> newest_in h (records_of d i) i (ps_workspace_hash st) f r"

lemma stored_load:
  assumes "store_at h st d f" "stored h st d i f r"
  shows "load_in h st i f =
    (if length (record_candidates (abs_path (records_of d i)) (names_in f (records_of d i))) \<le> MAX_RECORD_GENERATIONS
     then Inr (abs_path (records_of d i), r) else Inl (Message ''proposal record generation limit exceeded''))"
proof -
  have f: "wf_fs f"
    using assms(1) by (auto simp: store_at_def ready_def)
  have s: "valid_name i" "open_dir f (d @ [i])" "open_dir f (records_of d i)" "newest_in h (records_of d i) i (ps_workspace_hash st) f r"
    using assms(2) by (auto simp: stored_def)
  show ?thesis
    using load_in_open [OF assms(1) s(1-3)] newest_in_load [OF f s(3,4)] by simp
qed

text \<open>Whatever happens outside the directory of the proposal, its newest record stays the newest.\<close>

lemma stored_same:
  assumes "store_at h st d f" "moves S A f f'" "\<forall>k. prefix (d @ [i]) k \<longrightarrow> same_entry f f' k" "stored h st d i f r"
  shows "stored h st d i f' r"
proof -
  have f: "wf_fs f" "wf_fs f'"
    using assms(1,2) by (auto simp: store_at_def ready_def moves_def)
  have "open_dir f (records_of d i)"
    using assms(4) by (simp add: stored_def)
  note od = this open_dir_moves [OF assms(2) this]
  have "\<forall>s. same_entry f f' (records_of d i @ [s])"
    using assms(3) by (simp add: prefix_def)
  then show ?thesis
    using newest_in_same [OF f(1) od(1) f(2) od(2)] assms(4) open_dir_moves [OF assms(2)] by (auto simp: stored_def)
qed

lemma published_moves:
  assumes "published f d n bytes f'"
  shows "moves {k. strict_prefix d k} A f f'"
proof -
  obtain pid counter where "\<forall>l. l \<noteq> d @ [record_name n] \<longrightarrow> l \<noteq> d @ [temp_name n pid counter] \<longrightarrow> fs_nodes f' l = fs_nodes f l"
    using assms unfolding published_def by metis
  then have "fs_nodes f' l = fs_nodes f l" if "\<not> strict_prefix d l" for l
    using that by (metis prefixI prefix_order.le_neq_trans self_append_conv list.distinct(1))
  then show ?thesis
    using assms by (auto simp: moves_def published_def)
qed

lemma store_update_Inr:
  assumes "store_at h st d (e_fs w)" "pure_alteration g" "store_update h st i g w = (Inr r', w')"
  obtains w1 r0 r1 where "load_in h st i (e_fs w1) = Inr (abs_path (records_of d i), r0)"
    "\<forall>k. k \<noteq> d @ [STORE_LOCK_FILE] \<longrightarrow> same_entry (e_fs w) (e_fs w1) k" "moves {d @ [STORE_LOCK_FILE]} A (e_fs w) (e_fs w1)"
    "store_lock h (abs_path d) w = (Inr (), w1)" "x_now_ns (e_tx w1) = x_now_ns (e_tx w)" "g r0 w1 = (Inr r1, w1)"
    "r' = r1\<lparr>pr_sequence := pr_sequence r0 + 1, pr_updated_at_unix_ms := min (nat (x_now_ns (e_tx w)) div 1000000) u64_max\<rparr>"
    "validate_record (sh_intent h) r' i (ps_workspace_hash st) = Inr ()"
    "stored h st d i (e_fs w') r'" "store_at h st d (e_fs w')"
    "moves {k. strict_prefix d k} A (e_fs w) (e_fs w')" "x_now_ns (e_tx w') = x_now_ns (e_tx w)"
proof -
  have st: "ready {d} (e_fs w)" "open_dir (e_fs w) d" "ps_workspace_dir st = abs_path d"
    using assms(1) by (auto simp: store_at_def)
  obtain w1 w2 records r0 r1 where ident: "store_validate_identifier i ''proposal ID'' = Inr ()"
      and lock: "store_lock h (abs_path d) w = (Inr (), w1)" and ld: "load_in h st i (e_fs w1) = Inr (records, r0)"
      and alt: "g r0 w1 = (Inr r1, w2)" and seq: "pr_sequence r1 + 1 \<le> max_u32"
      and r': "r' = r1\<lparr>pr_sequence := pr_sequence r1 + 1, pr_updated_at_unix_ms := min (nat (x_now_ns (e_tx w2)) div 1000000) u64_max\<rparr>"
      and valid: "validate_record (sh_intent h) r' i (ps_workspace_hash st) = Inr ()"
      and pub: "publish_record h records r' w2 = (Inr (), w')"
    using assms(3) unfolding store_update_def Let_def st(3) by (auto simp: act_then_Inr act_Inr edit_act_simps act_basic_simps(1-3) split_def)
  have pure: "w2 = w1" "pr_sequence r1 = pr_sequence r0"
    using assms(2) alt by (auto simp: pure_alteration_def)
  note lk = store_lock_Inr [OF st(1,2) lock]
  have s1: "store_at h st d (e_fs w1)"
    using store_at_moves [OF assms(1)] lk by blast
  note l = load_in_Inr [OF s1 ident ld]
  have wf1: "wf_fs (e_fs w1)"
    using s1 by (simp add: store_at_def ready_def)
  obtain json where json: "sh_record_json h r' = Inr json" "length json < MAX_RECORD_BYTES"
      "published (e_fs w1) (records_of d i) (pr_sequence r') (json @ [newline]) (e_fs w')" "x_now_ns (e_tx w') = x_now_ns (e_tx w1)"
    using publish_record_Inr [OF wf1 l(4)] pub l(2) pure(1) by metis
  have mv: "moves {k. strict_prefix d k} A (e_fs w1) (e_fs w')"
    by (rule moves_mono [OF published_moves [OF json(3), of A]]) (auto simp: strict_prefix_def prefix_def)
  have "newest_in h (records_of d i) i (ps_workspace_hash st) (e_fs w') r'"
    using publish_newest [OF wf1 l(4) json(3) l(5) _ _ json(2) _ valid] s1 json(1) r' pure(2) seq
    by (auto simp: store_at_def prefix_def)
  moreover have "i \<noteq> STORE_LOCK_FILE"
    using l(3) conjunct1 [OF conjunct2 [OF conjunct2 [OF lk]]] by (auto simp: open_dir_def is_dir_at_def)
  ultimately have "stored h st d i (e_fs w') r'"
    using l(1,3,4) open_dir_moves [OF mv] by (simp add: stored_def)
  moreover have "moves {k. strict_prefix d k} A (e_fs w) (e_fs w')"
    by (rule moves_trans [OF moves_mono [of "{d @ [STORE_LOCK_FILE]}" A] mv]) (use lk in \<open>auto simp: strict_prefix_def\<close>)
  ultimately show thesis
    using that [of w1 r0 r1] ld l(2) lock lk alt pure r' valid store_at_moves [OF s1 mv] json(4) by simp
qed


text \<open>An update acts on the record the store holds.\<close>

lemma store_update_stored:
  assumes "store_at h st d (e_fs w)" "stored h st d i (e_fs w) r" "pure_alteration g" "store_update h st i g w = (Inr r', w')"
  obtains w1 r1 where "x_now_ns (e_tx w1) = x_now_ns (e_tx w)" "g r w1 = (Inr r1, w1)"
    "r' = r1\<lparr>pr_sequence := pr_sequence r + 1, pr_updated_at_unix_ms := min (nat (x_now_ns (e_tx w)) div 1000000) u64_max\<rparr>"
    "validate_record (sh_intent h) r' i (ps_workspace_hash st) = Inr ()"
    "stored h st d i (e_fs w') r'" "store_at h st d (e_fs w')" "moves {k. strict_prefix d k} A (e_fs w) (e_fs w')"
    "x_now_ns (e_tx w') = x_now_ns (e_tx w)"
  using assms(1,3,4)
proof (cases rule: store_update_Inr [where A = A])
  case (1 w1 r0 r1)
  have "same_entry (e_fs w) (e_fs w1) k" if "prefix (d @ [i]) k" for k
    using that 1(2) assms(2) by (auto simp: stored_def prefix_def)
  then have "stored h st d i (e_fs w1) r"
    using stored_same [OF assms(1) 1(3)] assms(2) by blast
  then have "r0 = r"
    using stored_load [OF store_at_moves [OF assms(1) 1(3)]] 1(1) by (auto split: if_splits)
  then show thesis
    using that 1 by metis
qed

lemma store_transition_update:
  "store_transition h st i next reason w = (Inr r, w') \<longleftrightarrow>
    str_trim reason \<noteq> '''' \<and> length reason \<le> 4 * 1024 \<and> store_update h st i (change_state next reason) w = (Inr r, w')"
  by (auto simp: store_transition_def act_simps)

lemma record_update_simps [simp]:
  "states_of (r\<lparr>pr_sequence := n, pr_updated_at_unix_ms := t\<rparr>) = states_of r"
  "pr_state (r\<lparr>pr_sequence := n, pr_updated_at_unix_ms := t\<rparr>) = pr_state r"
  by simp_all

lemma load_in_valid:
  assumes "load_in h st i f = Inr (records, r)"
  shows "validate_record (sh_intent h) r i (ps_workspace_hash st) = Inr ()"
  using assms load_latest_Inr [of h records i "ps_workspace_hash st" f r] by (auto simp: load_in_def res_simps)

lemma stored_store_load:
  assumes "store_at h st d (e_fs w)" "stored h st d i (e_fs w) r" "store_validate_identifier i ''proposal ID'' = Inr ()"
  shows "store_load h st i w =
    (if length (record_candidates (abs_path (records_of d i)) (names_in (e_fs w) (records_of d i))) \<le> MAX_RECORD_GENERATIONS
     then Inr r else Inl (Message ''proposal record generation limit exceeded''), w)"
proof (cases "length (record_candidates (abs_path (records_of d i)) (names_in (e_fs w) (records_of d i))) \<le> MAX_RECORD_GENERATIONS")
  case True
  then have "load_in h st i (e_fs w) = Inr (abs_path (records_of d i), r)"
    using stored_load [OF assms(1,2)] by simp
  then show ?thesis
    using True assms(3) load_in_valid by (simp add: store_load_def store_load_in_def in_tx_def see_def)
next
  case False
  then show ?thesis
    using stored_load [OF assms(1,2)] assms(3) by (simp add: store_load_def store_load_in_def in_tx_def see_def)
qed

lemma update_identifier: "store_update h st i g w = (Inr r, w') \<Longrightarrow> store_validate_identifier i ''proposal ID'' = Inr ()"
  by (auto simp: store_update_def act_then_Inr act_Inr)


text \<open>The lock file lies outside the directories of the proposals: taking the lock does not change what is loaded.\<close>

lemma names_in_put: "butlast k \<noteq> d \<Longrightarrow> names_in (fs_put k x f) d = names_in f d"
  by (auto simp: names_in_def fs_put_def update_keys)

lemma load_latest_same:
  assumes "wf_fs f" "open_dir f d" "wf_fs f'" "open_dir f' d" "\<forall>s. same_entry f f' (d @ [s])" "names_in f' d = names_in f d"
  shows "load_latest_valid_record h (abs_path d) i ws f' = load_latest_valid_record h (abs_path d) i ws f"
proof -
  let ?cs = "record_candidates (abs_path d) (names_in f d)"
  have "candidate_record h i ws f' c = candidate_record h i ws f c" if "c \<in> set (newest_first ?cs)" for c
  proof -
    obtain k p where c: "c = (k, p)"
      by fastforce
    have "\<exists>s. valid_name s \<and> p = abs_path (d @ [s])"
      using that unfolding c set_newest_first record_candidates_iff [OF assms(2,1)] by blast
    then show ?thesis
      using candidate_same [OF assms(1-4)] assms(5) c by blast
  qed
  then have "List.map_filter (candidate_record h i ws f') (newest_first ?cs) = List.map_filter (candidate_record h i ws f) (newest_first ?cs)"
    by (auto simp: List.map_filter_def intro!: arg_cong [where f = "map _"] filter_cong map_cong)
  then show ?thesis
    by (simp add: load_latest_valid_record_def Let_def read_dir_open [OF assms(1,2)] read_dir_open [OF assms(3,4)] assms(6))
qed


lemma lock_load:
  assumes "store_at h st d (e_fs w)" "store_validate_identifier i name = Inr ()" "store_lock h (abs_path d) w = (Inr u, w1)"
    and "load_in h st i (e_fs w) = Inr (records, r)"
  shows "load_in h st i (e_fs w1) = Inr (records, r)"
proof -
  have st: "ready {d} (e_fs w)" "open_dir (e_fs w) d"
    using assms(1) by (auto simp: store_at_def)
  note lk = store_lock_Inr [OF st assms(3)] and l = load_in_Inr [OF assms(1,2,4)]
  have mv: "moves {d @ [STORE_LOCK_FILE]} (\<lambda>_. {}) (e_fs w) (e_fs w1)"
    using lk by blast
  note od = open_dir_moves [OF mv l(3)] open_dir_moves [OF mv l(4)]
  have wf: "wf_fs (e_fs w)" "wf_fs (e_fs w1)"
    using st(1) mv by (auto simp: ready_def moves_def)
  obtain m c where lock: "e_fs w1 = fs_put (d @ [STORE_LOCK_FILE]) (FileNode m c) (e_fs w)"
    using lk by blast
  have "i \<noteq> STORE_LOCK_FILE"
    using od(1) lock by (auto simp: open_dir_def is_dir_at_def)
  then have "load_latest_valid_record h (abs_path (records_of d i)) i (ps_workspace_hash st) (e_fs w1) = Inr r"
    using load_latest_same [OF wf(1) l(4) wf(2) od(2)] l(5) lk names_in_put [of "d @ [STORE_LOCK_FILE]" "records_of d i"] lock by auto
  then show ?thesis
    using load_in_open [OF store_at_moves [OF assms(1) mv] l(1) od] l(2) by simp
qed

lemma store_load_Inr:
  "store_load h st i w = (Inr r, w') \<longleftrightarrow> w' = w \<and> store_validate_identifier i ''proposal ID'' = Inr () \<and> (\<exists>records. load_in h st i (e_fs w) = Inr (records, r))"
  using load_in_valid by (auto simp: store_load_def store_load_in_def in_tx_def see_def res_simps split_def)

text \<open>The record an update acts on is the one a load returns.\<close>

lemma store_update_loaded:
  assumes "store_at h st d (e_fs w)" "store_load h st i w = (Inr r, w)" "pure_alteration g" "store_update h st i g w = (Inr r', w')"
  obtains w1 r1 where "x_now_ns (e_tx w1) = x_now_ns (e_tx w)" "g r w1 = (Inr r1, w1)"
    "r' = r1\<lparr>pr_sequence := pr_sequence r + 1, pr_updated_at_unix_ms := min (nat (x_now_ns (e_tx w)) div 1000000) u64_max\<rparr>"
    "validate_record (sh_intent h) r' i (ps_workspace_hash st) = Inr ()"
    "stored h st d i (e_fs w') r'" "store_at h st d (e_fs w')" "moves {k. strict_prefix d k} A (e_fs w) (e_fs w')"
  using assms(1,3,4)
proof (cases rule: store_update_Inr [where A = A])
  case (1 w1 r0 r1)
  have "r0 = r"
    using lock_load [OF assms(1) _ 1(4)] assms(2) 1(1) by (auto simp: store_load_Inr)
  then show thesis
    using that 1 by metis
qed


lemma store_load_history: "store_load h st i w = (Inr r, w') \<Longrightarrow> history_ok r"
  unfolding store_load_Inr by (blast intro: validate_record_history(1) load_in_valid)

text \<open>A transition the table does not have fails whatever else happens.\<close>

lemma transition_refused:
  assumes "store_at h st d (e_fs w)" "store_load h st i w = (Inr r, w)" "\<not> can_transition_to (pr_state r) next"
  shows "isl (fst (store_transition h st i next reason w))"
proof (rule ccontr)
  assume "\<not> ?thesis"
  then obtain r' w' where "store_transition h st i next reason w = (Inr r', w')"
    by (cases "store_transition h st i next reason w"; cases "fst (store_transition h st i next reason w)") auto
  then have "store_update h st i (change_state next reason) w = (Inr r', w')"
    by (simp add: store_transition_update)
  from assms(1,2) change_state_pure this show False
    by (cases rule: store_update_loaded [where A = "\<lambda>_. {}"]) (use assms(3) in \<open>auto simp: change_state_def act_simps\<close>)
qed

end
