(* ===== verification/StoreScenario.thy ===== *)
theory StoreScenario
  imports EditScenario EditStoreSound
begin

text \<open>
  A store of proposals in \<open>/s\<close> that holds one generation of the proposal of the edit scenario, and a host whose JSON knows the
  records of the scenario.
\<close>

definition store_demo_fs :: fs where
  "store_demo_fs = \<lparr>fs_tree = [demo_dir [], demo_dir [''w''], demo_file [''w'', ''a.md''] ''one two'', demo_dir [''s''],
       demo_dir [''s'', ''p''], demo_dir [''s'', ''p'', ''records''], demo_file [''s'', ''p'', ''records'', record_name 0] (''v'' @ [newline])],
     fs_cwd = [], fs_fault = (\<lambda>_. None), fs_wfault = (\<lambda>_. None), fs_sfault = (\<lambda>_. None)\<rparr>"

definition store_demo_world :: edit_world where
  "store_demo_world = \<lparr>e_tx = \<lparr>x_fs = store_demo_fs, x_now_ns = 0, x_instant_ns = 0, x_pid = 7, x_unique = 0, x_meta = plain_meta\<rparr>,
     e_store_counter = 0, e_policy_counter = 0, e_policy_draws = 0, e_policy_random = (\<lambda>_. None)\<rparr>"

definition store_demo :: proposal_store where
  "store_demo = \<lparr>ps_root = ''/'', ps_workspace_hash = edit_demo_hash, ps_workspace_dir = ''/s''\<rparr>"

definition store_demo_intent_host :: intent_host where
  "store_demo_intent_host = \<lparr>ih_blake3 = (\<lambda>_. edit_demo_hash), ih_intent_json = (\<lambda>_. Inr ''i''), ih_binding_json = (\<lambda>_. Inr ''b''),
     ih_parse_intent = (\<lambda>_. None)\<rparr>"

definition store_demo_record :: proposal_record where
  "store_demo_record = (new_record edit_demo_hash edit_demo_validated None 0)\<lparr>pr_transaction_report_expires_at_unix_ms := 5\<rparr>"

definition store_demo_discarded :: proposal_record where
  "store_demo_discarded = store_demo_record\<lparr>pr_sequence := 1, pr_state := PsDiscarded, pr_updated_at_unix_ms := 0,
     pr_transitions := pr_transitions store_demo_record
       @ [\<lparr>pn_sequence = 2, pn_state = PsDiscarded, pn_recorded_at_unix_ms = 0, pn_reason = ''why''\<rparr>]\<rparr>"

definition store_demo_host :: store_host where
  "store_demo_host = \<lparr>sh_lock = (\<lambda>_. [WouldBlock, LockTaken]),
     sh_record_json = (\<lambda>r. if r = store_demo_record then Inr ''v'' else if r = store_demo_discarded then Inr ''d'' else Inl ''unknown''),
     sh_parse_record = (\<lambda>s. if s = ''v'' @ [newline] then Some store_demo_record
       else if s = ''d'' @ [newline] then Some store_demo_discarded else None),
     sh_env = (\<lambda>_. None), sh_intent = store_demo_intent_host\<rparr>"

lemma store_demo_loads: "store_load_in store_demo_host store_demo ''p'' (e_fs store_demo_world) = Inr store_demo_record"
  by code_simp


definition store_demo_locked :: edit_world where
  "store_demo_locked = snd (store_lock store_demo_host ''/s'' store_demo_world)"

definition store_demo_changed :: edit_world where
  "store_demo_changed = snd (publish_record store_demo_host ''/s/p/records'' store_demo_discarded store_demo_locked)"

lemma store_demo_step1: "store_validate_identifier ''p'' ''proposal ID'' = Inr ()"
  by code_simp

lemma store_demo_step2: "fst (store_lock store_demo_host ''/s'' store_demo_world) = Inr ()"
  by code_simp

lemma store_demo_step3: "load_in store_demo_host store_demo ''p'' (e_fs store_demo_locked) = Inr (''/s/p/records'', store_demo_record)"
  by code_simp

lemma store_demo_step4: "fst (change_state PsDiscarded ''why'' store_demo_record store_demo_locked) = Inr (store_demo_discarded\<lparr>pr_sequence := 0\<rparr>)"
  by code_simp

lemma store_demo_step5: "x_now_ns (e_tx store_demo_locked) = 0"
  by code_simp

lemma store_demo_step6: "validate_record (sh_intent store_demo_host) store_demo_discarded ''p'' (ps_workspace_hash store_demo) = Inr ()"
  by code_simp

lemma store_demo_step7: "fst (publish_record store_demo_host ''/s/p/records'' store_demo_discarded store_demo_locked) = Inr ()"
  by code_simp

lemmas store_demo_steps = store_demo_step1 store_demo_step2 store_demo_step3 store_demo_step4 store_demo_step5 store_demo_step6 store_demo_step7

lemma store_demo_discards:
  "store_transition store_demo_host store_demo ''p'' PsDiscarded ''why'' store_demo_world = (Inr store_demo_discarded, store_demo_changed)"
proof -
  have change: "change_state PsDiscarded ''why'' store_demo_record store_demo_locked
      = (Inr (store_demo_discarded\<lparr>pr_sequence := 0\<rparr>), store_demo_locked)"
    using store_demo_steps(4) by (auto simp: change_state_def act_then_def act_if_def act_return_def unix_millis_def act_fail_def split: if_splits)
  have r: "store_demo_discarded\<lparr>pr_sequence := Suc 0, pr_updated_at_unix_ms := 0\<rparr> = store_demo_discarded"
    by (simp add: store_demo_discarded_def)
  have clock: "unix_millis store_demo_locked = (Inr 0, store_demo_locked)"
    by (simp add: unix_millis_def store_demo_steps(5))
  have lock: "store_lock store_demo_host (ps_workspace_dir store_demo) store_demo_world = (Inr (), store_demo_locked)"
    using store_demo_steps(2) by (simp add: store_demo_locked_def prod_eq_iff store_demo_def)
  have load: "e_see (load_in store_demo_host store_demo ''p'') store_demo_locked = (Inr (''/s/p/records'', store_demo_record), store_demo_locked)"
    using store_demo_steps(3) by (simp add: in_tx_def see_def)
  have pub: "publish_record store_demo_host ''/s/p/records'' store_demo_discarded store_demo_locked = (Inr (), store_demo_changed)"
    using store_demo_steps(7) by (simp add: store_demo_changed_def prod_eq_iff)
  have reason: "str_trim ''why'' \<noteq> '''' \<and> \<not> length ''why'' > 4 * 1024"
    by code_simp
  have "store_update store_demo_host store_demo ''p'' (change_state PsDiscarded ''why'') store_demo_world = (Inr store_demo_discarded, store_demo_changed)"
    unfolding store_update_def
    by (simp add: act_then_def act_res_def act_if_def act_return_def store_demo_steps(1,6) lock load change clock r pub max_u32_def)
  then show ?thesis
    using reason by (simp add: store_transition_def act_then_def act_if_def act_return_def)
qed

lemma store_demo_at: "store_at store_demo_host store_demo [''s''] (e_fs store_demo_world)"
proof -
  have "wf_fs store_demo_fs"
    by (rule wf_fs_by_entries; code_simp)
  moreover have "is_dir_at store_demo_fs [''s'']" "valid_name ''s''" "abs_path [''s''] = ''/s''"
    by code_simp+
  moreover have "honest_faults store_demo_fs" "\<forall>k. fs_fault store_demo_fs k = None"
    by (simp_all add: honest_faults_def store_demo_fs_def)
  moreover have "sh_parse_record store_demo_host (json @ [newline]) = Some r" if "sh_record_json store_demo_host r = Inr json" for r json
    using that by (auto simp: store_demo_host_def split: if_splits)
  ultimately show ?thesis
    by (simp add: store_at_def ready_def open_dir_def store_demo_def store_demo_world_def)
qed


lemma store_demo_changed_at: "store_at store_demo_host store_demo [''s''] (e_fs store_demo_changed)"
proof -
  have "store_update store_demo_host store_demo ''p'' (change_state PsDiscarded ''why'') store_demo_world = (Inr store_demo_discarded, store_demo_changed)"
    using store_demo_discards by (simp add: store_transition_update)
  from store_demo_at change_state_pure this show ?thesis
    by (rule store_update_Inr [where A = "\<lambda>_. {}"])
qed

lemma store_demo_reloads: "store_load_in store_demo_host store_demo ''p'' (e_fs store_demo_changed) = Inr store_demo_discarded"
  by code_simp


section \<open>An intent\<close>

definition store_demo_intent :: edit_intent where
  "store_demo_intent = \<lparr>ei_schema_version = EDIT_INTENT_SCHEMA_VERSION, ei_intent_id = ''n'', ei_request_id = ''r'', ei_workspace_id = ''w'',
     ei_workspace_root_hash = edit_demo_hash, ei_base_head = demo_head, ei_working_tree_digest = edit_demo_hash, ei_task = ''t'',
     ei_selection_mode = ResolvedContext,
     ei_targets = [ProspectiveFile \<lparr>yt_path = ''docs/b.md'', yt_extension = ''md'', yt_reference_ids = [], yt_provenance = UserRequestedCreation\<rparr>,
       ExistingFile \<lparr>xt_path = ''a.md'', xt_content_hash = edit_demo_hash, xt_reference_ids = [], xt_provenance = ContextManifest\<rparr>],
     ei_constraints = modify_and_create hard_maxima, ei_created_at_unix_ms = 0, ei_expires_at_unix_ms = 9\<rparr>"

definition store_demo_trusted :: edit_intent_expectations where
  "store_demo_trusted = \<lparr>ix_request_id = ''r'', ix_workspace_id = ''w'', ix_workspace_root_hash = edit_demo_hash, ix_base_head = demo_head,
     ix_working_tree_digest = edit_demo_hash, ix_now_unix_ms = 1, ix_limits = hard_maxima,
     ix_allowed_existing_targets = [\<lparr>ax_path = ''a.md'', ax_content_hash = edit_demo_hash, ax_reference_ids = []\<rparr>],
     ix_allowed_create_targets = [\<lparr>ay_path = ''docs/b.md'', ay_reference_ids = []\<rparr>]\<rparr>"

definition store_demo_validated :: validated_edit_intent where
  "store_demo_validated = \<lparr>vi_intent = canonicalize_intent store_demo_intent, vi_intent_hash = edit_demo_hash, vi_canonical_json = ''i''\<rparr>"

definition store_demo_binding :: intent_binding where
  "store_demo_binding = (case from_validated store_demo_intent_host store_demo_validated of Inr b \<Rightarrow> b)"

lemma store_demo_intent_runs:
  "validate_edit_intent store_demo_intent_host store_demo_intent store_demo_trusted = Inr store_demo_validated"
  by code_simp

lemma store_demo_binding_runs: "from_validated store_demo_intent_host store_demo_validated = Inr store_demo_binding"
  by code_simp

lemma store_demo_intent_allows: "validate_edit_plan_against_intent store_demo_intent_host edit_demo_validated store_demo_validated = Inr ()"
  by code_simp


section \<open>Creation\<close>

definition store_fresh_world :: edit_world where
  "store_fresh_world = store_demo_world\<lparr>e_tx := (e_tx store_demo_world)\<lparr>x_fs := store_demo_fs\<lparr>fs_tree := [demo_dir [], demo_dir [''s'']]\<rparr>\<rparr>\<rparr>"

definition store_fresh_host :: store_host where
  "store_fresh_host = store_demo_host\<lparr>sh_record_json := (\<lambda>_. Inr ''n'')\<rparr>"

lemma store_fresh_creates:
  "fst (create_with_intent store_fresh_host store_demo edit_demo_validated store_demo_validated store_fresh_world)
    = Inr (new_record edit_demo_hash edit_demo_validated (Some store_demo_binding) 0)"
  by code_simp

end
