(* ===== verification/EditIntentSound.thy ===== *)
theory EditIntentSound
  imports EditIntent EditSound
begin

text \<open>
  What the validation of intents guarantees: the checks as conditions on sets of targets, so that they do not depend on
  the order, the canonical form, and the agreement of an intent with its binding and with a plan.
\<close>

lemma try_each_units: "try_each f xs = Inr us \<Longrightarrow> list_all (\<lambda>x. f x = Inr ()) xs"
  by (induction xs arbitrary: us) (auto simp: res_simps)

lemma sort_sort [simp]: "sort (sort xs) = sort xs"
  by (simp add: sort_key_id_if_sorted)

lemma sort_key_Nil_iff [simp]: "sort_key f xs = [] \<longleftrightarrow> xs = []"
  by (metis length_0_conv length_sort)

section \<open>References, extensions and paths\<close>

definition portable :: "string \<Rightarrow> bool" where
  "portable p \<longleftrightarrow> (\<exists>q. intent_relative_path p = Inr q)"

lemma intent_relative_path_Inr [simp]: "intent_relative_path p = Inr q \<longleftrightarrow> portable p \<and> q = p"
proof -
  have "q = p" if "intent_relative_path p = Inr q" for q
    using that by (auto simp: intent_relative_path_def res_simps Let_def)
  then show ?thesis
    by (auto simp: portable_def)
qed

lemma check_references_Inr:
  "check_references seen rs = Inr () \<longleftrightarrow>
     (\<forall>r \<in> set rs. intent_validate_identifier ''reference_id'' r = Inr ()) \<and> distinct rs \<and> set rs \<inter> set seen = {}"
  by (induction rs arbitrary: seen) (auto simp: res_simps)

lemma validate_reference_inventory_Inr:
  "validate_reference_inventory rs = Inr s \<longleftrightarrow> length rs \<le> MAX_EDIT_INTENT_REFERENCES_PER_TARGET
     \<and> (\<forall>r \<in> set rs. intent_validate_identifier ''reference_id'' r = Inr ()) \<and> distinct rs \<and> s = sort rs"
  by (auto simp: validate_reference_inventory_def check_references_Inr res_simps)

lemma validate_reference_inventory_sort [simp]:
  "validate_reference_inventory (sort rs) = Inr s \<longleftrightarrow> validate_reference_inventory rs = Inr s"
  by (simp add: validate_reference_inventory_Inr)

definition extension_ok :: "string \<Rightarrow> bool" where
  "extension_ok e \<longleftrightarrow> e \<noteq> '''' \<and> e = to_ascii_lowercase e \<and> \<not> starts_with e ''.'' \<and> e \<in> set ALLOWED_EDIT_EXTENSIONS"

lemma check_extensions_Inr:
  "check_extensions seen es = Inr () \<longleftrightarrow> (\<forall>e \<in> set es. extension_ok e) \<and> distinct es \<and> set es \<inter> set seen = {}"
  by (induction es arbitrary: seen) (auto simp: extension_ok_def)

section \<open>Constraints\<close>

lemma limits_exceed_hard_maxima: "bounded_by_hard_maxima l \<Longrightarrow> \<not> limits_exceed l hard_maxima"
  by (auto simp: bounded_by_hard_maxima_def limits_exceed_def hard_maxima_def)

lemma validate_constraints_Inr:
  "validate_constraints c l = Inr ops \<longleftrightarrow> ops = set (ic_allowed_operations c) \<and> ic_require_clean_worktree c
     \<and> ic_require_offline_verification c \<and> ic_require_native_confirmation c \<and> bounded_by_hard_maxima (ic_limits c)
     \<and> \<not> limits_exceed (ic_limits c) l \<and> ops \<noteq> {} \<and> distinct (ic_allowed_operations c)
     \<and> (CreateTextFile \<in> ops \<longleftrightarrow> el_max_created_files (ic_limits c) \<noteq> 0)
     \<and> ic_allowed_extensions c \<noteq> [] \<and> length (ic_allowed_extensions c) \<le> length ALLOWED_EDIT_EXTENSIONS
     \<and> (\<forall>e \<in> set (ic_allowed_extensions c). extension_ok e) \<and> distinct (ic_allowed_extensions c)"
proof -
  have enc: "ic_offset_encoding c = Utf8Bytes"
    by (cases "ic_offset_encoding c")
  have card: "card (set xs) = length xs \<longleftrightarrow> distinct xs" for xs :: "intent_operation_kind list"
    using card_distinct distinct_card by blast
  show ?thesis
    unfolding validate_constraints_def Let_def
    by (auto simp: res_simps enc check_extensions_Inr card)
qed

lemma canonical_constraints:
  assumes "validate_constraints c l = Inr ops"
  shows "validate_constraints (canonicalize_constraints c) hard_maxima = Inr ops"
  using assms limits_exceed_hard_maxima
  by (auto simp: validate_constraints_Inr canonicalize_constraints_def)

section \<open>Canonical targets\<close>

lemma set_references_simps [simp]:
  "target_path (set_references rs t) = target_path t" "operation_kind (set_references rs t) = operation_kind t"
  "target_references (set_references rs t) = rs" "sort_rank (set_references rs t) = sort_rank t"
  "set_references (target_references t) t = t" "set_references rs (set_references rs' t) = set_references rs t"
  by (cases t; simp)+

lemma canonicalize_targets_idem [simp]: "canonicalize_targets (canonicalize_targets ts) = canonicalize_targets ts"
proof -
  let ?key = "\<lambda>t. (target_path t, sort_rank t)" and ?norm = "\<lambda>t. set_references (sort (target_references t)) t"
  have "map ?norm (canonicalize_targets ts) = canonicalize_targets ts"
    by (rule map_idI) (auto simp: canonicalize_targets_def)
  moreover have "sorted (map ?key (canonicalize_targets ts))"
    by (simp add: canonicalize_targets_def)
  ultimately show ?thesis
    by (subst canonicalize_targets_def) (simp add: sorted_sort_id sort_key_id_if_sorted)
qed

lemma canonicalize_constraints_idem [simp]: "canonicalize_constraints (canonicalize_constraints c) = canonicalize_constraints c"
  by (simp add: canonicalize_constraints_def sorted_sort_id sort_key_id_if_sorted)

section \<open>The targets of a binding\<close>

definition binding_target_ok :: "intent_operation_kind set \<Rightarrow> string list \<Rightarrow> intent_target \<Rightarrow> bool" where
  "binding_target_ok operations extensions t \<longleftrightarrow> portable (target_path t) \<and> operation_kind t \<in> operations
     \<and> (\<exists>references e. validate_reference_inventory (target_references t) = Inr references
          \<and> extension_for_path (target_path t) = Inr e \<and> e \<in> set extensions
          \<and> (case t of ExistingFile x \<Rightarrow> check_existing_binding (target_path t) references x
             | ProspectiveFile y \<Rightarrow> check_prospective_binding (target_path t) e y) = Inr ())"

lemma check_binding_targets_Inr:
  "check_binding_targets operations extensions seen ts = Inr () \<longleftrightarrow> (\<forall>t \<in> set ts. binding_target_ok operations extensions t)
     \<and> distinct (map target_path ts) \<and> target_path ` set ts \<inter> set seen = {}"
proof (induction ts arbitrary: seen)
  case (Cons t ts)
  have "check_binding_targets operations extensions seen (t # ts) = Inr () \<longleftrightarrow>
      binding_target_ok operations extensions t \<and> target_path t \<notin> set seen
      \<and> check_binding_targets operations extensions (target_path t # seen) ts = Inr ()"
    by (auto simp: res_simps binding_target_ok_def)
  then show ?case
    unfolding Cons.IH by auto
qed simp

lemma check_targets_binding:
  "check_targets operations trusted extensions seen ts = Inr () \<Longrightarrow> check_binding_targets operations extensions seen ts = Inr ()"
proof (induction ts arbitrary: seen)
  case (Cons t ts)
  then show ?case
    by (cases t) (auto simp: res_simps check_existing_target_def check_prospective_target_def check_existing_binding_def
        check_prospective_binding_def)
qed simp

lemma binding_target_ok_canonical:
  assumes "binding_target_ok operations extensions t"
  shows "binding_target_ok operations extensions (set_references (sort (target_references t)) t)"
  using assms by (cases t) (auto simp: binding_target_ok_def check_existing_binding_def check_prospective_binding_def
      res_simps)

lemma canonical_binding_targets:
  assumes "check_binding_targets operations extensions [] ts = Inr ()"
  shows "check_binding_targets operations extensions [] (canonicalize_targets ts) = Inr ()"
proof -
  have "mset (map target_path (canonicalize_targets ts)) = mset (map target_path ts)"
    by (simp add: canonicalize_targets_def image_mset.compositionality comp_def)
  then have "distinct (map target_path (canonicalize_targets ts))"
    using assms mset_eq_imp_distinct_iff unfolding check_binding_targets_Inr by blast
  then show ?thesis
    using assms binding_target_ok_canonical by (auto simp: check_binding_targets_Inr canonicalize_targets_def)
qed

lemma canonicalize_targets_lists:
  "list_ex (\<lambda>t. operation_kind t = k) (canonicalize_targets ts) = list_ex (\<lambda>t. operation_kind t = k) ts"
  "list_ex (\<lambda>t. target_references t \<noteq> []) (canonicalize_targets ts) = list_ex (\<lambda>t. target_references t \<noteq> []) ts"
  "list_all (\<lambda>t. target_references t \<noteq> []) (canonicalize_targets ts) = list_all (\<lambda>t. target_references t \<noteq> []) ts"
  "length (canonicalize_targets ts) = length ts" "canonicalize_targets ts = [] \<longleftrightarrow> ts = []"
  by (auto simp: canonicalize_targets_def list_ex_iff list_all_iff)

lemma check_selection_mode_canonical:
  "check_selection_mode code a b mode (canonicalize_targets ts) = Inr () \<longleftrightarrow> check_selection_mode code' a' b' mode ts = Inr ()"
  by (auto simp: check_selection_mode_def canonicalize_targets_lists res_simps split: intent_selection_mode.splits)

section \<open>An intent and its binding\<close>

lemma validate_edit_intent_parts:
  assumes "validate_edit_intent h i expected = Inr v"
  obtains operations trusted where "intent_envelope i expected = Inr ()" "validate_task (ei_task i) = Inr ()"
    "validate_timestamps i (ix_now_unix_ms expected) = Inr ()" "validate_constraints (ei_constraints i) (ix_limits expected) = Inr operations"
    "validate_trusted_targets expected = Inr trusted" "validate_targets i operations trusted = Inr ()"
    "vi_intent v = canonicalize_intent i" "vi_intent_hash v = ih_blake3 h (vi_canonical_json v)"
  using assms that unfolding validate_edit_intent_def Let_def by (auto simp: res_simps)

lemma validate_targets_parts:
  assumes "validate_targets i operations trusted = Inr ()"
  shows "ei_targets i \<noteq> [] \<and> length (ei_targets i) \<le> MAX_EDIT_INTENT_TARGETS
    \<and> check_targets operations trusted (ic_allowed_extensions (ei_constraints i)) [] (ei_targets i) = Inr ()
    \<and> ((ModifyExisting \<in> operations) = has_existing (ei_targets i)) \<and> ((CreateTextFile \<in> operations) = has_prospective (ei_targets i))
    \<and> check_selection_mode ''intent.selection_mode'' ''explicit_references mode requires reference IDs on every target''
      ''hybrid mode requires at least one explicit reference'' (ei_selection_mode i) (ei_targets i) = Inr ()"
  using assms unfolding validate_targets_def by (simp add: res_simps)

lemma canonical_targets_valid:
  assumes "validate_targets i operations trusted = Inr ()"
  shows "validate_binding_targets (canonicalize_targets (ei_targets i)) operations
    (sort (ic_allowed_extensions (ei_constraints i))) (ei_selection_mode i) = Inr ()"
proof -
  note parts = validate_targets_parts [OF assms]
  have "check_binding_targets operations (ic_allowed_extensions (ei_constraints i)) [] (canonicalize_targets (ei_targets i)) = Inr ()"
    using parts check_targets_binding canonical_binding_targets by blast
  then have "check_binding_targets operations (sort (ic_allowed_extensions (ei_constraints i))) [] (canonicalize_targets (ei_targets i)) = Inr ()"
    by (simp add: check_binding_targets_Inr binding_target_ok_def)
  moreover have "check_selection_mode code a b (ei_selection_mode i) (canonicalize_targets (ei_targets i)) = Inr ()" for code a b
    using parts check_selection_mode_canonical by blast
  ultimately show ?thesis
    using parts unfolding validate_binding_targets_def by (simp add: res_simps canonicalize_targets_lists)
qed

lemma intent_identity:
  assumes "intent_envelope i expected = Inr ()"
  shows "intent_validate_identifier ''intent_id'' (ei_intent_id i) = Inr () \<and> intent_validate_identifier ''request_id'' (ei_request_id i) = Inr ()
    \<and> intent_validate_identifier ''workspace_id'' (ei_workspace_id i) = Inr () \<and> is_hash (ei_workspace_root_hash i)
    \<and> is_hash (ei_working_tree_digest i) \<and> is_git_oid (ei_base_head i)
    \<and> ei_request_id i = ix_request_id expected \<and> ei_workspace_id i = ix_workspace_id expected
    \<and> ei_workspace_root_hash i = ix_workspace_root_hash expected \<and> ei_base_head i = ix_base_head expected
    \<and> ei_working_tree_digest i = ix_working_tree_digest expected"
  using assms unfolding intent_envelope_def check_intent_identity_def by (auto simp: res_simps)

lemma binding_of_intent_valid:
  assumes "\<And>s. is_hash (ih_blake3 h s)" "validate_edit_intent h i expected = Inr v" "from_validated h v = Inr b"
  shows "binding_validate h b = Inr ()"
  using assms(2)
proof (cases rule: validate_edit_intent_parts)
  case (1 operations trusted)
  note ident = intent_identity [OF 1(1)]
  have b: "bi_schema_version b = EDIT_INTENT_SCHEMA_VERSION \<and> bi_intent_id b = ei_intent_id i \<and> bi_request_id b = ei_request_id i
      \<and> bi_workspace_id b = ei_workspace_id i \<and> bi_workspace_root_hash b = ei_workspace_root_hash i \<and> bi_base_head b = ei_base_head i
      \<and> bi_working_tree_digest b = ei_working_tree_digest i \<and> bi_selection_mode b = ei_selection_mode i
      \<and> bi_targets b = canonicalize_targets (ei_targets i) \<and> bi_constraints b = canonicalize_constraints (ei_constraints i)
      \<and> bi_created_at_unix_ms b = ei_created_at_unix_ms i \<and> bi_expires_at_unix_ms b = ei_expires_at_unix_ms i
      \<and> is_hash (bi_intent_hash b) \<and> is_hash (bi_binding_hash b) \<and> is_hash (bi_task_hash b)
      \<and> calculate_binding_hash h b = Inr (bi_binding_hash b)"
    using assms(1,3) 1(7,8) unfolding from_validated_def Let_def canonicalize_intent_def
    by (auto simp: res_simps calculate_binding_hash_def)
  have times: "ei_created_at_unix_ms i < ei_expires_at_unix_ms i
      \<and> ei_expires_at_unix_ms i \<le> sat_add (ei_created_at_unix_ms i) (sat_mul DEFAULT_EDIT_INTENT_TTL_SECONDS 1000)"
    using 1(3) by (auto simp: validate_timestamps_def Let_def res_simps)
  have "validate_binding_fields b = Inr ()"
    using b ident times validate_targets_parts [OF 1(6)]
    unfolding validate_binding_fields_def check_binding_hash_field_def by (auto simp: res_simps canonicalize_targets_lists)
  moreover have "ic_allowed_extensions (bi_constraints b) = sort (ic_allowed_extensions (ei_constraints i))"
    using b by (simp add: canonicalize_constraints_def)
  ultimately show ?thesis
    using b canonical_constraints [OF 1(4)] canonical_targets_valid [OF 1(6)]
    unfolding binding_validate_def by (simp add: res_simps)
qed

section \<open>A plan within its authority\<close>

lemma target_of_Some:
  assumes "target_of targets p = Some t"
  shows "t \<in> set targets \<and> target_path t = p"
  using map_of_SomeD [OF assms [unfolded target_of_def]] by auto

definition operation_allowed :: "edit_authority \<Rightarrow> edit_operation \<Rightarrow> bool" where
  "operation_allowed a operation \<longleftrightarrow> (\<exists>t \<in> set (au_targets a). target_path t = op_path operation
     \<and> operation_kind t \<in> set (ic_allowed_operations (au_constraints a))
     \<and> (case (operation, t) of
          (Modify m, ExistingFile x) \<Rightarrow> mo_expected_file_hash m = xt_content_hash x
        | (Create c, ProspectiveFile y) \<Rightarrow> co_extension c = yt_extension y \<and> co_expected_absent c
        | _ \<Rightarrow> False))"

definition file_allowed :: "edit_authority \<Rightarrow> proposal_file \<Rightarrow> bool" where
  "file_allowed a s \<longleftrightarrow> (\<exists>t \<in> set (au_targets a). target_path t = pp_path s
     \<and> (case t of
          ExistingFile x \<Rightarrow> pp_status s = FileModified \<and> pp_base_hash s = Some (xt_content_hash x)
        | ProspectiveFile _ \<Rightarrow> pp_status s = FileCreated \<and> pp_base_hash s = None \<and> pp_base_content s = None))"

lemma check_plan_operation_allowed:
  assumes "check_plan_operation (set (ic_allowed_operations (au_constraints a))) (au_targets a) operation = Inr ()"
  shows "operation_allowed a operation"
proof -
  obtain t where t: "target_of (au_targets a) (op_path operation) = Some t"
    using assms by (auto simp: check_plan_operation_def res_simps)
  then show ?thesis
    using assms target_of_Some [OF t] unfolding operation_allowed_def
    by (intro bexI [of _ t]) (auto simp: check_plan_operation_def res_simps split: edit_operation.splits intent_target.splits)
qed

lemma check_plan_snapshot_allowed:
  assumes "check_plan_snapshot (au_targets a) s = Inr ()"
  shows "file_allowed a s"
proof -
  obtain t where t: "target_of (au_targets a) (pp_path s) = Some t"
    using assms by (auto simp: check_plan_snapshot_def res_simps)
  then show ?thesis
    using assms target_of_Some [OF t] unfolding file_allowed_def
    by (intro bexI [of _ t]) (auto simp: check_plan_snapshot_def res_simps)
qed

lemma plan_in_authority:
  assumes "validate_edit_plan_against_authority v a = Inr ()"
  shows "\<not> limits_exceed (ep_limits (vp_plan v)) (ic_limits (au_constraints a))
    \<and> list_all (operation_allowed a) (ep_operations (vp_plan v)) \<and> list_all (file_allowed a) (vp_files v)"
proof -
  obtain us us' where "\<not> limits_exceed (ep_limits (vp_plan v)) (ic_limits (au_constraints a))"
      "try_each (check_plan_operation (set (ic_allowed_operations (au_constraints a))) (au_targets a)) (ep_operations (vp_plan v)) = Inr us"
      "try_each (check_plan_snapshot (au_targets a)) (vp_files v) = Inr us'"
    using assms unfolding validate_edit_plan_against_authority_def Let_def
    by (simp only: res_simps) (elim exE conjE, rule that, (assumption | simp)+)
  then show ?thesis
    using check_plan_operation_allowed check_plan_snapshot_allowed
    by (auto dest!: try_each_units elim!: list.pred_mono_strong)
qed

end
