(* ===== verification/ProposalProperties.thy ===== *)
theory ProposalProperties
  imports StoreScenario EditIntentSound EditProperties
begin

text \<open>
  The properties of the life of a proposal: what its store keeps, which states it passes, and how a validated intent
  confines it.
\<close>

section \<open>The store\<close>

abbreviation generations :: "location \<Rightarrow> string \<Rightarrow> fs \<Rightarrow> nat" where
  "generations d i f \<equiv> length (record_candidates (abs_path (records_of d i)) (names_in f (records_of d i)))"

text \<open>
  C32. A transition of a stored proposal is an append: it succeeds only when the table allows the step, the record it
  returns has the history of the loaded one with the new state at its end, the next number and the same plan and files, and
  the next load returns exactly this record, unless the proposal now has more than 4096 generations, when every load fails.
\<close>

theorem transition_then_load:
  assumes "store_at h st d (e_fs w)" "store_load h st i w = (Inr r0, w)" "store_transition h st i next reason w = (Inr r, w')"
  shows "can_transition_to (pr_state r0) next \<and> states_of r = states_of r0 @ [next] \<and> pr_state r = next
    \<and> pr_sequence r = pr_sequence r0 + 1 \<and> pr_plan r = pr_plan r0 \<and> pr_files r = pr_files r0
    \<and> store_load h st i w' = (if generations d i (e_fs w') \<le> MAX_RECORD_GENERATIONS then Inr r
         else Inl (Message ''proposal record generation limit exceeded''), w')"
proof -
  have up: "store_update h st i (change_state next reason) w = (Inr r, w')"
    using assms(3) by (simp add: store_transition_update)
  have ok: "history_ok r0"
    using store_load_history [OF assms(2)] .
  from assms(1,2) change_state_pure up show ?thesis
  proof (cases rule: store_update_loaded [where A = "\<lambda>_. {}"])
    case (1 w1 r1)
    have "pr_plan r1 = pr_plan r0 \<and> pr_files r1 = pr_files r0"
      using 1(2) by (auto simp: change_state_def act_simps)
    then show ?thesis
      using 1(3) change_state_history [OF 1(2) ok] stored_store_load [OF 1(6,5) update_identifier [OF up]] by simp
  qed
qed

theorem transition_then_load_witness:
  "store_transition store_demo_host store_demo ''p'' PsDiscarded ''why'' store_demo_world = (Inr store_demo_discarded, store_demo_changed)
    \<and> states_of store_demo_discarded = [PsGenerated, PsValidated, PsDiscarded]
    \<and> store_load store_demo_host store_demo ''p'' store_demo_changed = (Inr store_demo_discarded, store_demo_changed)"
proof -
  have "store_load store_demo_host store_demo ''p'' store_demo_world = (Inr store_demo_record, store_demo_world)"
    using store_demo_loads by (simp add: store_load_def in_tx_def see_def)
  moreover have "generations [''s''] ''p'' (e_fs store_demo_changed) \<le> MAX_RECORD_GENERATIONS"
    by code_simp
  moreover have "states_of store_demo_record = [PsGenerated, PsValidated]"
    by code_simp
  ultimately show ?thesis
    using transition_then_load [OF store_demo_at _ store_demo_discards] store_demo_discards by simp
qed

text \<open>
  C33. Nothing is applied that was not verified: a proposal that can be loaded and started as generated has passed, in this
  order, every state on the road to its own. So an applied or rolled back proposal was validated, prepared, applied and built
  in a worktree and verified before it was applied.
\<close>

theorem loaded_proposal_road:
  assumes "store_load h st i w = (Inr r, w')" "hd (states_of r) = PsGenerated"
  shows "subseq (road_to (pr_state r)) (states_of r)"
proof -
  have "history_ok r"
    using store_load_history [OF assms(1)] .
  then have ok: "states_of r \<noteq> []" "legal_history (states_of r)" "last (states_of r) = pr_state r"
    by (auto simp: history_ok_def)
  then obtain ss where "states_of r = PsGenerated # ss"
    using assms(2) by (cases "states_of r") auto
  then show ?thesis
    using legal_history_road [of ss] ok(2,3) by simp
qed

theorem loaded_proposal_road_witness:
  "subseq (road_to (pr_state store_demo_record)) (states_of store_demo_record) \<and> road_to PsValidated = [PsGenerated, PsValidated]"
proof -
  have "store_load store_demo_host store_demo ''p'' store_demo_world = (Inr store_demo_record, store_demo_world)"
    using store_demo_loads by (simp add: store_load_def in_tx_def see_def)
  moreover have "hd (states_of store_demo_record) = PsGenerated" "road_to PsValidated = [PsGenerated, PsValidated]"
    by code_simp+
  ultimately show ?thesis
    using loaded_proposal_road by blast
qed







section \<open>Intents\<close>

lemma binding_authority_eq: "from_validated h i = Inr b \<Longrightarrow> binding_authority b = intent_authority (vi_intent i)"
  by (auto simp: from_validated_def Let_def binding_authority_def intent_authority_def res_simps)

lemma record_plan_authority:
  "pr_plan r = vp_plan v \<Longrightarrow> pr_files r = vp_files v \<Longrightarrow>
    validate_edit_plan_against_authority (record_plan r) a = validate_edit_plan_against_authority v a"
  by (simp add: validate_edit_plan_against_authority_def record_plan_def)





text \<open>
  C36. The binding of a validated intent is the intent: it passes its own validation again, its hash included, and judging a
  plan by the stored binding gives the same answer as judging it by the intent, whatever the plan, when the digests of the
  hash function are 64 hexadecimal digits.
\<close>

theorem binding_judges_as_intent:
  assumes "\<And>s. is_hash (ih_blake3 h s)" "validate_edit_intent h intent expected = Inr i" "from_validated h i = Inr b"
  shows "binding_validate h b = Inr () \<and> validate_edit_plan_against_binding h v b = validate_edit_plan_against_intent h v i
    \<and> (pr_plan r = vp_plan v \<and> pr_files r = vp_files v \<longrightarrow>
         validate_edit_plan_against_binding h (record_plan r) b = validate_edit_plan_against_intent h v i)"
  using binding_of_intent_valid [OF assms] binding_authority_eq [OF assms(3)] assms(3) record_plan_authority [of r v]
  by (simp add: validate_edit_plan_against_binding_def validate_edit_plan_against_intent_def)

theorem binding_judges_as_intent_witness:
  "binding_validate store_demo_intent_host store_demo_binding = Inr ()
    \<and> validate_edit_plan_against_binding store_demo_intent_host edit_demo_validated store_demo_binding = Inr ()"
proof -
  have "is_hash edit_demo_hash"
    by code_simp
  then have "is_hash (ih_blake3 store_demo_intent_host s)" for s
    by (simp add: store_demo_intent_host_def)
  then show ?thesis
    using binding_judges_as_intent [OF _ store_demo_intent_runs store_demo_binding_runs] store_demo_intent_allows by metis
qed

text \<open>
  C37. A plan that is validated against a workspace and against an intent stays within the intent: its limits are not above
  the intent's, every operation acts on a target with permission for it and of its kind, and every file of the plan is a target: an
  existing target lies below the workspace with no link on its way and has, in the file system now, contents with the hash the
  intent names, a prospective one is absent.
\<close>

theorem plan_within_intent:
  assumes "wf_fs f" "validate_edit_plan th f plan expected = Inr v" "validate_edit_plan_against_intent h v i = Inr ()"
  shows "\<not> limits_exceed (ep_limits (vp_plan v)) (ic_limits (ei_constraints (vi_intent i)))
    \<and> list_all (operation_allowed (intent_authority (vi_intent i))) (ep_operations (vp_plan v))
    \<and> (\<exists>l. canonicalize f (ee_workspace_root expected) = Inr (abs_path l) \<and> (\<forall>s \<in> set (vp_files v).
         \<exists>t \<in> set (ei_targets (vi_intent i)). target_path t = pp_path s \<and> (case t of
             ExistingFile x \<Rightarrow> modifies_safely th f l plan s \<and> pp_base_hash s = Some (xt_content_hash x)
           | ProspectiveFile _ \<Rightarrow> creates_safely f l s)))"
proof -
  have a: "validate_edit_plan_against_authority v (intent_authority (vi_intent i)) = Inr ()"
    using assms(3) by (auto simp: validate_edit_plan_against_intent_def res_simps)
  note within = plan_in_authority [OF a]
  obtain l where l: "canonicalize f (ee_workspace_root expected) = Inr (abs_path l)"
      "\<forall>s \<in> set (vp_files v). (pp_status s = FileModified \<and> modifies_safely th f l plan s) \<or> (pp_status s = FileCreated \<and> creates_safely f l s)"
    using files_of_plan_safe [OF assms(1,2)] by metis
  have "\<exists>t \<in> set (ei_targets (vi_intent i)). target_path t = pp_path s \<and> (case t of
             ExistingFile x \<Rightarrow> modifies_safely th f l plan s \<and> pp_base_hash s = Some (xt_content_hash x)
           | ProspectiveFile _ \<Rightarrow> creates_safely f l s)" if "s \<in> set (vp_files v)" for s
  proof -
    have "file_allowed (intent_authority (vi_intent i)) s"
      using within that by (simp add: list_all_iff)
    then obtain t where "t \<in> set (ei_targets (vi_intent i))" "target_path t = pp_path s" "case t of
          ExistingFile x \<Rightarrow> pp_status s = FileModified \<and> pp_base_hash s = Some (xt_content_hash x)
        | ProspectiveFile _ \<Rightarrow> pp_status s = FileCreated \<and> pp_base_hash s = None \<and> pp_base_content s = None"
      by (auto simp: file_allowed_def intent_authority_def)
    then show ?thesis
      using l(2) that by (intro bexI [of _ t]) (auto split: intent_target.splits)
  qed
  then show ?thesis
    using within l(1) by (auto simp: intent_authority_def)
qed

theorem plan_within_intent_witness:
  "validate_edit_plan_against_intent store_demo_intent_host edit_demo_validated store_demo_validated = Inr ()
    \<and> list_all (\<lambda>s. pp_path s \<in> target_path ` set (ei_targets (vi_intent store_demo_validated))) (vp_files edit_demo_validated)"
proof -
  have "\<exists>t \<in> set (ei_targets (vi_intent store_demo_validated)). target_path t = pp_path s"
    if "s \<in> set (vp_files edit_demo_validated)" for s
    using plan_within_intent [OF edit_demo_wf edit_demo_runs store_demo_intent_allows] that by blast
  then show ?thesis
    using store_demo_intent_allows by (force simp: list_all_iff)
qed

end
