(* ===== verification/EditSnapshots.thy ===== *)
theory EditSnapshots
  imports EditStore
begin

text \<open>
  The snapshots of a proposal against a directory (\<open>opticcode-edit/src/transaction.rs\<close>) and the diff of an edited worktree
  (\<open>diff.rs\<close>). The outside are git, the Java parser, BLAKE3 and the token of cancellation. Stages have no duration of
  their own: the clock of the model stands still within an operation.
\<close>

datatype process_status = ProcSuccess | ProcFailed | ProcTimedOut | ProcCancelled

definition process_status_str :: "process_status \<Rightarrow> string" where
  "process_status_str s = (case s of ProcSuccess \<Rightarrow> ''success'' | ProcFailed \<Rightarrow> ''failed'' | ProcTimedOut \<Rightarrow> ''timed_out''
     | ProcCancelled \<Rightarrow> ''cancelled'')"

record process_result =
  po_status :: process_status
  po_stdout :: string
  po_stderr :: string
  po_truncated :: bool

definition process_success :: "process_result \<Rightarrow> bool" where
  "process_success p \<longleftrightarrow> po_status p = ProcSuccess"

text \<open>
  What the snapshots need of the outside: digests, git as the tools crate runs it, a process with its directory, arguments
  and output limit, the Java parser (whether a source is valid, and how many diagnostics it has), whether the operation is cancelled
  when it comes to a path, and the debug format of a list of names.
\<close>

record snap_host =
  nh_text :: text_host
  nh_tx :: tx_host
  nh_process :: "fs \<Rightarrow> path \<Rightarrow> string list \<Rightarrow> nat \<Rightarrow> (tool_error, process_result) res"
  nh_java :: "string \<Rightarrow> string \<Rightarrow> (tool_error, bool \<times> nat) res"
  nh_cancelled :: "string \<Rightarrow> bool"
  nh_debug :: "string list \<Rightarrow> string"

section \<open>Mutations and paths\<close>

definition proposal_mutations :: "proposal_file list \<Rightarrow> file_mutation list" where
  "proposal_mutations = map (\<lambda>s. case pp_status s of
      FileModified \<Rightarrow> mutation_replace (pp_path s) (case pp_base_content s of None \<Rightarrow> '''' | Some c \<Rightarrow> c) (pp_proposed_content s)
    | FileCreated \<Rightarrow> mutation_create (pp_path s) (pp_proposed_content s))"

definition line_endings_equivalent :: "string \<Rightarrow> string \<Rightarrow> bool" where
  "line_endings_equivalent a b \<longleftrightarrow> utf8_valid a \<and> utf8_valid b \<and> normalize_line_endings a = normalize_line_endings b"

text \<open>The contents of a modified file in a worktree, where the checkout may have changed its line endings.\<close>

definition worktree_base :: "fs \<Rightarrow> path \<Rightarrow> proposal_file \<Rightarrow> (tool_error, string) res" where
  "worktree_base f root s =
    try_then (io_context (''failed to read worktree base '' @ pp_path s) (fs_read f (path_join root (pp_path s)))) (\<lambda>actual.
    try_then (ok_or (Message ''modified proposal snapshot has no base content'') (pp_base_content s)) (\<lambda>base.
    try_then (ensure (\<not> (actual \<noteq> base \<and> \<not> line_endings_equivalent actual base))
      (Message (pp_path s @ '' differs from the source beyond Git line-ending checkout''))) (\<lambda>_.
    Inr actual)))"

definition worktree_absent :: "fs \<Rightarrow> path \<Rightarrow> proposal_file \<Rightarrow> (tool_error, unit) res" where
  "worktree_absent f root s = ensure (\<not> path_exists f (path_join root (pp_path s)))
     (Message (''created proposal path already exists in worktree: '' @ pp_path s))"

definition worktree_mutations :: "fs \<Rightarrow> path \<Rightarrow> proposal_file list \<Rightarrow> (tool_error, file_mutation list) res" where
  "worktree_mutations f root = try_each (\<lambda>s. case pp_status s of
      FileModified \<Rightarrow> try_then (worktree_base f root s) (\<lambda>actual. Inr (mutation_replace (pp_path s) actual (pp_proposed_content s)))
    | FileCreated \<Rightarrow> try_then (worktree_absent f root s) (\<lambda>_. Inr (mutation_create (pp_path s) (pp_proposed_content s))))"

definition worktree_expected_hash :: "snap_host \<Rightarrow> fs \<Rightarrow> path \<Rightarrow> proposal_file \<Rightarrow> (tool_error, string option) res" where
  "worktree_expected_hash h f root s =
    (if pp_status s = FileCreated then Inr None
     else try_then (worktree_base f root s) (\<lambda>actual. Inr (Some (content_hash (nh_text h) actual))))"

definition proposal_paths :: "proposal_file list \<Rightarrow> path list \<times> path list" where
  "proposal_paths files =
    (sort_paths (map pp_path (filter (\<lambda>s. pp_status s = FileModified) files)),
     sort_paths (map pp_path (filter (\<lambda>s. pp_status s = FileCreated) files)))"

definition file_status_text :: "proposal_file_status \<Rightarrow> string" where
  "file_status_text s = (case s of FileModified \<Rightarrow> ''Modified'' | FileCreated \<Rightarrow> ''Created'')"

definition files_hash_entry :: "proposal_file \<Rightarrow> string" where
  "files_hash_entry s = pp_path s @ [CHR 0x00] @ file_status_text (pp_status s) @ [CHR 0x00]
     @ (case pp_base_hash s of None \<Rightarrow> ''absent'' | Some x \<Rightarrow> x) @ [CHR 0x00] @ pp_proposed_hash s"

definition proposal_files_hash :: "snap_host \<Rightarrow> proposal_file list \<Rightarrow> string" where
  "proposal_files_hash h files = content_hash (nh_text h) (join_text [newline] (sort (map files_hash_entry files)))"

section \<open>Snapshots\<close>

definition verify_snapshot :: "snap_host \<Rightarrow> fs \<Rightarrow> path \<Rightarrow> bool \<Rightarrow> proposal_file \<Rightarrow> (tool_error, unit) res" where
  "verify_snapshot h f root proposed s =
    try_then (case fs_read f (path_join root (pp_path s)) of
        Inr bytes \<Rightarrow> Inr (Some bytes)
      | Inl e \<Rightarrow> if e = NotFound then Inr None
          else Inl (Context (''failed to read snapshot path '' @ pp_path s) (IoCause e))) (\<lambda>actual.
    let expected = (if proposed then Some (pp_proposed_content s) else pp_base_content s);
        expected_hash = (if proposed then Some (pp_proposed_hash s) else pp_base_hash s) in
    try_then (ensure (actual = expected) (Message (pp_path s @ '' no longer matches the ''
      @ (if proposed then ''proposed'' else ''base'') @ '' snapshot''))) (\<lambda>_.
    case actual of
      None \<Rightarrow> Inr ()
    | Some bytes \<Rightarrow> ensure (\<not> (case expected_hash of None \<Rightarrow> False | Some x \<Rightarrow> content_hash (nh_text h) bytes \<noteq> x))
        (Message (pp_path s @ '' no longer matches its expected content hash''))))"

definition verify_snapshots_at :: "snap_host \<Rightarrow> fs \<Rightarrow> path \<Rightarrow> proposal_file list \<Rightarrow> bool \<Rightarrow> (tool_error, unit) res" where
  "verify_snapshots_at h f root files proposed = try_then (try_each (verify_snapshot h f root proposed) files) (\<lambda>_. Inr ())"

definition verify_worktree_base_at :: "fs \<Rightarrow> path \<Rightarrow> proposal_file list \<Rightarrow> (tool_error, unit) res" where
  "verify_worktree_base_at f root files = try_then (try_each (\<lambda>s. case pp_status s of
      FileCreated \<Rightarrow> worktree_absent f root s
    | FileModified \<Rightarrow> try_then (worktree_base f root s) (\<lambda>_. Inr ())) files) (\<lambda>_. Inr ())"

definition reparse_error :: "snap_host \<Rightarrow> fs \<Rightarrow> path \<Rightarrow> proposal_file \<Rightarrow> string option" where
  "reparse_error h f root s =
    (case try_then (io_context (''failed to read Java file '' @ pp_path s) (read_to_string f (path_join root (pp_path s))))
        (nh_java h (pp_path s)) of
       Inr (ok, n) \<Rightarrow> if ok then None else Some (pp_path s @ '' has '' @ dec_of_nat n @ '' syntax diagnostic(s)'')
     | Inl e \<Rightarrow> Some (pp_path s @ '': '' @ alternate_text e))"

definition reparse_java_files :: "snap_host \<Rightarrow> fs \<Rightarrow> path \<Rightarrow> proposal_file list \<Rightarrow> edit_stage_report" where
  "reparse_java_files h f root files =
    (let java = filter (\<lambda>s. ends_with (pp_path s) ''.java'') files; errors = List.map_filter (reparse_error h f root) java in
     if errors = [] then stage_passed (''Tree-sitter parsed '' @ dec_of_nat (length java) @ '' Java file(s)'') 0
     else \<lparr>sr_status = StageFailed, sr_duration_ms = 0,
       sr_summary = ''Tree-sitter rejected '' @ dec_of_nat (length errors) @ '' Java file(s)'', sr_errors = errors\<rparr>)"

section \<open>Diffs\<close>

definition diff_line_count :: "string \<Rightarrow> nat" where
  "diff_line_count s = (if s = '''' then 0 else length (filter (\<lambda>c. c = newline) s) + (if ends_with s [newline] then 0 else 1))"

definition created_file_patch :: "proposal_file \<Rightarrow> string" where
  "created_file_patch s =
    (let p = replace_char (CHR 0x5C) (CHR ''/'') (pp_path s); content = pp_proposed_content s in
     ''diff --git a/'' @ p @ '' b/'' @ p @ [newline] @ ''new file mode 100644'' @ [newline] @ ''--- /dev/null'' @ [newline]
     @ ''+++ b/'' @ p @ [newline] @ ''@@ -0,0 +1,'' @ dec_of_nat (diff_line_count content) @ '' @@'' @ [newline]
     @ concat (map (\<lambda>l. CHR ''+'' # l) (split_inclusive newline content))
     @ (if content \<noteq> '''' \<and> \<not> ends_with content [newline] then [newline] @ [CHR 0x5C] @ '' No newline at end of file'' @ [newline] else ''''))"

definition count_hunks :: "string \<Rightarrow> nat" where
  "count_hunks patch = length (filter (\<lambda>l. starts_with l ''@@ '') (str_lines patch))"

definition truncate_utf8 :: "string \<Rightarrow> nat \<Rightarrow> string \<times> bool" where
  "truncate_utf8 s limit =
    (if length s \<le> limit then (s, False)
     else (take (floor_boundary s limit) s @ [newline] @ ''[display truncated; stored patch hash remains authoritative]'' @ [newline], True))"

definition diff_transaction_state_path :: "string \<Rightarrow> bool" where
  "diff_transaction_state_path p =
    (let n = replace_char (CHR 0x5C) (CHR ''/'') p in n = ''.opticcode'' \<or> starts_with n ''.opticcode/'')"

definition run_git_bounded :: "snap_host \<Rightarrow> fs \<Rightarrow> path \<Rightarrow> string list \<Rightarrow> nat \<Rightarrow> (tool_error, process_result) res" where
  "run_git_bounded h f root args limit =
    try_then (nh_process h f root args limit) (\<lambda>p.
    try_then (ensure (po_status p \<noteq> ProcTimedOut \<and> po_status p \<noteq> ProcCancelled)
      (Message (''bounded Git command ended with '' @ process_status_str (po_status p)))) (\<lambda>_.
    Inr p))"

definition git_diff_for_path :: "snap_host \<Rightarrow> fs \<Rightarrow> path \<Rightarrow> string \<Rightarrow> nat \<Rightarrow> (tool_error, string) res" where
  "git_diff_for_path h f root p limit =
    try_then (run_git_bounded h f root
      [''--no-pager'', ''diff'', ''--no-ext-diff'', ''--no-color'', ''--binary'', ''HEAD'', ''--'', p] limit) (\<lambda>r.
    try_then (ensure (\<not> (\<not> process_success r \<or> po_truncated r)) (Message (''git diff failed for '' @ p @ '': status=''
      @ process_status_str (po_status r) @ '', stderr='' @ str_trim (po_stderr r)))) (\<lambda>_.
    try_then (ensure (po_stdout r \<noteq> '''') (Message (''Git produced no patch for modified file '' @ p))) (\<lambda>_.
    Inr (po_stdout r))))"

definition usize_max :: nat where "usize_max = u64_max"

definition parse_usize :: "string \<Rightarrow> string \<Rightarrow> (tool_error, nat) res" where
  "parse_usize ctx s = (case parse_unsigned usize_max s of
      Some n \<Rightarrow> Inr n
    | None \<Rightarrow> Inl (Context ctx (Message (if s = '''' then ''cannot parse integer from empty string''
        else if list_all is_ascii_digit (if starts_with s ''+'' then tl s else s) \<and> s \<noteq> ''+'' then ''number too large to fit in target type''
        else ''invalid digit found in string''))))"

definition git_numstat_for_path :: "snap_host \<Rightarrow> fs \<Rightarrow> path \<Rightarrow> string \<Rightarrow> (tool_error, nat \<times> nat) res" where
  "git_numstat_for_path h f root p =
    try_then (run_git_bounded h f root [''diff'', ''--numstat'', ''HEAD'', ''--'', p] (64 * 1024)) (\<lambda>r.
    try_then (ensure (\<not> (\<not> process_success r \<or> po_truncated r)) (Message (''git numstat failed for '' @ p))) (\<lambda>_.
    try_then (ok_or (Message ''git numstat returned no row'') (case str_lines (po_stdout r) of [] \<Rightarrow> None | l # _ \<Rightarrow> Some l)) (\<lambda>line.
    let fields = split_on (CHR 0x09) line in
    try_then (parse_usize ''binary or invalid additions in git numstat'' (hd fields)) (\<lambda>additions.
    try_then (ok_or (Message ''git numstat deletions are missing'') (case tl fields of [] \<Rightarrow> None | d # _ \<Rightarrow> Some d)) (\<lambda>d.
    try_then (parse_usize ''binary or invalid deletions in git numstat'' d) (\<lambda>deletions.
    Inr (additions, deletions)))))))"

definition kind_matches :: "proposal_file_status \<Rightarrow> git_change_kind \<Rightarrow> bool" where
  "kind_matches s k = (case s of FileModified \<Rightarrow> k = GitModified \<or> k = GitTypeChanged | FileCreated \<Rightarrow> k = GitUntracked \<or> k = GitAdded)"

text \<open>One file of the diff: its statistics and the patch of it.\<close>

definition diff_file ::
  "snap_host \<Rightarrow> fs \<Rightarrow> path \<Rightarrow> (string \<Rightarrow> git_change option) \<Rightarrow> proposal_file \<Rightarrow> (tool_error, string \<times> diff_file_statistics) res" where
  "diff_file h f root observed s =
    try_then (ensure (\<not> nh_cancelled h (pp_path s)) (Message ''diff capture was cancelled'')) (\<lambda>_.
    try_then (ok_or (Message ''validated path disappeared from Git state'') (observed (replace_char (CHR 0x5C) (CHR ''/'') (pp_path s)))) (\<lambda>change.
    try_then (ensure (kind_matches (pp_status s) (gc_kind change)) (Message (pp_path s @ '' is not reported by Git as a ''
      @ (if pp_status s = FileModified then ''modified'' else ''created'') @ '' file''))) (\<lambda>_.
    try_then (io_context (''failed to read proposed file '' @ pp_path s) (fs_read f (path_join root (pp_path s)))) (\<lambda>actual.
    try_then (ensure (\<not> (actual \<noteq> pp_proposed_content s \<or> content_hash (nh_text h) actual \<noteq> pp_proposed_hash s))
      (Message (''proposed file drifted before diff capture: '' @ pp_path s))) (\<lambda>_.
    try_then (case pp_status s of
        FileModified \<Rightarrow> git_diff_for_path h f root (pp_path s) MAX_EDIT_PROPOSAL_BYTES
      | FileCreated \<Rightarrow> Inr (created_file_patch s)) (\<lambda>patch.
    try_then (case pp_status s of
        FileModified \<Rightarrow> git_numstat_for_path h f root (pp_path s)
      | FileCreated \<Rightarrow> Inr (diff_line_count (pp_proposed_content s), 0)) (\<lambda>(additions, deletions).
    try_then (ensure (\<not> (str_contains patch ''GIT binary patch'' \<or> str_contains patch ''Binary files ''))
      (Message (''binary diff is refused for '' @ pp_path s))) (\<lambda>_.
    Inr (if ends_with patch [newline] then patch else patch @ [newline],
      \<lparr>df_path = pp_path s, df_status = pp_status s, df_additions = additions, df_deletions = deletions,
        df_hunks = count_hunks patch, df_binary = False, df_base_hash = pp_base_hash s, df_proposed_hash = pp_proposed_hash s,
        df_proposed_bytes = pp_proposed_bytes s\<rparr>)))))))))"

definition diff_statistics_of :: "diff_file_statistics list \<Rightarrow> nat \<Rightarrow> diff_statistics" where
  "diff_statistics_of stats bytes = \<lparr>ds_files = length stats,
     ds_added_files = length (filter (\<lambda>x. df_status x = FileCreated) stats),
     ds_modified_files = length (filter (\<lambda>x. df_status x = FileModified) stats),
     ds_deleted_files = 0, ds_renamed_files = 0, ds_binary_files = 0,
     ds_additions = sum_list (map df_additions stats), ds_deletions = sum_list (map df_deletions stats),
     ds_hunks = sum_list (map df_hunks stats), ds_patch_bytes = bytes\<rparr>"

text \<open>The change git reports for a path: of two changes for the same one the later counts.\<close>

definition observed_changes :: "git_snapshot \<Rightarrow> (string \<times> git_change) list" where
  "observed_changes state = map (\<lambda>c. (replace_char (CHR 0x5C) (CHR ''/'') (gc_path c), c))
     (filter (\<lambda>c. \<not> diff_transaction_state_path (gc_path c)) (gs_changes state))"

definition capture_verified_diff :: "snap_host \<Rightarrow> fs \<Rightarrow> path \<Rightarrow> proposal_file list \<Rightarrow> (tool_error, verified_diff) res" where
  "capture_verified_diff h f root files =
    try_then (map_err (Context ''failed to inspect edited worktree'') (capture_git_state (th_git (nh_tx h)) 0 f root)) (\<lambda>state.
    let expected = map (\<lambda>s. replace_char (CHR 0x5C) (CHR ''/'') (pp_path s)) files; observed = observed_changes state in
    try_then (ensure (set expected = set (map fst observed)) (Message (''worktree diff path set differs from the validated proposal: expected ''
      @ nh_debug h (sort (remdups expected)) @ '', observed '' @ nh_debug h (sort (remdups (map fst observed)))))) (\<lambda>_.
    try_then (try_each (diff_file h f root (map_of (rev observed))) files) (\<lambda>parts.
    let patch = concat (map fst parts); stats = map snd parts in
    try_then (ensure (length patch \<le> MAX_EDIT_PROPOSAL_BYTES) (Message ''verified Git patch exceeds the proposal byte limit'')) (\<lambda>_.
    let display = truncate_utf8 patch MAX_EDIT_DIFF_DISPLAY_BYTES in
    Inr \<lparr>vd_schema_version = 1, vd_patch = patch, vd_patch_hash = content_hash (nh_text h) patch, vd_display_patch = fst display,
      vd_display_truncated = snd display, vd_statistics = diff_statistics_of stats (length patch), vd_files = stats\<rparr>))))"

end
