(* ===== verification/EditPolicy.thy ===== *)
theory EditPolicy
  imports EditSnapshots PolicyCheck
begin

text \<open>
  The edit runtime as a client of the policy engine (\<open>opticcode-edit/src/policy_adapter.rs\<close>), with the options of a run
  (\<open>runtime.rs\<close>): the observation of the repository, the requests of a session and their authorisation.
\<close>

record edit_options =
  eo_workspace_root :: path
  eo_workspace_id :: string
  eo_request_id :: string
  eo_profile :: string
  eo_client_name :: string
  eo_client_version :: string
  eo_git_timeout_ms :: nat
  eo_build_timeout_ms :: nat
  eo_output_limit_bytes :: nat

definition edit_options_new :: "string \<Rightarrow> path \<Rightarrow> string \<Rightarrow> string \<Rightarrow> string \<Rightarrow> edit_options" where
  "edit_options_new crate_version root workspace_id request_id profile = \<lparr>eo_workspace_root = root, eo_workspace_id = workspace_id,
     eo_request_id = request_id, eo_profile = profile, eo_client_name = ''opticcode-runtime'', eo_client_version = crate_version,
     eo_git_timeout_ms = 3 * 60 * 1000, eo_build_timeout_ms = MAX_EDIT_GLOBAL_TIMEOUT_SECONDS * 1000, eo_output_limit_bytes = 1024 * 1024\<rparr>"

record observed_repository =
  or_root :: path
  or_root_hash :: string
  or_boundary :: git_boundary
  or_working_tree_digest :: string
  or_clean :: bool

text \<open>
  The outside of a run: that of the snapshots, of the store and of the policy engine, the JSON of a snapshot of git, and
  that JSON without its metrics when it is an object (\<open>working_tree_digest\<close>).
\<close>

record edit_host =
  ed_snap :: snap_host
  ed_store :: store_host
  ed_policy :: engine_host
  ed_state_json :: "git_snapshot \<Rightarrow> (string, string) res"
  ed_without_metrics :: "string \<Rightarrow> string option"

section \<open>The repository\<close>

definition run_git_value :: "edit_host \<Rightarrow> edit_options \<Rightarrow> fs \<Rightarrow> path \<Rightarrow> string list \<Rightarrow> (tool_error, string) res" where
  "run_git_value h options f root args =
    try_then (nh_process (ed_snap h) f root args (min (eo_output_limit_bytes options) (256 * 1024))) (\<lambda>r.
    try_then (ensure (\<not> (\<not> process_success r \<or> po_truncated r)) (Message (''bounded Git observation failed: status=''
      @ process_status_str (po_status r) @ '', stderr='' @ str_trim (po_stderr r)))) (\<lambda>_.
    try_then (ensure (str_trim (po_stdout r) \<noteq> '''') (Message ''bounded Git observation returned an empty value'')) (\<lambda>_.
    Inr (str_trim (po_stdout r)))))"

definition run_git_path :: "edit_host \<Rightarrow> edit_options \<Rightarrow> fs \<Rightarrow> path \<Rightarrow> string list \<Rightarrow> (tool_error, path) res" where
  "run_git_path h options f root args =
    try_then (run_git_value h options f root args) (\<lambda>p.
    let p' = (if is_absolute p then p else path_join root p) in
    io_context (''failed to resolve Git path '' @ from_utf8_lossy p') (canonicalize f p'))"

definition observe_repository :: "edit_host \<Rightarrow> edit_options \<Rightarrow> fs \<Rightarrow> (tool_error, observed_repository) res" where
  "observe_repository h options f =
    try_then (io_context (''failed to resolve workspace '' @ from_utf8_lossy (eo_workspace_root options))
      (canonicalize f (eo_workspace_root options))) (\<lambda>requested.
    try_then (map_err (Context ''failed to capture workspace Git state'') (capture_git_state (th_git (nh_tx (ed_snap h))) 0 f requested)) (\<lambda>captured.
    let state = captured\<lparr>gs_changes := filter (\<lambda>c. \<not> diff_transaction_state_path (gc_path c)) (gs_changes captured)\<rparr> in
    try_then (ensure (path_eq (gs_root state) requested) (Message ''edit workspace must be the root of its main Git worktree'')) (\<lambda>_.
    try_then (run_git_value h options f requested [''rev-parse'', ''--verify'', ''HEAD^{commit}'']) (\<lambda>head.
    try_then (ensure (is_git_oid head) (Message ''Git returned an invalid HEAD object id'')) (\<lambda>_.
    try_then (run_git_path h options f requested [''rev-parse'', ''--absolute-git-dir'']) (\<lambda>git_dir.
    try_then (run_git_path h options f requested [''rev-parse'', ''--git-common-dir'']) (\<lambda>common_dir.
    try_then (run_git_path h options f requested [''rev-parse'', ''--git-path'', ''index'']) (\<lambda>index.
    try_then (run_git_path h options f requested [''rev-parse'', ''--git-path'', ''objects'']) (\<lambda>object_dir.
    try_then (ensure (path_eq git_dir common_dir \<and> path_is_dir f (path_join requested ''.git''))
      (Message ''editing the original project requires its main Git worktree'')) (\<lambda>_.
    try_then (map_err (\<lambda>e. Context ''failed to serialize Git state'' (Message e)) (ed_state_json h state)) (\<lambda>state_json.
    try_then (map_err (\<lambda>e. Message (plan_error_text e)) (canonical_root_hash (nh_text (ed_snap h)) f requested)) (\<lambda>root_hash.
    Inr \<lparr>or_root = requested, or_root_hash = root_hash,
      or_boundary = \<lparr>gb_worktree_root = requested, gb_git_dir = git_dir, gb_common_dir = common_dir, gb_index = index,
        gb_object_dir = object_dir, gb_head = to_ascii_lowercase head, gb_main_worktree = True\<rparr>,
      or_working_tree_digest = working_tree_digest (nh_text (ed_snap h)) (ed_without_metrics h) root_hash head state_json,
      or_clean = (gs_changes state = [])\<rparr>))))))))))))"

record workspace_observation =
  wo_root :: path
  wo_root_hash :: string
  wo_base_head :: string
  wo_working_tree_digest :: string
  wo_clean :: bool

definition inspect_edit_workspace :: "edit_host \<Rightarrow> edit_options \<Rightarrow> fs \<Rightarrow> (tool_error, workspace_observation) res" where
  "inspect_edit_workspace h options f = try_then (observe_repository h options f) (\<lambda>observed.
     Inr \<lparr>wo_root = or_root observed, wo_root_hash = or_root_hash observed, wo_base_head = gb_head (or_boundary observed),
       wo_working_tree_digest = or_working_tree_digest observed, wo_clean = or_clean observed\<rparr>)"

section \<open>Sessions\<close>

definition session_request ::
  "edit_options \<Rightarrow> observed_repository \<Rightarrow> policy_mode \<Rightarrow> policy_action \<Rightarrow> active_worktree option \<Rightarrow> string option \<Rightarrow> string \<Rightarrow> nat \<Rightarrow> policy_request" where
  "session_request options observed mode action active approval_id stage n = \<lparr>rq_schema_version = POLICY_SCHEMA_VERSION,
     rq_protocol = POLICY_PROTOCOL_ID, rq_request_id = eo_request_id options,
     rq_action_id = eo_request_id options @ ''-'' @ stage @ ''-'' @ dec_of_nat n, rq_origin = Chat, rq_profile = eo_profile options,
     rq_client = \<lparr>client_name = eo_client_name options, client_version = eo_client_version options\<rparr>, rq_mode = mode,
     rq_workspace = \<lparr>ws_workspace_id = eo_workspace_id options, ws_root = or_root observed, ws_repository = Some (or_boundary observed),
       ws_active_worktree = active, ws_working_tree_digest = Some (or_working_tree_digest observed),
       ws_repository_clean = Some (or_clean observed)\<rparr>,
     rq_action = action, rq_approval_id = approval_id\<rparr>"

definition policy_record :: "string \<Rightarrow> policy_report \<Rightarrow> policy_decision_record" where
  "policy_record stage report = \<lparr>pd_stage = stage, pd_action_kind = pr_action_kind report, pd_decision = decision_kind (pr_decision report),
     pd_rule_id = rule_id (pr_decision report), pd_action_hash = pr_action_hash report, pd_audit_event_id = pr_audit_event_id report\<rparr>"

text \<open>An operation of the policy engine in the world of the edit runtime, which shares its file system, clock and process.\<close>

definition policy_world :: "edit_world \<Rightarrow> world" where
  "policy_world w = \<lparr>w_fs = e_fs w, w_clock = min (nat (x_now_ns (e_tx w)) div 1000000) u64_max, w_pid = x_pid (e_tx w),
     w_counter = e_policy_counter w, w_draws = e_policy_draws w, w_random = e_policy_random w, w_meta = x_meta (e_tx w)\<rparr>"

definition in_policy :: "(policy_error \<Rightarrow> tool_error) \<Rightarrow> (world \<Rightarrow> (policy_error, 'a) res \<times> world) \<Rightarrow> 'a edit" where
  "in_policy wrap m w = (case m (policy_world w) of (r, v) \<Rightarrow>
     (map_err wrap r, w\<lparr>e_tx := (e_tx w)\<lparr>x_fs := w_fs v\<rparr>, e_policy_counter := w_counter v, e_policy_draws := w_draws v\<rparr>))"

text \<open>The records of the decisions grow also when the decision is a refusal, so the result is a part of the value.\<close>

definition authorize ::
  "edit_host \<Rightarrow> policy_engine \<Rightarrow> edit_options \<Rightarrow> observed_repository \<Rightarrow> policy_mode \<Rightarrow> policy_action \<Rightarrow> active_worktree option \<Rightarrow>
   string option \<Rightarrow> string \<Rightarrow> policy_decision_record list \<Rightarrow> ((tool_error, unit) res \<times> policy_decision_record list) edit" where
  "authorize h engine options observed mode action active approval_id stage records =
    act_try (in_policy (\<lambda>e. Context (''policy check failed for '' @ stage) (Message (policy_error_to_string e)))
      (policy_check (ed_policy h) engine (session_request options observed mode action active approval_id stage (length records)) 0)) (\<lambda>checked.
    case checked of
      Inl e \<Rightarrow> act_return (Inl e, records)
    | Inr preflight \<Rightarrow>
        let records' = records @ [policy_record stage (pp_report preflight)]; report = pp_report preflight in
        if \<not> report_allowed report
        then act_return (Inl (Message (''policy denied '' @ stage @ '': '' @ rule_id (pr_decision report) @ '': '' @ pr_user_reason report)), records')
        else act_try (in_policy (\<lambda>e. Context (''policy inputs drifted before '' @ stage) (Message (policy_error_to_string e)))
            (\<lambda>v. (revalidate_preflight (eh_host (ed_policy h)) (w_fs v) preflight, v))) (\<lambda>r. act_return (r, records')))"

end
