(* ===== verification/EditApply.thy ===== *)
theory EditApply
  imports EditPolicy TxRun
begin

text \<open>
  Applying a verified proposal to the original workspace (\<open>opticcode-edit/src/apply.rs\<close>) and rolling it back
  (\<open>rollback.rs\<close>): the store, the policy engine with its one-shot approvals, the apply transaction and git together.
\<close>

section \<open>Shared steps\<close>

definition e_execute :: "edit_host \<Rightarrow> tx_request \<Rightarrow> tx_result edit" where
  "e_execute h request = in_tx (execute_apply_transaction (nh_tx (ed_snap h)) request)"

definition e_rollback :: "edit_host \<Rightarrow> path \<Rightarrow> string \<Rightarrow> tx_result edit" where
  "e_rollback h root i = in_tx (rollback_apply_transaction (nh_tx (ed_snap h)) root i)"

definition e_observe :: "edit_host \<Rightarrow> edit_options \<Rightarrow> observed_repository edit" where
  "e_observe h options = e_see (observe_repository h options)"

text \<open>\<open>getrandom\<close> gives sixteen bytes.\<close>

definition new_edit_id :: "string \<Rightarrow> string edit" where
  "new_edit_id stem w =
    (if stem = '''' \<or> length stem > 32 \<or> \<not> list_all (\<lambda>c. is_ascii_lower c \<or> c = CHR ''-'') stem
     then (Inl (Message ''edit ID prefix is invalid''), w)
     else (case e_policy_random w (e_policy_draws w) of
         None \<Rightarrow> (Inl (Context ''failed to obtain random bytes for edit identity'' (IoCause OtherIo)), w\<lparr>e_policy_draws := Suc (e_policy_draws w)\<rparr>)
       | Some bytes \<Rightarrow> (Inr (stem @ ''-'' @ hex_bytes (take 16 bytes)), w\<lparr>e_policy_draws := Suc (e_policy_draws w)\<rparr>)))"

abbreviation approval_wrap :: "string \<Rightarrow> policy_error \<Rightarrow> tool_error" where
  "approval_wrap ctx e \<equiv> Context ctx (Message (policy_error_to_string e))"

section \<open>Apply\<close>

definition validate_apply_preconditions :: "proposal_record \<Rightarrow> edit_options \<Rightarrow> unit edit" where
  "validate_apply_preconditions r options =
    act_then unix_millis (\<lambda>now.
    act_if (\<not> (pr_state r \<noteq> PsVerified \<or> pr_workspace_id r \<noteq> eo_workspace_id options \<or> proposal_expired r now
        \<or> \<not> (case pr_verification r of None \<Rightarrow> False | Some v \<Rightarrow> vr_success v \<and> \<not> vr_lease_recovery_required v)))
      (Message ''proposal is not a current, successful, cleanup-complete verification''))"

definition finish_failed_apply ::
  "store_host \<Rightarrow> proposal_store \<Rightarrow> string \<Rightarrow> policy_decision_record list \<Rightarrow> apply_report \<Rightarrow> bool \<Rightarrow> unit edit" where
  "finish_failed_apply h st proposal_id decisions report restored =
    act_then (store_transition h st proposal_id (if restored then PsVerified else PsFailed) ''transactional apply failed closed'') (\<lambda>_.
    act_then (record_policy h st proposal_id decisions) (\<lambda>_.
    act_then (record_apply h st proposal_id (report\<lparr>app_policy := decisions\<rparr>)) (\<lambda>_.
    act_return ())))"

definition start_apply_report :: "edit_options \<Rightarrow> string \<Rightarrow> string \<Rightarrow> string \<Rightarrow> apply_report" where
  "start_apply_report options proposal_id transaction_id approval_id = \<lparr>app_schema_version = CHAT_EDIT_REPORT_SCHEMA_VERSION,
     app_request_id = eo_request_id options, app_proposal_id = proposal_id, app_transaction_id = transaction_id, app_success = False,
     app_approval_id = approval_id, app_approval_consumed = True, app_post_reparse = stage_not_run ''post-apply Tree-sitter reparse did not run'',
     app_post_build = stage_not_run ''post-apply validation did not run'', app_rollback_attempted = False, app_rollback_success = None,
     app_policy = [], app_applied_at_unix_ms = None, app_errors = []\<rparr>"

definition apply_action :: "edit_host \<Rightarrow> observed_repository \<Rightarrow> proposal_record \<Rightarrow> verified_diff \<Rightarrow> string \<Rightarrow> policy_action" where
  "apply_action h observed r diff transaction_id = ApplyPatch \<lparr>ap_root = or_root observed, ap_paths = fst (proposal_paths (pr_files r)),
     ap_created_paths = snd (proposal_paths (pr_files r)), ap_diff_hash = vd_patch_hash diff,
     ap_files_hash = proposal_files_hash (ed_snap h) (pr_files r), ap_transaction_id = transaction_id, ap_base_head = ep_base_head (pr_plan r)\<rparr>"

definition apply_request :: "observed_repository \<Rightarrow> proposal_record \<Rightarrow> verified_diff \<Rightarrow> string \<Rightarrow> tx_request" where
  "apply_request observed r diff transaction_id = with_transaction_id transaction_id (with_git_policy RequireClean
     (tx_request_new (or_root observed) (vd_patch diff) (proposal_mutations (pr_files r))))"

text \<open>The transaction did not commit: the record says whether the snapshots of the base are in place.\<close>

definition apply_failed ::
  "edit_host \<Rightarrow> proposal_store \<Rightarrow> string \<Rightarrow> observed_repository \<Rightarrow> proposal_record \<Rightarrow> policy_decision_record list \<Rightarrow> apply_report \<Rightarrow> proposal_record edit" where
  "apply_failed h st proposal_id observed r decisions report =
    act_then (e_see (\<lambda>f. Inr (is_ok (verify_snapshots_at (ed_snap h) f (or_root observed) (pr_files r) False)))) (\<lambda>restored.
    act_then (finish_failed_apply (ed_store h) st proposal_id decisions report restored) (\<lambda>_.
    store_load (ed_store h) st proposal_id))"

definition post_build_report :: "proposal_record \<Rightarrow> bool \<Rightarrow> edit_stage_report" where
  "post_build_report r exact =
    (if (case pr_verification r of None \<Rightarrow> False | Some v \<Rightarrow> sr_status (vr_build v) = StagePassed) \<and> exact
     then stage_passed ''exact verified snapshots retain the successful offline worktree build result'' 0
     else stage_failed ''post-apply build binding failed'' 0 ''the verified offline build or exact post-apply diff is unavailable'')"

text \<open>The automatic rollback of a transaction that committed and did not pass the postconditions.\<close>

definition apply_undo ::
  "edit_host \<Rightarrow> proposal_store \<Rightarrow> string \<Rightarrow> observed_repository \<Rightarrow> proposal_record \<Rightarrow> string \<Rightarrow> apply_report \<Rightarrow> apply_report edit" where
  "apply_undo h st proposal_id observed r transaction_id report =
    (let report = report\<lparr>app_rollback_attempted := True\<rparr> in
     act_try (e_rollback h (or_root observed) transaction_id) (\<lambda>rolled. case rolled of
       Inr back \<Rightarrow>
         let report = report\<lparr>app_rollback_success := Some (tx_rolled_back back), app_errors := app_errors report @ xr_errors back\<rparr> in
         act_then (e_see (\<lambda>f. Inr (is_ok (verify_snapshots_at (ed_snap h) f (or_root observed) (pr_files r) False)))) (\<lambda>base.
         act_then (if tx_rolled_back back \<and> base
           then store_transition (ed_store h) st proposal_id PsVerified ''post-apply validation failed and automatic rollback restored the base''
           else store_transition (ed_store h) st proposal_id PsFailed ''post-apply validation and automatic rollback failed'') (\<lambda>_.
         act_return report))
     | Inl e \<Rightarrow>
         act_then (store_transition (ed_store h) st proposal_id PsFailed ''post-apply validation failed and rollback could not complete'') (\<lambda>_.
         act_return (report\<lparr>app_rollback_success := Some False,
           app_errors := app_errors report @ [''automatic rollback failed: '' @ alternate_text e]\<rparr>))))"

definition apply_done :: "edit_host \<Rightarrow> proposal_store \<Rightarrow> string \<Rightarrow> string \<Rightarrow> apply_report \<Rightarrow> apply_report edit" where
  "apply_done h st proposal_id transaction_id report =
    act_then unix_millis (\<lambda>now.
    act_then (store_transition (ed_store h) st proposal_id PsApplied
      (''transaction '' @ transaction_id @ '' committed and passed postconditions'')) (\<lambda>_.
    act_then (store_transition (ed_store h) st proposal_id PsRollbackAvailable
      (''transaction '' @ transaction_id @ '' is available for exact rollback'')) (\<lambda>_.
    act_return (report\<lparr>app_success := True, app_applied_at_unix_ms := Some now\<rparr>))))"

text \<open>The transaction committed: reparse, compare the diff, and keep or undo it.\<close>

definition committed_checks ::
  "edit_host \<Rightarrow> observed_repository \<Rightarrow> proposal_record \<Rightarrow> verified_diff \<Rightarrow> apply_report \<Rightarrow> fs \<Rightarrow> bool \<times> apply_report" where
  "committed_checks h observed r diff report f =
    (let reparse = reparse_java_files (ed_snap h) f (or_root observed) (pr_files r);
         post = capture_verified_diff (ed_snap h) f (or_root observed) (pr_files r);
         exact = (post = Inr diff);
         errors = (case post of Inr d \<Rightarrow> if d = diff then [] else [''post-apply Git diff differs from the verified diff'']
           | Inl e \<Rightarrow> [''post-apply Git verification failed: '' @ alternate_text e]);
         build = post_build_report r exact
     in (sr_status reparse = StagePassed \<and> sr_status build = StagePassed \<and> exact,
       report\<lparr>app_post_reparse := reparse, app_post_build := build, app_errors := app_errors report @ errors\<rparr>))"

definition apply_committed ::
  "edit_host \<Rightarrow> proposal_store \<Rightarrow> string \<Rightarrow> observed_repository \<Rightarrow> proposal_record \<Rightarrow> verified_diff \<Rightarrow> string \<Rightarrow> string \<Rightarrow>
   policy_decision_record list \<Rightarrow> apply_report \<Rightarrow> proposal_record edit" where
  "apply_committed h st proposal_id observed r diff requested_id transaction_id decisions report =
    act_then (e_see (\<lambda>f. Inr (committed_checks h observed r diff report f))) (\<lambda>(passed, report).
    act_then (if \<not> passed then apply_undo h st proposal_id observed r transaction_id report
      else apply_done h st proposal_id requested_id report) (\<lambda>report.
    act_then (record_policy (ed_store h) st proposal_id decisions) (\<lambda>_.
    record_apply (ed_store h) st proposal_id (report\<lparr>app_policy := decisions\<rparr>))))"

definition apply_transaction_step ::
  "edit_host \<Rightarrow> proposal_store \<Rightarrow> string \<Rightarrow> observed_repository \<Rightarrow> proposal_record \<Rightarrow> verified_diff \<Rightarrow> string \<Rightarrow>
   policy_decision_record list \<Rightarrow> apply_report \<Rightarrow> proposal_record edit" where
  "apply_transaction_step h st proposal_id observed r diff transaction_id decisions report =
    act_try (e_execute h (apply_request observed r diff transaction_id)) (\<lambda>executed. case executed of
      Inr t \<Rightarrow>
        if tx_committed t then apply_committed h st proposal_id observed r diff transaction_id (xr_transaction_id t) decisions report
        else apply_failed h st proposal_id observed r decisions (report\<lparr>app_rollback_attempted := xr_rollback_attempted t,
          app_rollback_success := xr_rollback_success t, app_errors := app_errors report @ xr_errors t\<rparr>)
    | Inl e \<Rightarrow> apply_failed h st proposal_id observed r decisions
        (report\<lparr>app_errors := app_errors report @ [''APPLY-001 failed: '' @ alternate_text e]\<rparr>))"

text \<open>The checks passed: the approval is issued and consumed, and the transaction runs.\<close>

definition apply_approved ::
  "edit_host \<Rightarrow> proposal_store \<Rightarrow> string \<Rightarrow> policy_engine \<Rightarrow> edit_options \<Rightarrow> native_confirmation \<Rightarrow> string \<Rightarrow>
   observed_repository \<Rightarrow> proposal_record \<Rightarrow> verified_diff \<Rightarrow> proposal_record edit" where
  "apply_approved h st proposal_id engine options confirmation transaction_id observed r diff =
    (let action = apply_action h observed r diff transaction_id;
        request = session_request options observed ApprovedApply action None None ''apply_approval'' 0 in
    act_then (in_policy (approval_wrap ''failed to evaluate original apply approval'') (policy_check (ed_policy h) engine request 0)) (\<lambda>preflight.
    let decisions = [policy_record ''apply_approval'' (pp_report preflight)] in
    act_then (act_if (is_RequireApproval (pr_decision (pp_report preflight)))
      (Message (''original apply did not produce the required approval decision: '' @ rule_id (pr_decision (pp_report preflight))))) (\<lambda>_.
    act_then (store_transition (ed_store h) st proposal_id PsApprovalPending
      ''native confirmation received; issuing state-bound one-shot approval'') (\<lambda>_.
    act_then (act_try (in_policy (approval_wrap ''failed to issue one-shot apply approval'')
        (issue_approval (ed_policy h) engine request confirmation DEFAULT_APPROVAL_TTL_SECONDS)) (\<lambda>issued. case issued of
          Inr grant \<Rightarrow> act_return grant
        | Inl e \<Rightarrow> act_then (store_transition (ed_store h) st proposal_id PsVerified
            ''approval issuance failed before any workspace mutation'') (\<lambda>_. act_fail e))) (\<lambda>grant.
    act_then (store_transition (ed_store h) st proposal_id PsApplying (''applying with transaction '' @ transaction_id)) (\<lambda>_.
    act_then (authorize h engine options observed ApprovedApply action None (Some (ag_approval_id grant)) ''apply_consume'' decisions) (\<lambda>(authorised, decisions).
    case authorised of
      Inl e \<Rightarrow>
        act_then (store_transition (ed_store h) st proposal_id PsVerified
          ''one-shot approval was not consumed; original workspace remained unchanged'') (\<lambda>_.
        act_then (record_policy (ed_store h) st proposal_id decisions) (\<lambda>_. act_fail e))
    | Inr _ \<Rightarrow> apply_transaction_step h st proposal_id observed r diff transaction_id decisions
        (start_apply_report options proposal_id transaction_id (ag_approval_id grant)))))))))"

definition apply_verified_proposal_with_transaction_id ::
  "edit_host \<Rightarrow> proposal_store \<Rightarrow> string \<Rightarrow> policy_engine \<Rightarrow> edit_options \<Rightarrow> native_confirmation \<Rightarrow> string \<Rightarrow> proposal_record edit" where
  "apply_verified_proposal_with_transaction_id h st proposal_id engine options confirmation transaction_id =
    act_then unix_millis (\<lambda>now.
    act_then (expire_if_needed (ed_store h) st proposal_id now) (\<lambda>r.
    act_then (validate_apply_preconditions r options) (\<lambda>_.
    act_then (e_observe h options) (\<lambda>observed.
    act_then (act_if (\<not> (\<not> or_clean observed \<or> gb_head (or_boundary observed) \<noteq> ep_base_head (pr_plan r)
        \<or> or_working_tree_digest observed \<noteq> ep_working_tree_digest (pr_plan r) \<or> or_root_hash observed \<noteq> pr_workspace_root_hash r))
      (Message ''workspace drifted after verification; re-verify before applying'')) (\<lambda>_.
    act_then (e_see (\<lambda>f. verify_snapshots_at (ed_snap h) f (or_root observed) (pr_files r) False)) (\<lambda>_.
    act_then (act_res (ok_or (Message ''verified proposal has no stored diff'') (pr_verified_diff r))) (\<lambda>diff.
    act_then (act_if (content_hash (nh_text (ed_snap h)) (vd_patch diff) = vd_patch_hash diff)
      (Message ''stored verified diff failed its integrity check'')) (\<lambda>_.
    apply_approved h st proposal_id engine options confirmation transaction_id observed r diff))))))))"

definition apply_verified_proposal ::
  "edit_host \<Rightarrow> proposal_store \<Rightarrow> string \<Rightarrow> policy_engine \<Rightarrow> edit_options \<Rightarrow> native_confirmation \<Rightarrow> proposal_record edit" where
  "apply_verified_proposal h st proposal_id engine options confirmation =
    act_then (new_edit_id ''apply'') (apply_verified_proposal_with_transaction_id h st proposal_id engine options confirmation)"

section \<open>Rollback\<close>

definition start_rollback_report :: "edit_options \<Rightarrow> string \<Rightarrow> string \<Rightarrow> string \<Rightarrow> rollback_report" where
  "start_rollback_report options proposal_id transaction_id approval_id = \<lparr>rbr_schema_version = CHAT_EDIT_REPORT_SCHEMA_VERSION,
     rbr_request_id = eo_request_id options, rbr_proposal_id = proposal_id, rbr_transaction_id = transaction_id, rbr_success = False,
     rbr_already_rolled_back = False, rbr_approval_id = approval_id, rbr_approval_consumed = True,
     rbr_reparse = stage_not_run ''post-rollback Tree-sitter reparse did not run'', rbr_policy = [], rbr_rolled_back_at_unix_ms = None, rbr_errors = []\<rparr>"

text \<open>What the record becomes, by the postconditions of a restored workspace.\<close>

definition rollback_finish ::
  "store_host \<Rightarrow> proposal_store \<Rightarrow> string \<Rightarrow> string \<Rightarrow> bool \<Rightarrow> rollback_report \<Rightarrow> rollback_report edit" where
  "rollback_finish h st proposal_id transaction_id passed report =
    (if passed
     then act_then unix_millis (\<lambda>now.
      act_then (store_transition h st proposal_id PsRolledBack (''transaction '' @ transaction_id @ '' rolled back exactly'')) (\<lambda>_.
      act_return (report\<lparr>rbr_success := True, rbr_rolled_back_at_unix_ms := Some now\<rparr>)))
     else act_then (store_transition h st proposal_id PsFailed ''transaction rolled back but postconditions failed'') (\<lambda>_.
      act_return (report\<lparr>rbr_errors := rbr_errors report
        @ [''rollback completed but source postconditions did not match the base proposal'']\<rparr>)))"

definition restored_as_base :: "proposal_record \<Rightarrow> observed_repository \<Rightarrow> bool" where
  "restored_as_base r after \<longleftrightarrow> or_clean after \<and> gb_head (or_boundary after) = ep_base_head (pr_plan r)
     \<and> or_working_tree_digest after = ep_working_tree_digest (pr_plan r)"

definition rollback_restored ::
  "edit_host \<Rightarrow> proposal_store \<Rightarrow> string \<Rightarrow> edit_options \<Rightarrow> observed_repository \<Rightarrow> proposal_record \<Rightarrow> string \<Rightarrow> rollback_report \<Rightarrow> rollback_report edit" where
  "rollback_restored h st proposal_id options observed r transaction_id report =
    act_then (e_see (\<lambda>f. verify_snapshots_at (ed_snap h) f (or_root observed) (pr_files r) False)) (\<lambda>_.
    act_then (e_see (\<lambda>f. Inr (reparse_java_files (ed_snap h) f (or_root observed) (pr_files r)))) (\<lambda>reparse.
    act_then (e_observe h options) (\<lambda>after.
    rollback_finish (ed_store h) st proposal_id transaction_id (sr_status reparse = StagePassed \<and> restored_as_base r after)
      (report\<lparr>rbr_reparse := reparse\<rparr>))))"

definition rollback_result ::
  "edit_host \<Rightarrow> proposal_store \<Rightarrow> string \<Rightarrow> edit_options \<Rightarrow> observed_repository \<Rightarrow> proposal_record \<Rightarrow> string \<Rightarrow> rollback_report \<Rightarrow>
   (tool_error, tx_result) res \<Rightarrow> rollback_report edit" where
  "rollback_result h st proposal_id options observed r transaction_id report rolled = (case rolled of
      Inr undone \<Rightarrow>
        if tx_rolled_back undone then rollback_restored h st proposal_id options observed r transaction_id report
        else act_then (store_transition (ed_store h) st proposal_id PsRollbackAvailable ''transaction rollback failed and remains recoverable'') (\<lambda>_.
          act_return (report\<lparr>rbr_errors := rbr_errors report @ xr_errors undone\<rparr>))
    | Inl e \<Rightarrow>
        act_then (store_transition (ed_store h) st proposal_id PsRollbackAvailable ''transaction rollback could not start and remains recoverable'') (\<lambda>_.
        act_return (report\<lparr>rbr_errors := rbr_errors report @ [''APPLY-001 rollback failed: '' @ alternate_text e]\<rparr>)))"

definition rollback_step ::
  "edit_host \<Rightarrow> proposal_store \<Rightarrow> string \<Rightarrow> edit_options \<Rightarrow> observed_repository \<Rightarrow> proposal_record \<Rightarrow> string \<Rightarrow>
   policy_decision_record list \<Rightarrow> rollback_report \<Rightarrow> proposal_record edit" where
  "rollback_step h st proposal_id options observed r transaction_id decisions report =
    act_then (act_try (e_rollback h (or_root observed) transaction_id)
      (rollback_result h st proposal_id options observed r transaction_id report)) (\<lambda>report.
    act_then (record_policy (ed_store h) st proposal_id decisions) (\<lambda>_.
    record_rollback (ed_store h) st proposal_id (report\<lparr>rbr_policy := decisions\<rparr>)))"

definition rollback_action :: "observed_repository \<Rightarrow> string \<Rightarrow> verified_diff \<Rightarrow> policy_action" where
  "rollback_action observed transaction_id diff = RollbackTransaction \<lparr>ta_workspace_root = or_root observed,
     ta_transaction_id = transaction_id, ta_expected_state_hash = vd_patch_hash diff\<rparr>"

definition rollback_edit_proposal ::
  "edit_host \<Rightarrow> proposal_store \<Rightarrow> string \<Rightarrow> policy_engine \<Rightarrow> edit_options \<Rightarrow> native_confirmation \<Rightarrow> proposal_record edit" where
  "rollback_edit_proposal h st proposal_id engine options confirmation =
    act_then (store_load (ed_store h) st proposal_id) (\<lambda>r.
    if pr_state r = PsRolledBack then act_return r else
    act_then (act_if (\<not> (pr_state r \<notin> {PsRollbackAvailable, PsApplied} \<or> pr_workspace_id r \<noteq> eo_workspace_id options))
      (Message ''proposal does not expose a rollbackable transaction in this workspace'')) (\<lambda>_.
    act_then (act_res (ok_or (Message ''proposal has no successful apply report'')
      (case pr_apply r of None \<Rightarrow> None | Some a \<Rightarrow> if app_success a then Some a else None))) (\<lambda>applied.
    act_then (act_res (ok_or (Message ''proposal has no verified diff for rollback binding'') (pr_verified_diff r))) (\<lambda>diff.
    act_then (e_observe h options) (\<lambda>observed.
    act_then (act_if (\<not> (gb_head (or_boundary observed) \<noteq> ep_base_head (pr_plan r) \<or> or_root_hash observed \<noteq> pr_workspace_root_hash r))
      (Message ''workspace identity or HEAD changed after the applied transaction'')) (\<lambda>_.
    act_then (e_see (\<lambda>f. verify_snapshots_at (ed_snap h) f (or_root observed) (pr_files r) True)) (\<lambda>_.
    act_then (e_see (\<lambda>f. capture_verified_diff (ed_snap h) f (or_root observed) (pr_files r))) (\<lambda>current.
    act_then (act_if (current = diff) (Message ''workspace no longer matches the exact applied transaction diff'')) (\<lambda>_.
    let transaction_id = app_transaction_id applied; action = rollback_action observed transaction_id diff;
        request = session_request options observed ApprovedApply action None None ''rollback_approval'' 0 in
    act_then (in_policy (approval_wrap ''failed to evaluate rollback approval'') (policy_check (ed_policy h) engine request 0)) (\<lambda>preflight.
    let decisions = [policy_record ''rollback_approval'' (pp_report preflight)] in
    act_then (act_if (is_RequireApproval (pr_decision (pp_report preflight)))
      (Message (''rollback did not produce the required approval decision: '' @ rule_id (pr_decision (pp_report preflight))))) (\<lambda>_.
    act_then (in_policy (\<lambda>e. Message (policy_error_to_string e))
      (issue_approval (ed_policy h) engine request confirmation DEFAULT_APPROVAL_TTL_SECONDS)) (\<lambda>grant.
    act_then (store_transition (ed_store h) st proposal_id PsRollingBack (''rolling back exact transaction '' @ transaction_id)) (\<lambda>_.
    act_then (authorize h engine options observed ApprovedApply action None (Some (ag_approval_id grant)) ''rollback_consume'' decisions) (\<lambda>(authorised, decisions).
    case authorised of
      Inl e \<Rightarrow>
        act_then (store_transition (ed_store h) st proposal_id PsRollbackAvailable
          ''rollback approval was not consumed; workspace remained applied'') (\<lambda>_.
        act_then (record_policy (ed_store h) st proposal_id decisions) (\<lambda>_. act_fail e))
    | Inr _ \<Rightarrow> rollback_step h st proposal_id options observed r transaction_id decisions
        (start_rollback_report options proposal_id transaction_id (ag_approval_id grant))))))))))))))))"

end
