(* ===== verification/Spec2Isabelle.thy ===== *)
theory Spec2Isabelle
  imports PolicyProperties GitProperties TxProperties TxRollback EditProperties ProposalProperties EditApply
begin

text \<open>
  OpticCode is a local coding agent for legacy Java plugins, written as a Rust workspace. A command
  line and a chat front end turn a request into typed actions; \<open>opticcode-policy\<close> decides every one of
  them; \<open>opticcode-edit\<close> turns the output of a language model into an edit plan, validates it and keeps
  it as a proposal; \<open>opticcode-tools\<close> applies file mutations in a journalled transaction, runs
  builds in a leased worktree and reads Java sources.

  \<^bold>\<open>What is modelled.\<close>

  \<^item> \<open>Prelude\<close>: results as sums (\<open>Inl\<close> the error), with the early return of the question mark operator
    as \<open>try_then\<close>; the operations on ASCII strings the sources use; saturating and checked arithmetic.
  \<^item> \<open>StdPath\<close>: the part of \<open>std::path\<close> the sources use. A path is a string; \<open>components\<close> splits it,
    and comparison, joining and prefix stripping work on components as in the standard library
    on Unix.
  \<^item> \<open>StdFs\<close>: the part of \<open>std::fs\<close> the sources use, over an explicit tree of directories, files and
    symbolic links with faults for reading, writing and syncing. \<open>walk\<close> follows at most 40 links, the
    limit of the kernel, so resolution always ends.
  \<^item> \<open>PolicyModel\<close> (\<open>model.rs\<close>): requests, actions, decisions and reports.
  \<^item> \<open>PolicyPaths\<close> (\<open>paths.rs\<close>): inspection of a target below a root, the fingerprint, revalidation.
  \<^item> \<open>PolicyRules\<close> and \<open>PolicyWorktree\<close> (\<open>engine.rs\<close>): the outcomes of the rules, the checks of arguments,
    and the validation of the repository boundary, of the lease and of the active worktree.
  \<^item> \<open>PolicyEngine\<close> (\<open>engine.rs\<close>): the decision for every kind of action, and \<open>evaluate\<close>.
  \<^item> \<open>PolicyState\<close>, \<open>PolicyAudit\<close> (\<open>audit.rs\<close>): the state directories, the audit log and its rotation.
  \<^item> \<open>PolicyApproval\<close> (\<open>approval.rs\<close>): one-shot approvals. Consumption is a machine whose steps are single
    file-system calls (\<open>consume_step\<close>); \<open>interleave\<close> runs many of them with an environment. The locale
    \<open>one_shot\<close> states what such a machine needs, and its interpretation \<open>claim\<close> is the code's machine.
  \<^item> \<open>PolicyCheck\<close> (\<open>engine.rs\<close>): \<open>explain\<close>, \<open>check\<close>, issuing approvals and revalidation, which tie the
    engine to both stores.
  \<^item> \<open>Scenario\<close>: one concrete machine with a workspace, a leased worktree and a state directory, on which
    the witnesses evaluate.
  \<^item> \<open>PolicyProperties\<close>: the properties of the policy component.

  \<^bold>\<open>Parameters.\<close> Hash functions (BLAKE3, SHA-256), the JSON codec, the random source, the environment of
  the process and the clock are fields of \<open>host\<close>, \<open>engine_host\<close>, the codecs and \<open>world\<close>.

  \<^bold>\<open>What the theorems show.\<close> A check authorises only what a rule allows or what a consumed approval for
  exactly the observed state covers; read-only mode only observes; forbidden kinds are always denied;
  writes stay in the lease; patches of the original need an approval on a clean tree with the same
  HEAD; processes are bounded builds; path reports are confined; changed contents are detected;
  an approval is granted at most once under every interleaving; rotation of the audit log keeps its bounds.

  \<^bold>\<open>Bounds.\<close> The bounds of the code are constants under their own names. No loop of the policy
  component needs fuel: they recurse over lists, or over the components of a path.

  \<^bold>\<open>Not modelled.\<close> Windows paths and attributes (the model is the Unix configuration of the sources), the
  terminal and the VS Code front end, the HTTP client of the language model, Tree-sitter and the process
  spawner.
\<close>

end
